(* ===== verification/Prelude.thy ===== *)
theory Prelude
  imports Complex_Main "HOL-Library.Word" "HOL-Library.Char_ord" "HOL-Library.List_Lexorder"
begin

text \<open>
  Shared ground of the development: the exceptions the C++ code throws as values of a
  sum type, the error monad with its rewrite rules, the loops of the code that can throw
  (\<open>for (auto& x : xs)\<close> and \<open>std::find_if\<close>), lower-casing and decimal printing of strings,
  and generic lemmas about them.
\<close>

section \<open>Collections of rewrite rules\<close>

named_theorems result_simps \<open>evaluation of the error monad\<close>
named_theorems json_simps \<open>lookups in JSON objects\<close>

section \<open>Exceptions as values\<close>

text \<open>
  The exception classes of \<open>MediaSoupClientErrors.hpp\<close> with their description, the
  exceptions of the JSON library by their documented number, the exceptions of the C++
  standard library by name, \<open>Undefined\<close> for executions to which C++ gives no meaning
  (an end iterator is dereferenced, a missing key is read through a const reference), and
  \<open>Unmodelled\<close> where the result is a value the model does not represent (an infinity in a JSON
  value, the shortest decimal form of a double).
\<close>

datatype error =
    ClientError string
  | TypeError string
  | UnsupportedError string
  | InvalidStateError string
  | JsonError nat
  | StdError string
  | Undefined
  | Unmodelled

type_synonym 'a result = "error + 'a"

abbreviation ok :: "'a \<Rightarrow> 'a result" where
  "ok \<equiv> Inr"

abbreviation throw :: "error \<Rightarrow> 'a result" where
  "throw \<equiv> Inl"

definition bindE :: "'a result \<Rightarrow> ('a \<Rightarrow> 'b result) \<Rightarrow> 'b result" where
  "bindE m f = (case m of Inl e \<Rightarrow> Inl e | Inr x \<Rightarrow> f x)"

lemma bindE_simps [simp, result_simps]:
  "bindE (Inl e) f = Inl e"
  "bindE (Inr x) f = f x"
  by (simp_all add: bindE_def)

lemma bindE_Inr_iff: "bindE m f = Inr y \<longleftrightarrow> (\<exists>x. m = Inr x \<and> f x = Inr y)"
  by (cases m) auto

lemma bindE_Inl_iff: "bindE m f = Inl e \<longleftrightarrow> m = Inl e \<or> (\<exists>x. m = Inr x \<and> f x = Inl e)"
  by (cases m) auto

lemma bindE_InrE [elim!]:
  assumes "bindE m f = Inr y"
  obtains x where "m = Inr x" "f x = Inr y"
  using assms by (auto simp: bindE_Inr_iff)

lemma bindE_assoc: "bindE (bindE m f) g = bindE m (\<lambda>x. bindE (f x) g)"
  by (cases m) auto

lemma bindE_cong [fundef_cong]:
  "m = m' \<Longrightarrow> (\<And>x. m' = Inr x \<Longrightarrow> f x = f' x) \<Longrightarrow> bindE m f = bindE m' f'"
  by (cases m') auto

text \<open>
  The description an exception of the code's own classes carries, and the class test the
  \<open>catch (MediaSoupClientError&)\<close> clauses use: the three specific classes derive from it.
\<close>

fun is_client_error :: "error \<Rightarrow> bool" where
  "is_client_error (ClientError m) = True"
| "is_client_error (TypeError m) = True"
| "is_client_error (UnsupportedError m) = True"
| "is_client_error (InvalidStateError m) = True"
| "is_client_error _ = False"

fun is_type_error :: "error \<Rightarrow> bool" where
  "is_type_error (TypeError m) = True"
| "is_type_error _ = False"

section \<open>Lists\<close>

lemma list_all2_right: "list_all2 P xs ys \<Longrightarrow> y \<in> set ys \<Longrightarrow> \<exists>x\<in>set xs. P x y"
  by (induction rule: list_all2_induct) auto

lemma list_all2_same_function:
  "list_all2 (\<lambda>x y. f y = f x) xs ys \<Longrightarrow> map f ys = map f xs"
  by (induction rule: list_all2_induct) auto

lemma list_all2_map_same:
  assumes "list_all2 R xs ys" "\<And>x y. R x y \<Longrightarrow> g y = g x"
  shows "map g ys = map g xs"
  using assms(1)
proof (induction rule: list_all2_induct)
  case (Cons x xs y ys)
  then show ?case
    using assms(2) [OF Cons.hyps(1)] by simp
qed simp

lemma all_map_same: "map P ys = map P xs \<Longrightarrow> (\<forall>y\<in>set ys. P y) = (\<forall>x\<in>set xs. P x)"
  by (metis (no_types, lifting) imageE imageI list.set_map)

lemma find_Some_ex: "(\<exists>y. find P xs = Some y) \<longleftrightarrow> (\<exists>x\<in>set xs. P x)"
  using find_None_iff [of P xs] by (metis not_None_eq)

section \<open>Loops that can throw\<close>

text \<open>\<open>for (auto& x : xs) f(x);\<close> where the body may update its element or throw.\<close>

fun mapE :: "('a \<Rightarrow> 'b result) \<Rightarrow> 'a list \<Rightarrow> 'b list result" where
  "mapE f [] = ok []"
| "mapE f (x # xs) = bindE (f x) (\<lambda>y. bindE (mapE f xs) (\<lambda>ys. ok (y # ys)))"

lemma mapE_Inr_iff: "mapE f xs = Inr ys \<longleftrightarrow> list_all2 (\<lambda>x y. f x = Inr y) xs ys"
proof (induction xs arbitrary: ys)
  case (Cons x xs)
  then show ?case
    by (cases ys) (auto simp: bindE_Inr_iff)
qed auto

lemma mapE_ex_iff: "(\<exists>ys. mapE f xs = Inr ys) \<longleftrightarrow> (\<forall>x\<in>set xs. \<exists>y. f x = Inr y)"
proof (induction xs)
  case (Cons x xs)
  then show ?case by (auto simp: bindE_Inr_iff)
qed simp

lemma mapE_InlD: "mapE f xs = Inl e \<Longrightarrow> \<exists>x\<in>set xs. f x = Inl e"
  by (induction xs) (auto simp: bindE_Inl_iff)

lemma mapE_length: "mapE f xs = Inr ys \<Longrightarrow> length ys = length xs"
  by (auto simp: mapE_Inr_iff dest: list_all2_lengthD)

lemma mapE_set: "mapE f xs = Inr ys \<Longrightarrow> y \<in> set ys \<Longrightarrow> \<exists>x\<in>set xs. f x = Inr y"
  by (force simp: mapE_Inr_iff list_all2_conv_all_nth in_set_conv_nth)

lemma mapE_idem:
  assumes "mapE f xs = Inr ys" and "\<And>x y. x \<in> set xs \<Longrightarrow> f x = Inr y \<Longrightarrow> f y = Inr y"
  shows "mapE f ys = Inr ys"
  using assms
proof (induction xs arbitrary: ys)
  case (Cons x xs)
  from Cons.prems(1) obtain y zs where
    y: "f x = Inr y" and zs: "mapE f xs = Inr zs" and ys: "ys = y # zs"
    by auto
  have "f y = Inr y" by (rule Cons.prems(2) [OF _ y]) simp
  moreover have "mapE f zs = Inr zs"
    by (rule Cons.IH [OF zs]) (rule Cons.prems(2), simp_all)
  ultimately show ?case using ys by simp
qed auto

lemma mapE_readonly:
  "mapE f xs = Inr ys \<Longrightarrow> (\<And>x y. x \<in> set xs \<Longrightarrow> f x = Inr y \<Longrightarrow> y = x) \<Longrightarrow> ys = xs"
  by (induction xs arbitrary: ys) fastforce+

text \<open>The loop with a body that only checks its element.\<close>

fun forE :: "('a \<Rightarrow> unit result) \<Rightarrow> 'a list \<Rightarrow> unit result" where
  "forE f [] = ok ()"
| "forE f (x # xs) = bindE (f x) (\<lambda>_. forE f xs)"

lemma forE_Inr_iff: "forE f xs = Inr () \<longleftrightarrow> (\<forall>x\<in>set xs. f x = Inr ())"
  by (induction xs) (auto simp: bindE_Inr_iff)

lemma forE_InlD: "forE f xs = Inl e \<Longrightarrow> \<exists>x\<in>set xs. f x = Inl e"
  by (induction xs) (auto simp: bindE_Inl_iff)

lemma mapE_cong [fundef_cong]:
  "xs = ys \<Longrightarrow> (\<And>x. x \<in> set ys \<Longrightarrow> f x = g x) \<Longrightarrow> mapE f xs = mapE g ys"
  by (induction ys arbitrary: xs) auto

lemma mapE_ok: "(\<And>x. x \<in> set xs \<Longrightarrow> f x = Inr (g x)) \<Longrightarrow> mapE f xs = Inr (map g xs)"
  by (induction xs) auto

text \<open>\<open>std::find_if\<close> with a predicate that may throw: the first element that satisfies it.\<close>

fun find_ifE :: "('a \<Rightarrow> bool result) \<Rightarrow> 'a list \<Rightarrow> 'a option result" where
  "find_ifE p [] = ok None"
| "find_ifE p (x # xs) = bindE (p x) (\<lambda>b. if b then ok (Some x) else find_ifE p xs)"

lemma find_ifE_find: "(\<And>x. x \<in> set xs \<Longrightarrow> p x = Inr (q x)) \<Longrightarrow> find_ifE p xs = Inr (find q xs)"
  by (induction xs) auto

lemma find_ifE_SomeD:
  "find_ifE p xs = Inr (Some x) \<Longrightarrow> x \<in> set xs \<and> p x = Inr True"
  by (induction xs) (auto split: if_splits)

lemma find_ifE_NoneD:
  "find_ifE p xs = Inr None \<Longrightarrow> x \<in> set xs \<Longrightarrow> p x = Inr False"
  by (induction xs) (auto split: if_splits)

section \<open>Computations that succeed\<close>

text \<open>
  Total correctness of a computation: it returns, and what it returns satisfies a predicate. The
  rules follow the structure of the program.
\<close>

definition okE :: "'a result \<Rightarrow> ('a \<Rightarrow> bool) \<Rightarrow> bool" where
  "okE m P = (case m of Inl _ \<Rightarrow> False | Inr x \<Rightarrow> P x)"

named_theorems okE_rules \<open>success of composed computations\<close>

lemma okE_simps [simp]: "okE (Inl e) P = False" "okE (Inr x) P = P x"
  by (simp_all add: okE_def)

lemma okE_conv: "okE m P \<longleftrightarrow> (\<exists>x. m = Inr x \<and> P x)"
  by (cases m) auto

lemma okE_bind [okE_rules]:
  "okE m P \<Longrightarrow> (\<And>x. m = Inr x \<Longrightarrow> P x \<Longrightarrow> okE (f x) Q) \<Longrightarrow> okE (bindE m f) Q"
  by (cases m) auto

lemma okE_mono: "okE m P \<Longrightarrow> (\<And>x. m = Inr x \<Longrightarrow> P x \<Longrightarrow> Q x) \<Longrightarrow> okE m Q"
  by (cases m) auto

lemma okE_E:
  assumes "okE m P"
  obtains x where "m = Inr x" "P x"
  using assms by (auto simp: okE_conv)

lemma okE_mapE:
  "(\<And>x. x \<in> set xs \<Longrightarrow> okE (f x) (P x)) \<Longrightarrow> okE (mapE f xs) (\<lambda>ys. list_all2 P xs ys)"
proof (induction xs)
  case (Cons x xs)
  then have "okE (f x) (P x)" "okE (mapE f xs) (\<lambda>ys. list_all2 P xs ys)" by simp_all
  then show ?case by (auto elim!: okE_E)
qed simp

lemma okE_mapE_all:
  "(\<And>x. x \<in> set xs \<Longrightarrow> okE (f x) P) \<Longrightarrow> okE (mapE f xs) (\<lambda>ys. \<forall>y\<in>set ys. P y)"
  by (rule okE_mono [OF okE_mapE [of xs f "\<lambda>_. P"]])
    (auto simp: list_all2_conv_all_nth in_set_conv_nth)

lemma okE_find_ifE:
  "(\<And>x. x \<in> set xs \<Longrightarrow> okE (p x) (\<lambda>b. b \<longrightarrow> Q x)) \<Longrightarrow>
   okE (find_ifE p xs) (\<lambda>r. \<forall>x. r = Some x \<longrightarrow> x \<in> set xs \<and> Q x)"
proof (induction xs)
  case (Cons x xs)
  then have "okE (p x) (\<lambda>b. b \<longrightarrow> Q x)" by simp
  then obtain b where b: "p x = Inr b" "b \<longrightarrow> Q x" by (rule okE_E)
  show ?case
  proof (cases b)
    case False
    with b Cons show ?thesis by (auto intro: okE_mono)
  qed (use b in auto)
qed simp

section \<open>Strings\<close>

text \<open>\<open>::tolower\<close> in the C locale.\<close>

definition to_lower_char :: "char \<Rightarrow> char" where
  "to_lower_char c =
     (let n = of_char c :: int in if 65 \<le> n \<and> n \<le> 90 then char_of (n + 32) else c)"

definition to_lower :: "string \<Rightarrow> string" where
  "to_lower s = map to_lower_char s"

lemma length_to_lower [simp]: "length (to_lower s) = length s"
  by (simp add: to_lower_def)

lemma to_lower_append [simp]: "to_lower (s @ t) = to_lower s @ to_lower t"
  by (simp add: to_lower_def)

lemma to_lower_char_idem [simp]: "to_lower_char (to_lower_char c) = to_lower_char c"
  by (simp add: to_lower_char_def Let_def)

lemma to_lower_idem [simp]: "to_lower (to_lower s) = to_lower s"
  by (simp add: to_lower_def)

text \<open>\<open>std::to_string\<close> of an unsigned and of a signed integer.\<close>

definition digit_char :: "nat \<Rightarrow> char" where
  "digit_char d = char_of (48 + d)"

fun show_nat :: "nat \<Rightarrow> string" where
  "show_nat n = (if n < 10 then [digit_char n] else show_nat (n div 10) @ [digit_char (n mod 10)])"

declare show_nat.simps [simp del]

definition show_int :: "int \<Rightarrow> string" where
  "show_int i = (if i < 0 then CHR ''-'' # show_nat (nat (- i)) else show_nat (nat i))"

text \<open>The value of a string of decimal digits.\<close>

definition digit_val :: "char \<Rightarrow> nat option" where
  "digit_val c = (let n = of_char c in if 48 \<le> n \<and> n \<le> 57 then Some (n - 48) else None)"

definition dec_val :: "string \<Rightarrow> nat" where
  "dec_val s = foldl (\<lambda>a c. 10 * a + (case digit_val c of Some d \<Rightarrow> d | None \<Rightarrow> 0)) 0 s"

lemma digit_val_digit_char [simp]: "d < 10 \<Longrightarrow> digit_val (digit_char d) = Some d"
  by (simp add: digit_val_def digit_char_def)

lemma dec_val_append1: "d < 10 \<Longrightarrow> dec_val (s @ [digit_char d]) = 10 * dec_val s + d"
  by (simp add: dec_val_def)

lemma dec_val_show_nat [simp]: "dec_val (show_nat n) = n"
proof (induction n rule: show_nat.induct)
  case (1 n)
  show ?case
  proof (cases "n < 10")
    case True
    then have "show_nat n = [] @ [digit_char n]" by (subst show_nat.simps) simp
    then show ?thesis using True by (simp only: dec_val_append1) (simp add: dec_val_def)
  next
    case False
    then have "show_nat n = show_nat (n div 10) @ [digit_char (n mod 10)]"
      by (subst show_nat.simps) simp
    then show ?thesis using 1 False by (simp add: dec_val_append1)
  qed
qed

lemma show_nat_inject [simp]: "show_nat m = show_nat n \<longleftrightarrow> m = n"
  by (metis dec_val_show_nat)

text \<open>The same digits computed on integers, for the evaluation of large numbers.\<close>

function dec_digits :: "int \<Rightarrow> string" where
  "dec_digits n = (if n < 10 then [char_of (48 + n)] else dec_digits (n div 10) @ [char_of (48 + n mod 10)])"
  by auto
termination
  by (relation "measure nat") auto

declare dec_digits.simps [simp del]

lemma dec_digits_show_nat: "dec_digits (int n) = show_nat n"
proof (induction n rule: show_nat.induct)
  case (1 n)
  have c: "char_of (48 + int d) = digit_char d" for d
    unfolding digit_char_def by (metis char_of_nat of_nat_add of_nat_numeral)
  show ?case
    using 1 c [of n] c [of "n mod 10"]
    by (subst dec_digits.simps, subst show_nat.simps) (auto simp: zdiv_int zmod_int)
qed

lemma show_int_code [code]: "show_int i = (if i < 0 then CHR ''-'' # dec_digits (- i) else dec_digits i)"
  by (simp add: show_int_def flip: dec_digits_show_nat)

end
