(* ===== verification/Json.thy ===== *)
theory Json
  imports Prelude
begin

text \<open>
  The JSON values every component exchanges (\<open>nlohmann::json\<close> 3.7.3, the copy under
  \<open>deps/libsdptransform/include/json.hpp\<close>), with the operations the client calls: type
  tests, \<open>find\<close>, \<open>contains\<close>, the const and the non-const \<open>operator[]\<close>, \<open>push_back\<close>, \<open>erase\<close>,
  \<open>get\<close>, \<open>==\<close>, \<open>empty\<close>, \<open>size\<close> and iteration. Objects are \<open>std::map\<close>s, so they are kept as
  association lists sorted by key; both integer kinds are 64-bit words; a float is the exact
  value of the (finite) double.
\<close>

section \<open>Values\<close>

datatype json =
    JNull
  | JBool bool
  | JInt "64 word"
  | JUint "64 word"
  | JFloat rat
  | JString string
  | JArray "json list"
  | JObject "(string \<times> json) list"

type_synonym jobj = "(string \<times> json) list"

fun is_null :: "json \<Rightarrow> bool" where
  "is_null JNull = True" | "is_null _ = False"

fun is_boolean :: "json \<Rightarrow> bool" where
  "is_boolean (JBool b) = True" | "is_boolean _ = False"

fun is_number_unsigned :: "json \<Rightarrow> bool" where
  "is_number_unsigned (JUint w) = True" | "is_number_unsigned _ = False"

fun is_number_integer :: "json \<Rightarrow> bool" where
  "is_number_integer (JInt w) = True"
| "is_number_integer (JUint w) = True"
| "is_number_integer _ = False"

fun is_number_float :: "json \<Rightarrow> bool" where
  "is_number_float (JFloat r) = True" | "is_number_float _ = False"

definition is_number :: "json \<Rightarrow> bool" where
  "is_number j = (is_number_integer j \<or> is_number_float j)"

fun is_string :: "json \<Rightarrow> bool" where
  "is_string (JString s) = True" | "is_string _ = False"

fun is_array :: "json \<Rightarrow> bool" where
  "is_array (JArray xs) = True" | "is_array _ = False"

fun is_object :: "json \<Rightarrow> bool" where
  "is_object (JObject o') = True" | "is_object _ = False"

text \<open>\<open>it->is_string() && !it->get<std::string>().empty()\<close>\<close>

fun is_nonempty_string :: "json \<Rightarrow> bool" where
  "is_nonempty_string (JString s) = (s \<noteq> [])" | "is_nonempty_string _ = False"

lemma is_string_conv: "is_string j \<longleftrightarrow> (\<exists>s. j = JString s)"
  by (cases j) auto

lemma is_boolean_conv: "is_boolean j \<longleftrightarrow> (\<exists>b. j = JBool b)"
  by (cases j) auto

lemma is_array_conv: "is_array j \<longleftrightarrow> (\<exists>xs. j = JArray xs)"
  by (cases j) auto

lemma is_object_conv: "is_object j \<longleftrightarrow> (\<exists>o'. j = JObject o')"
  by (cases j) auto

lemma is_number_integer_conv: "is_number_integer j \<longleftrightarrow> (\<exists>w. j = JInt w \<or> j = JUint w)"
  by (cases j) auto

lemma is_number_unsigned_conv: "is_number_unsigned j \<longleftrightarrow> (\<exists>w. j = JUint w)"
  by (cases j) auto

lemma is_nonempty_string_conv: "is_nonempty_string j \<longleftrightarrow> (\<exists>s. j = JString s \<and> s \<noteq> [])"
  by (cases j) auto

lemmas json_is_conv =
  is_string_conv is_boolean_conv is_array_conv is_object_conv is_number_integer_conv
  is_number_unsigned_conv is_nonempty_string_conv

section \<open>Objects\<close>

text \<open>Insertion or overwriting at a key: \<open>o[k] = v\<close> on the underlying \<open>std::map\<close>.\<close>

fun obj_set :: "string \<Rightarrow> json \<Rightarrow> jobj \<Rightarrow> jobj" where
  "obj_set k v [] = [(k, v)]"
| "obj_set k v (p # ps) =
     (if fst p < k then p # obj_set k v ps
      else if fst p = k then (k, v) # ps
      else (k, v) # p # ps)"

definition obj_del :: "string \<Rightarrow> jobj \<Rightarrow> jobj" where
  "obj_del k ps = filter (\<lambda>p. fst p \<noteq> k) ps"

definition obj_emplace :: "string \<Rightarrow> json \<Rightarrow> jobj \<Rightarrow> jobj" where
  "obj_emplace k v ps = (case map_of ps k of None \<Rightarrow> obj_set k v ps | Some _ \<Rightarrow> ps)"

text \<open>The braced initializer \<open>{ {k1, v1}, {k2, v2}, ... }\<close>: the pairs are emplaced in order.\<close>

definition mk_obj :: "(string \<times> json) list \<Rightarrow> jobj" where
  "mk_obj kvs = foldl (\<lambda>ps (k, v). obj_emplace k v ps) [] kvs"

lemma map_of_obj_set [simp]: "map_of (obj_set k v ps) k' = (if k' = k then Some v else map_of ps k')"
  by (induction ps) auto

lemma map_of_obj_del [simp]: "map_of (obj_del k ps) k' = (if k' = k then None else map_of ps k')"
  by (induction ps) (auto simp: obj_del_def)

lemma map_of_obj_emplace [simp]:
  "map_of (obj_emplace k v ps) k' =
     (if k' = k \<and> map_of ps k = None then Some v else map_of ps k')"
  by (auto simp: obj_emplace_def split: option.splits)

lemma map_of_foldl_emplace:
  "map_of (foldl (\<lambda>ps (k, v). obj_emplace k v ps) ps kvs) k =
     (case map_of ps k of Some v \<Rightarrow> Some v | None \<Rightarrow> map_of kvs k)"
  by (induction kvs arbitrary: ps) (auto split: option.splits if_splits)

lemma map_of_mk_obj [simp, json_simps]: "map_of (mk_obj kvs) k = map_of kvs k"
  by (simp add: mk_obj_def map_of_foldl_emplace)

lemma mk_obj_Nil [simp]: "mk_obj [] = []"
  by (simp add: mk_obj_def)

text \<open>The order \<open>std::map\<close> keeps.\<close>

definition sorted_obj :: "jobj \<Rightarrow> bool" where
  "sorted_obj ps = sorted_wrt (<) (map fst ps)"

lemma sorted_obj_Nil [simp]: "sorted_obj []"
  by (simp add: sorted_obj_def)

lemma fst_set_obj_set [simp]: "fst ` set (obj_set k v ps) = insert k (fst ` set ps)"
  by (induction ps) auto

lemma sorted_obj_set [simp, intro]: "sorted_obj ps \<Longrightarrow> sorted_obj (obj_set k v ps)"
proof (induction ps)
  case (Cons p ps)
  have "\<forall>q\<in>fst ` set (obj_set k v ps). fst p < q" if "fst p < k"
    using that Cons.prems by (auto simp: sorted_obj_def)
  then show ?case using Cons
    by (auto simp: sorted_obj_def not_less intro: less_le_trans)
qed (simp add: sorted_obj_def)

lemma sorted_obj_del [simp, intro]: "sorted_obj ps \<Longrightarrow> sorted_obj (obj_del k ps)"
  by (induction ps) (auto simp: sorted_obj_def obj_del_def)

lemma obj_set_same:
  "sorted_obj ps \<Longrightarrow> map_of ps k = Some v \<Longrightarrow> obj_set k v ps = ps"
proof (induction ps)
  case (Cons p ps)
  then show ?case
    by (cases p) (force simp: sorted_obj_def split: if_splits dest: map_of_SomeD)
qed simp

lemma obj_del_absent: "map_of ps k = None \<Longrightarrow> obj_del k ps = ps"
  by (auto simp: obj_del_def map_of_eq_None_iff filter_id_conv)

lemma sorted_obj_emplace [intro]: "sorted_obj ps \<Longrightarrow> sorted_obj (obj_emplace k v ps)"
  by (auto simp: obj_emplace_def split: option.splits)

lemma sorted_mk_obj [simp, intro]: "sorted_obj (mk_obj kvs)"
proof -
  have "sorted_obj ps \<Longrightarrow> sorted_obj (foldl (\<lambda>ps (k, v). obj_emplace k v ps) ps kvs)" for ps
    by (induction kvs arbitrary: ps) auto
  then show ?thesis by (simp add: mk_obj_def)
qed

section \<open>Access\<close>

text \<open>\<open>find(key)\<close>: the end iterator (here \<open>None\<close>) on a missing key and on every other type.\<close>

fun jfind :: "json \<Rightarrow> string \<Rightarrow> json option" where
  "jfind (JObject ps) k = map_of ps k"
| "jfind _ k = None"

definition jcontains :: "json \<Rightarrow> string \<Rightarrow> bool" where
  "jcontains j k = (jfind j k \<noteq> None)"

text \<open>\<open>it == end() || !it->p()\<close> and its dual \<open>it != end() && !it->p()\<close>, negated.\<close>

definition found :: "(json \<Rightarrow> bool) \<Rightarrow> json option \<Rightarrow> bool" where
  "found p x = (case x of None \<Rightarrow> False | Some j \<Rightarrow> p j)"

definition absent_or :: "(json \<Rightarrow> bool) \<Rightarrow> json option \<Rightarrow> bool" where
  "absent_or p x = (case x of None \<Rightarrow> True | Some j \<Rightarrow> p j)"

lemma found_simps [simp, json_simps]: "found p None = False" "found p (Some j) = p j"
  by (simp_all add: found_def)

lemma absent_or_simps [simp, json_simps]: "absent_or p None = True" "absent_or p (Some j) = p j"
  by (simp_all add: absent_or_def)

lemma found_conv: "found p x \<longleftrightarrow> (\<exists>j. x = Some j \<and> p j)"
  by (cases x) auto

text \<open>
  The const \<open>operator[]\<close> with a key: no meaning on a missing key (the library only asserts),
  \<open>type_error\<close> 305 on a value that is not an object.
\<close>

fun jat :: "json \<Rightarrow> string \<Rightarrow> json result" where
  "jat (JObject ps) k = (case map_of ps k of Some v \<Rightarrow> ok v | None \<Rightarrow> throw Undefined)"
| "jat _ k = throw (JsonError 305)"

text \<open>
  The non-const \<open>operator[]\<close> used as a value: it inserts null at a missing key and turns null
  into an object, so it returns the value and the updated container.
\<close>

fun jref :: "json \<Rightarrow> string \<Rightarrow> (json \<times> json) result" where
  "jref JNull k = ok (JNull, JObject [(k, JNull)])"
| "jref (JObject ps) k =
     (case map_of ps k of
        Some v \<Rightarrow> ok (v, JObject ps)
      | None \<Rightarrow> ok (JNull, JObject (obj_set k JNull ps)))"
| "jref _ k = throw (JsonError 305)"

text \<open>The non-const \<open>operator[]\<close> as the target of an assignment.\<close>

fun jput :: "json \<Rightarrow> string \<Rightarrow> json \<Rightarrow> json result" where
  "jput JNull k v = ok (JObject [(k, v)])"
| "jput (JObject ps) k v = ok (JObject (obj_set k v ps))"
| "jput _ k v = throw (JsonError 305)"

text \<open>
  The non-const \<open>operator[]\<close> with an index: an index past the end fills the array with null
  up to it. The const one has no meaning there.
\<close>

fun jref_idx :: "json \<Rightarrow> nat \<Rightarrow> (json \<times> json) result" where
  "jref_idx JNull i = ok (JNull, JArray (replicate (Suc i) JNull))"
| "jref_idx (JArray xs) i =
     (if i < length xs then ok (xs ! i, JArray xs)
      else ok (JNull, JArray (xs @ replicate (Suc i - length xs) JNull)))"
| "jref_idx _ i = throw (JsonError 305)"

fun jat_idx :: "json \<Rightarrow> nat \<Rightarrow> json result" where
  "jat_idx (JArray xs) i = (if i < length xs then ok (xs ! i) else throw Undefined)"
| "jat_idx _ i = throw (JsonError 305)"

fun jpush :: "json \<Rightarrow> json \<Rightarrow> json result" where
  "jpush JNull v = ok (JArray [v])"
| "jpush (JArray xs) v = ok (JArray (xs @ [v]))"
| "jpush _ v = throw (JsonError 308)"

fun jerase :: "json \<Rightarrow> string \<Rightarrow> json result" where
  "jerase (JObject ps) k = ok (JObject (obj_del k ps))"
| "jerase _ k = throw (JsonError 307)"

fun jempty :: "json \<Rightarrow> bool" where
  "jempty JNull = True"
| "jempty (JArray xs) = (xs = [])"
| "jempty (JObject ps) = (ps = [])"
| "jempty _ = False"

fun jsize :: "json \<Rightarrow> nat" where
  "jsize JNull = 0"
| "jsize (JArray xs) = length xs"
| "jsize (JObject ps) = length ps"
| "jsize _ = 1"

text \<open>
  What \<open>for (auto& x : j)\<close> visits: the elements of an array, the values of an object in key
  order, nothing for null, and a scalar itself once.
\<close>

fun jelems :: "json \<Rightarrow> json list" where
  "jelems JNull = []"
| "jelems (JArray xs) = xs"
| "jelems (JObject ps) = map snd ps"
| "jelems j = [j]"

text \<open>The container a loop by reference leaves, from the elements it leaves.\<close>

fun jrebuild :: "json \<Rightarrow> json list \<Rightarrow> json" where
  "jrebuild JNull xs = JNull"
| "jrebuild (JArray _) xs = JArray xs"
| "jrebuild (JObject ps) xs = JObject (zip (map fst ps) xs)"
| "jrebuild j xs = (case xs of [x] \<Rightarrow> x | _ \<Rightarrow> j)"

text \<open>What \<open>j.items()\<close> visits on an object.\<close>

fun jitems :: "json \<Rightarrow> (string \<times> json) list" where
  "jitems (JObject ps) = ps"
| "jitems j = []"

section \<open>Conversions\<close>

fun get_string :: "json \<Rightarrow> string result" where
  "get_string (JString s) = ok s"
| "get_string _ = throw (JsonError 302)"

fun get_bool :: "json \<Rightarrow> bool result" where
  "get_bool (JBool b) = ok b"
| "get_bool _ = throw (JsonError 302)"

text \<open>
  \<open>get<T>\<close> for an unsigned \<open>T\<close> narrower than 64 bits: integers are truncated to the width, a
  float is truncated towards zero where the result is representable and undefined elsewhere,
  a boolean counts as 0 or 1.
\<close>

definition rat_trunc :: "rat \<Rightarrow> int" where
  "rat_trunc r = (if r < 0 then - \<lfloor>- r\<rfloor> else \<lfloor>r\<rfloor>)"

fun get_uint :: "json \<Rightarrow> 'a::len word result" where
  "get_uint (JUint w) = ok (ucast w)"
| "get_uint (JInt w) = ok (ucast w)"
| "get_uint (JFloat r) =
     (let t = rat_trunc r in
      if 0 \<le> t \<and> t < 2 ^ LENGTH('a) then ok (word_of_int t) else throw Undefined)"
| "get_uint (JBool b) = ok (if b then 1 else 0)"
| "get_uint _ = throw (JsonError 302)"

lemma ucast_32_64 [simp]: "ucast (ucast (w :: 32 word) :: 64 word) = w"
  by (rule bit_word_eqI) (auto simp: bit_simps)

text \<open>\<open>get<int32_t>\<close>, with the value read as two's complement.\<close>

fun get_int32 :: "json \<Rightarrow> int result" where
  "get_int32 (JUint w) = ok (sint (ucast w :: 32 word))"
| "get_int32 (JInt w) = ok (sint (ucast w :: 32 word))"
| "get_int32 (JFloat r) =
     (let t = rat_trunc r in
      if - (2 ^ 31) \<le> t \<and> t < 2 ^ 31 then ok t else throw Undefined)"
| "get_int32 (JBool b) = ok (if b then 1 else 0)"
| "get_int32 _ = throw (JsonError 302)"

text \<open>\<open>get<int64_t>\<close> is the library's own integer type, for which a boolean is refused.\<close>

fun get_int64 :: "json \<Rightarrow> int result" where
  "get_int64 (JUint w) = ok (sint w)"
| "get_int64 (JInt w) = ok (sint w)"
| "get_int64 (JFloat r) =
     (let t = rat_trunc r in
      if - (2 ^ 63) \<le> t \<and> t < 2 ^ 63 then ok t else throw Undefined)"
| "get_int64 _ = throw (JsonError 302)"

section \<open>Comparison\<close>

text \<open>
  \<open>operator==\<close>. Signed and unsigned integers compare by their 64 bits (the library casts one to
  the other); an integer and a float compare after conversion to double, which rounds to 53
  significant bits, half to even.
\<close>

fun nbits :: "nat \<Rightarrow> nat" where
  "nbits n = (if n = 0 then 0 else Suc (nbits (n div 2)))"

declare nbits.simps [simp del]

definition round_double :: "int \<Rightarrow> int" where
  "round_double i =
     (let a = nat \<bar>i\<bar>; e = nbits a - 53; q = a div 2 ^ e; r = 2 * (a mod 2 ^ e);
          q' = (if e \<noteq> 0 \<and> (2 ^ e < r \<or> r = 2 ^ e \<and> odd q) then q + 1 else q)
      in sgn i * int (q' * 2 ^ e))"

lemma json_size_elem: "z \<in> set xs \<Longrightarrow> size z < Suc (size_list size (xs :: json list))"
  by (simp add: less_Suc_eq_le size_list_estimation')

lemma json_size_member:
  "(k, z) \<in> set ps \<Longrightarrow> size z < Suc (size_list (size_prod (\<lambda>_. 0) size) (ps :: jobj))"
  by (force simp: less_Suc_eq_le intro: size_list_estimation')

function json_eq :: "json \<Rightarrow> json \<Rightarrow> bool" where
  "json_eq a b =
     (case (a, b) of
        (JNull, JNull) \<Rightarrow> True
      | (JBool x, JBool y) \<Rightarrow> x = y
      | (JInt x, JInt y) \<Rightarrow> x = y
      | (JUint x, JUint y) \<Rightarrow> x = y
      | (JInt x, JUint y) \<Rightarrow> x = y
      | (JUint x, JInt y) \<Rightarrow> x = y
      | (JFloat x, JFloat y) \<Rightarrow> x = y
      | (JInt x, JFloat y) \<Rightarrow> of_int (round_double (sint x)) = y
      | (JFloat x, JInt y) \<Rightarrow> x = of_int (round_double (sint y))
      | (JUint x, JFloat y) \<Rightarrow> of_int (round_double (uint x)) = y
      | (JFloat x, JUint y) \<Rightarrow> x = of_int (round_double (uint y))
      | (JString x, JString y) \<Rightarrow> x = y
      | (JArray xs, JArray ys) \<Rightarrow> list_all2 json_eq xs ys
      | (JObject ps, JObject qs) \<Rightarrow>
          map fst ps = map fst qs \<and> list_all2 json_eq (map snd ps) (map snd qs)
      | _ \<Rightarrow> False)"
  by pat_completeness auto
termination
  by (relation "measure (size \<circ> fst)") (auto intro: json_size_elem json_size_member)

declare json_eq.simps [simp del]

lemma json_eq_simps [simp, json_simps]:
  "json_eq JNull JNull"
  "json_eq (JBool x) (JBool y) = (x = y)"
  "json_eq (JString s) (JString t) = (s = t)"
  "json_eq (JInt u) (JInt v) = (u = v)"
  "json_eq (JInt u) (JUint v) = (u = v)"
  "json_eq (JUint u) (JInt v) = (u = v)"
  "json_eq (JUint u) (JUint v) = (u = v)"
  "json_eq (JArray xs) (JArray ys) = list_all2 json_eq xs ys"
  by (simp_all add: json_eq.simps)

lemma json_eq_refl [simp]: "json_eq a a"
proof (induction "size a" arbitrary: a rule: less_induct)
  case less
  have self: "list_all2 json_eq xs xs" if "\<And>x. x \<in> set xs \<Longrightarrow> size x < size a" for xs
    using that less by (auto simp: list_all2_same)
  show ?case
  proof (cases a)
    case (JObject ps)
    then show ?thesis
      using json_size_member [of _ _ ps] by (auto simp: json_eq.simps intro!: self)
  qed (auto simp: json_eq.simps intro!: self json_size_elem)
qed

lemma json_eq_sym: "json_eq a b \<Longrightarrow> json_eq b a"
proof (induction a b rule: json_eq.induct)
  case (1 a b)
  have flip: "list_all2 json_eq ys xs"
    if "list_all2 json_eq xs ys" and "\<And>x y. x \<in> set xs \<Longrightarrow> y \<in> set ys \<Longrightarrow> json_eq x y \<Longrightarrow> json_eq y x"
    for xs ys
    using that by (auto simp: list_all2_conv_all_nth)
  show ?case
    using 1 by (cases a; cases b) (auto simp: json_eq.simps intro!: flip)
qed

lemma json_eq_JString: "json_eq a (JString s) \<longleftrightarrow> a = JString s"
  by (cases a) (simp_all add: json_eq.simps)

lemma json_eq_JString' : "json_eq (JString s) a \<longleftrightarrow> a = JString s"
  by (cases a) (auto simp: json_eq.simps)

section \<open>Well-formed values\<close>

text \<open>Every object, at any depth, has its keys in strictly increasing order.\<close>

function wf_json :: "json \<Rightarrow> bool" where
  "wf_json (JArray xs) = (\<forall>x\<in>set xs. wf_json x)"
| "wf_json (JObject ps) = (sorted_obj ps \<and> (\<forall>v\<in>set (map snd ps). wf_json v))"
| "wf_json JNull = True"
| "wf_json (JBool b) = True"
| "wf_json (JInt i) = True"
| "wf_json (JUint u) = True"
| "wf_json (JFloat r) = True"
| "wf_json (JString s) = True"
  by pat_completeness auto
termination
  by (relation "measure size") (auto intro: json_size_elem json_size_member)

lemma wf_sorted [simp]: "wf_json (JObject ps) \<Longrightarrow> sorted_obj ps"
  by simp

lemma wf_map_of: "wf_json (JObject ps) \<Longrightarrow> map_of ps k = Some v \<Longrightarrow> wf_json v"
  by (force dest: map_of_SomeD)

lemma set_obj_set: "set (obj_set k v ps) \<subseteq> insert (k, v) (set ps)"
  by (induction ps) auto

lemma wf_obj_set [intro]:
  "wf_json (JObject ps) \<Longrightarrow> wf_json v \<Longrightarrow> wf_json (JObject (obj_set k v ps))"
  using set_obj_set [of k v ps] by fastforce

lemma wf_obj_del [intro]: "wf_json (JObject ps) \<Longrightarrow> wf_json (JObject (obj_del k ps))"
  by (auto simp: obj_del_def sorted_obj_def sorted_wrt_filter sorted_wrt_map)

lemma wf_mk_obj:
  assumes "\<forall>v\<in>set (map snd kvs). wf_json v"
  shows "wf_json (JObject (mk_obj kvs))"
proof -
  have "\<forall>v\<in>set (map snd (foldl (\<lambda>ps (k, v). obj_emplace k v ps) ps kvs)). wf_json v"
    if "\<forall>v\<in>set (map snd ps). wf_json v" for ps
    using assms that
  proof (induction kvs arbitrary: ps)
    case (Cons kv kvs)
    obtain k v where kv: "kv = (k, v)" by fastforce
    have "\<forall>v\<in>set (map snd (obj_emplace k v ps)). wf_json v"
      using Cons.prems set_obj_set [of k v ps]
      by (fastforce simp: kv obj_emplace_def split: option.splits)
    with Cons kv show ?case by simp
  qed simp
  from this [of "[]"] show ?thesis by (simp add: mk_obj_def [symmetric])
qed

lemma wf_JObject_Nil [simp]: "wf_json (JObject [])"
  by simp

declare wf_json.simps(2) [simp del]

section \<open>Shapes\<close>

text \<open>An array all of whose elements satisfy a predicate, and an object whose members do.\<close>

fun arr_all :: "(json \<Rightarrow> bool) \<Rightarrow> json \<Rightarrow> bool" where
  "arr_all p (JArray xs) = list_all p xs"
| "arr_all p _ = False"

fun obj_with :: "(jobj \<Rightarrow> bool) \<Rightarrow> json \<Rightarrow> bool" where
  "obj_with p (JObject ps) = p ps"
| "obj_with p _ = False"

lemma arr_all_conv: "arr_all p j \<longleftrightarrow> (\<exists>xs. j = JArray xs \<and> (\<forall>x\<in>set xs. p x))"
  by (cases j) (auto simp: list_all_iff)

lemma obj_with_conv: "obj_with p j \<longleftrightarrow> (\<exists>ps. j = JObject ps \<and> p ps)"
  by (cases j) auto

end
