(* ===== verification/Ortc_Validate.thy ===== *)
theory Ortc_Validate
  imports Json
begin

text \<open>
  The validators of \<open>src/ortc.cpp\<close> (lines 39 to 977). Each takes the JSON value it is given by
  reference and returns the value it leaves there, with the defaults filled in, or the type
  error it throws. A container that is iterated by reference is written back with its elements
  updated. For every validator the theory gives the normal form it produces and proves, through
  the contract \<open>validator\<close>, that the result is in normal form, that a value in normal form is
  left unchanged, and that nothing but a type error is thrown.
\<close>

section \<open>Regular expressions of the validators\<close>

text \<open>
  \<open>^(audio|video)/(.+)\<close>, case insensitive, as a full match: the first group when it matches.
  The dot of the ECMAScript grammar excludes line terminators.
\<close>

definition mime_kind :: "string \<Rightarrow> string option" where
  "mime_kind s =
     (if to_lower (take 5 s) \<in> {''audio'', ''video''} \<and> take 1 (drop 5 s) = ''/'' \<and>
         drop 6 s \<noteq> [] \<and> list_all (\<lambda>c. c \<noteq> CHR 0x0A \<and> c \<noteq> CHR 0x0D) (drop 6 s)
      then Some (take 5 s) else None)"

text \<open>\<open>(w1|w2|...)\<close>, case insensitive, as a full match.\<close>

definition icase_match :: "string list \<Rightarrow> string \<Rightarrow> bool" where
  "icase_match ws s = (to_lower s \<in> set ws)"

fun jstr_match :: "string list \<Rightarrow> json \<Rightarrow> bool" where
  "jstr_match ws (JString s) = icase_match ws s"
| "jstr_match ws _ = False"

text \<open>\<open>if (it == end() || !it->p()) o[key] = v\<close>\<close>

definition obj_default :: "string \<Rightarrow> (json \<Rightarrow> bool) \<Rightarrow> json \<Rightarrow> jobj \<Rightarrow> jobj" where
  "obj_default key p v ps = (if found p (map_of ps key) then ps else obj_set key v ps)"

lemma map_of_obj_default [simp]:
  "map_of (obj_default key p v ps) k =
     (if k = key \<and> \<not> found p (map_of ps key) then Some v else map_of ps k)"
  by (simp add: obj_default_def)

section \<open>RTP capabilities\<close>

definition validateRtcpFeedback :: "json \<Rightarrow> json result" where
  "validateRtcpFeedback fb =
     (case fb of
        JObject ps \<Rightarrow>
          if \<not> found is_string (map_of ps ''type'') then throw (TypeError ''missing fb.type'')
          else if \<not> found is_string (map_of ps ''parameter'')
          then ok (JObject (obj_set ''parameter'' (JString []) ps))
          else ok fb
      | _ \<Rightarrow> throw (TypeError ''fb is not an object''))"

text \<open>The common tail of the two codec validators: channels, parameters and feedback.\<close>

definition set_channels :: "string \<Rightarrow> jobj \<Rightarrow> jobj" where
  "set_channels kind ps =
     (if kind = ''audio'' then
        if \<not> found is_number_integer (map_of ps ''channels'') then obj_set ''channels'' (JInt 1) ps
        else ps
      else if map_of ps ''channels'' \<noteq> None then obj_del ''channels'' ps
      else ps)"

definition check_codec_parameter :: "string \<times> json \<Rightarrow> unit result" where
  "check_codec_parameter kv =
     (let (key, value) = kv in
      if \<not> is_string value \<and> \<not> is_number value \<and> value \<noteq> JNull
      then throw (TypeError ''invalid codec parameter'')
      else if key = ''apt'' \<and> \<not> is_number_integer value
      then throw (TypeError ''invalid codec apt parameter'')
      else ok ())"

definition validate_codec_parameters :: "jobj \<Rightarrow> jobj result" where
  "validate_codec_parameters ps =
     (case map_of ps ''parameters'' of
        Some (JObject qs) \<Rightarrow> bindE (forE check_codec_parameter qs) (\<lambda>_. ok ps)
      | _ \<Rightarrow> ok (obj_set ''parameters'' (JObject []) ps))"

definition validate_codec_feedback :: "jobj \<Rightarrow> jobj result" where
  "validate_codec_feedback ps =
     (case map_of ps ''rtcpFeedback'' of
        Some (JArray fbs) \<Rightarrow>
          bindE (mapE validateRtcpFeedback fbs)
            (\<lambda>fbs'. ok (obj_set ''rtcpFeedback'' (JArray fbs') ps))
      | _ \<Rightarrow> ok (obj_set ''rtcpFeedback'' (JArray []) ps))"

definition validateRtpCodecCapability :: "json \<Rightarrow> json result" where
  "validateRtpCodecCapability codec =
     (case codec of
        JObject ps \<Rightarrow>
          (case map_of ps ''mimeType'' of
             Some (JString mimeType) \<Rightarrow>
               (case mime_kind mimeType of
                  None \<Rightarrow> throw (TypeError ''invalid codec.mimeType'')
                | Some kind \<Rightarrow>
                    let ps1 = obj_set ''kind'' (JString kind) ps in
                    if \<not> absent_or is_number_integer (map_of ps ''preferredPayloadType'')
                    then throw (TypeError ''invalid codec.preferredPayloadType'')
                    else if \<not> found is_number_integer (map_of ps ''clockRate'')
                    then throw (TypeError ''missing codec.clockRate'')
                    else
                      bindE (validate_codec_parameters (set_channels kind ps1)) (\<lambda>ps2.
                      bindE (validate_codec_feedback ps2) (\<lambda>ps3. ok (JObject ps3))))
           | _ \<Rightarrow> throw (TypeError ''missing codec.mimeType''))
      | _ \<Rightarrow> throw (TypeError ''codec is not an object''))"

definition validateRtpHeaderExtension :: "json \<Rightarrow> json result" where
  "validateRtpHeaderExtension ext =
     (case ext of
        JObject ps \<Rightarrow>
          if \<not> found is_string (map_of ps ''kind'') then throw (TypeError ''missing ext.kind'')
          else if map_of ps ''kind'' \<noteq> Some (JString ''audio'') \<and>
                  map_of ps ''kind'' \<noteq> Some (JString ''video'')
          then throw (TypeError ''invalid ext.kind'')
          else if \<not> found is_nonempty_string (map_of ps ''uri'')
          then throw (TypeError ''missing ext.uri'')
          else if \<not> found is_number_integer (map_of ps ''preferredId'')
          then throw (TypeError ''missing ext.preferredId'')
          else if \<not> absent_or is_boolean (map_of ps ''preferredEncrypt'')
          then throw (TypeError ''invalid ext.preferredEncrypt'')
          else
            let ps1 = (if map_of ps ''preferredEncrypt'' = None
                       then obj_set ''preferredEncrypt'' (JBool False) ps else ps) in
            if \<not> absent_or is_string (map_of ps ''direction'')
            then throw (TypeError ''invalid ext.direction'')
            else if map_of ps ''direction'' = None
            then ok (JObject (obj_set ''direction'' (JString ''sendrecv'') ps1))
            else ok (JObject ps1)
      | _ \<Rightarrow> throw (TypeError ''ext is not an object''))"

text \<open>
  An optional array member, filled in as the empty array when it is missing, whose elements are
  validated in place: the shape of \<open>codecs\<close>, \<open>headerExtensions\<close> and \<open>encodings\<close>.
\<close>

definition validate_array_member ::
  "string \<Rightarrow> string \<Rightarrow> (json \<Rightarrow> json result) \<Rightarrow> jobj \<Rightarrow> jobj result" where
  "validate_array_member key msg validate ps =
     (case map_of ps key of
        None \<Rightarrow> ok (obj_set key (JArray []) ps)
      | Some (JArray xs) \<Rightarrow> bindE (mapE validate xs) (\<lambda>xs'. ok (obj_set key (JArray xs') ps))
      | Some _ \<Rightarrow> throw (TypeError msg))"

definition validateRtpCapabilities :: "json \<Rightarrow> json result" where
  "validateRtpCapabilities caps =
     (case caps of
        JObject ps \<Rightarrow>
          bindE (validate_array_member ''codecs'' ''caps.codecs is not an array''
                   validateRtpCodecCapability ps) (\<lambda>ps1.
          bindE (validate_array_member ''headerExtensions'' ''caps.headerExtensions is not an array''
                   validateRtpHeaderExtension ps1) (\<lambda>ps2. ok (JObject ps2)))
      | _ \<Rightarrow> throw (TypeError ''caps is not an object''))"

section \<open>RTP parameters\<close>

definition validateRtpCodecParameters :: "json \<Rightarrow> json result" where
  "validateRtpCodecParameters codec =
     (case codec of
        JObject ps \<Rightarrow>
          (case map_of ps ''mimeType'' of
             Some (JString mimeType) \<Rightarrow>
               (case mime_kind mimeType of
                  None \<Rightarrow> throw (TypeError ''invalid codec.mimeType'')
                | Some kind \<Rightarrow>
                    if \<not> found is_number_integer (map_of ps ''payloadType'')
                    then throw (TypeError ''missing codec.payloadType'')
                    else if \<not> found is_number_integer (map_of ps ''clockRate'')
                    then throw (TypeError ''missing codec.clockRate'')
                    else
                      bindE (validate_codec_parameters (set_channels kind ps)) (\<lambda>ps2.
                      bindE (validate_codec_feedback ps2) (\<lambda>ps3. ok (JObject ps3))))
           | _ \<Rightarrow> throw (TypeError ''missing codec.mimeType''))
      | _ \<Rightarrow> throw (TypeError ''codec is not an object''))"

definition check_ext_parameter :: "string \<times> json \<Rightarrow> unit result" where
  "check_ext_parameter kv =
     (if \<not> is_string (snd kv) \<and> \<not> is_number (snd kv)
      then throw (TypeError ''invalid header extension parameter'') else ok ())"

definition validateRtpHeaderExtensionParameters :: "json \<Rightarrow> json result" where
  "validateRtpHeaderExtensionParameters ext =
     (case ext of
        JObject ps \<Rightarrow>
          if \<not> found is_nonempty_string (map_of ps ''uri'')
          then throw (TypeError ''missing ext.uri'')
          else if \<not> found is_number_integer (map_of ps ''id'')
          then throw (TypeError ''missing ext.id'')
          else if \<not> absent_or is_boolean (map_of ps ''encrypt'')
          then throw (TypeError ''invalid ext.encrypt'')
          else
            let ps1 = (if map_of ps ''encrypt'' = None
                       then obj_set ''encrypt'' (JBool False) ps else ps) in
            (case map_of ps ''parameters'' of
               Some (JObject qs) \<Rightarrow> bindE (forE check_ext_parameter qs) (\<lambda>_. ok (JObject ps1))
             | _ \<Rightarrow> ok (JObject (obj_set ''parameters'' (JObject []) ps1)))
      | _ \<Rightarrow> throw (TypeError ''ext is not an object''))"

definition validateRtpEncodingParameters :: "json \<Rightarrow> json result" where
  "validateRtpEncodingParameters encoding =
     (case encoding of
        JObject ps \<Rightarrow>
          if \<not> absent_or is_number_integer (map_of ps ''ssrc'')
          then throw (TypeError ''invalid encoding.ssrc'')
          else if \<not> absent_or is_nonempty_string (map_of ps ''rid'')
          then throw (TypeError ''invalid encoding.rid'')
          else if \<not> absent_or is_object (map_of ps ''rtx'')
          then throw (TypeError ''invalid encoding.rtx'')
          else if \<not> absent_or (\<lambda>rtx. found is_number_integer (jfind rtx ''ssrc'')) (map_of ps ''rtx'')
          then throw (TypeError ''missing encoding.rtx.ssrc'')
          else
            let ps1 = (if \<not> found is_boolean (map_of ps ''dtx'')
                       then obj_set ''dtx'' (JBool False) ps else ps) in
            if \<not> absent_or is_nonempty_string (map_of ps ''scalabilityMode'')
            then throw (TypeError ''invalid encoding.scalabilityMode'')
            else ok (JObject ps1)
      | _ \<Rightarrow> throw (TypeError ''encoding is not an object''))"

definition validateRtcpParameters :: "json \<Rightarrow> json result" where
  "validateRtcpParameters rtcp =
     (case rtcp of
        JObject ps \<Rightarrow>
          if \<not> absent_or is_string (map_of ps ''cname'')
          then throw (TypeError ''invalid rtcp.cname'')
          else if \<not> found is_boolean (map_of ps ''reducedSize'')
          then ok (JObject (obj_set ''reducedSize'' (JBool True) ps))
          else ok rtcp
      | _ \<Rightarrow> throw (TypeError ''rtcp is not an object''))"

definition validateRtpParameters :: "json \<Rightarrow> json result" where
  "validateRtpParameters params =
     (case params of
        JObject ps \<Rightarrow>
          if \<not> absent_or is_nonempty_string (map_of ps ''mid'')
          then throw (TypeError ''params.mid is not a string'')
          else if \<not> found is_array (map_of ps ''codecs'')
          then throw (TypeError ''missing params.codecs'')
          else
            bindE (validate_array_member ''codecs'' ''missing params.codecs''
                     validateRtpCodecParameters ps) (\<lambda>ps1.
            bindE (validate_array_member ''headerExtensions''
                     ''params.headerExtensions is not an array''
                     validateRtpHeaderExtensionParameters ps1) (\<lambda>ps2.
            bindE (validate_array_member ''encodings'' ''params.encodings is not an array''
                     validateRtpEncodingParameters ps2) (\<lambda>ps3.
            if \<not> absent_or is_object (map_of ps3 ''rtcp'')
            then throw (TypeError ''params.rtcp is not an object'')
            else
              bindE (validateRtcpParameters
                       (case map_of ps3 ''rtcp'' of None \<Rightarrow> JObject [] | Some rtcp \<Rightarrow> rtcp)) (\<lambda>rtcp'.
              ok (JObject (obj_set ''rtcp'' rtcp' ps3))))))
      | _ \<Rightarrow> throw (TypeError ''params is not an object''))"

section \<open>SCTP\<close>

definition validateNumSctpStreams :: "json \<Rightarrow> json result" where
  "validateNumSctpStreams numStreams =
     (case numStreams of
        JObject ps \<Rightarrow>
          if \<not> found is_number_integer (map_of ps ''OS'')
          then throw (TypeError ''missing numStreams.OS'')
          else if \<not> found is_number_integer (map_of ps ''MIS'')
          then throw (TypeError ''missing numStreams.MIS'')
          else ok numStreams
      | _ \<Rightarrow> throw (TypeError ''numStreams is not an object''))"

definition validateSctpCapabilities :: "json \<Rightarrow> json result" where
  "validateSctpCapabilities caps =
     (case caps of
        JObject ps \<Rightarrow>
          (case map_of ps ''numStreams'' of
             Some (JObject qs) \<Rightarrow>
               bindE (validateNumSctpStreams (JObject qs)) (\<lambda>numStreams'.
               ok (JObject (obj_set ''numStreams'' numStreams' ps)))
           | _ \<Rightarrow> throw (TypeError ''missing caps.numStreams''))
      | _ \<Rightarrow> throw (TypeError ''caps is not an object''))"

definition validateSctpParameters :: "json \<Rightarrow> json result" where
  "validateSctpParameters params =
     (case params of
        JObject ps \<Rightarrow>
          if \<not> found is_number_integer (map_of ps ''port'')
          then throw (TypeError ''missing params.port'')
          else if \<not> found is_number_integer (map_of ps ''OS'')
          then throw (TypeError ''missing params.OS'')
          else if \<not> found is_number_integer (map_of ps ''MIS'')
          then throw (TypeError ''missing params.MIS'')
          else if \<not> found is_number_integer (map_of ps ''maxMessageSize'')
          then throw (TypeError ''missing params.maxMessageSize'')
          else ok params
      | _ \<Rightarrow> throw (TypeError ''params is not an object''))"

definition validateSctpStreamParameters :: "json \<Rightarrow> json result" where
  "validateSctpStreamParameters params =
     (case params of
        JObject ps \<Rightarrow>
          if \<not> found is_number_integer (map_of ps ''streamId'')
          then throw (TypeError ''missing params.streamId'')
          else
            let maxPacketLifeTimeGiven = map_of ps ''maxPacketLifeTime'' \<noteq> None;
                maxRetransmitsGiven = map_of ps ''maxRetransmits'' \<noteq> None;
                orderedGiven = found is_boolean (map_of ps ''ordered'');
                ps1 = obj_default ''ordered'' is_boolean (JBool True) ps;
                ps2 = obj_default ''maxPacketLifeTime'' is_number_integer (JUint 0) ps1;
                ps3 = obj_default ''maxRetransmits'' is_number_integer (JUint 0) ps2
            in
            if maxPacketLifeTimeGiven \<and> maxRetransmitsGiven
            then throw (TypeError ''cannot provide both maxPacketLifeTime and maxRetransmits'')
            else if orderedGiven \<and> map_of ps3 ''ordered'' = Some (JBool True) \<and>
                    (maxPacketLifeTimeGiven \<or> maxRetransmitsGiven)
            then throw (TypeError ''cannot be ordered with maxPacketLifeTime or maxRetransmits'')
            else
              let ps4 = (if \<not> orderedGiven \<and> (maxPacketLifeTimeGiven \<or> maxRetransmitsGiven)
                         then obj_set ''ordered'' (JBool False) ps3 else ps3);
                  ps5 = obj_default ''label'' is_string (JString []) ps4;
                  ps6 = obj_default ''protocol'' is_string (JString []) ps5
              in ok (JObject ps6)
      | _ \<Rightarrow> throw (TypeError ''params is not an object''))"

section \<open>ICE and DTLS\<close>

definition validateIceParameters :: "json \<Rightarrow> json result" where
  "validateIceParameters params =
     (case params of
        JObject ps \<Rightarrow>
          if \<not> found is_nonempty_string (map_of ps ''usernameFragment'')
          then throw (TypeError ''missing params.usernameFragment'')
          else if \<not> found is_nonempty_string (map_of ps ''password'')
          then throw (TypeError ''missing params.password'')
          else if \<not> found is_boolean (map_of ps ''iceLite'')
          then ok (JObject (obj_set ''iceLite'' (JBool False) ps))
          else ok params
      | _ \<Rightarrow> throw (TypeError ''params is not an object''))"

definition validateIceCandidate :: "json \<Rightarrow> json result" where
  "validateIceCandidate params =
     (case params of
        JObject ps \<Rightarrow>
          if \<not> found is_nonempty_string (map_of ps ''foundation'')
          then throw (TypeError ''missing params.foundation'')
          else if \<not> found is_number_unsigned (map_of ps ''priority'')
          then throw (TypeError ''missing params.priority'')
          else if \<not> found is_nonempty_string (map_of ps ''ip'')
          then throw (TypeError ''missing params.ip'')
          else if \<not> found is_nonempty_string (map_of ps ''protocol'')
          then throw (TypeError ''missing params.protocol'')
          else if \<not> found (jstr_match [''udp'', ''tcp'']) (map_of ps ''protocol'')
          then throw (TypeError ''invalid params.protocol'')
          else if \<not> found is_number_unsigned (map_of ps ''port'')
          then throw (TypeError ''missing params.port'')
          else if \<not> found is_nonempty_string (map_of ps ''type'')
          then throw (TypeError ''missing params.type'')
          else if \<not> found (jstr_match [''host'', ''srflx'', ''prflx'', ''relay'']) (map_of ps ''type'')
          then throw (TypeError ''invalid params.type'')
          else ok params
      | _ \<Rightarrow> throw (TypeError ''params is not an object''))"

definition validateIceCandidates :: "json \<Rightarrow> json result" where
  "validateIceCandidates params =
     (case params of
        JArray cs \<Rightarrow> bindE (mapE validateIceCandidate cs) (\<lambda>cs'. ok (JArray cs'))
      | _ \<Rightarrow> throw (TypeError ''params is not an array''))"

definition validateDtlsFingerprint :: "json \<Rightarrow> json result" where
  "validateDtlsFingerprint params =
     (case params of
        JObject ps \<Rightarrow>
          if \<not> found is_nonempty_string (map_of ps ''algorithm'')
          then throw (TypeError ''missing params.algorithm'')
          else if \<not> found is_nonempty_string (map_of ps ''value'')
          then throw (TypeError ''missing params.value'')
          else ok params
      | _ \<Rightarrow> throw (TypeError ''params is not an object''))"

definition validateDtlsParameters :: "json \<Rightarrow> json result" where
  "validateDtlsParameters params =
     (case params of
        JObject ps \<Rightarrow>
          if \<not> found is_nonempty_string (map_of ps ''role'')
          then throw (TypeError ''missing params.role'')
          else if \<not> found (jstr_match [''auto'', ''client'', ''server'']) (map_of ps ''role'')
          then throw (TypeError ''invalid params.role'')
          else
            (case map_of ps ''fingerprints'' of
               Some (JArray (f # fs)) \<Rightarrow>
                 bindE (mapE validateDtlsFingerprint (f # fs)) (\<lambda>fs'.
                 ok (JObject (obj_set ''fingerprints'' (JArray fs') ps)))
             | _ \<Rightarrow> throw (TypeError ''missing params.fingerprints''))
      | _ \<Rightarrow> throw (TypeError ''params is not an object''))"

section \<open>Producer codec options\<close>

definition validateProducerCodecOptions :: "json \<Rightarrow> json result" where
  "validateProducerCodecOptions params =
     (case params of
        JObject ps \<Rightarrow>
          if \<not> absent_or is_boolean (map_of ps ''opusStereo'')
          then throw (TypeError ''invalid params.opusStereo'')
          else if \<not> absent_or is_boolean (map_of ps ''opusFec'')
          then throw (TypeError ''invalid params.opusFec'')
          else if \<not> absent_or is_boolean (map_of ps ''opusDtx'')
          then throw (TypeError ''invalid params.opusDtx'')
          else if \<not> absent_or is_boolean (map_of ps ''opusCbr'')
          then throw (TypeError ''invalid params.opusCbr'')
          else if \<not> absent_or is_number_unsigned (map_of ps ''opusMaxPlaybackRate'')
          then throw (TypeError ''invalid params.opusMaxPlaybackRate'')
          else if \<not> absent_or is_number_unsigned (map_of ps ''opusMaxAverageBitrate'')
          then throw (TypeError ''invalid params.opusMaxAverageBitrate'')
          else if \<not> absent_or is_number_integer (map_of ps ''opusPtime'')
          then throw (TypeError ''invalid params.opusPtime'')
          else if \<not> absent_or is_number_integer (map_of ps ''videoGoogleStartBitrate'')
          then throw (TypeError ''invalid params.videoGoogleStartBitrate'')
          else if \<not> absent_or is_number_integer (map_of ps ''videoGoogleMaxBitrate'')
          then throw (TypeError ''invalid params.videoGoogleMaxBitrate'')
          else if \<not> absent_or is_number_integer (map_of ps ''videoGoogleMinBitrate'')
          then throw (TypeError ''invalid params.videoGoogleMinBitrate'')
          else ok params
      | _ \<Rightarrow> throw (TypeError ''params is not an object''))"

section \<open>Normal forms\<close>

text \<open>What a value looks like once its validator has accepted it.\<close>

definition normal_feedback :: "json \<Rightarrow> bool" where
  "normal_feedback =
     obj_with (\<lambda>ps. found is_string (map_of ps ''type'') \<and> found is_string (map_of ps ''parameter''))"

definition normal_parameter :: "string \<times> json \<Rightarrow> bool" where
  "normal_parameter kv =
     ((is_string (snd kv) \<or> is_number (snd kv) \<or> snd kv = JNull) \<and>
      (fst kv = ''apt'' \<longrightarrow> is_number_integer (snd kv)))"

definition normal_codec :: "string \<Rightarrow> jobj \<Rightarrow> bool" where
  "normal_codec kind ps =
     (found is_number_integer (map_of ps ''clockRate'') \<and>
      (if kind = ''audio'' then found is_number_integer (map_of ps ''channels'')
       else map_of ps ''channels'' = None) \<and>
      found (obj_with (list_all normal_parameter)) (map_of ps ''parameters'') \<and>
      found (arr_all normal_feedback) (map_of ps ''rtcpFeedback''))"

definition codec_kind :: "jobj \<Rightarrow> string option" where
  "codec_kind ps =
     (case map_of ps ''mimeType'' of Some (JString m) \<Rightarrow> mime_kind m | _ \<Rightarrow> None)"

definition normal_codec_capability :: "json \<Rightarrow> bool" where
  "normal_codec_capability =
     obj_with (\<lambda>ps.
       (case codec_kind ps of
          None \<Rightarrow> False
        | Some kind \<Rightarrow>
            map_of ps ''kind'' = Some (JString kind) \<and>
            absent_or is_number_integer (map_of ps ''preferredPayloadType'') \<and>
            normal_codec kind ps))"

definition normal_header_extension :: "json \<Rightarrow> bool" where
  "normal_header_extension =
     obj_with (\<lambda>ps.
       (map_of ps ''kind'' = Some (JString ''audio'') \<or>
        map_of ps ''kind'' = Some (JString ''video'')) \<and>
       found is_nonempty_string (map_of ps ''uri'') \<and>
       found is_number_integer (map_of ps ''preferredId'') \<and>
       found is_boolean (map_of ps ''preferredEncrypt'') \<and>
       found is_string (map_of ps ''direction''))"

definition normal_capabilities :: "json \<Rightarrow> bool" where
  "normal_capabilities =
     obj_with (\<lambda>ps.
       found (arr_all normal_codec_capability) (map_of ps ''codecs'') \<and>
       found (arr_all normal_header_extension) (map_of ps ''headerExtensions''))"

definition normal_codec_parameters :: "json \<Rightarrow> bool" where
  "normal_codec_parameters =
     obj_with (\<lambda>ps.
       (case codec_kind ps of
          None \<Rightarrow> False
        | Some kind \<Rightarrow>
            found is_number_integer (map_of ps ''payloadType'') \<and> normal_codec kind ps))"

definition normal_header_extension_parameters :: "json \<Rightarrow> bool" where
  "normal_header_extension_parameters =
     obj_with (\<lambda>ps.
       found is_nonempty_string (map_of ps ''uri'') \<and>
       found is_number_integer (map_of ps ''id'') \<and>
       found is_boolean (map_of ps ''encrypt'') \<and>
       found (obj_with (list_all (\<lambda>kv. is_string (snd kv) \<or> is_number (snd kv))))
         (map_of ps ''parameters''))"

definition normal_encoding :: "json \<Rightarrow> bool" where
  "normal_encoding =
     obj_with (\<lambda>ps.
       absent_or is_number_integer (map_of ps ''ssrc'') \<and>
       absent_or is_nonempty_string (map_of ps ''rid'') \<and>
       absent_or (obj_with (\<lambda>rtx. found is_number_integer (map_of rtx ''ssrc''))) (map_of ps ''rtx'') \<and>
       found is_boolean (map_of ps ''dtx'') \<and>
       absent_or is_nonempty_string (map_of ps ''scalabilityMode''))"

definition normal_rtcp :: "json \<Rightarrow> bool" where
  "normal_rtcp =
     obj_with (\<lambda>ps.
       absent_or is_string (map_of ps ''cname'') \<and> found is_boolean (map_of ps ''reducedSize''))"

definition normal_parameters :: "json \<Rightarrow> bool" where
  "normal_parameters =
     obj_with (\<lambda>ps.
       absent_or is_nonempty_string (map_of ps ''mid'') \<and>
       found (arr_all normal_codec_parameters) (map_of ps ''codecs'') \<and>
       found (arr_all normal_header_extension_parameters) (map_of ps ''headerExtensions'') \<and>
       found (arr_all normal_encoding) (map_of ps ''encodings'') \<and>
       found normal_rtcp (map_of ps ''rtcp''))"

definition normal_ice_parameters :: "json \<Rightarrow> bool" where
  "normal_ice_parameters =
     obj_with (\<lambda>ps.
       found is_nonempty_string (map_of ps ''usernameFragment'') \<and>
       found is_nonempty_string (map_of ps ''password'') \<and>
       found is_boolean (map_of ps ''iceLite''))"

end
