(* ===== verification/Ortc_Contract.thy ===== *)
theory Ortc_Contract
  imports Ortc_Validate
begin

text \<open>
  The contract the validators of \<open>src/ortc.cpp\<close> share, as the locale \<open>validator\<close>: nothing but a type
  error is thrown, the result is in normal form, a value in normal form is left unchanged. What
  follows for arrays of validated elements is proved once in the locale; each validator of the
  model is an interpretation.
\<close>

section \<open>The contract of a validator\<close>

locale validator =
  fixes validate :: "json \<Rightarrow> json result" and normal :: "json \<Rightarrow> bool"
  assumes type_error: "validate j = Inl e \<Longrightarrow> is_type_error e"
    and normalises: "wf_json j \<Longrightarrow> validate j = Inr j' \<Longrightarrow> normal j' \<and> wf_json j'"
    and keeps: "wf_json j \<Longrightarrow> normal j \<Longrightarrow> validate j = Inr j"
begin

lemma idem: "wf_json j \<Longrightarrow> validate j = Inr j' \<Longrightarrow> validate j' = Inr j'"
  using normalises keeps by blast

lemma fixpoint_iff: "wf_json j \<Longrightarrow> validate j = Inr j \<longleftrightarrow> normal j"
  using normalises keeps by blast

lemma list_type_error: "mapE validate xs = Inl e \<Longrightarrow> is_type_error e"
  by (auto dest!: mapE_InlD intro: type_error)

lemma list_normalises:
  assumes "\<forall>x\<in>set xs. wf_json x" and "mapE validate xs = Inr ys" and "y \<in> set ys"
  shows "normal y \<and> wf_json y"
  using mapE_set [OF assms(2,3)] assms(1) normalises by blast

lemma list_keeps: "\<forall>x\<in>set xs. wf_json x \<and> normal x \<Longrightarrow> mapE validate xs = Inr xs"
  using mapE_ok [of xs validate id] keeps by simp

lemma member_type_error:
  "validate_array_member key msg validate ps = Inl e \<Longrightarrow> is_type_error e"
  by (auto simp: validate_array_member_def bindE_Inl_iff
      split: option.splits json.splits intro: list_type_error)

lemma member_normalises:
  assumes "validate_array_member key msg validate ps = Inr ps'" and "wf_json (JObject ps)"
  shows "wf_json (JObject ps') \<and> found (arr_all normal) (map_of ps' key) \<and>
     (\<forall>k. k \<noteq> key \<longrightarrow> map_of ps' k = map_of ps k)"
proof (cases "map_of ps key")
  case None
  then show ?thesis
    using assms by (auto simp: validate_array_member_def)
next
  case (Some j)
  then obtain xs ys where xs: "map_of ps key = Some (JArray xs)"
    and ys: "mapE validate xs = Inr ys" and ps': "ps' = obj_set key (JArray ys) ps"
    using assms(1) by (auto simp: validate_array_member_def split: json.splits)
  have "\<forall>x\<in>set xs. wf_json x" using wf_map_of [OF assms(2) xs] by simp
  then have "\<forall>y\<in>set ys. normal y \<and> wf_json y" using list_normalises ys by blast
  then show ?thesis
    using assms(2) ps' by (auto simp: list_all_iff intro!: wf_obj_set)
qed

lemma member_keeps:
  assumes "wf_json (JObject ps)" and "found (arr_all normal) (map_of ps key)"
  shows "validate_array_member key msg validate ps = Inr ps"
proof -
  from assms(2) obtain xs where xs: "map_of ps key = Some (JArray xs)" "\<forall>x\<in>set xs. normal x"
    by (auto simp: found_conv arr_all_conv)
  then have "mapE validate xs = Inr xs"
    using wf_map_of [OF assms(1)] list_keeps by fastforce
  then show ?thesis using xs assms(1) by (simp add: validate_array_member_def obj_set_same)
qed

end

text \<open>A validator that changes nothing: its normal form is what it accepts.\<close>

lemma validator_readonly:
  assumes "\<And>j e. validate j = Inl e \<Longrightarrow> is_type_error e"
    and "\<And>j j'. wf_json j \<Longrightarrow> validate j = Inr j' \<Longrightarrow> j' = j"
  shows "validator validate (\<lambda>j. validate j = Inr j)"
  using assms by unfold_locales metis+

lemmas normal_shape_simps = obj_with_conv arr_all_conv found_conv

interpretation fb: validator validateRtcpFeedback normal_feedback
proof
  fix j j' e
  show "validateRtcpFeedback j = Inl e \<Longrightarrow> is_type_error e"
    by (auto simp: validateRtcpFeedback_def split: json.splits if_splits)
  show "wf_json j \<Longrightarrow> validateRtcpFeedback j = Inr j' \<Longrightarrow> normal_feedback j' \<and> wf_json j'"
    by (auto simp: validateRtcpFeedback_def normal_feedback_def
        split: json.splits if_splits intro!: wf_obj_set)
  show "wf_json j \<Longrightarrow> normal_feedback j \<Longrightarrow> validateRtcpFeedback j = Inr j"
    by (auto simp: validateRtcpFeedback_def normal_feedback_def obj_with_conv)
qed

interpretation hx: validator validateRtpHeaderExtension normal_header_extension
proof
  fix j j' e
  show "validateRtpHeaderExtension j = Inl e \<Longrightarrow> is_type_error e"
    by (auto simp: validateRtpHeaderExtension_def Let_def split: json.splits if_splits)
  show "wf_json j \<Longrightarrow> validateRtpHeaderExtension j = Inr j' \<Longrightarrow>
      normal_header_extension j' \<and> wf_json j'"
    by (auto simp: validateRtpHeaderExtension_def normal_header_extension_def Let_def absent_or_def
        split: json.splits if_splits option.splits intro!: wf_obj_set)
  show "wf_json j \<Longrightarrow> normal_header_extension j \<Longrightarrow> validateRtpHeaderExtension j = Inr j"
    by (auto simp: validateRtpHeaderExtension_def normal_header_extension_def obj_with_conv
        Let_def found_conv)
qed

interpretation hp: validator validateRtpHeaderExtensionParameters normal_header_extension_parameters
proof
  fix j j' e
  show "validateRtpHeaderExtensionParameters j = Inl e \<Longrightarrow> is_type_error e"
    by (auto simp: validateRtpHeaderExtensionParameters_def check_ext_parameter_def Let_def bindE_Inl_iff
        split: json.splits if_splits option.splits dest!: forE_InlD)
  show "wf_json j \<Longrightarrow> validateRtpHeaderExtensionParameters j = Inr j' \<Longrightarrow>
      normal_header_extension_parameters j' \<and> wf_json j'"
    by (auto simp: validateRtpHeaderExtensionParameters_def normal_header_extension_parameters_def
        check_ext_parameter_def forE_Inr_iff list_all_iff Let_def
        split: json.splits if_splits option.splits intro!: wf_obj_set)
  show "wf_json j \<Longrightarrow> normal_header_extension_parameters j \<Longrightarrow>
      validateRtpHeaderExtensionParameters j = Inr j"
    by (auto simp: validateRtpHeaderExtensionParameters_def normal_header_extension_parameters_def
        check_ext_parameter_def forE_Inr_iff list_all_iff obj_with_conv Let_def found_conv bindE_Inr_iff)
qed

interpretation enc: validator validateRtpEncodingParameters normal_encoding
proof
  fix j j' e
  show "validateRtpEncodingParameters j = Inl e \<Longrightarrow> is_type_error e"
    by (auto simp: validateRtpEncodingParameters_def Let_def split: json.splits if_splits)
  show "wf_json j \<Longrightarrow> validateRtpEncodingParameters j = Inr j' \<Longrightarrow> normal_encoding j' \<and> wf_json j'"
    by (auto simp: validateRtpEncodingParameters_def normal_encoding_def Let_def absent_or_def
        is_object_conv split: json.splits if_splits option.splits intro!: wf_obj_set)
  show "wf_json j \<Longrightarrow> normal_encoding j \<Longrightarrow> validateRtpEncodingParameters j = Inr j"
    by (auto simp: validateRtpEncodingParameters_def normal_encoding_def obj_with_conv
        Let_def absent_or_def split: option.splits)
qed

interpretation rtcp: validator validateRtcpParameters normal_rtcp
proof
  fix j j' e
  show "validateRtcpParameters j = Inl e \<Longrightarrow> is_type_error e"
    by (auto simp: validateRtcpParameters_def split: json.splits if_splits)
  show "wf_json j \<Longrightarrow> validateRtcpParameters j = Inr j' \<Longrightarrow> normal_rtcp j' \<and> wf_json j'"
    by (auto simp: validateRtcpParameters_def normal_rtcp_def
        split: json.splits if_splits intro!: wf_obj_set)
  show "wf_json j \<Longrightarrow> normal_rtcp j \<Longrightarrow> validateRtcpParameters j = Inr j"
    by (auto simp: validateRtcpParameters_def normal_rtcp_def obj_with_conv)
qed

interpretation icep: validator validateIceParameters normal_ice_parameters
proof
  fix j j' e
  show "validateIceParameters j = Inl e \<Longrightarrow> is_type_error e"
    by (auto simp: validateIceParameters_def split: json.splits if_splits)
  show "wf_json j \<Longrightarrow> validateIceParameters j = Inr j' \<Longrightarrow> normal_ice_parameters j' \<and> wf_json j'"
    by (auto simp: validateIceParameters_def normal_ice_parameters_def
        split: json.splits if_splits intro!: wf_obj_set)
  show "wf_json j \<Longrightarrow> normal_ice_parameters j \<Longrightarrow> validateIceParameters j = Inr j"
    by (auto simp: validateIceParameters_def normal_ice_parameters_def obj_with_conv)
qed

text \<open>The members the two codec validators share.\<close>

lemma set_channels_lookup:
  "k \<noteq> ''channels'' \<Longrightarrow> map_of (set_channels kind ps) k = map_of ps k"
  by (auto simp: set_channels_def)

lemma set_channels_wf: "wf_json (JObject ps) \<Longrightarrow> wf_json (JObject (set_channels kind ps))"
  by (auto simp: set_channels_def intro!: wf_obj_set wf_obj_del)

lemma set_channels_normal:
  "if kind = ''audio'' then found is_number_integer (map_of (set_channels kind ps) ''channels'')
   else map_of (set_channels kind ps) ''channels'' = None"
  by (auto simp: set_channels_def)

lemma set_channels_keeps:
  "normal_codec kind ps \<Longrightarrow> set_channels kind ps = ps"
  by (auto simp: set_channels_def normal_codec_def split: if_splits)

lemma check_codec_parameter_iff: "check_codec_parameter kv = Inr () \<longleftrightarrow> normal_parameter kv"
  by (auto simp: check_codec_parameter_def normal_parameter_def split: prod.splits)

lemma codec_parameters_type_error: "validate_codec_parameters ps = Inl e \<Longrightarrow> is_type_error e"
  by (auto simp: validate_codec_parameters_def check_codec_parameter_def bindE_Inl_iff
      split: option.splits json.splits if_splits dest!: forE_InlD)

lemma codec_parameters_normalises:
  assumes "wf_json (JObject ps)" "validate_codec_parameters ps = Inr ps'"
  shows "wf_json (JObject ps') \<and>
     found (obj_with (list_all normal_parameter)) (map_of ps' ''parameters'') \<and>
     (\<forall>k. k \<noteq> ''parameters'' \<longrightarrow> map_of ps' k = map_of ps k)"
  using assms
  by (auto simp: validate_codec_parameters_def forE_Inr_iff check_codec_parameter_iff list_all_iff
      split: option.splits json.splits intro!: wf_obj_set)

lemma codec_parameters_keeps:
  "found (obj_with (list_all normal_parameter)) (map_of ps ''parameters'') \<Longrightarrow>
   validate_codec_parameters ps = Inr ps"
  by (auto simp: validate_codec_parameters_def found_conv obj_with_conv list_all_iff bindE_Inr_iff
      forE_Inr_iff check_codec_parameter_iff)

lemma codec_feedback_alt:
  "found is_array (map_of ps ''rtcpFeedback'') \<Longrightarrow>
   validate_codec_feedback ps = validate_array_member ''rtcpFeedback'' m validateRtcpFeedback ps"
  by (auto simp: validate_codec_feedback_def validate_array_member_def found_conv is_array_conv)

lemma codec_feedback_type_error: "validate_codec_feedback ps = Inl e \<Longrightarrow> is_type_error e"
  by (auto simp: validate_codec_feedback_def bindE_Inl_iff
      split: option.splits json.splits intro: fb.list_type_error)

lemma codec_feedback_normalises:
  assumes "wf_json (JObject ps)" "validate_codec_feedback ps = Inr ps'"
  shows "wf_json (JObject ps') \<and> found (arr_all normal_feedback) (map_of ps' ''rtcpFeedback'') \<and>
     (\<forall>k. k \<noteq> ''rtcpFeedback'' \<longrightarrow> map_of ps' k = map_of ps k)"
proof (cases "found is_array (map_of ps ''rtcpFeedback'')")
  case True
  from codec_feedback_alt [OF this] show ?thesis
    using fb.member_normalises [OF _ assms(1)] assms(2) by metis
next
  case False
  then have "ps' = obj_set ''rtcpFeedback'' (JArray []) ps"
    using assms(2) by (auto simp: validate_codec_feedback_def split: option.splits json.splits)
  then show ?thesis using assms(1) by (auto intro!: wf_obj_set)
qed

lemma codec_feedback_keeps:
  assumes "wf_json (JObject ps)" "found (arr_all normal_feedback) (map_of ps ''rtcpFeedback'')"
  shows "validate_codec_feedback ps = Inr ps"
proof -
  have "found is_array (map_of ps ''rtcpFeedback'')"
    using assms(2) by (auto simp: found_conv arr_all_conv)
  from codec_feedback_alt [OF this] show ?thesis using fb.member_keeps [OF assms] by metis
qed

lemma codec_tail_normalises:
  assumes "wf_json (JObject ps)" "found is_number_integer (map_of ps ''clockRate'')"
    and "validate_codec_parameters (set_channels kind ps) = Inr ps2"
    and "validate_codec_feedback ps2 = Inr ps3"
  shows "wf_json (JObject ps3) \<and> normal_codec kind ps3 \<and>
     (\<forall>k. k \<notin> {''channels'', ''parameters'', ''rtcpFeedback''} \<longrightarrow> map_of ps3 k = map_of ps k)"
  using codec_parameters_normalises [OF set_channels_wf [OF assms(1)] assms(3)]
    codec_feedback_normalises [OF _ assms(4)] set_channels_normal [of kind ps]
    set_channels_lookup [of _ kind ps] assms(2)
  by (auto simp: normal_codec_def split: if_splits)

lemma codec_tail_keeps:
  "wf_json (JObject ps) \<Longrightarrow> normal_codec kind ps \<Longrightarrow>
   validate_codec_parameters (set_channels kind ps) = Inr ps \<and> validate_codec_feedback ps = Inr ps"
  by (simp add: set_channels_keeps codec_feedback_keeps codec_parameters_keeps normal_codec_def)

interpretation cc: validator validateRtpCodecCapability normal_codec_capability
proof
  fix j j' e
  show "validateRtpCodecCapability j = Inl e \<Longrightarrow> is_type_error e"
    by (auto simp: validateRtpCodecCapability_def Let_def bindE_Inl_iff
        split: json.splits if_splits option.splits
        intro: codec_parameters_type_error codec_feedback_type_error)
  show "normal_codec_capability j' \<and> wf_json j'"
    if wf: "wf_json j" and v: "validateRtpCodecCapability j = Inr j'"
  proof -
    from v obtain ps m kind ps2 ps3 where j: "j = JObject ps" and j': "j' = JObject ps3"
      and m: "map_of ps ''mimeType'' = Some (JString m)" "mime_kind m = Some kind"
      and pt: "absent_or is_number_integer (map_of ps ''preferredPayloadType'')"
      and cr: "found is_number_integer (map_of ps ''clockRate'')"
      and ps2: "validate_codec_parameters (set_channels kind (obj_set ''kind'' (JString kind) ps)) = Inr ps2"
      and ps3: "validate_codec_feedback ps2 = Inr ps3"
      by (auto simp: validateRtpCodecCapability_def Let_def split: json.splits if_splits option.splits)
    have "wf_json (JObject (obj_set ''kind'' (JString kind) ps))" using wf j by auto
    from codec_tail_normalises [OF this _ ps2 ps3] cr m pt j' show ?thesis
      by (auto simp: normal_codec_capability_def codec_kind_def)
  qed
  show "validateRtpCodecCapability j = Inr j" if wf: "wf_json j" and n: "normal_codec_capability j"
  proof -
    from n obtain ps m kind where j: "j = JObject ps"
      and m: "map_of ps ''mimeType'' = Some (JString m)" "mime_kind m = Some kind"
      and "map_of ps ''kind'' = Some (JString kind)"
      and pt: "absent_or is_number_integer (map_of ps ''preferredPayloadType'')"
      and c: "normal_codec kind ps"
      by (auto simp: normal_codec_capability_def obj_with_conv codec_kind_def
          split: option.splits json.splits)
    moreover have "found is_number_integer (map_of ps ''clockRate'')"
      using c by (simp add: normal_codec_def)
    ultimately show ?thesis
      using codec_tail_keeps [OF _ c] wf
      by (simp add: validateRtpCodecCapability_def obj_set_same)
  qed
qed

interpretation cp: validator validateRtpCodecParameters normal_codec_parameters
proof
  fix j j' e
  show "validateRtpCodecParameters j = Inl e \<Longrightarrow> is_type_error e"
    by (auto simp: validateRtpCodecParameters_def bindE_Inl_iff
        split: json.splits if_splits option.splits
        intro: codec_parameters_type_error codec_feedback_type_error)
  show "normal_codec_parameters j' \<and> wf_json j'"
    if wf: "wf_json j" and v: "validateRtpCodecParameters j = Inr j'"
  proof -
    from v obtain ps m kind ps2 ps3 where j: "j = JObject ps" and j': "j' = JObject ps3"
      and m: "map_of ps ''mimeType'' = Some (JString m)" "mime_kind m = Some kind"
      and pt: "found is_number_integer (map_of ps ''payloadType'')"
      and cr: "found is_number_integer (map_of ps ''clockRate'')"
      and ps2: "validate_codec_parameters (set_channels kind ps) = Inr ps2"
      and ps3: "validate_codec_feedback ps2 = Inr ps3"
      by (auto simp: validateRtpCodecParameters_def split: json.splits if_splits option.splits)
    from codec_tail_normalises [OF _ cr ps2 ps3] m pt j j' wf show ?thesis
      by (auto simp: normal_codec_parameters_def codec_kind_def)
  qed
  show "validateRtpCodecParameters j = Inr j" if wf: "wf_json j" and n: "normal_codec_parameters j"
  proof -
    from n obtain ps m kind where j: "j = JObject ps"
      and m: "map_of ps ''mimeType'' = Some (JString m)" "mime_kind m = Some kind"
      and pt: "found is_number_integer (map_of ps ''payloadType'')"
      and c: "normal_codec kind ps"
      by (auto simp: normal_codec_parameters_def obj_with_conv codec_kind_def
          split: option.splits json.splits)
    moreover have "found is_number_integer (map_of ps ''clockRate'')"
      using c by (simp add: normal_codec_def)
    ultimately show ?thesis
      using codec_tail_keeps [OF _ c] wf by (simp add: validateRtpCodecParameters_def)
  qed
qed

interpretation caps: validator validateRtpCapabilities normal_capabilities
proof
  fix j j' e
  show "validateRtpCapabilities j = Inl e \<Longrightarrow> is_type_error e"
    by (auto simp: validateRtpCapabilities_def bindE_Inl_iff
        split: json.splits intro: cc.member_type_error hx.member_type_error)
  show "wf_json j \<Longrightarrow> validateRtpCapabilities j = Inr j' \<Longrightarrow> normal_capabilities j' \<and> wf_json j'"
    by (auto simp: validateRtpCapabilities_def normal_capabilities_def
        split: json.splits dest!: cc.member_normalises hx.member_normalises)
  show "wf_json j \<Longrightarrow> normal_capabilities j \<Longrightarrow> validateRtpCapabilities j = Inr j"
    by (auto simp: validateRtpCapabilities_def normal_capabilities_def obj_with_conv
        cc.member_keeps hx.member_keeps)
qed

lemma rtcp_member_normalises:
  assumes "validateRtcpParameters (case map_of ps ''rtcp'' of None \<Rightarrow> JObject [] | Some r \<Rightarrow> r) = Inr r'"
    and "wf_json (JObject ps)"
  shows "normal_rtcp r' \<and> wf_json r' \<and> wf_json (JObject (obj_set ''rtcp'' r' ps))"
proof -
  have "wf_json (case map_of ps ''rtcp'' of None \<Rightarrow> JObject [] | Some r \<Rightarrow> r)"
    using wf_map_of [OF assms(2)] by (simp split: option.split)
  from rtcp.normalises [OF this assms(1)] show ?thesis using assms(2) by auto
qed

interpretation pars: validator validateRtpParameters normal_parameters
proof
  fix j j' e
  show "validateRtpParameters j = Inl e \<Longrightarrow> is_type_error e"
    by (auto simp: validateRtpParameters_def bindE_Inl_iff split: json.splits if_splits
        intro: cp.member_type_error hp.member_type_error enc.member_type_error rtcp.type_error)
  show "normal_parameters j' \<and> wf_json j'"
    if "wf_json j" and "validateRtpParameters j = Inr j'"
    using that
    by (auto simp: validateRtpParameters_def normal_parameters_def split: json.splits if_splits
        dest!: cp.member_normalises hp.member_normalises enc.member_normalises rtcp_member_normalises)
  show "validateRtpParameters j = Inr j" if wf: "wf_json j" and n: "normal_parameters j"
  proof -
    from n obtain ps r where j: "j = JObject ps" and mid: "absent_or is_nonempty_string (map_of ps ''mid'')"
      and c: "found (arr_all normal_codec_parameters) (map_of ps ''codecs'')"
      and h: "found (arr_all normal_header_extension_parameters) (map_of ps ''headerExtensions'')"
      and e: "found (arr_all normal_encoding) (map_of ps ''encodings'')"
      and r: "map_of ps ''rtcp'' = Some r" "normal_rtcp r"
      by (auto simp: normal_parameters_def obj_with_conv found_conv [of normal_rtcp])
    have "found is_array (map_of ps ''codecs'')" using c by (auto simp: found_conv arr_all_conv)
    moreover have "is_object r" using r by (auto simp: normal_rtcp_def obj_with_conv)
    moreover have "validateRtcpParameters r = Inr r" using rtcp.keeps wf_map_of r wf j by blast
    ultimately show ?thesis
      using wf j mid r cp.member_keeps [OF _ c] hp.member_keeps [OF _ h] enc.member_keeps [OF _ e]
      by (simp add: validateRtpParameters_def obj_set_same)
  qed
qed

section \<open>Validators that change nothing\<close>

interpretation nss: validator validateNumSctpStreams "\<lambda>j. validateNumSctpStreams j = Inr j"
  by (rule validator_readonly) (auto simp: validateNumSctpStreams_def split: json.splits if_splits)

interpretation sctp: validator validateSctpParameters "\<lambda>j. validateSctpParameters j = Inr j"
  by (rule validator_readonly) (auto simp: validateSctpParameters_def split: json.splits if_splits)

interpretation icec: validator validateIceCandidate "\<lambda>j. validateIceCandidate j = Inr j"
  by (rule validator_readonly) (auto simp: validateIceCandidate_def split: json.splits if_splits)

interpretation fp: validator validateDtlsFingerprint "\<lambda>j. validateDtlsFingerprint j = Inr j"
  by (rule validator_readonly) (auto simp: validateDtlsFingerprint_def split: json.splits if_splits)

interpretation opt: validator validateProducerCodecOptions "\<lambda>j. validateProducerCodecOptions j = Inr j"
  by (rule validator_readonly) (auto simp: validateProducerCodecOptions_def split: json.splits if_splits)

text \<open>Each of them returns its argument when it accepts it.\<close>

lemma validateIceCandidate_readonly: "validateIceCandidate j = Inr j' \<Longrightarrow> j' = j"
  by (auto simp: validateIceCandidate_def split: json.splits if_splits)

lemma validateDtlsFingerprint_readonly: "validateDtlsFingerprint j = Inr j' \<Longrightarrow> j' = j"
  by (auto simp: validateDtlsFingerprint_def split: json.splits if_splits)

lemma validateNumSctpStreams_readonly: "validateNumSctpStreams j = Inr j' \<Longrightarrow> j' = j"
  by (auto simp: validateNumSctpStreams_def split: json.splits if_splits)

lemma sctp_readonly: "validateSctpParameters j = Inr j' \<Longrightarrow> j' = j"
  by (auto simp: validateSctpParameters_def split: json.splits if_splits)

lemma opt_readonly: "validateProducerCodecOptions j = Inr j' \<Longrightarrow> j' = j"
  by (auto simp: validateProducerCodecOptions_def split: json.splits if_split_asm)

lemma icecs_readonly: "validateIceCandidates j = Inr j' \<Longrightarrow> j' = j"
  by (auto simp: validateIceCandidates_def split: json.splits
      dest!: mapE_readonly validateIceCandidate_readonly)

lemma dtls_readonly:
  assumes wf: "wf_json j" and v: "validateDtlsParameters j = Inr j'"
  shows "j' = j"
proof -
  from v obtain ps f fs fs' where j: "j = JObject ps"
    and f: "map_of ps ''fingerprints'' = Some (JArray (f # fs))"
    and m: "mapE validateDtlsFingerprint (f # fs) = Inr fs'"
    and j': "j' = JObject (obj_set ''fingerprints'' (JArray fs') ps)"
    by (auto simp: validateDtlsParameters_def simp del: mapE.simps
        split: json.splits if_splits option.splits list.splits)
  have "fs' = f # fs" using mapE_readonly [OF m] validateDtlsFingerprint_readonly by blast
  with wf j j' f show ?thesis by (simp add: obj_set_same)
qed

lemma sctpc_readonly: "wf_json j \<Longrightarrow> validateSctpCapabilities j = Inr j' \<Longrightarrow> j' = j"
  by (auto simp: validateSctpCapabilities_def obj_set_same
      split: json.splits option.splits dest!: validateNumSctpStreams_readonly)

interpretation icecs: validator validateIceCandidates "\<lambda>j. validateIceCandidates j = Inr j"
proof (rule validator_readonly)
  show "validateIceCandidates j = Inl e \<Longrightarrow> is_type_error e" for j e
    by (auto simp: validateIceCandidates_def bindE_Inl_iff split: json.splits
        intro: icec.list_type_error)
qed (rule icecs_readonly)

interpretation dtls: validator validateDtlsParameters "\<lambda>j. validateDtlsParameters j = Inr j"
proof (rule validator_readonly)
  show "validateDtlsParameters j = Inl e \<Longrightarrow> is_type_error e" for j e
    by (auto simp: validateDtlsParameters_def bindE_Inl_iff
        split: json.splits if_splits option.splits list.splits
        intro: fp.type_error fp.list_type_error)
qed (rule dtls_readonly)

interpretation sctpc: validator validateSctpCapabilities "\<lambda>j. validateSctpCapabilities j = Inr j"
proof (rule validator_readonly)
  show "validateSctpCapabilities j = Inl e \<Longrightarrow> is_type_error e" for j e
    by (auto simp: validateSctpCapabilities_def bindE_Inl_iff
        split: json.splits option.splits intro: nss.type_error)
qed (rule sctpc_readonly)

section \<open>Stream parameters\<close>

text \<open>The defaults set before the combination of the reliability options is judged.\<close>

definition sctp_defaults :: "jobj \<Rightarrow> jobj" where
  "sctp_defaults ps =
     obj_default ''maxRetransmits'' is_number_integer (JUint 0)
       (obj_default ''maxPacketLifeTime'' is_number_integer (JUint 0)
          (obj_default ''ordered'' is_boolean (JBool True) ps))"

lemma sctp_stream_type_error: "validateSctpStreamParameters j = Inl e \<Longrightarrow> is_type_error e"
  by (auto simp: validateSctpStreamParameters_def Let_def split: json.splits if_split_asm)

lemma sctp_stream_unfold:
  "validateSctpStreamParameters (JObject ps) =
     (let lossy = map_of ps ''maxPacketLifeTime'' \<noteq> None \<or> map_of ps ''maxRetransmits'' \<noteq> None in
      if \<not> found is_number_integer (map_of ps ''streamId'')
      then throw (TypeError ''missing params.streamId'')
      else if map_of ps ''maxPacketLifeTime'' \<noteq> None \<and> map_of ps ''maxRetransmits'' \<noteq> None
      then throw (TypeError ''cannot provide both maxPacketLifeTime and maxRetransmits'')
      else if map_of ps ''ordered'' = Some (JBool True) \<and> lossy
      then throw (TypeError ''cannot be ordered with maxPacketLifeTime or maxRetransmits'')
      else ok (JObject
        (obj_default ''protocol'' is_string (JString [])
          (obj_default ''label'' is_string (JString [])
            (if \<not> found is_boolean (map_of ps ''ordered'') \<and> lossy
             then obj_set ''ordered'' (JBool False) (sctp_defaults ps) else sctp_defaults ps)))))"
proof -
  have "map_of (sctp_defaults ps) ''ordered'' =
      (if found is_boolean (map_of ps ''ordered'') then map_of ps ''ordered'' else Some (JBool True))"
    by (simp add: sctp_defaults_def)
  then have eq: "found is_boolean (map_of ps ''ordered'') \<and>
        map_of (sctp_defaults ps) ''ordered'' = Some (JBool True) \<longleftrightarrow>
      map_of ps ''ordered'' = Some (JBool True)"
    by (auto simp: found_conv is_boolean_conv)
  show ?thesis
    by (simp only: validateSctpStreamParameters_def sctp_defaults_def [symmetric] Let_def json.case
        conj_assoc [symmetric] eq)
qed

lemma sctp_defaults_lookup:
  "found is_number_integer (map_of (sctp_defaults ps) ''maxPacketLifeTime'')"
  "found is_number_integer (map_of (sctp_defaults ps) ''maxRetransmits'')"
  "map_of (sctp_defaults ps) ''ordered'' =
     (if found is_boolean (map_of ps ''ordered'') then map_of ps ''ordered'' else Some (JBool True))"
  "map_of (sctp_defaults ps) ''streamId'' = map_of ps ''streamId''"
  by (simp_all add: sctp_defaults_def)

lemma sctp_stream_members:
  assumes "validateSctpStreamParameters (JObject ps) = Inr j"
  obtains qs where "j = JObject qs"
    "found is_number_integer (map_of qs ''maxPacketLifeTime'')"
    "found is_number_integer (map_of qs ''maxRetransmits'')"
    "found is_string (map_of qs ''label'')" "found is_string (map_of qs ''protocol'')"
    "found is_number_integer (map_of qs ''streamId'')"
    "map_of qs ''ordered'' = Some (JBool (map_of ps ''ordered'' \<noteq> Some (JBool False) \<and>
       map_of ps ''maxPacketLifeTime'' = None \<and> map_of ps ''maxRetransmits'' = None))"
proof -
  have b: "x = Some (JBool True) \<or> x = Some (JBool False)" if "found is_boolean x" for x
    using that by (auto simp: found_conv is_boolean_conv)
  let ?o = "if \<not> found is_boolean (map_of ps ''ordered'') \<and>
      (map_of ps ''maxPacketLifeTime'' \<noteq> None \<or> map_of ps ''maxRetransmits'' \<noteq> None)
    then obj_set ''ordered'' (JBool False) (sctp_defaults ps) else sctp_defaults ps"
  let ?qs = "obj_default ''protocol'' is_string (JString []) (obj_default ''label'' is_string (JString []) ?o)"
  have j: "j = JObject ?qs" and id: "found is_number_integer (map_of ps ''streamId'')"
    and ordered: "\<not> (map_of ps ''ordered'' = Some (JBool True) \<and>
      (map_of ps ''maxPacketLifeTime'' \<noteq> None \<or> map_of ps ''maxRetransmits'' \<noteq> None))"
    using assms unfolding sctp_stream_unfold Let_def by (simp_all only: split: if_split_asm) simp_all
  have "map_of ?qs ''ordered'' = Some (JBool (map_of ps ''ordered'' \<noteq> Some (JBool False) \<and>
       map_of ps ''maxPacketLifeTime'' = None \<and> map_of ps ''maxRetransmits'' = None))"
    using ordered b [of "map_of ps ''ordered''"]
    by (cases "found is_boolean (map_of ps ''ordered'')") (auto simp: sctp_defaults_lookup)
  then show ?thesis
    by (intro that [of ?qs]) (simp_all add: j id sctp_defaults_lookup)
qed

lemma sctp_stream_both:
  "found is_number_integer (map_of ps ''streamId'') \<Longrightarrow>
   map_of ps ''maxPacketLifeTime'' \<noteq> None \<Longrightarrow> map_of ps ''maxRetransmits'' \<noteq> None \<Longrightarrow>
   validateSctpStreamParameters (JObject ps) =
     throw (TypeError ''cannot provide both maxPacketLifeTime and maxRetransmits'')"
  unfolding sctp_stream_unfold Let_def by (simp only: simp_thms if_True if_False)

lemma sctp_stream_id:
  "validateSctpStreamParameters (JObject ps) = Inr j \<Longrightarrow>
   found is_number_integer (map_of ps ''streamId'')"
  unfolding sctp_stream_unfold Let_def by (simp only: split: if_split_asm) simp_all

section \<open>Properties\<close>

text \<open>C26. Validating RTP capabilities either throws a type error or leaves them in normal form: an
  object with an array of codecs, each with its kind, clock rate, parameters and feedback filled
  in, and an array of header extensions; validating the result again changes nothing.\<close>

theorem capabilities_normal_form:
  assumes "wf_json caps"
  shows "case validateRtpCapabilities caps of
           Inl e \<Rightarrow> is_type_error e
         | Inr caps' \<Rightarrow> normal_capabilities caps' \<and> validateRtpCapabilities caps' = ok caps'"
  by (cases "validateRtpCapabilities caps")
    (simp_all add: caps.type_error caps.idem [OF assms] caps.normalises [OF assms])

theorem capabilities_normal_form_witness:
  "\<exists>caps'. validateRtpCapabilities
       (JObject [(''codecs'', JArray [JObject [(''channels'', JString ''2''), (''clockRate'', JUint 48000),
                                          (''mimeType'', JString ''audio/opus'')]])]) = ok caps' \<and>
     normal_capabilities caps'"
proof -
  let ?c = "JObject [(''codecs'', JArray [JObject [(''channels'', JString ''2''), (''clockRate'', JUint 48000),
                                          (''mimeType'', JString ''audio/opus'')]])]"
  have wf: "wf_json ?c" by (simp add: wf_json.simps(2) sorted_obj_def)
  have "\<not> (case validateRtpCapabilities ?c of Inl e \<Rightarrow> True | Inr _ \<Rightarrow> False)" by code_simp
  with capabilities_normal_form [OF wf] show ?thesis by (auto split: sum.splits)
qed

text \<open>C27. The same for RTP parameters: codecs, header extensions, encodings and RTCP parameters are
  all present and typed after validation, which is then the identity.\<close>

theorem parameters_normal_form:
  assumes "wf_json params"
  shows "case validateRtpParameters params of
           Inl e \<Rightarrow> is_type_error e
         | Inr params' \<Rightarrow> normal_parameters params' \<and> validateRtpParameters params' = ok params'"
  by (cases "validateRtpParameters params")
    (simp_all add: pars.type_error pars.idem [OF assms] pars.normalises [OF assms])

theorem parameters_normal_form_witness:
  "\<exists>params'. validateRtpParameters
       (JObject [(''codecs'', JArray [JObject [(''clockRate'', JUint 90000),
                   (''mimeType'', JString ''video/VP8''), (''payloadType'', JUint 101)]]),
                 (''encodings'', JArray [JObject [(''ssrc'', JUint 7)]])]) = ok params' \<and>
     normal_parameters params'"
proof -
  let ?p = "JObject [(''codecs'', JArray [JObject [(''clockRate'', JUint 90000),
                   (''mimeType'', JString ''video/VP8''), (''payloadType'', JUint 101)]]),
                 (''encodings'', JArray [JObject [(''ssrc'', JUint 7)]])]"
  have wf: "wf_json ?p" by (simp add: wf_json.simps(2) sorted_obj_def)
  have "\<not> (case validateRtpParameters ?p of Inl e \<Rightarrow> True | Inr _ \<Rightarrow> False)" by code_simp
  with parameters_normal_form [OF wf] show ?thesis by (auto split: sum.splits)
qed

text \<open>C28. The validators of ICE candidates, DTLS parameters, SCTP capabilities, SCTP parameters and
  producer codec options modify nothing: they return the value they are given or throw a type
  error.\<close>

theorem readonly_validators:
  assumes "wf_json j" and "validate \<in> {validateIceCandidates, validateDtlsParameters,
    validateSctpCapabilities, validateSctpParameters, validateProducerCodecOptions}"
  shows "validate j = ok j \<or> (\<exists>e. validate j = throw e \<and> is_type_error e)"
proof -
  have step: "v j = ok j \<or> (\<exists>e. v j = throw e \<and> is_type_error e)"
    if "\<And>e. v j = Inl e \<Longrightarrow> is_type_error e" and "\<And>j'. v j = Inr j' \<Longrightarrow> j' = j"
    for v :: "json \<Rightarrow> json result"
    using that by (cases "v j") auto
  from assms(2) show ?thesis
  proof (elim insertE emptyE)
    show ?thesis if "validate = validateIceCandidates"
      unfolding that by (rule step [OF icecs.type_error icecs_readonly])
    show ?thesis if "validate = validateDtlsParameters"
      unfolding that by (rule step [OF dtls.type_error dtls_readonly [OF assms(1)]])
    show ?thesis if "validate = validateSctpCapabilities"
      unfolding that by (rule step [OF sctpc.type_error sctpc_readonly [OF assms(1)]])
    show ?thesis if "validate = validateSctpParameters"
      unfolding that by (rule step [OF sctp.type_error sctp_readonly])
    show ?thesis if "validate = validateProducerCodecOptions"
      unfolding that by (rule step [OF opt.type_error opt_readonly])
  qed
qed

theorem readonly_validators_witness:
  "validateDtlsParameters
     (JObject [(''fingerprints'', JArray [JObject [(''algorithm'', JString ''sha-256''),
                                                (''value'', JString ''AA:BB'')]]),
               (''role'', JString ''Auto'')]) =
   ok (JObject [(''fingerprints'', JArray [JObject [(''algorithm'', JString ''sha-256''),
                                                (''value'', JString ''AA:BB'')]]),
               (''role'', JString ''Auto'')])"
proof -
  let ?d = "JObject [(''fingerprints'', JArray [JObject [(''algorithm'', JString ''sha-256''),
                                                (''value'', JString ''AA:BB'')]]),
               (''role'', JString ''Auto'')]"
  have "wf_json ?d" by (simp add: wf_json.simps(2) sorted_obj_def)
  moreover have "case validateDtlsParameters ?d of Inl e \<Rightarrow> False | Inr _ \<Rightarrow> True" by code_simp
  ultimately show ?thesis
    using readonly_validators [of ?d validateDtlsParameters] by (auto split: sum.splits)
qed



end
