(* ===== verification/H264.thy ===== *)
theory H264
  imports Prelude
begin

text \<open>
  The H.264 profile-level-id routines the capability matching relies on
  (\<open>api/video_codecs/h264_profile_level_id.cc\<close> and \<open>media/base/sdp_video_format_utils.cc\<close> of the
  bundled WebRTC): parsing and printing a profile-level-id, comparing levels, and computing
  the one of an SDP answer. \<open>strtol\<close> with base 16 is written out; the parameters of a video
  format (a \<open>std::map\<close> from strings to strings) are a map.
\<close>

unbundle bit_operations_syntax

section \<open>Types\<close>

datatype H264Profile =
    kProfileConstrainedBaseline
  | kProfileBaseline
  | kProfileMain
  | kProfileConstrainedHigh
  | kProfileHigh

datatype H264Level =
    kLevel1_b | kLevel1 | kLevel1_1 | kLevel1_2 | kLevel1_3
  | kLevel2 | kLevel2_1 | kLevel2_2
  | kLevel3 | kLevel3_1 | kLevel3_2
  | kLevel4 | kLevel4_1 | kLevel4_2
  | kLevel5 | kLevel5_1 | kLevel5_2

record H264ProfileLevelId =
  pl_profile :: H264Profile
  pl_level :: H264Level

type_synonym params = "string \<rightharpoonup> string"

text \<open>The underlying values of the level enumeration.\<close>

fun level_value :: "H264Level \<Rightarrow> int" where
  "level_value kLevel1_b = 0"
| "level_value kLevel1 = 10"
| "level_value kLevel1_1 = 11"
| "level_value kLevel1_2 = 12"
| "level_value kLevel1_3 = 13"
| "level_value kLevel2 = 20"
| "level_value kLevel2_1 = 21"
| "level_value kLevel2_2 = 22"
| "level_value kLevel3 = 30"
| "level_value kLevel3_1 = 31"
| "level_value kLevel3_2 = 32"
| "level_value kLevel4 = 40"
| "level_value kLevel4_1 = 41"
| "level_value kLevel4_2 = 42"
| "level_value kLevel5 = 50"
| "level_value kLevel5_1 = 51"
| "level_value kLevel5_2 = 52"

definition all_levels :: "H264Level list" where
  "all_levels =
     [kLevel1_b, kLevel1, kLevel1_1, kLevel1_2, kLevel1_3, kLevel2, kLevel2_1, kLevel2_2,
      kLevel3, kLevel3_1, kLevel3_2, kLevel4, kLevel4_1, kLevel4_2, kLevel5, kLevel5_1,
      kLevel5_2]"

text \<open>\<open>static_cast<H264Level>\<close> of a byte, where it is one of the enumerators.\<close>

definition level_of_byte :: "8 word \<Rightarrow> H264Level option" where
  "level_of_byte b = find (\<lambda>l. word_of_int (level_value l) = b) all_levels"

section \<open>C string conversions\<close>

definition c_str :: "string \<Rightarrow> string" where
  "c_str s = takeWhile (\<lambda>c. c \<noteq> CHR 0x00) s"

definition is_space :: "char \<Rightarrow> bool" where
  "is_space c = (c = CHR '' '' \<or> 9 \<le> (of_char c :: int) \<and> (of_char c :: int) \<le> 13)"

definition hex_digit :: "char \<Rightarrow> int option" where
  "hex_digit c =
     (let n = of_char c :: int in
      if 48 \<le> n \<and> n \<le> 57 then Some (n - 48)
      else if 65 \<le> n \<and> n \<le> 70 then Some (n - 55)
      else if 97 \<le> n \<and> n \<le> 102 then Some (n - 87)
      else None)"

fun hex_run :: "int \<Rightarrow> string \<Rightarrow> int" where
  "hex_run acc [] = acc"
| "hex_run acc (c # cs) =
     (case hex_digit c of None \<Rightarrow> acc | Some d \<Rightarrow> hex_run (16 * acc + d) cs)"

text \<open>An optional \<open>0x\<close>, which counts only in front of a hexadecimal digit.\<close>

fun skip_0x :: "string \<Rightarrow> string" where
  "skip_0x (z # x # d # cs) =
     (if z = CHR ''0'' \<and> (x = CHR ''x'' \<or> x = CHR ''X'') \<and> hex_digit d \<noteq> None
      then d # cs else z # x # d # cs)"
| "skip_0x cs = cs"

text \<open>
  \<open>strtol(str, nullptr, 16)\<close>: white space, a sign, the prefix, then the longest run of digits.
  The callers pass six characters, so the result is far from the bounds of \<open>long\<close>.
\<close>

definition strtol16 :: "string \<Rightarrow> int" where
  "strtol16 s =
     (case dropWhile is_space s of
        [] \<Rightarrow> 0
      | c # cs \<Rightarrow>
          if c = CHR ''-'' then - hex_run 0 (skip_0x cs)
          else if c = CHR ''+'' then hex_run 0 (skip_0x cs)
          else hex_run 0 (skip_0x (c # cs)))"

section \<open>Profile patterns\<close>

definition kConstraintSet3Flag :: "8 word" where
  "kConstraintSet3Flag = 0x10"

definition ByteMaskString :: "char \<Rightarrow> string \<Rightarrow> 8 word" where
  "ByteMaskString c str =
     (let bit = (\<lambda>i. if str ! i = c then 1 else 0) in
      push_bit 7 (bit 0) OR push_bit 6 (bit 1) OR push_bit 5 (bit 2) OR push_bit 4 (bit 3) OR
      push_bit 3 (bit 4) OR push_bit 2 (bit 5) OR push_bit 1 (bit 6) OR push_bit 0 (bit 7))"

record BitPattern =
  bp_mask :: "8 word"
  bp_masked_value :: "8 word"

definition BitPattern_new :: "string \<Rightarrow> BitPattern" where
  "BitPattern_new str =
     \<lparr> bp_mask = NOT (ByteMaskString (CHR ''x'') str),
       bp_masked_value = ByteMaskString (CHR ''1'') str \<rparr>"

definition IsMatch :: "BitPattern \<Rightarrow> 8 word \<Rightarrow> bool" where
  "IsMatch p value = (bp_masked_value p = value AND bp_mask p)"

record ProfilePattern =
  profile_idc :: "8 word"
  profile_iop :: BitPattern
  pp_profile :: H264Profile

definition ProfilePattern_new :: "8 word \<Rightarrow> string \<Rightarrow> H264Profile \<Rightarrow> ProfilePattern" where
  "ProfilePattern_new idc iop p =
     \<lparr> profile_idc = idc, profile_iop = BitPattern_new iop, pp_profile = p \<rparr>"

definition kProfilePatterns :: "ProfilePattern list" where
  "kProfilePatterns =
     [ProfilePattern_new 0x42 ''x1xx0000'' kProfileConstrainedBaseline,
      ProfilePattern_new 0x4D ''1xxx0000'' kProfileConstrainedBaseline,
      ProfilePattern_new 0x58 ''11xx0000'' kProfileConstrainedBaseline,
      ProfilePattern_new 0x42 ''x0xx0000'' kProfileBaseline,
      ProfilePattern_new 0x58 ''10xx0000'' kProfileBaseline,
      ProfilePattern_new 0x4D ''0x0x0000'' kProfileMain,
      ProfilePattern_new 0x64 ''00000000'' kProfileHigh,
      ProfilePattern_new 0x64 ''00001100'' kProfileConstrainedHigh]"

section \<open>Parsing and printing\<close>

definition parse_level :: "8 word \<Rightarrow> 8 word \<Rightarrow> H264Level option" where
  "parse_level level_idc iop =
     (case level_of_byte level_idc of
        None \<Rightarrow> None
      | Some kLevel1_b \<Rightarrow> None
      | Some kLevel1_1 \<Rightarrow> Some (if iop AND kConstraintSet3Flag \<noteq> 0 then kLevel1_b else kLevel1_1)
      | Some l \<Rightarrow> Some l)"

definition ParseH264ProfileLevelId :: "string \<Rightarrow> H264ProfileLevelId option" where
  "ParseH264ProfileLevelId str =
     (if length str \<noteq> 6 then None
      else
        let profile_level_id_numeric = word_of_int (strtol16 str) :: 32 word in
        if profile_level_id_numeric = 0 then None
        else
          let level_idc = ucast (profile_level_id_numeric AND 0xFF) :: 8 word;
              iop = ucast (drop_bit 8 profile_level_id_numeric AND 0xFF) :: 8 word;
              idc = ucast (drop_bit 16 profile_level_id_numeric AND 0xFF) :: 8 word
          in case parse_level level_idc iop of
               None \<Rightarrow> None
             | Some l \<Rightarrow>
                 (case find (\<lambda>p. idc = profile_idc p \<and> IsMatch (profile_iop p) iop)
                         kProfilePatterns of
                    None \<Rightarrow> None
                  | Some p \<Rightarrow> Some \<lparr> pl_profile = pp_profile p, pl_level = l \<rparr>))"

definition ParseSdpForH264ProfileLevelId :: "params \<Rightarrow> H264ProfileLevelId option" where
  "ParseSdpForH264ProfileLevelId ps =
     (case ps ''profile-level-id'' of
        None \<Rightarrow> Some \<lparr> pl_profile = kProfileConstrainedBaseline, pl_level = kLevel3_1 \<rparr>
      | Some v \<Rightarrow> ParseH264ProfileLevelId (c_str v))"

text \<open>\<open>%02x\<close> of a value below 256.\<close>

definition hex_char :: "int \<Rightarrow> char" where
  "hex_char d = ''0123456789abcdef'' ! nat d"

definition show_02x :: "int \<Rightarrow> string" where
  "show_02x n = [hex_char (n div 16), hex_char (n mod 16)]"

definition H264ProfileLevelIdToString :: "H264ProfileLevelId \<Rightarrow> string option" where
  "H264ProfileLevelIdToString pl =
     (if pl_level pl = kLevel1_b then
        (case pl_profile pl of
           kProfileConstrainedBaseline \<Rightarrow> Some ''42f00b''
         | kProfileBaseline \<Rightarrow> Some ''42100b''
         | kProfileMain \<Rightarrow> Some ''4d100b''
         | _ \<Rightarrow> None)
      else
        let idc_iop =
          (case pl_profile pl of
             kProfileConstrainedBaseline \<Rightarrow> ''42e0''
           | kProfileBaseline \<Rightarrow> ''4200''
           | kProfileMain \<Rightarrow> ''4d00''
           | kProfileConstrainedHigh \<Rightarrow> ''640c''
           | kProfileHigh \<Rightarrow> ''6400'')
        in Some (idc_iop @ show_02x (level_value (pl_level pl))))"

definition H264IsSameProfile :: "params \<Rightarrow> params \<Rightarrow> bool" where
  "H264IsSameProfile params1 params2 =
     (case (ParseSdpForH264ProfileLevelId params1, ParseSdpForH264ProfileLevelId params2) of
        (Some a, Some b) \<Rightarrow> pl_profile a = pl_profile b
      | _ \<Rightarrow> False)"

section \<open>The answer's profile-level-id\<close>

definition IsH264LevelAsymmetryAllowed :: "params \<Rightarrow> bool" where
  "IsH264LevelAsymmetryAllowed ps =
     (case ps ''level-asymmetry-allowed'' of None \<Rightarrow> False | Some v \<Rightarrow> c_str v = ''1'')"

definition H264LevelIsLess :: "H264Level \<Rightarrow> H264Level \<Rightarrow> bool" where
  "H264LevelIsLess a b =
     (if a = kLevel1_b then b \<noteq> kLevel1 \<and> b \<noteq> kLevel1_b
      else if b = kLevel1_b then a = kLevel1
      else level_value a < level_value b)"

definition H264LevelMin :: "H264Level \<Rightarrow> H264Level \<Rightarrow> H264Level" where
  "H264LevelMin a b = (if H264LevelIsLess a b then a else b)"

text \<open>
  The checks of the function are debug assertions: in a release build the optionals are
  dereferenced whatever they hold, so a missing value is \<^const>\<open>Undefined\<close>.
\<close>

definition H264GenerateProfileLevelIdForAnswer ::
  "params \<Rightarrow> params \<Rightarrow> params \<Rightarrow> params result" where
  "H264GenerateProfileLevelIdForAnswer local remote answer =
     (if local ''profile-level-id'' = None \<and> remote ''profile-level-id'' = None then ok answer
      else
        case (ParseSdpForH264ProfileLevelId local, ParseSdpForH264ProfileLevelId remote) of
          (Some l, Some r) \<Rightarrow>
            let level_asymmetry_allowed =
                  IsH264LevelAsymmetryAllowed local \<and> IsH264LevelAsymmetryAllowed remote;
                min_level = H264LevelMin (pl_level l) (pl_level r);
                answer_level = (if level_asymmetry_allowed then pl_level l else min_level)
            in (case H264ProfileLevelIdToString \<lparr> pl_profile = pl_profile l, pl_level = answer_level \<rparr> of
                  Some s \<Rightarrow> ok (answer(''profile-level-id'' \<mapsto> s))
                | None \<Rightarrow> throw Undefined)
        | _ \<Rightarrow> throw Undefined)"

section \<open>Levels are linearly ordered\<close>

text \<open>Table A-1 of the H.264 standard lists level 1b right after level 1.\<close>

definition level_rank :: "H264Level \<Rightarrow> int" where
  "level_rank l = (if l = kLevel1_b then 21 else 2 * level_value l)"

lemma level_rank_inject: "level_rank a = level_rank b \<longleftrightarrow> a = b"
  by (cases a; cases b) (simp_all add: level_rank_def)

lemma H264LevelIsLess_rank: "H264LevelIsLess a b \<longleftrightarrow> level_rank a < level_rank b"
  by (cases a; cases b) (simp_all add: level_rank_def H264LevelIsLess_def)

instantiation H264Level :: linorder
begin

definition less_H264Level :: "H264Level \<Rightarrow> H264Level \<Rightarrow> bool" where
  "less_H264Level = H264LevelIsLess"

definition less_eq_H264Level :: "H264Level \<Rightarrow> H264Level \<Rightarrow> bool" where
  "less_eq_H264Level a b = (\<not> H264LevelIsLess b a)"

instance
  by standard
    (auto simp: less_H264Level_def less_eq_H264Level_def H264LevelIsLess_rank level_rank_inject
      not_less dest: antisym)

end

lemma H264LevelMin_min: "H264LevelMin a b = min a b"
  by (auto simp: H264LevelMin_def min_def less_H264Level_def [symmetric])

text \<open>The answer level the function aims at: the local one under asymmetry, else the minimum.\<close>

definition answer_level :: "params \<Rightarrow> params \<Rightarrow> H264Level \<Rightarrow> H264Level \<Rightarrow> H264Level" where
  "answer_level local remote l r =
     (if IsH264LevelAsymmetryAllowed local \<and> IsH264LevelAsymmetryAllowed remote then l else min l r)"

section \<open>Parsing and printing are inverse\<close>

lemma kProfilePatterns_eval [code]:
  "kProfilePatterns =
     [\<lparr> profile_idc = 0x42, profile_iop = \<lparr> bp_mask = 0x4F, bp_masked_value = 0x40 \<rparr>,
        pp_profile = kProfileConstrainedBaseline \<rparr>,
      \<lparr> profile_idc = 0x4D, profile_iop = \<lparr> bp_mask = 0x8F, bp_masked_value = 0x80 \<rparr>,
        pp_profile = kProfileConstrainedBaseline \<rparr>,
      \<lparr> profile_idc = 0x58, profile_iop = \<lparr> bp_mask = 0xCF, bp_masked_value = 0xC0 \<rparr>,
        pp_profile = kProfileConstrainedBaseline \<rparr>,
      \<lparr> profile_idc = 0x42, profile_iop = \<lparr> bp_mask = 0x4F, bp_masked_value = 0 \<rparr>,
        pp_profile = kProfileBaseline \<rparr>,
      \<lparr> profile_idc = 0x58, profile_iop = \<lparr> bp_mask = 0xCF, bp_masked_value = 0x80 \<rparr>,
        pp_profile = kProfileBaseline \<rparr>,
      \<lparr> profile_idc = 0x4D, profile_iop = \<lparr> bp_mask = 0xAF, bp_masked_value = 0 \<rparr>,
        pp_profile = kProfileMain \<rparr>,
      \<lparr> profile_idc = 0x64, profile_iop = \<lparr> bp_mask = 0xFF, bp_masked_value = 0 \<rparr>,
        pp_profile = kProfileHigh \<rparr>,
      \<lparr> profile_idc = 0x64, profile_iop = \<lparr> bp_mask = 0xFF, bp_masked_value = 0x0C \<rparr>,
        pp_profile = kProfileConstrainedHigh \<rparr>]"
  by code_simp

lemma high_patterns_without_set3:
  assumes "p \<in> set kProfilePatterns" and "IsMatch (profile_iop p) iop"
    and "pp_profile p = kProfileHigh \<or> pp_profile p = kProfileConstrainedHigh"
  shows "iop AND kConstraintSet3Flag = 0"
proof -
  have full: "v AND 0xFF = v" for v :: "8 word"
  proof -
    have "(0xFF :: 8 word) = -1" by simp
    then show ?thesis by (metis and.right_neutral)
  qed
  from assms have "iop = 0 \<or> iop = 0x0C"
    by (auto simp: kProfilePatterns_eval IsMatch_def full)
  then show ?thesis by (auto simp: kConstraintSet3Flag_def)
qed
lemma parse_level_1b: "parse_level b iop = Some kLevel1_b \<Longrightarrow> iop AND kConstraintSet3Flag \<noteq> 0"
  by (auto simp: parse_level_def split: option.splits H264Level.splits if_splits)

lemma toString_None_iff:
  "H264ProfileLevelIdToString pl = None \<longleftrightarrow>
     pl_level pl = kLevel1_b \<and> pl_profile pl \<in> {kProfileHigh, kProfileConstrainedHigh}"
  by (auto simp: H264ProfileLevelIdToString_def Let_def split: H264Profile.splits)

lemma parse_printable:
  assumes "ParseH264ProfileLevelId s = Some pl"
  obtains t where "H264ProfileLevelIdToString pl = Some t"
proof -
  from assms obtain b iop p idc where
    l: "parse_level b iop = Some (pl_level pl)" and
    p: "find (\<lambda>p. idc = profile_idc p \<and> IsMatch (profile_iop p) iop) kProfilePatterns = Some p"
    and pp: "pp_profile p = pl_profile pl"
    by (auto simp: ParseH264ProfileLevelId_def Let_def split: if_splits option.splits)
  from p have "p \<in> set kProfilePatterns" "IsMatch (profile_iop p) iop"
    by (auto simp: find_Some_iff)
  then have "H264ProfileLevelIdToString pl \<noteq> None"
    using l pp parse_level_1b [of b iop] high_patterns_without_set3 [of p iop]
    by (auto simp: toString_None_iff)
  then show ?thesis using that by auto
qed

lemma parse_toString:
  "H264ProfileLevelIdToString pl = Some s \<Longrightarrow> ParseH264ProfileLevelId s = Some pl"
proof -
  have "\<forall>p\<in>{kProfileConstrainedBaseline, kProfileBaseline, kProfileMain, kProfileConstrainedHigh,
          kProfileHigh}. \<forall>l\<in>set all_levels.
          (case H264ProfileLevelIdToString \<lparr> pl_profile = p, pl_level = l \<rparr> of
             None \<Rightarrow> True | Some s \<Rightarrow> ParseH264ProfileLevelId s = Some \<lparr> pl_profile = p, pl_level = l \<rparr>)"
    by code_simp
  moreover have "pl_profile pl \<in> {kProfileConstrainedBaseline, kProfileBaseline, kProfileMain,
      kProfileConstrainedHigh, kProfileHigh}" by (cases "pl_profile pl") simp_all
  moreover have "pl_level pl \<in> set all_levels"
    by (cases "pl_level pl") (simp_all add: all_levels_def)
  ultimately show "H264ProfileLevelIdToString pl = Some s \<Longrightarrow> ParseH264ProfileLevelId s = Some pl"
    by (cases pl) (force split: option.splits)
qed

section \<open>The answer\<close>

lemma ParseSdp_printable:
  assumes "ParseSdpForH264ProfileLevelId ps = Some pl"
  obtains t where "H264ProfileLevelIdToString pl = Some t"
proof (cases "ps ''profile-level-id''")
  case None
  then show ?thesis
    using assms that
    by (auto simp: ParseSdpForH264ProfileLevelId_def H264ProfileLevelIdToString_def Let_def)
next
  case (Some v)
  then show ?thesis
    using assms that parse_printable by (auto simp: ParseSdpForH264ProfileLevelId_def)
qed

lemma generate_same_profile:
  assumes same: "H264IsSameProfile local remote"
    and some: "local ''profile-level-id'' \<noteq> None \<or> remote ''profile-level-id'' \<noteq> None"
  obtains l r s where
    "ParseSdpForH264ProfileLevelId local = Some l"
    "ParseSdpForH264ProfileLevelId remote = Some r"
    "pl_profile l = pl_profile r"
    "H264GenerateProfileLevelIdForAnswer local remote answer
       = ok (answer(''profile-level-id'' \<mapsto> s))"
    "ParseH264ProfileLevelId s =
       Some \<lparr> pl_profile = pl_profile l,
              pl_level = answer_level local remote (pl_level l) (pl_level r) \<rparr>"
proof -
  from same obtain l r where
    l: "ParseSdpForH264ProfileLevelId local = Some l" and
    r: "ParseSdpForH264ProfileLevelId remote = Some r" and
    eq: "pl_profile l = pl_profile r"
    by (auto simp: H264IsSameProfile_def split: option.splits)
  let ?a = "\<lparr> pl_profile = pl_profile l,
              pl_level = answer_level local remote (pl_level l) (pl_level r) \<rparr>"
  have "H264ProfileLevelIdToString l \<noteq> None" "H264ProfileLevelIdToString r \<noteq> None"
    using ParseSdp_printable [OF l] ParseSdp_printable [OF r] by fastforce+
  then have "H264ProfileLevelIdToString ?a \<noteq> None"
    using eq unfolding toString_None_iff answer_level_def min_def by auto
  then obtain s where s: "H264ProfileLevelIdToString ?a = Some s" by auto
  have "H264GenerateProfileLevelIdForAnswer local remote answer
      = ok (answer(''profile-level-id'' \<mapsto> s))"
    using some l r s
    by (auto simp: H264GenerateProfileLevelIdForAnswer_def answer_level_def H264LevelMin_min Let_def)
  then show ?thesis using that l r eq parse_toString [OF s] by blast
qed

section \<open>Properties\<close>

text \<open>C35. Printing and parsing a profile-level-id are inverse: what is printed parses back to the
  same profile and level, and everything that parses can be printed (level 1b with a high profile,
  which has no printed form, is never parsed).\<close>

theorem profile_level_id_roundtrip:
  "(H264ProfileLevelIdToString pl = Some s \<longrightarrow> ParseH264ProfileLevelId s = Some pl) \<and>
   (ParseH264ProfileLevelId t = Some pl \<longrightarrow>
      (\<exists>s. H264ProfileLevelIdToString pl = Some s \<and> ParseH264ProfileLevelId s = Some pl))"
  using parse_toString parse_printable by metis

theorem profile_level_id_roundtrip_witness:
  "ParseH264ProfileLevelId ''42f00b'' =
     Some \<lparr> pl_profile = kProfileConstrainedBaseline, pl_level = kLevel1_b \<rparr> \<and>
   (\<exists>s. H264ProfileLevelIdToString \<lparr> pl_profile = kProfileMain, pl_level = kLevel1_b \<rparr> = Some s \<and>
        ParseH264ProfileLevelId s = Some \<lparr> pl_profile = kProfileMain, pl_level = kLevel1_b \<rparr>)"
proof -
  have "H264ProfileLevelIdToString \<lparr> pl_profile = kProfileConstrainedBaseline, pl_level = kLevel1_b \<rparr>
      = Some ''42f00b''" by code_simp
  moreover have "ParseH264ProfileLevelId '' 4D10B'' = None" by code_simp
  moreover have "ParseH264ProfileLevelId ''4D500B'' =
      Some \<lparr> pl_profile = kProfileMain, pl_level = kLevel1_b \<rparr>" by code_simp
  ultimately show ?thesis
    using profile_level_id_roundtrip [of _ "''42f00b''" "''4D500B''"] by blast
qed

text \<open>C36. \<open>H264LevelIsLess\<close> is a strict linear order in which level 1b lies exactly between 1 and
  1.1, and \<open>H264LevelMin\<close> is its minimum.\<close>

theorem level_order_linear:
  "\<not> H264LevelIsLess a a \<and>
   (H264LevelIsLess a b \<and> H264LevelIsLess b c \<longrightarrow> H264LevelIsLess a c) \<and>
   (a = b \<or> H264LevelIsLess a b \<noteq> H264LevelIsLess b a) \<and>
   (H264LevelIsLess kLevel1 b \<and> H264LevelIsLess b kLevel1_1 \<longleftrightarrow> b = kLevel1_b) \<and>
   (H264LevelMin a b = a \<or> H264LevelMin a b = b) \<and>
   \<not> H264LevelIsLess a (H264LevelMin a b) \<and> \<not> H264LevelIsLess b (H264LevelMin a b)"
proof -
  have "H264LevelIsLess kLevel1 b \<and> H264LevelIsLess b kLevel1_1 \<longleftrightarrow> b = kLevel1_b"
    by (cases b) (simp_all add: H264LevelIsLess_def)
  moreover have "a = b \<or> H264LevelIsLess a b \<noteq> H264LevelIsLess b a"
    unfolding H264LevelIsLess_rank using level_rank_inject [of a b] by linarith
  ultimately show ?thesis
    unfolding H264LevelMin_def by (auto simp: H264LevelIsLess_rank)
qed

theorem level_order_linear_witness:
  "H264LevelIsLess kLevel1_b kLevel3_1 \<and> H264LevelMin kLevel5 kLevel1_b \<noteq> kLevel5"
proof -
  have "H264LevelIsLess kLevel1_b kLevel1_1 \<and> H264LevelIsLess kLevel1_1 kLevel3_1" by code_simp
  moreover have "H264LevelIsLess kLevel1_b kLevel5" by code_simp
  ultimately show ?thesis
    using level_order_linear [of kLevel1_b kLevel1_1 kLevel3_1]
      level_order_linear [of kLevel5 kLevel1_b] by metis
qed

text \<open>C37. For two formats of the same profile the answer is computed without dereferencing an empty
  optional: it keeps the profile, its level is the local one when both sides allow level asymmetry
  and the smaller of the two otherwise, and nothing else of the answer changes.\<close>

theorem answer_profile_level_id:
  assumes "H264IsSameProfile local remote"
  shows "\<exists>answer'. H264GenerateProfileLevelIdForAnswer local remote answer = ok answer' \<and>
     (\<forall>k. k \<noteq> ''profile-level-id'' \<longrightarrow> answer' k = answer k) \<and>
     (if local ''profile-level-id'' = None \<and> remote ''profile-level-id'' = None
      then answer' = answer
      else \<exists>l r s. ParseSdpForH264ProfileLevelId local = Some l \<and>
             ParseSdpForH264ProfileLevelId remote = Some r \<and>
             answer' ''profile-level-id'' = Some s \<and>
             ParseH264ProfileLevelId s =
               Some \<lparr> pl_profile = pl_profile l,
                      pl_level =
                        (if IsH264LevelAsymmetryAllowed local \<and> IsH264LevelAsymmetryAllowed remote
                         then pl_level l else H264LevelMin (pl_level l) (pl_level r)) \<rparr>)"
proof (cases "local ''profile-level-id'' = None \<and> remote ''profile-level-id'' = None")
  case True
  then show ?thesis by (simp add: H264GenerateProfileLevelIdForAnswer_def)
next
  case False
  with assms show ?thesis
    by (auto simp: answer_level_def H264LevelMin_min elim!: generate_same_profile [of _ _ answer])
qed

theorem answer_profile_level_id_witness:
  "\<exists>answer' s.
     H264GenerateProfileLevelIdForAnswer [''profile-level-id'' \<mapsto> ''42e01f'']
       [''profile-level-id'' \<mapsto> ''42e015''] Map.empty = ok answer' \<and>
     answer' ''profile-level-id'' = Some s \<and>
     ParseH264ProfileLevelId s =
       Some \<lparr> pl_profile = kProfileConstrainedBaseline, pl_level = kLevel2_1 \<rparr>"
proof -
  have p: "ParseH264ProfileLevelId (c_str ''42e01f'') =
      Some \<lparr> pl_profile = kProfileConstrainedBaseline, pl_level = kLevel3_1 \<rparr>"
    "ParseH264ProfileLevelId (c_str ''42e015'') =
      Some \<lparr> pl_profile = kProfileConstrainedBaseline, pl_level = kLevel2_1 \<rparr>"
    "H264LevelMin kLevel3_1 kLevel2_1 = kLevel2_1"
    by code_simp+
  have "H264IsSameProfile [''profile-level-id'' \<mapsto> ''42e01f''] [''profile-level-id'' \<mapsto> ''42e015'']"
    by (simp add: H264IsSameProfile_def ParseSdpForH264ProfileLevelId_def p)
  from answer_profile_level_id [OF this, of Map.empty] show ?thesis
    by (fastforce simp: ParseSdpForH264ProfileLevelId_def IsH264LevelAsymmetryAllowed_def p)
qed

end
