(* ===== verification/Ortc_Caps.thy ===== *)
theory Ortc_Caps
  imports Ortc_Validate H264
begin

text \<open>
  The capability negotiation of \<open>src/ortc.cpp\<close> (lines 982 to 1812): matching codecs and header
  extensions, the extended RTP capabilities, and the RTP capabilities and parameters derived
  from them. Functions that take a non-const reference return the updated value next to their
  result: the non-const \<open>operator[]\<close> they use inserts null for a missing member, and matching
  H.264 codecs rewrites their profile-level-id.
\<close>

section \<open>Codec parameters\<close>

text \<open>
  Dereferencing the iterator \<open>find\<close> returns without comparing it with \<open>end()\<close>: the library throws
  \<open>invalid_iterator\<close> 214 for a scalar and leaves the rest undefined.
\<close>

fun jfind_deref :: "json \<Rightarrow> string \<Rightarrow> json result" where
  "jfind_deref (JObject ps) k = (case map_of ps k of Some v \<Rightarrow> ok v | None \<Rightarrow> throw Undefined)"
| "jfind_deref (JArray xs) k = throw Undefined"
| "jfind_deref _ k = throw (JsonError 214)"

definition isRtxCodec :: "json \<Rightarrow> bool result" where
  "isRtxCodec codec =
     bindE (jat codec ''mimeType'') (\<lambda>m.
     bindE (get_string m) (\<lambda>mimeType.
     ok (icase_match [''audio/rtx'', ''video/rtx''] mimeType)))"

definition getH264PacketizationMode :: "json \<Rightarrow> 8 word result" where
  "getH264PacketizationMode codec =
     bindE (jat codec ''parameters'') (\<lambda>parameters.
     case jfind parameters ''packetization-mode'' of
       None \<Rightarrow> ok 0
     | Some v \<Rightarrow> if \<not> is_number_integer v then ok 0 else get_uint v)"

definition getH264LevelAssimetryAllowed :: "json \<Rightarrow> 8 word result" where
  "getH264LevelAssimetryAllowed codec =
     bindE (jat codec ''parameters'') (\<lambda>parameters.
     case jfind parameters ''level-asymmetry-allowed'' of
       None \<Rightarrow> ok 0
     | Some v \<Rightarrow> if \<not> is_number_integer v then ok 0 else get_uint v)"

definition getH264ProfileLevelId :: "json \<Rightarrow> string result" where
  "getH264ProfileLevelId codec =
     bindE (jat codec ''parameters'') (\<lambda>parameters.
     case jfind parameters ''profile-level-id'' of
       None \<Rightarrow> ok []
     | Some v \<Rightarrow> if is_number v then bindE (get_int32 v) (\<lambda>i. ok (show_int i)) else get_string v)"

definition getVP9ProfileId :: "json \<Rightarrow> string result" where
  "getVP9ProfileId codec =
     bindE (jat codec ''parameters'') (\<lambda>parameters.
     case jfind parameters ''profile-id'' of
       None \<Rightarrow> ok ''0''
     | Some v \<Rightarrow> if is_number v then bindE (get_int32 v) (\<lambda>i. ok (show_int i)) else get_string v)"

definition show_u8 :: "8 word \<Rightarrow> string" where
  "show_u8 w = show_nat (unat w)"

definition h264_parameters :: "json \<Rightarrow> params result" where
  "h264_parameters codec =
     bindE (getH264LevelAssimetryAllowed codec) (\<lambda>l.
     bindE (getH264PacketizationMode codec) (\<lambda>p.
     bindE (getH264ProfileLevelId codec) (\<lambda>i.
     ok [''level-asymmetry-allowed'' \<mapsto> show_u8 l, ''packetization-mode'' \<mapsto> show_u8 p,
         ''profile-level-id'' \<mapsto> i])))"

text \<open>\<open>codec["parameters"]["profile-level-id"] = v\<close>, or its removal when there is no value.\<close>

definition set_profile_level_id :: "json \<Rightarrow> string option \<Rightarrow> json result" where
  "set_profile_level_id codec v =
     bindE (jref codec ''parameters'') (\<lambda>(parameters, codec').
     bindE (case v of
              Some s \<Rightarrow> jput parameters ''profile-level-id'' (JString s)
            | None \<Rightarrow> jerase parameters ''profile-level-id'') (\<lambda>parameters'.
     jput codec' ''parameters'' parameters'))"

text \<open>The H.264 branch of \<open>matchCodecs\<close> in strict mode.\<close>

definition match_h264 :: "json \<Rightarrow> json \<Rightarrow> bool \<Rightarrow> (bool \<times> json \<times> json) result" where
  "match_h264 aCodec bCodec modify =
     bindE (getH264PacketizationMode aCodec) (\<lambda>aPacketizationMode.
     bindE (getH264PacketizationMode bCodec) (\<lambda>bPacketizationMode.
     if aPacketizationMode \<noteq> bPacketizationMode then ok (False, aCodec, bCodec)
     else
       bindE (h264_parameters aCodec) (\<lambda>aParameters.
       bindE (h264_parameters bCodec) (\<lambda>bParameters.
       if \<not> H264IsSameProfile aParameters bParameters then ok (False, aCodec, bCodec)
       else
         bindE (H264GenerateProfileLevelIdForAnswer aParameters bParameters Map.empty)
           (\<lambda>newParameters.
         if \<not> modify then ok (True, aCodec, bCodec)
         else
           bindE (set_profile_level_id aCodec (newParameters ''profile-level-id'')) (\<lambda>aCodec'.
           bindE (set_profile_level_id bCodec (newParameters ''profile-level-id'')) (\<lambda>bCodec'.
           ok (True, aCodec', bCodec'))))))))"

definition matchCodecs :: "json \<Rightarrow> json \<Rightarrow> bool \<Rightarrow> bool \<Rightarrow> (bool \<times> json \<times> json) result" where
  "matchCodecs aCodec bCodec strict modify =
     bindE (jfind_deref aCodec ''mimeType'') (\<lambda>am.
     bindE (jfind_deref bCodec ''mimeType'') (\<lambda>bm.
     bindE (get_string am) (\<lambda>aMime.
     bindE (get_string bm) (\<lambda>bMime.
     let aMimeType = to_lower aMime; bMimeType = to_lower bMime in
     if aMimeType \<noteq> bMimeType then ok (False, aCodec, bCodec)
     else
       bindE (jref aCodec ''clockRate'') (\<lambda>(aClockRate, aCodec).
       bindE (jref bCodec ''clockRate'') (\<lambda>(bClockRate, bCodec).
       if \<not> json_eq aClockRate bClockRate then ok (False, aCodec, bCodec)
       else if jcontains aCodec ''channels'' \<noteq> jcontains bCodec ''channels''
       then ok (False, aCodec, bCodec)
       else
         let channels_differ =
           (case (jfind aCodec ''channels'', jfind bCodec ''channels'') of
              (Some x, Some y) \<Rightarrow> \<not> json_eq x y
            | _ \<Rightarrow> False) in
         if channels_differ then ok (False, aCodec, bCodec)
         else if aMimeType = ''video/h264'' then
           if strict then match_h264 aCodec bCodec modify else ok (True, aCodec, bCodec)
         else if aMimeType = ''video/vp9'' then
           if strict then
             bindE (getVP9ProfileId aCodec) (\<lambda>aProfileId.
             bindE (getVP9ProfileId bCodec) (\<lambda>bProfileId.
             ok (aProfileId = bProfileId, aCodec, bCodec)))
           else ok (True, aCodec, bCodec)
         else ok (True, aCodec, bCodec)))))))"

definition matchHeaderExtensions :: "json \<Rightarrow> json \<Rightarrow> bool result" where
  "matchHeaderExtensions aExt bExt =
     bindE (jat aExt ''kind'') (\<lambda>ak.
     bindE (jat bExt ''kind'') (\<lambda>bk.
     if \<not> json_eq ak bk then ok False
     else
       bindE (jat aExt ''uri'') (\<lambda>au.
       bindE (jat bExt ''uri'') (\<lambda>bu. ok (json_eq au bu)))))"

definition same_feedback :: "json \<Rightarrow> json \<Rightarrow> bool result" where
  "same_feedback aFb bFb =
     bindE (jat aFb ''type'') (\<lambda>aType.
     bindE (jat bFb ''type'') (\<lambda>bType.
     if \<not> json_eq aType bType then ok False
     else
       bindE (jat aFb ''parameter'') (\<lambda>ap.
       bindE (jat bFb ''parameter'') (\<lambda>bp. ok (json_eq ap bp)))))"

definition reduceRtcpFeedback :: "json \<Rightarrow> json \<Rightarrow> json result" where
  "reduceRtcpFeedback codecA codecB =
     bindE (jfind_deref codecA ''rtcpFeedback'') (\<lambda>as.
     bindE (jfind_deref codecB ''rtcpFeedback'') (\<lambda>bs.
     bindE (mapE (\<lambda>aFb. find_ifE (same_feedback aFb) (jelems bs)) (jelems as)) (\<lambda>ms.
     ok (JArray (List.map_filter id ms)))))"

section \<open>Extended capabilities\<close>

text \<open>
  \<open>std::find_if\<close> over the local codecs with \<open>matchCodecs(local, remote, true, true)\<close>: the updated
  local codecs, the updated remote codec, and the index of the first match.
\<close>

fun find_local_codec :: "json list \<Rightarrow> json \<Rightarrow> (json list \<times> json \<times> nat option) result" where
  "find_local_codec [] remoteCodec = ok ([], remoteCodec, None)"
| "find_local_codec (localCodec # ls) remoteCodec =
     bindE (matchCodecs localCodec remoteCodec True True) (\<lambda>(b, localCodec', remoteCodec').
     if b then ok (localCodec' # ls, remoteCodec', Some 0)
     else
       bindE (find_local_codec ls remoteCodec') (\<lambda>(ls', remoteCodec'', i).
       ok (localCodec' # ls', remoteCodec'', map_option Suc i)))"

definition extended_codec :: "json \<Rightarrow> json \<Rightarrow> (json \<times> json \<times> json) result" where
  "extended_codec l r =
     bindE (jref l ''mimeType'') (\<lambda>(mimeType, l).
     bindE (jref l ''kind'') (\<lambda>(kind, l).
     bindE (jref l ''clockRate'') (\<lambda>(clockRate, l).
     bindE (jref l ''preferredPayloadType'') (\<lambda>(localPayloadType, l).
     bindE (jref r ''preferredPayloadType'') (\<lambda>(remotePayloadType, r).
     bindE (jref l ''parameters'') (\<lambda>(localParameters, l).
     bindE (jref r ''parameters'') (\<lambda>(remoteParameters, r).
     bindE (reduceRtcpFeedback l r) (\<lambda>rtcpFeedback.
     let extendedCodec = mk_obj
          [(''mimeType'', mimeType), (''kind'', kind), (''clockRate'', clockRate),
           (''localPayloadType'', localPayloadType), (''localRtxPayloadType'', JNull),
           (''remotePayloadType'', remotePayloadType), (''remoteRtxPayloadType'', JNull),
           (''localParameters'', localParameters), (''remoteParameters'', remoteParameters),
           (''rtcpFeedback'', rtcpFeedback)]
     in ok (JObject (case jfind l ''channels'' of
                       Some c \<Rightarrow> obj_set ''channels'' c extendedCodec
                     | None \<Rightarrow> extendedCodec), l, r)))))))))"

text \<open>The loop over the remote codecs: extended codecs, local codecs and remote codecs after it.\<close>

fun match_media_codecs ::
  "json list \<Rightarrow> json list \<Rightarrow> (json list \<times> json list \<times> json list) result" where
  "match_media_codecs ls [] = ok ([], ls, [])"
| "match_media_codecs ls (remoteCodec # rs) =
     bindE (isRtxCodec remoteCodec) (\<lambda>rtx.
     if rtx then
       bindE (match_media_codecs ls rs) (\<lambda>(es, ls', rs'). ok (es, ls', remoteCodec # rs'))
     else
       bindE (find_local_codec ls remoteCodec) (\<lambda>(ls', r', i).
       case i of
         None \<Rightarrow>
           bindE (match_media_codecs ls' rs) (\<lambda>(es, ls'', rs'). ok (es, ls'', r' # rs'))
       | Some n \<Rightarrow>
           bindE (extended_codec (ls' ! n) r') (\<lambda>(e, l'', r'').
           bindE (match_media_codecs (ls'[n := l'']) rs) (\<lambda>(es, ls''', rs').
           ok (e # es, ls''', r'' # rs')))))"

definition is_rtx_for :: "json \<Rightarrow> json \<Rightarrow> bool result" where
  "is_rtx_for payloadType codec =
     bindE (isRtxCodec codec) (\<lambda>rtx.
     if \<not> rtx then ok False
     else
       bindE (jat codec ''parameters'') (\<lambda>parameters.
       bindE (jat parameters ''apt'') (\<lambda>apt. ok (json_eq apt payloadType))))"

definition match_rtx_codec :: "json list \<Rightarrow> json list \<Rightarrow> json \<Rightarrow> json result" where
  "match_rtx_codec ls rs extendedCodec =
     bindE (jat extendedCodec ''localPayloadType'') (\<lambda>lpt.
     bindE (find_ifE (is_rtx_for lpt) ls) (\<lambda>l.
     case l of
       None \<Rightarrow> ok extendedCodec
     | Some localRtx \<Rightarrow>
         bindE (jat extendedCodec ''remotePayloadType'') (\<lambda>rpt.
         bindE (find_ifE (is_rtx_for rpt) rs) (\<lambda>r.
         case r of
           None \<Rightarrow> ok extendedCodec
         | Some remoteRtx \<Rightarrow>
             bindE (jref localRtx ''preferredPayloadType'') (\<lambda>(lrtx, _).
             bindE (jput extendedCodec ''localRtxPayloadType'' lrtx) (\<lambda>e1.
             bindE (jref remoteRtx ''preferredPayloadType'') (\<lambda>(rrtx, _).
             jput e1 ''remoteRtxPayloadType'' rrtx)))))))"

text \<open>The direction of an extension as seen from the other side; any other string gives none.\<close>

definition flip_direction :: "string \<Rightarrow> string option" where
  "flip_direction d =
     (if d = ''sendrecv'' then Some ''sendrecv''
      else if d = ''recvonly'' then Some ''sendonly''
      else if d = ''sendonly'' then Some ''recvonly''
      else if d = ''inactive'' then Some ''inactive''
      else None)"

definition extended_header_extension :: "json \<Rightarrow> json \<Rightarrow> json result" where
  "extended_header_extension localExt remoteExt =
     bindE (jref remoteExt ''kind'') (\<lambda>(kind, remoteExt).
     bindE (jref remoteExt ''uri'') (\<lambda>(uri, remoteExt).
     bindE (jref localExt ''preferredId'') (\<lambda>(sendId, localExt).
     bindE (jref remoteExt ''preferredId'') (\<lambda>(recvId, remoteExt).
     bindE (jref localExt ''preferredEncrypt'') (\<lambda>(encrypt, _).
     bindE (jref remoteExt ''direction'') (\<lambda>(d, _).
     bindE (get_string d) (\<lambda>remoteExtDirection.
     let extendedExt = mk_obj
          [(''kind'', kind), (''uri'', uri), (''sendId'', sendId), (''recvId'', recvId),
           (''encrypt'', encrypt)]
     in ok (JObject (case flip_direction remoteExtDirection of
                       Some d \<Rightarrow> obj_set ''direction'' (JString d) extendedExt
                     | None \<Rightarrow> extendedExt)))))))))"

fun match_header_extensions :: "json list \<Rightarrow> json list \<Rightarrow> json list result" where
  "match_header_extensions ls [] = ok []"
| "match_header_extensions ls (remoteExt # rs) =
     bindE (find_ifE (\<lambda>localExt. matchHeaderExtensions localExt remoteExt) ls) (\<lambda>l.
     case l of
       None \<Rightarrow> match_header_extensions ls rs
     | Some localExt \<Rightarrow>
         bindE (extended_header_extension localExt remoteExt) (\<lambda>e.
         bindE (match_header_extensions ls rs) (\<lambda>es. ok (e # es))))"

text \<open>
  The references \<open>caps["codecs"]\<close> and \<open>caps["headerExtensions"]\<close> of validated capabilities are
  arrays; the matching runs over their elements. The updates of the two arguments are not
  returned: the only caller, \<open>Device::Load\<close>, does not read them again.
\<close>

definition getExtendedRtpCapabilities :: "json \<Rightarrow> json \<Rightarrow> json result" where
  "getExtendedRtpCapabilities localCaps remoteCaps =
     bindE (validateRtpCapabilities localCaps) (\<lambda>localCaps.
     bindE (validateRtpCapabilities remoteCaps) (\<lambda>remoteCaps.
     bindE (jat localCaps ''codecs'') (\<lambda>lc.
     bindE (jat remoteCaps ''codecs'') (\<lambda>rc.
     bindE (match_media_codecs (jelems lc) (jelems rc)) (\<lambda>(es, ls, rs).
     bindE (mapE (match_rtx_codec ls rs) es) (\<lambda>extendedCodecs.
     bindE (jat localCaps ''headerExtensions'') (\<lambda>lh.
     bindE (jat remoteCaps ''headerExtensions'') (\<lambda>rh.
     bindE (match_header_extensions (jelems lh) (jelems rh)) (\<lambda>extendedExts.
     ok (JObject (mk_obj [(''codecs'', JArray extendedCodecs),
                          (''headerExtensions'', JArray extendedExts)])))))))))))"

section \<open>Derived capabilities and parameters\<close>

text \<open>\<open>codec["channels"] = extendedCodec["channels"]\<close> when the extended codec has it.\<close>

definition copy_channels :: "json \<Rightarrow> jobj \<Rightarrow> jobj" where
  "copy_channels extendedCodec codec =
     (case jfind extendedCodec ''channels'' of
        Some c \<Rightarrow> obj_set ''channels'' c codec
      | None \<Rightarrow> codec)"

definition apt_parameters :: "json \<Rightarrow> json result" where
  "apt_parameters payloadType =
     bindE (get_uint payloadType :: 8 word result) (\<lambda>pt.
     ok (JObject (mk_obj [(''apt'', JUint (ucast pt))])))"

definition recv_codecs :: "json \<Rightarrow> json list result" where
  "recv_codecs extendedCodec =
     bindE (jat extendedCodec ''mimeType'') (\<lambda>mimeType.
     bindE (jat extendedCodec ''kind'') (\<lambda>kind.
     bindE (jat extendedCodec ''remotePayloadType'') (\<lambda>remotePayloadType.
     bindE (jat extendedCodec ''clockRate'') (\<lambda>clockRate.
     bindE (jat extendedCodec ''localParameters'') (\<lambda>localParameters.
     bindE (jat extendedCodec ''rtcpFeedback'') (\<lambda>rtcpFeedback.
     let codec = JObject (copy_channels extendedCodec (mk_obj
          [(''mimeType'', mimeType), (''kind'', kind), (''preferredPayloadType'', remotePayloadType),
           (''clockRate'', clockRate), (''parameters'', localParameters),
           (''rtcpFeedback'', rtcpFeedback)])) in
     bindE (jat extendedCodec ''remoteRtxPayloadType'') (\<lambda>remoteRtxPayloadType.
     if remoteRtxPayloadType = JNull then ok [codec]
     else
       bindE (get_string kind) (\<lambda>k.
       bindE (apt_parameters remotePayloadType) (\<lambda>parameters.
       ok [codec, JObject (mk_obj
            [(''mimeType'', JString (k @ ''/rtx'')), (''kind'', kind),
             (''preferredPayloadType'', remoteRtxPayloadType), (''clockRate'', clockRate),
             (''parameters'', parameters), (''rtcpFeedback'', JArray [])])])))))))))"

definition recv_extension :: "json \<Rightarrow> json list result" where
  "recv_extension e =
     bindE (jat e ''direction'') (\<lambda>d.
     bindE (get_string d) (\<lambda>direction.
     if direction \<noteq> ''sendrecv'' \<and> direction \<noteq> ''recvonly'' then ok []
     else
       bindE (jat e ''kind'') (\<lambda>kind.
       bindE (jat e ''uri'') (\<lambda>uri.
       bindE (jat e ''recvId'') (\<lambda>recvId.
       bindE (jat e ''encrypt'') (\<lambda>encrypt.
       ok [JObject (mk_obj
            [(''kind'', kind), (''uri'', uri), (''preferredId'', recvId),
             (''preferredEncrypt'', encrypt), (''direction'', d)])]))))))"

definition getRecvRtpCapabilities :: "json \<Rightarrow> json result" where
  "getRecvRtpCapabilities extendedRtpCapabilities =
     bindE (jat extendedRtpCapabilities ''codecs'') (\<lambda>cs.
     bindE (mapE recv_codecs (jelems cs)) (\<lambda>codecs.
     bindE (jat extendedRtpCapabilities ''headerExtensions'') (\<lambda>hs.
     bindE (mapE recv_extension (jelems hs)) (\<lambda>exts.
     ok (JObject (mk_obj [(''codecs'', JArray (concat codecs)),
                          (''headerExtensions'', JArray (concat exts))]))))))"

text \<open>
  The two generators of sending parameters differ in the member the codec's parameters are taken
  from, and the second one then reduces the RTCP feedback.
\<close>

definition kind_is :: "string \<Rightarrow> json \<Rightarrow> bool result" where
  "kind_is kind j = bindE (jat j ''kind'') (\<lambda>k. bindE (get_string k) (\<lambda>s. ok (kind = s)))"

definition sending_codecs :: "string \<Rightarrow> json \<Rightarrow> json list result" where
  "sending_codecs parametersKey extendedCodec =
     bindE (jat extendedCodec ''mimeType'') (\<lambda>mimeType.
     bindE (jat extendedCodec ''localPayloadType'') (\<lambda>localPayloadType.
     bindE (jat extendedCodec ''clockRate'') (\<lambda>clockRate.
     bindE (jat extendedCodec parametersKey) (\<lambda>parameters.
     bindE (jat extendedCodec ''rtcpFeedback'') (\<lambda>rtcpFeedback.
     let codec = JObject (copy_channels extendedCodec (mk_obj
          [(''mimeType'', mimeType), (''payloadType'', localPayloadType), (''clockRate'', clockRate),
           (''parameters'', parameters), (''rtcpFeedback'', rtcpFeedback)])) in
     bindE (jat extendedCodec ''localRtxPayloadType'') (\<lambda>localRtxPayloadType.
     if localRtxPayloadType = JNull then ok [codec]
     else
       bindE (jat extendedCodec ''kind'') (\<lambda>kind.
       bindE (get_string kind) (\<lambda>k.
       bindE (apt_parameters localPayloadType) (\<lambda>rtxParameters.
       ok [codec, JObject (mk_obj
            [(''mimeType'', JString (k @ ''/rtx'')), (''payloadType'', localRtxPayloadType),
             (''clockRate'', clockRate), (''parameters'', rtxParameters),
             (''rtcpFeedback'', JArray [])])])))))))))"

definition sending_extension :: "string \<Rightarrow> json \<Rightarrow> json list result" where
  "sending_extension kind e =
     bindE (kind_is kind e) (\<lambda>same.
     if \<not> same then ok []
     else
       bindE (jat e ''direction'') (\<lambda>d.
       bindE (get_string d) (\<lambda>direction.
       if direction \<noteq> ''sendrecv'' \<and> direction \<noteq> ''sendonly'' then ok []
       else
         bindE (jat e ''uri'') (\<lambda>uri.
         bindE (jat e ''sendId'') (\<lambda>sendId.
         bindE (jat e ''encrypt'') (\<lambda>encrypt.
         ok [JObject (mk_obj
              [(''uri'', uri), (''id'', sendId), (''encrypt'', encrypt),
               (''parameters'', JObject [])])]))))))"

definition sending_parameters :: "string \<Rightarrow> string \<Rightarrow> json \<Rightarrow> (json list \<times> json list) result" where
  "sending_parameters parametersKey kind extendedRtpCapabilities =
     bindE (jat extendedRtpCapabilities ''codecs'') (\<lambda>cs.
     bindE (find_ifE (kind_is kind) (jelems cs)) (\<lambda>c.
     bindE (case c of None \<Rightarrow> ok [] | Some extendedCodec \<Rightarrow> sending_codecs parametersKey extendedCodec)
       (\<lambda>codecs.
     bindE (jat extendedRtpCapabilities ''headerExtensions'') (\<lambda>hs.
     bindE (mapE (sending_extension kind) (jelems hs)) (\<lambda>exts.
     ok (codecs, concat exts))))))"

definition rtp_parameters :: "json list \<Rightarrow> json list \<Rightarrow> json" where
  "rtp_parameters codecs exts =
     JObject (mk_obj [(''mid'', JNull), (''codecs'', JArray codecs), (''headerExtensions'', JArray exts),
                      (''encodings'', JArray []), (''rtcp'', JObject [])])"

definition getSendingRtpParameters :: "string \<Rightarrow> json \<Rightarrow> json result" where
  "getSendingRtpParameters kind extendedRtpCapabilities =
     bindE (sending_parameters ''localParameters'' kind extendedRtpCapabilities) (\<lambda>(codecs, exts).
     ok (rtp_parameters codecs exts))"

definition has_uri :: "string \<Rightarrow> json \<Rightarrow> bool result" where
  "has_uri uri ext =
     bindE (jref ext ''uri'') (\<lambda>(u, _). bindE (get_string u) (\<lambda>s. ok (s = uri)))"

definition uri_transport_cc :: string where
  "uri_transport_cc = ''http://www.ietf.org/id/draft-holmer-rmcat-transport-wide-cc-extensions-01''"

definition uri_abs_send_time :: string where
  "uri_abs_send_time = ''http://www.webrtc.org/experiments/rtp-hdrext/abs-send-time''"

text \<open>The loop that erases the feedback entries whose type is in a list.\<close>

fun erase_feedback :: "string list \<Rightarrow> json list \<Rightarrow> json list result" where
  "erase_feedback types [] = ok []"
| "erase_feedback types (fb # fbs) =
     bindE (jref fb ''type'') (\<lambda>(t, fb').
     bindE (get_string t) (\<lambda>type.
     bindE (erase_feedback types fbs) (\<lambda>fbs'.
     ok (if type \<in> set types then fbs' else fb' # fbs'))))"

fun erase_feedback_members :: "string list \<Rightarrow> jobj \<Rightarrow> jobj result" where
  "erase_feedback_members types [] = ok []"
| "erase_feedback_members types ((k, fb) # fbs) =
     bindE (jref fb ''type'') (\<lambda>(t, fb').
     bindE (get_string t) (\<lambda>type.
     bindE (erase_feedback_members types fbs) (\<lambda>fbs'.
     ok (if type \<in> set types then fbs' else (k, fb') # fbs'))))"

definition reduce_codec_feedback :: "string list \<Rightarrow> json \<Rightarrow> json result" where
  "reduce_codec_feedback types codec =
     bindE (jref codec ''rtcpFeedback'') (\<lambda>(fbs, codec').
     case fbs of
       JArray xs \<Rightarrow> bindE (erase_feedback types xs) (\<lambda>xs'. jput codec' ''rtcpFeedback'' (JArray xs'))
     | JObject ps \<Rightarrow>
         bindE (erase_feedback_members types ps) (\<lambda>ps'. jput codec' ''rtcpFeedback'' (JObject ps'))
     | JNull \<Rightarrow> ok codec'
     | _ \<Rightarrow> throw (JsonError 305))"

definition getSendingRemoteRtpParameters :: "string \<Rightarrow> json \<Rightarrow> json result" where
  "getSendingRemoteRtpParameters kind extendedRtpCapabilities =
     bindE (sending_parameters ''remoteParameters'' kind extendedRtpCapabilities) (\<lambda>(codecs, exts).
     bindE (find_ifE (has_uri uri_transport_cc) exts) (\<lambda>tcc.
     bindE (if tcc \<noteq> None then ok [''goog-remb'']
            else
              bindE (find_ifE (has_uri uri_abs_send_time) exts) (\<lambda>ast.
              ok (if ast \<noteq> None then [''transport-cc''] else [''transport-cc'', ''goog-remb''])))
       (\<lambda>types.
     bindE (mapE (reduce_codec_feedback types) codecs) (\<lambda>codecs'.
     ok (rtp_parameters codecs' exts)))))"

definition ProbatorSsrc :: "32 word" where
  "ProbatorSsrc = 1234"

definition ProbatorMid :: string where
  "ProbatorMid = ''probator''"

fun probator_extensions :: "json list \<Rightarrow> json list result" where
  "probator_extensions [] = ok []"
| "probator_extensions (ext # exts) =
     bindE (jref ext ''uri'') (\<lambda>(uri, ext').
     bindE (probator_extensions exts) (\<lambda>exts'.
     ok (if json_eq uri (JString uri_abs_send_time) \<or> json_eq uri (JString uri_transport_cc)
         then ext' # exts' else exts')))"

definition generateProbatorRtpParameters :: "json \<Rightarrow> json result" where
  "generateProbatorRtpParameters videoRtpParameters =
     bindE (validateRtpParameters videoRtpParameters) (\<lambda>validated.
     bindE (jref validated ''codecs'') (\<lambda>(codecs, validated).
     bindE (jref_idx codecs 0) (\<lambda>(codec, _).
     bindE (jref validated ''headerExtensions'') (\<lambda>(exts, _).
     bindE (probator_extensions (jelems exts)) (\<lambda>exts'.
     ok (JObject (mk_obj
       [(''mid'', JString ProbatorMid), (''codecs'', JArray [codec]),
        (''headerExtensions'', JArray exts'),
        (''encodings'', JArray [JObject [(''ssrc'', JUint (ucast ProbatorSsrc))]]),
        (''rtcp'', JObject [(''cname'', JString ''probator'')])])))))))"

definition canSend :: "string \<Rightarrow> json \<Rightarrow> bool result" where
  "canSend kind extendedRtpCapabilities =
     bindE (jat extendedRtpCapabilities ''codecs'') (\<lambda>codecs.
     bindE (find_ifE (kind_is kind) (jelems codecs)) (\<lambda>c. ok (c \<noteq> None)))"

definition canReceive :: "json \<Rightarrow> json \<Rightarrow> (bool \<times> json) result" where
  "canReceive rtpParameters extendedRtpCapabilities =
     bindE (validateRtpParameters rtpParameters) (\<lambda>rtpParameters.
     bindE (jref rtpParameters ''codecs'') (\<lambda>(cs, rtpParameters).
     if jempty cs then ok (False, rtpParameters)
     else
       bindE (jref_idx cs 0) (\<lambda>(firstMediaCodec, _).
       bindE (jat extendedRtpCapabilities ''codecs'') (\<lambda>codecs.
       bindE (find_ifE (\<lambda>codec.
                bindE (jat codec ''remotePayloadType'') (\<lambda>rpt.
                bindE (jref firstMediaCodec ''payloadType'') (\<lambda>(pt, _). ok (json_eq rpt pt))))
              (jelems codecs)) (\<lambda>c.
       ok (c \<noteq> None, rtpParameters))))))"

text \<open>
  \<open>reduceCodecs\<close>: the filtered codecs. Every access \<open>codecs[i]\<close> goes through the non-const
  \<open>operator[]\<close>, which appends null when the index is the size of the array.
\<close>

fun reduce_from :: "json list \<Rightarrow> json \<Rightarrow> json list result" where
  "reduce_from [] capCodec = throw (TypeError ''no matching codec found'')"
| "reduce_from (c # cs) capCodec =
     bindE (matchCodecs c capCodec False False) (\<lambda>(b, c', capCodec').
     if \<not> b then reduce_from cs capCodec'
     else
       bindE (jref_idx (JArray (c' # cs)) 1) (\<lambda>(next, _).
       bindE (isRtxCodec next) (\<lambda>rtx.
       ok (if rtx then [c', next] else [c']))))"

definition reduceCodecs :: "json \<Rightarrow> json option \<Rightarrow> json list result" where
  "reduceCodecs codecs capCodec =
     (case capCodec of
        Some (JObject ps) \<Rightarrow>
          (case codecs of
             JArray cs \<Rightarrow> reduce_from cs (JObject ps)
           | _ \<Rightarrow>
               if jsize codecs = 0 then throw (TypeError ''no matching codec found'')
               else throw (JsonError 305))
      | _ \<Rightarrow>
          bindE (jref_idx codecs 0) (\<lambda>(first, codecs').
          if jsize codecs' > 1 then
            bindE (jref_idx codecs' 1) (\<lambda>(second, _).
            bindE (isRtxCodec second) (\<lambda>rtx.
            ok (if rtx then [first, second] else [first])))
          else ok [first]))"

end
