(* ===== verification/Ortc_Negotiation.thy ===== *)
theory Ortc_Negotiation
  imports Ortc_Contract Ortc_Caps "HOL-Library.Sublist"
begin

text \<open>
  Total correctness of the negotiation of \<open>Ortc_Caps\<close>: on validated capabilities whose codecs carry
  the members the validators do not check, the extended capabilities are computed without any
  exception or undefined access, every extended codec comes from a local and a remote codec of
  the same media type, and the order of the remote side is kept.
\<close>

section \<open>Codecs that can be negotiated\<close>

text \<open>
  What the matching needs of a codec: the normal form of a validated codec capability, in which
  null stands for a missing payload type, profile identifiers that are strings or integers, and
  an \<open>apt\<close> parameter in an RTX codec. A validated codec has all of it but the last two, which the
  validators do not check.
\<close>

definition payload_type_ok :: "json \<Rightarrow> bool" where
  "payload_type_ok j = (is_number_integer j \<or> j = JNull)"

definition profile_ok :: "json \<Rightarrow> bool" where
  "profile_ok j = (is_string j \<or> is_number_integer j)"

definition matchable_parameters :: "bool \<Rightarrow> jobj \<Rightarrow> bool" where
  "matchable_parameters rtx qs =
     (list_all normal_parameter qs \<and>
      absent_or profile_ok (map_of qs ''profile-level-id'') \<and>
      absent_or profile_ok (map_of qs ''profile-id'') \<and>
      (rtx \<longrightarrow> map_of qs ''apt'' \<noteq> None))"

definition is_rtx_mime :: "string \<Rightarrow> bool" where
  "is_rtx_mime m = icase_match [''audio/rtx'', ''video/rtx''] m"

definition negotiable_codec :: "json \<Rightarrow> bool" where
  "negotiable_codec =
     obj_with (\<lambda>ps.
       (case map_of ps ''mimeType'' of
          Some (JString m) \<Rightarrow>
            (case mime_kind m of
               None \<Rightarrow> False
             | Some kind \<Rightarrow>
                 map_of ps ''kind'' = Some (JString kind) \<and>
                 absent_or payload_type_ok (map_of ps ''preferredPayloadType'') \<and>
                 normal_codec kind ps \<and>
                 found (obj_with (matchable_parameters (is_rtx_mime m))) (map_of ps ''parameters''))
        | _ \<Rightarrow> False))"

lemma negotiable_codecE:
  assumes "negotiable_codec j"
  obtains ps m kind cr qs fbs where "j = JObject ps"
    "map_of ps ''mimeType'' = Some (JString m)" "mime_kind m = Some kind"
    "map_of ps ''kind'' = Some (JString kind)"
    "absent_or payload_type_ok (map_of ps ''preferredPayloadType'')"
    "normal_codec kind ps"
    "map_of ps ''clockRate'' = Some cr" "is_number_integer cr"
    "map_of ps ''parameters'' = Some (JObject qs)" "matchable_parameters (is_rtx_mime m) qs"
    "map_of ps ''rtcpFeedback'' = Some (JArray fbs)" "\<forall>fb\<in>set fbs. normal_feedback fb"
  using assms
  by (auto simp: negotiable_codec_def obj_with_conv normal_codec_def found_conv arr_all_conv
      split: option.splits json.splits)

lemma normal_codec_cong:
  assumes "\<And>k. k \<in> {''clockRate'', ''channels'', ''rtcpFeedback''} \<Longrightarrow> map_of ps' k = map_of ps k"
    and "found (obj_with (list_all normal_parameter)) (map_of ps' ''parameters'')"
    and "normal_codec kind ps"
  shows "normal_codec kind ps'"
  using assms by (simp add: normal_codec_def)

text \<open>Two codecs that differ in their parameters only.\<close>

definition same_but_parameters :: "json \<Rightarrow> json \<Rightarrow> bool" where
  "same_but_parameters j j' = (\<forall>k. k \<noteq> ''parameters'' \<longrightarrow> jfind j' k = jfind j k)"

lemma same_but_parameters_refl [simp]: "same_but_parameters j j"
  by (simp add: same_but_parameters_def)

lemma isRtxCodec_negotiable:
  assumes "negotiable_codec j"
  shows "\<exists>m. jfind j ''mimeType'' = Some (JString m) \<and> isRtxCodec j = ok (is_rtx_mime m)"
  using assms by (elim negotiable_codecE) (auto simp: isRtxCodec_def is_rtx_mime_def)

lemma get_uint_integer: "is_number_integer v \<Longrightarrow> \<exists>w. get_uint v = Inr w"
  by (auto simp: is_number_integer_conv)

lemma get_profile:
  "profile_ok v \<Longrightarrow> is_number v \<Longrightarrow> okE (bindE (get_int32 v) (\<lambda>i. ok (show_int i))) (\<lambda>_. True)"
  "profile_ok v \<Longrightarrow> \<not> is_number v \<Longrightarrow> okE (get_string v) (\<lambda>_. True)"
  by (cases v; auto simp: profile_ok_def is_number_def)+

lemma h264_getters_ok:
  assumes "negotiable_codec j"
  shows "okE (getH264PacketizationMode j) (\<lambda>_. True)" "okE (getH264LevelAssimetryAllowed j) (\<lambda>_. True)"
    "okE (getH264ProfileLevelId j) (\<lambda>_. True)" "okE (getVP9ProfileId j) (\<lambda>_. True)"
proof -
  from assms obtain ps m qs where j: "j = JObject ps" "map_of ps ''parameters'' = Some (JObject qs)"
    and q: "matchable_parameters (is_rtx_mime m) qs" by (rule negotiable_codecE)
  show "okE (getH264PacketizationMode j) (\<lambda>_. True)" "okE (getH264LevelAssimetryAllowed j) (\<lambda>_. True)"
    using j get_uint_integer
    by (auto simp: getH264PacketizationMode_def getH264LevelAssimetryAllowed_def okE_conv split: option.split)
  show "okE (getH264ProfileLevelId j) (\<lambda>_. True)"
    using j q get_profile
    by (auto simp: getH264ProfileLevelId_def matchable_parameters_def split: option.split)
  show "okE (getVP9ProfileId j) (\<lambda>_. True)"
    using j q get_profile
    by (auto simp: getVP9ProfileId_def matchable_parameters_def split: option.split)
qed

lemma h264_parameters_ok:
  assumes "negotiable_codec j"
  shows "okE (h264_parameters j) (\<lambda>p. p ''profile-level-id'' \<noteq> None)"
  unfolding h264_parameters_def
  by (rule okE_bind [OF h264_getters_ok(2) [OF assms]], rule okE_bind [OF h264_getters_ok(1) [OF assms]],
      rule okE_bind [OF h264_getters_ok(3) [OF assms]]) simp

lemma set_profile_level_id_ok:
  assumes "negotiable_codec j"
  shows "okE (set_profile_level_id j (Some s)) (\<lambda>j'. negotiable_codec j' \<and> same_but_parameters j j')"
proof -
  from assms obtain ps m kind qs where j: "j = JObject ps"
    and p: "map_of ps ''parameters'' = Some (JObject qs)" "matchable_parameters (is_rtx_mime m) qs"
    and m: "map_of ps ''mimeType'' = Some (JString m)" "mime_kind m = Some kind"
    and k: "map_of ps ''kind'' = Some (JString kind)"
       "absent_or payload_type_ok (map_of ps ''preferredPayloadType'')"
    and n: "normal_codec kind ps" by (rule negotiable_codecE)
  let ?qs = "obj_set ''profile-level-id'' (JString s) qs"
  let ?ps = "obj_set ''parameters'' (JObject ?qs) ps"
  have r: "set_profile_level_id j (Some s) = Inr (JObject ?ps)"
    using j p by (simp add: set_profile_level_id_def)
  have q: "matchable_parameters (is_rtx_mime m) ?qs"
    using p(2) set_obj_set [of "''profile-level-id''" "JString s" qs]
    by (auto simp: matchable_parameters_def list_all_iff profile_ok_def normal_parameter_def)
  then have "normal_codec kind ?ps"
    using n by (intro normal_codec_cong [of ?ps ps]) (auto simp: matchable_parameters_def)
  then show ?thesis
    using r q m k j by (auto simp: negotiable_codec_def same_but_parameters_def)
qed


text \<open>
  What a match guarantees: the same media type up to case, equal clock rates, and equal channels.
\<close>

definition codecs_agree :: "json \<Rightarrow> json \<Rightarrow> bool" where
  "codecs_agree a b =
     (case (jfind a ''mimeType'', jfind b ''mimeType'') of
        (Some (JString m), Some (JString n)) \<Rightarrow> to_lower m = to_lower n
      | _ \<Rightarrow> False)"

lemma match_h264_ok:
  assumes "negotiable_codec a" "negotiable_codec b"
  shows "okE (match_h264 a b modify) (\<lambda>(r, a', b').
     negotiable_codec a' \<and> negotiable_codec b' \<and> same_but_parameters a a' \<and>
     same_but_parameters b b' \<and> (\<not> r \<longrightarrow> a' = a \<and> b' = b))"
proof -
  obtain ma mb where m: "getH264PacketizationMode a = Inr ma" "getH264PacketizationMode b = Inr mb"
    using h264_getters_ok(1) [OF assms(1)] h264_getters_ok(1) [OF assms(2)] by (auto simp: okE_conv)
  obtain pa pb where p: "h264_parameters a = Inr pa" "h264_parameters b = Inr pb"
    and ne: "pa ''profile-level-id'' \<noteq> None"
    using h264_parameters_ok [OF assms(1)] h264_parameters_ok [OF assms(2)] by (auto simp: okE_conv)
  show ?thesis
  proof (cases "ma = mb \<and> H264IsSameProfile pa pb")
    case True
    then obtain s where g: "H264GenerateProfileLevelIdForAnswer pa pb Map.empty
        = Inr [''profile-level-id'' \<mapsto> s]"
      using ne by (auto elim!: generate_same_profile [of pa pb Map.empty])
    obtain a' b' where "set_profile_level_id a (Some s) = Inr a'" "set_profile_level_id b (Some s) = Inr b'"
      "negotiable_codec a'" "same_but_parameters a a'" "negotiable_codec b'" "same_but_parameters b b'"
      using set_profile_level_id_ok [OF assms(1), of s] set_profile_level_id_ok [OF assms(2), of s]
      by (auto elim!: okE_E)
    then show ?thesis using True m p g assms by (auto simp: match_h264_def)
  qed (use m p assms in \<open>auto simp: match_h264_def\<close>)
qed

lemma matchCodecs_ok:
  assumes "negotiable_codec a" "negotiable_codec b"
  shows "okE (matchCodecs a b strict modify) (\<lambda>(r, a', b').
     negotiable_codec a' \<and> negotiable_codec b' \<and> same_but_parameters a a' \<and>
     same_but_parameters b b' \<and> (\<not> r \<longrightarrow> a' = a \<and> b' = b) \<and> (r \<longrightarrow> codecs_agree a b))"
proof -
  from assms(1) obtain ps m cr where a: "a = JObject ps" "map_of ps ''mimeType'' = Some (JString m)"
    "map_of ps ''clockRate'' = Some cr" by (rule negotiable_codecE)
  from assms(2) obtain qs n cr' where b: "b = JObject qs" "map_of qs ''mimeType'' = Some (JString n)"
    "map_of qs ''clockRate'' = Some cr'" by (rule negotiable_codecE)
  obtain va vb where v: "getVP9ProfileId a = Inr va" "getVP9ProfileId b = Inr vb"
    using h264_getters_ok(4) [OF assms(1)] h264_getters_ok(4) [OF assms(2)] by (auto simp: okE_conv)
  let ?differ = "to_lower m \<noteq> to_lower n \<or> \<not> json_eq cr cr' \<or>
    (jcontains a ''channels'' \<noteq> jcontains b ''channels'') \<or>
    (case (jfind a ''channels'', jfind b ''channels'') of
       (Some x, Some y) \<Rightarrow> \<not> json_eq x y | _ \<Rightarrow> False)"
  have eval: "matchCodecs a b strict modify =
      (if ?differ then ok (False, a, b)
       else if to_lower m = ''video/h264'' \<and> strict then match_h264 a b modify
       else if to_lower m = ''video/vp9'' \<and> strict then ok (va = vb, a, b)
       else ok (True, a, b))"
    using v unfolding matchCodecs_def Let_def a b by (simp add: a b)
  have agree: "codecs_agree a b" if "\<not> ?differ"
    using that a b by (simp add: codecs_agree_def)
  show ?thesis
  proof (cases ?differ)
    case True
    then show ?thesis unfolding eval using assms by simp
  next
    case False
    then show ?thesis
      using agree [OF False] assms match_h264_ok [OF assms, of modify] unfolding eval
      by (simp only: if_False) (auto elim: okE_mono)
  qed
qed


lemma codecs_agree_rtx:
  assumes "codecs_agree a b" "jfind a ''mimeType'' = Some (JString m)" "jfind b ''mimeType'' = Some (JString n)"
  shows "is_rtx_mime m = is_rtx_mime n"
  using assms by (simp add: codecs_agree_def is_rtx_mime_def icase_match_def)

lemma find_local_codec_ok:
  assumes "\<forall>l\<in>set ls. negotiable_codec l" "negotiable_codec r"
  shows "okE (find_local_codec ls r) (\<lambda>(ls', r', i).
     list_all2 same_but_parameters ls ls' \<and> (\<forall>l\<in>set ls'. negotiable_codec l) \<and>
     negotiable_codec r' \<and> same_but_parameters r r' \<and>
     (\<forall>n. i = Some n \<longrightarrow> n < length ls \<and> codecs_agree (ls ! n) r))"
  using assms
proof (induction ls r rule: find_local_codec.induct)
  case (2 l ls r)
  from 2(2,3) have "negotiable_codec l" "negotiable_codec r" by simp_all
  from matchCodecs_ok [OF this, of True True] obtain b l' r' where m: "matchCodecs l r True True = Inr (b, l', r')"
    and p: "negotiable_codec l'" "negotiable_codec r'" "same_but_parameters l l'" "same_but_parameters r r'"
      "\<not> b \<longrightarrow> l' = l \<and> r' = r" "b \<longrightarrow> codecs_agree l r" by (auto elim!: okE_E)
  show ?case
  proof (cases b)
    case True
    then show ?thesis using m p 2(2,3) by (auto simp: list.rel_refl)
  next
    case False
    with m p 2(2) have "okE (find_local_codec ls r) (\<lambda>(ls', r', i).
       list_all2 same_but_parameters ls ls' \<and> (\<forall>l\<in>set ls'. negotiable_codec l) \<and>
       negotiable_codec r' \<and> same_but_parameters r r' \<and>
       (\<forall>n. i = Some n \<longrightarrow> n < length ls \<and> codecs_agree (ls ! n) r))"
      using 2(1) [OF m] 2(3) by fastforce
    then show ?thesis using m p False by (auto elim!: okE_E)
  qed
qed simp

section \<open>Feedback\<close>

lemma same_feedback_ok:
  "normal_feedback a \<Longrightarrow> normal_feedback b \<Longrightarrow> okE (same_feedback a b) (\<lambda>_. True)"
  by (auto simp: normal_feedback_def obj_with_conv found_conv same_feedback_def is_string_conv)

lemma reduceRtcpFeedback_ok:
  assumes "jfind a ''rtcpFeedback'' = Some (JArray as)" "\<forall>f\<in>set as. normal_feedback f"
    and "jfind b ''rtcpFeedback'' = Some (JArray bs)" "\<forall>f\<in>set bs. normal_feedback f"
  shows "okE (reduceRtcpFeedback a b)
     (\<lambda>j. \<exists>fs. j = JArray fs \<and>
       (\<forall>f\<in>set fs. f \<in> set bs \<and> (\<exists>x\<in>set as. same_feedback x f = Inr True)))"
proof -
  have fi: "okE (find_ifE (same_feedback x) bs) (\<lambda>m. \<forall>f. m = Some f \<longrightarrow>
      f \<in> set bs \<and> (\<exists>x\<in>set as. same_feedback x f = Inr True))" if "x \<in> set as" for x
  proof -
    have "okE (find_ifE (same_feedback x) bs) (\<lambda>m. \<forall>f. m = Some f \<longrightarrow> f \<in> set bs \<and> True)"
      using that assms by (intro okE_find_ifE) (auto intro: okE_mono [OF same_feedback_ok])
    then show ?thesis
      by (rule okE_mono) (use that in \<open>auto dest: find_ifE_SomeD\<close>)
  qed
  have d: "jfind_deref a ''rtcpFeedback'' = Inr (JArray as)" "jfind_deref b ''rtcpFeedback'' = Inr (JArray bs)"
    using assms by (cases a; simp; cases b; simp)+
  have "okE (mapE (\<lambda>x. find_ifE (same_feedback x) bs) as) (\<lambda>ms. \<forall>m\<in>set ms. \<forall>f. m = Some f \<longrightarrow>
      f \<in> set bs \<and> (\<exists>x\<in>set as. same_feedback x f = Inr True))"
    by (rule okE_mapE_all) (rule fi)
  then show ?thesis
    by (auto simp: reduceRtcpFeedback_def d List.map_filter_def elim!: okE_E)
qed

section \<open>Extended codecs\<close>

text \<open>The non-const \<open>operator[]\<close> on an object: what it reads, and what it leaves.\<close>

definition peek :: "string \<Rightarrow> jobj \<Rightarrow> json" where
  "peek k ps = (case map_of ps k of Some v \<Rightarrow> v | None \<Rightarrow> JNull)"

definition touch :: "string \<Rightarrow> jobj \<Rightarrow> jobj" where
  "touch k ps = (case map_of ps k of Some v \<Rightarrow> ps | None \<Rightarrow> obj_set k JNull ps)"

lemma jref_peek: "jref (JObject ps) k = ok (peek k ps, JObject (touch k ps))"
  by (simp add: peek_def touch_def split: option.split)

lemma map_of_touch [simp]: "map_of (touch k ps) k' = (if k' = k then Some (peek k ps) else map_of ps k')"
  by (auto simp: peek_def touch_def split: option.split)

lemma peek_Some: "map_of ps k = Some v \<Longrightarrow> peek k ps = v"
  by (simp add: peek_def)

lemma peek_touch: "peek k (touch k' ps) = peek k ps"
  by (auto simp: peek_def touch_def split: option.split)

definition normal_extended_codec :: "json \<Rightarrow> bool" where
  "normal_extended_codec =
     obj_with (\<lambda>ps.
       (case map_of ps ''mimeType'' of
          Some (JString m) \<Rightarrow>
            (case mime_kind m of
               None \<Rightarrow> False
             | Some kind \<Rightarrow>
                 \<not> is_rtx_mime m \<and>
                 map_of ps ''kind'' = Some (JString kind) \<and>
                 found is_number_integer (map_of ps ''clockRate'') \<and>
                 (if kind = ''audio'' then found is_number_integer (map_of ps ''channels'')
                  else map_of ps ''channels'' = None) \<and>
                 found payload_type_ok (map_of ps ''localPayloadType'') \<and>
                 found payload_type_ok (map_of ps ''remotePayloadType'') \<and>
                 found payload_type_ok (map_of ps ''localRtxPayloadType'') \<and>
                 found payload_type_ok (map_of ps ''remoteRtxPayloadType'') \<and>
                 (map_of ps ''localRtxPayloadType'' = Some JNull \<or>
                  found is_number_integer (map_of ps ''localPayloadType'')) \<and>
                 (map_of ps ''remoteRtxPayloadType'' = Some JNull \<or>
                  found is_number_integer (map_of ps ''remotePayloadType'')) \<and>
                 found (obj_with (list_all normal_parameter)) (map_of ps ''localParameters'') \<and>
                 found (obj_with (list_all normal_parameter)) (map_of ps ''remoteParameters'') \<and>
                 found (arr_all normal_feedback) (map_of ps ''rtcpFeedback''))
        | _ \<Rightarrow> False))"

lemma negotiable_touch:
  assumes "negotiable_codec (JObject ps)"
  shows "negotiable_codec (JObject (touch ''preferredPayloadType'' ps))"
    and "payload_type_ok (peek ''preferredPayloadType'' ps)"
proof -
  from assms show "payload_type_ok (peek ''preferredPayloadType'' ps)"
    by (elim negotiable_codecE) (auto simp: peek_def payload_type_ok_def absent_or_def split: option.splits)
  then show "negotiable_codec (JObject (touch ''preferredPayloadType'' ps))"
    using assms
    by (auto simp: negotiable_codec_def normal_codec_def split: option.splits json.splits)
qed

text \<open>The members of a codec capability that identify it, and that the matching never changes.\<close>

definition codec_core :: "json \<Rightarrow> json option \<times> json" where
  "codec_core j =
     (jfind j ''mimeType'',
      case jfind j ''preferredPayloadType'' of Some v \<Rightarrow> v | None \<Rightarrow> JNull)"

lemma same_but_parameters_core: "same_but_parameters j j' \<Longrightarrow> codec_core j' = codec_core j"
  by (simp add: same_but_parameters_def codec_core_def)

lemma touch_core: "codec_core (JObject (touch ''preferredPayloadType'' ps)) = codec_core (JObject ps)"
  by (simp add: codec_core_def peek_def split: option.split)

lemma codec_core_peek: "snd (codec_core (JObject ps)) = peek ''preferredPayloadType'' ps"
  by (simp add: codec_core_def peek_def)

lemma codecs_agree_core:
  "codec_core a = codec_core a' \<Longrightarrow> codec_core b = codec_core b' \<Longrightarrow>
   codecs_agree a b \<longleftrightarrow> codecs_agree a' b'"
  by (simp add: codec_core_def codecs_agree_def)

text \<open>An extended codec made from a local and a remote codec.\<close>

definition extends :: "json \<Rightarrow> json \<Rightarrow> json \<Rightarrow> bool" where
  "extends l r e =
     (codecs_agree l r \<and> jfind e ''mimeType'' = fst (codec_core l) \<and>
      jfind e ''localPayloadType'' = Some (snd (codec_core l)) \<and>
      jfind e ''remotePayloadType'' = Some (snd (codec_core r)))"

lemma extends_core:
  "codec_core l = codec_core l' \<Longrightarrow> codec_core r = codec_core r' \<Longrightarrow> extends l r e = extends l' r' e"
  using codecs_agree_core [of l l' r r'] by (simp add: extends_def)

lemma extended_codec_ok:
  assumes "negotiable_codec l" "negotiable_codec r" "codecs_agree l r" "isRtxCodec r = Inr False"
  shows "okE (extended_codec l r) (\<lambda>(e, l', r'). normal_extended_codec e \<and> extends l r e \<and>
     negotiable_codec l' \<and> negotiable_codec r' \<and> codec_core l' = codec_core l \<and>
     codec_core r' = codec_core r)"
proof -
  from assms(1) obtain ps m kind cr qs fbs where l: "l = JObject ps"
    "map_of ps ''mimeType'' = Some (JString m)" "mime_kind m = Some kind"
    "map_of ps ''kind'' = Some (JString kind)" "normal_codec kind ps"
    "map_of ps ''clockRate'' = Some cr" "is_number_integer cr"
    "map_of ps ''parameters'' = Some (JObject qs)" "matchable_parameters (is_rtx_mime m) qs"
    "map_of ps ''rtcpFeedback'' = Some (JArray fbs)" "\<forall>fb\<in>set fbs. normal_feedback fb"
    by (rule negotiable_codecE)
  from assms(2) obtain ps' m' qs' fbs' where r: "r = JObject ps'"
    "map_of ps' ''mimeType'' = Some (JString m')"
    "map_of ps' ''parameters'' = Some (JObject qs')" "matchable_parameters (is_rtx_mime m') qs'"
    "map_of ps' ''rtcpFeedback'' = Some (JArray fbs')" "\<forall>fb\<in>set fbs'. normal_feedback fb"
    by (rule negotiable_codecE)
  let ?l = "touch ''preferredPayloadType'' ps" and ?r = "touch ''preferredPayloadType'' ps'"
  have "\<not> is_rtx_mime m'"
    using assms(4) r by (simp add: isRtxCodec_def is_rtx_mime_def)
  then have rtx: "\<not> is_rtx_mime m"
    using codecs_agree_rtx [OF assms(3), of m m'] l r by simp
  have "okE (reduceRtcpFeedback (JObject ?l) (JObject ?r)) (\<lambda>j. \<exists>fs. j = JArray fs \<and>
       (\<forall>f\<in>set fs. f \<in> set fbs' \<and> (\<exists>x\<in>set fbs. same_feedback x f = Inr True)))"
    by (rule reduceRtcpFeedback_ok) (simp_all add: l r)
  then obtain fs where fs: "reduceRtcpFeedback (JObject ?l) (JObject ?r) = Inr (JArray fs)"
    "\<forall>f\<in>set fs. normal_feedback f" using r(6) by (auto elim!: okE_E)
  have p: "list_all normal_parameter qs" "list_all normal_parameter qs'"
    using l(9) r(4) by (simp_all add: matchable_parameters_def)
  have t: "touch k ps = ps" if "k \<in> {''mimeType'', ''kind'', ''clockRate''}" for k
    using that l by (auto simp: touch_def)
  have t': "touch ''parameters'' ?l = ?l" "touch ''parameters'' ?r = ?r"
    using l r by (simp_all add: touch_def [of "''parameters''"])
  note pk = peek_Some [OF l(2)] peek_Some [OF l(4)] peek_Some [OF l(6)] peek_Some [OF l(8)] peek_Some [OF r(3)]
  define e0 where "e0 = mk_obj
     [(''mimeType'', JString m), (''kind'', JString kind), (''clockRate'', cr),
      (''localPayloadType'', peek ''preferredPayloadType'' ps), (''localRtxPayloadType'', JNull),
      (''remotePayloadType'', peek ''preferredPayloadType'' ps'), (''remoteRtxPayloadType'', JNull),
      (''localParameters'', JObject qs), (''remoteParameters'', JObject qs'),
      (''rtcpFeedback'', JArray fs)]"
  define e where "e = (case map_of ps ''channels'' of Some c \<Rightarrow> obj_set ''channels'' c e0 | None \<Rightarrow> e0)"
  have run: "extended_codec l r = Inr (JObject e, JObject ?l, JObject ?r)"
    unfolding extended_codec_def e_def e0_def
    by (simp add: l(1) r(1) jref_peek t t' pk peek_touch fs Let_def del: jref.simps)
  have look: "map_of e k = (if k = ''channels'' then map_of ps k else map_of e0 k)" for k
    by (auto simp: e_def e0_def split: option.split)
  have ch: "if kind = ''audio'' then found is_number_integer (map_of ps ''channels'')
      else map_of ps ''channels'' = None"
    using l(5) by (simp add: normal_codec_def)
  have "normal_extended_codec (JObject e)"
    using ch negotiable_touch(2) [of ps] negotiable_touch(2) [of ps'] assms(1,2) l r p fs rtx
    by (simp add: normal_extended_codec_def look e0_def list_all_iff payload_type_ok_def)
  moreover have "extends l r (JObject e)"
    using assms(3) by (simp add: extends_def look e0_def l r codec_core_peek) (simp add: codec_core_def l)
  ultimately show ?thesis
    using run negotiable_touch(1) assms(1,2) by (simp add: l r touch_core)
qed


section \<open>Matching the codecs\<close>

definition remote_payload_type :: "json \<Rightarrow> json" where
  "remote_payload_type e = (case jfind e ''remotePayloadType'' of Some v \<Rightarrow> v | None \<Rightarrow> JNull)"

definition is_rtx :: "json \<Rightarrow> bool" where
  "is_rtx codec = (isRtxCodec codec = Inr True)"

lemma list_all2_core:
  "list_all2 same_but_parameters ls ls' \<Longrightarrow> map codec_core ls' = map codec_core ls"
  by (induction rule: list_all2_induct) (auto simp: same_but_parameters_core)

definition extends_some :: "json list \<Rightarrow> json list \<Rightarrow> json \<Rightarrow> bool" where
  "extends_some ls rs e = (\<exists>l\<in>set ls. \<exists>r\<in>set rs. extends l r e)"

lemma extends_some_cong:
  assumes "map codec_core ls' = map codec_core ls"
  shows "extends_some ls' rs e = extends_some ls rs e"
proof -
  have *: "extends_some ls rs e"
    if "map codec_core ls' = map codec_core ls" "extends_some ls' rs e" for ls ls'
  proof -
    from that(2) obtain l' r where l': "l' \<in> set ls'" "r \<in> set rs" "extends l' r e"
      by (auto simp: extends_some_def)
    then have "codec_core l' \<in> set (map codec_core ls)" using that(1) by (metis image_eqI set_map)
    then obtain l where "l \<in> set ls" "codec_core l = codec_core l'" by auto
    then show ?thesis using l' extends_core [of l l' r r e] by (auto simp: extends_some_def)
  qed
  show ?thesis using * [of ls' ls] * [of ls ls'] assms by auto
qed

lemma extends_some_Cons: "extends_some ls rs e \<Longrightarrow> extends_some ls (r # rs) e"
  by (auto simp: extends_some_def)

lemma extends_some_nth: "n < length ls \<Longrightarrow> extends (ls ! n) r e \<Longrightarrow> extends_some ls (r # rs) e"
  by (auto simp: extends_some_def)

lemma match_media_codecs_ok:
  assumes "\<forall>l\<in>set ls. negotiable_codec l" "\<forall>r\<in>set rs. negotiable_codec r"
  shows "okE (match_media_codecs ls rs) (\<lambda>(es, ls', rs').
     (\<forall>l\<in>set ls'. negotiable_codec l) \<and> (\<forall>r\<in>set rs'. negotiable_codec r) \<and>
     map codec_core ls' = map codec_core ls \<and>
     (\<forall>e\<in>set es. normal_extended_codec e \<and> extends_some ls rs e) \<and>
     subseq (map remote_payload_type es) (map (snd \<circ> codec_core) (filter (\<lambda>r. \<not> is_rtx r) rs)))"
  using assms
proof (induction rs arbitrary: ls)
  case (Cons r rs)
  from Cons.prems(2) have r: "negotiable_codec r" and rs: "\<forall>r\<in>set rs. negotiable_codec r" by simp_all
  from isRtxCodec_negotiable [OF r] obtain rtx where rtx: "isRtxCodec r = Inr rtx" by blast
  show ?case
  proof (cases rtx)
    case True
    from Cons.IH [OF Cons.prems(1) rs] show ?thesis
      using rtx True r by (auto simp: is_rtx_def extends_some_Cons elim!: okE_E)
  next
    case False
    from find_local_codec_ok [OF Cons.prems(1) r] obtain ls' r' i where
      f: "find_local_codec ls r = Inr (ls', r', i)" "list_all2 same_but_parameters ls ls'"
        "\<forall>l\<in>set ls'. negotiable_codec l" "negotiable_codec r'" "same_but_parameters r r'"
        "\<forall>n. i = Some n \<longrightarrow> n < length ls \<and> codecs_agree (ls ! n) r"
      by (auto elim!: okE_E)
    note core = list_all2_core [OF f(2)]
    show ?thesis
    proof (cases i)
      case None
      from Cons.IH [OF f(3) rs] show ?thesis
        using rtx False None f(1,4) core extends_some_cong [OF core]
        by (auto simp: is_rtx_def extends_some_Cons elim!: okE_E)
    next
      case (Some n)
      have n: "n < length ls" "n < length ls'" and agree: "codecs_agree (ls ! n) r"
        using f(2,6) Some by (auto dest: list_all2_lengthD)
      have cn: "codec_core (ls' ! n) = codec_core (ls ! n)"
        using core n by (metis nth_map)
      have cr: "codec_core r' = codec_core r" by (rule same_but_parameters_core [OF f(5)])
      have rtx': "isRtxCodec r' = Inr False"
        using rtx False f(5) isRtxCodec_negotiable [OF f(4)] isRtxCodec_negotiable [OF r]
        by (auto simp: same_but_parameters_def)
      have "codecs_agree (ls' ! n) r'" using codecs_agree_core [OF cn cr] agree by simp
      from extended_codec_ok [OF _ f(4) this rtx'] obtain e l'' r'' where
        e: "extended_codec (ls' ! n) r' = Inr (e, l'', r'')" "normal_extended_codec e"
          "extends (ls' ! n) r' e" "negotiable_codec l''" "negotiable_codec r''"
          "codec_core l'' = codec_core (ls' ! n)"
        using f(3) n(2) by (auto elim!: okE_E)
      let ?ls = "ls'[n := l'']"
      have neg: "\<forall>l\<in>set ?ls. negotiable_codec l"
        using f(3) e(4) set_update_subset_insert [of ls' n l''] by blast
      have core': "map codec_core ?ls = map codec_core ls"
        using core e(6) n(2) by (simp add: map_update list_update_id nth_map [symmetric] del: nth_map)
      have ex: "extends (ls ! n) r e" using e(3) extends_core [OF cn cr] by simp
      have pt: "remote_payload_type e = snd (codec_core r)"
        using ex by (simp add: remote_payload_type_def extends_def)
      from Cons.IH [OF neg rs] show ?thesis
        using rtx False Some f(1) e(1,2,5) pt core' extends_some_cong [OF core']
          extends_some_nth [OF n(1) ex, of rs]
        by (auto simp: is_rtx_def extends_some_Cons elim!: okE_E)
    qed
  qed
qed simp


section \<open>Matching RTX codecs\<close>

lemma json_eq_integer: "is_number_integer v \<Longrightarrow> payload_type_ok w \<Longrightarrow> json_eq v w \<Longrightarrow> is_number_integer w"
  by (auto simp: payload_type_ok_def is_number_integer_conv json_eq.simps)

lemma is_rtx_for_ok:
  assumes "negotiable_codec c" "payload_type_ok pt"
  shows "okE (is_rtx_for pt c) (\<lambda>b. b \<longrightarrow> is_number_integer pt)"
proof -
  from assms(1) obtain ps m qs where c: "c = JObject ps" "map_of ps ''mimeType'' = Some (JString m)"
    "map_of ps ''parameters'' = Some (JObject qs)" "matchable_parameters (is_rtx_mime m) qs"
    by (rule negotiable_codecE)
  have rtx: "isRtxCodec c = Inr (is_rtx_mime m)" using c by (simp add: isRtxCodec_def is_rtx_mime_def)
  show ?thesis
  proof (cases "is_rtx_mime m")
    case True
    then obtain v where v: "map_of qs ''apt'' = Some v" using c(4) by (auto simp: matchable_parameters_def)
    then have "is_number_integer v"
      using c(4) by (auto simp: matchable_parameters_def list_all_iff normal_parameter_def dest!: map_of_SomeD)
    with True rtx c v assms(2) show ?thesis by (auto simp: is_rtx_for_def dest: json_eq_integer)
  qed (use rtx in \<open>simp add: is_rtx_for_def\<close>)
qed

lemma normal_extended_codecE:
  assumes "normal_extended_codec e"
  obtains ps m kind cr lpt rpt lrtx rrtx lp rp fbs where "e = JObject ps"
    "map_of ps ''mimeType'' = Some (JString m)" "mime_kind m = Some kind" "\<not> is_rtx_mime m"
    "map_of ps ''kind'' = Some (JString kind)"
    "map_of ps ''clockRate'' = Some cr" "is_number_integer cr"
    "if kind = ''audio'' then found is_number_integer (map_of ps ''channels'')
     else map_of ps ''channels'' = None"
    "map_of ps ''localPayloadType'' = Some lpt" "payload_type_ok lpt"
    "map_of ps ''remotePayloadType'' = Some rpt" "payload_type_ok rpt"
    "map_of ps ''localRtxPayloadType'' = Some lrtx" "payload_type_ok lrtx" "lrtx = JNull \<or> is_number_integer lpt"
    "map_of ps ''remoteRtxPayloadType'' = Some rrtx" "payload_type_ok rrtx" "rrtx = JNull \<or> is_number_integer rpt"
    "map_of ps ''localParameters'' = Some (JObject lp)" "list_all normal_parameter lp"
    "map_of ps ''remoteParameters'' = Some (JObject rp)" "list_all normal_parameter rp"
    "map_of ps ''rtcpFeedback'' = Some (JArray fbs)" "\<forall>fb\<in>set fbs. normal_feedback fb"
proof -
  from assms obtain ps m kind where "e = JObject ps" "map_of ps ''mimeType'' = Some (JString m)"
    "mime_kind m = Some kind"
    by (auto simp: normal_extended_codec_def obj_with_conv split: option.splits json.splits)
  with assms that show ?thesis
    by (auto simp: normal_extended_codec_def found_conv [of payload_type_ok] obj_with_conv arr_all_conv
        found_conv [of "obj_with _"] found_conv [of "arr_all _"] found_conv [of is_number_integer])
qed

lemma match_rtx_codec_ok:
  assumes ls: "\<forall>l\<in>set ls. negotiable_codec l" and rs: "\<forall>r\<in>set rs. negotiable_codec r"
    and e: "normal_extended_codec e"
  shows "okE (match_rtx_codec ls rs e) (\<lambda>e'. normal_extended_codec e' \<and>
     (\<forall>k. k \<notin> {''localRtxPayloadType'', ''remoteRtxPayloadType''} \<longrightarrow> jfind e' k = jfind e k))"
proof -
  from e obtain ps lpt rpt where ps: "e = JObject ps" "map_of ps ''localPayloadType'' = Some lpt" "payload_type_ok lpt"
    "map_of ps ''remotePayloadType'' = Some rpt" "payload_type_ok rpt" by (rule normal_extended_codecE)
  have fl: "okE (find_ifE (is_rtx_for lpt) ls) (\<lambda>r. \<forall>x. r = Some x \<longrightarrow> x \<in> set ls \<and> is_number_integer lpt)"
    using ls ps(3) by (intro okE_find_ifE is_rtx_for_ok) auto
  have fr: "okE (find_ifE (is_rtx_for rpt) rs) (\<lambda>r. \<forall>x. r = Some x \<longrightarrow> x \<in> set rs \<and> is_number_integer rpt)"
    using rs ps(5) by (intro okE_find_ifE is_rtx_for_ok) auto
  from fl obtain l where l: "find_ifE (is_rtx_for lpt) ls = Inr l"
    "\<forall>x. l = Some x \<longrightarrow> x \<in> set ls \<and> is_number_integer lpt" by (rule okE_E)
  from fr obtain r where r: "find_ifE (is_rtx_for rpt) rs = Inr r"
    "\<forall>x. r = Some x \<longrightarrow> x \<in> set rs \<and> is_number_integer rpt" by (rule okE_E)
  show ?thesis
  proof (cases "\<exists>x y. l = Some x \<and> r = Some y")
    case True
    then obtain x y where xy: "l = Some x" "r = Some y" by blast
    have "negotiable_codec x" "negotiable_codec y" using xy l(2) r(2) ls rs by auto
    then obtain qs qs' where q: "x = JObject qs" "y = JObject qs'"
      by (auto simp: negotiable_codec_def obj_with_conv)
    let ?e = "obj_set ''remoteRtxPayloadType'' (peek ''preferredPayloadType'' qs')
      (obj_set ''localRtxPayloadType'' (peek ''preferredPayloadType'' qs) ps)"
    have run: "match_rtx_codec ls rs e = Inr (JObject ?e)"
      by (simp add: match_rtx_codec_def ps l r xy q jref_peek del: jref.simps)
    have pk: "payload_type_ok (peek ''preferredPayloadType'' qs)" "payload_type_ok (peek ''preferredPayloadType'' qs')"
      using negotiable_touch(2) \<open>negotiable_codec x\<close> \<open>negotiable_codec y\<close> q by auto
    have "normal_extended_codec (JObject ?e)"
      using e ps pk l(2) r(2) xy
      by (auto simp: normal_extended_codec_def split: option.splits json.splits)
    then show ?thesis using run ps by simp
  next
    case False
    then have "match_rtx_codec ls rs e = Inr e"
      using ps l r by (cases l; cases r) (auto simp: match_rtx_codec_def)
    then show ?thesis using e by simp
  qed
qed

section \<open>Header extensions\<close>

definition directions :: "string list" where
  "directions = [''sendrecv'', ''recvonly'', ''sendonly'', ''inactive'']"

definition negotiable_extension :: "json \<Rightarrow> bool" where
  "negotiable_extension j =
     (normal_header_extension j \<and>
      found (\<lambda>d. \<exists>s\<in>set directions. d = JString s) (jfind j ''direction''))"

definition normal_extended_extension :: "json \<Rightarrow> bool" where
  "normal_extended_extension =
     obj_with (\<lambda>ps.
       (map_of ps ''kind'' = Some (JString ''audio'') \<or>
        map_of ps ''kind'' = Some (JString ''video'')) \<and>
       found is_nonempty_string (map_of ps ''uri'') \<and>
       found is_number_integer (map_of ps ''sendId'') \<and>
       found is_number_integer (map_of ps ''recvId'') \<and>
       found is_boolean (map_of ps ''encrypt'') \<and>
       found is_string (map_of ps ''direction''))"

lemma normal_header_extensionE:
  assumes "normal_header_extension j"
  obtains ps k u i b d where "j = JObject ps" "map_of ps ''kind'' = Some (JString k)"
    "k = ''audio'' \<or> k = ''video''" "map_of ps ''uri'' = Some (JString u)" "u \<noteq> []"
    "map_of ps ''preferredId'' = Some i" "is_number_integer i"
    "map_of ps ''preferredEncrypt'' = Some (JBool b)" "map_of ps ''direction'' = Some (JString d)"
  using assms
  by (auto simp: normal_header_extension_def obj_with_conv found_conv is_nonempty_string_conv
      is_boolean_conv is_string_conv)

lemma matchHeaderExtensions_ok:
  assumes "normal_header_extension a" "normal_header_extension b"
  shows "okE (matchHeaderExtensions a b)
     (\<lambda>m. m \<longleftrightarrow> jfind a ''kind'' = jfind b ''kind'' \<and> jfind a ''uri'' = jfind b ''uri'')"
  using assms
  by (elim normal_header_extensionE) (simp add: matchHeaderExtensions_def)

lemma extended_header_extension_ok:
  assumes "normal_header_extension l" "negotiable_extension r"
  shows "okE (extended_header_extension l r) normal_extended_extension"
proof -
  from assms(1) obtain ps i b where l: "l = JObject ps" "map_of ps ''preferredId'' = Some i"
    "is_number_integer i" "map_of ps ''preferredEncrypt'' = Some (JBool b)"
    by (rule normal_header_extensionE)
  from assms(2) have "normal_header_extension r" by (simp add: negotiable_extension_def)
  then obtain qs k u j d where r: "r = JObject qs" "map_of qs ''kind'' = Some (JString k)"
    "k = ''audio'' \<or> k = ''video''" "map_of qs ''uri'' = Some (JString u)" "u \<noteq> []"
    "map_of qs ''preferredId'' = Some j" "is_number_integer j" "map_of qs ''direction'' = Some (JString d)"
    by (rule normal_header_extensionE)
  have "d \<in> set directions" using assms(2) r by (auto simp: negotiable_extension_def)
  then obtain d' where d': "flip_direction d = Some d'"
    by (auto simp: directions_def flip_direction_def)
  show ?thesis
    using l r d'
    by (auto simp: extended_header_extension_def normal_extended_extension_def)
qed

lemma match_header_extensions_ok:
  assumes "\<forall>l\<in>set ls. normal_header_extension l" "\<forall>r\<in>set rs. negotiable_extension r"
  shows "okE (match_header_extensions ls rs) (\<lambda>es. \<forall>e\<in>set es. normal_extended_extension e)"
  using assms(2)
proof (induction rs)
  case (Cons r rs)
  have "okE (find_ifE (\<lambda>l. matchHeaderExtensions l r) ls) (\<lambda>x. \<forall>l. x = Some l \<longrightarrow> l \<in> set ls \<and> True)"
    using assms(1) Cons.prems
    by (intro okE_find_ifE) (auto simp: negotiable_extension_def intro: okE_mono [OF matchHeaderExtensions_ok])
  then obtain x where x: "find_ifE (\<lambda>l. matchHeaderExtensions l r) ls = Inr x" "\<forall>l. x = Some l \<longrightarrow> l \<in> set ls"
    by (auto elim!: okE_E)
  show ?case
  proof (cases x)
    case None
    with x Cons show ?thesis by simp
  next
    case (Some l)
    then have "okE (extended_header_extension l r) normal_extended_extension"
      using assms(1) x Cons.prems by (intro extended_header_extension_ok) auto
    with x Some Cons show ?thesis by (auto elim!: okE_E)
  qed
qed simp

section \<open>Extended capabilities\<close>

definition negotiable_codecs :: "json \<Rightarrow> bool" where
  "negotiable_codecs caps = found (arr_all negotiable_codec) (jfind caps ''codecs'')"

definition negotiable_extensions :: "json \<Rightarrow> bool" where
  "negotiable_extensions caps = found (arr_all negotiable_extension) (jfind caps ''headerExtensions'')"

definition normal_extended :: "json \<Rightarrow> bool" where
  "normal_extended =
     obj_with (\<lambda>ps.
       found (arr_all normal_extended_codec) (map_of ps ''codecs'') \<and>
       found (arr_all normal_extended_extension) (map_of ps ''headerExtensions''))"

definition members :: "json \<Rightarrow> string \<Rightarrow> json list" where
  "members j k = (case jfind j k of Some v \<Rightarrow> jelems v | None \<Rightarrow> [])"

lemma mapE_match_rtx_ok:
  assumes "\<forall>l\<in>set ls. negotiable_codec l" "\<forall>r\<in>set rs. negotiable_codec r"
    and "\<forall>e\<in>set es. normal_extended_codec e"
  shows "okE (mapE (match_rtx_codec ls rs) es) (\<lambda>es'. (\<forall>e\<in>set es'. normal_extended_codec e) \<and>
     list_all2 (\<lambda>e e'. \<forall>k. k \<notin> {''localRtxPayloadType'', ''remoteRtxPayloadType''} \<longrightarrow>
       jfind e' k = jfind e k) es es')"
proof -
  have "okE (mapE (match_rtx_codec ls rs) es) (\<lambda>es'. list_all2 (\<lambda>e e'. normal_extended_codec e' \<and>
      (\<forall>k. k \<notin> {''localRtxPayloadType'', ''remoteRtxPayloadType''} \<longrightarrow> jfind e' k = jfind e k)) es es')"
    using assms(3) by (intro okE_mapE match_rtx_codec_ok [OF assms(1,2)]) auto
  then show ?thesis
    by (rule okE_mono) (auto elim: list_all2_mono dest: list_all2_right)
qed

lemma getExtendedRtpCapabilities_ok:
  assumes v: "validateRtpCapabilities l = Inr l'" "validateRtpCapabilities r = Inr r'"
    and wf: "wf_json l" "wf_json r"
    and n: "negotiable_codecs l'" "negotiable_codecs r'" "negotiable_extensions r'"
  shows "okE (getExtendedRtpCapabilities l r) (\<lambda>e. normal_extended e \<and>
     (\<forall>c\<in>set (members e ''codecs''). extends_some (members l' ''codecs'') (members r' ''codecs'') c) \<and>
     subseq (map remote_payload_type (members e ''codecs''))
       (map (snd \<circ> codec_core) (filter (\<lambda>c. \<not> is_rtx c) (members r' ''codecs''))))"
proof -
  have nl: "normal_capabilities l'" using caps.normalises [OF wf(1) v(1)] by simp
  obtain ps lc lh where l: "l' = JObject ps" "map_of ps ''codecs'' = Some (JArray lc)"
    "map_of ps ''headerExtensions'' = Some (JArray lh)" "\<forall>x\<in>set lh. normal_header_extension x"
    "\<forall>x\<in>set lc. negotiable_codec x"
    using nl n(1) by (auto simp: normal_capabilities_def negotiable_codecs_def obj_with_conv found_conv arr_all_conv)
  obtain qs rc rh where r: "r' = JObject qs" "map_of qs ''codecs'' = Some (JArray rc)"
    "map_of qs ''headerExtensions'' = Some (JArray rh)" "\<forall>x\<in>set rh. negotiable_extension x"
    "\<forall>x\<in>set rc. negotiable_codec x"
    using caps.normalises [OF wf(2) v(2)] n(2,3)
    by (auto simp: normal_capabilities_def negotiable_codecs_def negotiable_extensions_def obj_with_conv
        found_conv arr_all_conv)
  from match_media_codecs_ok [OF l(5) r(5)] obtain es ls rs where
    m: "match_media_codecs lc rc = Inr (es, ls, rs)" "\<forall>l\<in>set ls. negotiable_codec l"
      "\<forall>r\<in>set rs. negotiable_codec r" "\<forall>e\<in>set es. normal_extended_codec e \<and> extends_some lc rc e"
      "subseq (map remote_payload_type es) (map (snd \<circ> codec_core) (filter (\<lambda>r. \<not> is_rtx r) rc))"
    by (auto elim!: okE_E)
  from m(4) have "\<forall>e\<in>set es. normal_extended_codec e" by blast
  from mapE_match_rtx_ok [OF m(2,3) this] obtain es' where
    es': "mapE (match_rtx_codec ls rs) es = Inr es'" "\<forall>e\<in>set es'. normal_extended_codec e"
      "list_all2 (\<lambda>e e'. \<forall>k. k \<notin> {''localRtxPayloadType'', ''remoteRtxPayloadType''} \<longrightarrow>
         jfind e' k = jfind e k) es es'"
    by (auto elim!: okE_E)
  from match_header_extensions_ok [OF l(4) r(4)] obtain hs where
    hs: "match_header_extensions lh rh = Inr hs" "\<forall>e\<in>set hs. normal_extended_extension e"
    by (rule okE_E)
  have pts: "map remote_payload_type es' = map remote_payload_type es"
    using es'(3) by (intro list_all2_same_function list_all2_mono [OF es'(3)]) (auto simp: remote_payload_type_def)
  have "\<forall>e\<in>set es'. extends_some lc rc e"
  proof
    fix e' assume "e' \<in> set es'"
    with list_all2_right [OF es'(3)] obtain e where "e \<in> set es"
      "\<forall>k. k \<notin> {''localRtxPayloadType'', ''remoteRtxPayloadType''} \<longrightarrow> jfind e' k = jfind e k"
      by blast
    then show "extends_some lc rc e'" using m(4) by (fastforce simp: extends_some_def extends_def)
  qed
  then show ?thesis
    using v l r m(1,5) es' hs pts
    by (simp add: getExtendedRtpCapabilities_def normal_extended_def list_all_iff members_def)
qed

end
