(* ===== verification/Ortc_Derived.thy ===== *)
theory Ortc_Derived
  imports Ortc_Negotiation
begin

text \<open>
  What the client derives from the extended capabilities: the receiving capabilities, the sending
  parameters with their RTX pairing and reduced feedback, the test whether a consumer can be
  received, the reduction to the codecs to use, and the parameters of the probator.
\<close>

section \<open>Receiving capabilities\<close>

lemma mime_kind_SomeD: "mime_kind m = Some kind \<Longrightarrow> kind = take 5 m \<and> to_lower kind \<in> {''audio'', ''video''}"
  by (simp add: mime_kind_def split: if_split_asm)

lemma mime_kind_length: "mime_kind m = Some kind \<Longrightarrow> length kind = 5"
proof -
  assume "mime_kind m = Some kind"
  then have "to_lower kind = ''audio'' \<or> to_lower kind = ''video''" by (auto dest: mime_kind_SomeD)
  then have "length (to_lower kind) = 5" by (elim disjE) (simp_all del: length_to_lower)
  then show ?thesis by simp
qed

lemma map_of_copy_channels [simp]:
  "map_of (copy_channels e qs) k =
     (if k = ''channels'' \<and> jfind e k \<noteq> None then jfind e k else map_of qs k)"
  by (auto simp: copy_channels_def split: option.split)

lemma mime_kind_rtx:
  assumes "mime_kind m = Some kind"
  shows "mime_kind (kind @ ''/rtx'') = Some kind"
proof -
  have "length kind = 5" "to_lower kind \<in> {''audio'', ''video''}"
    using mime_kind_length mime_kind_SomeD assms by blast+
  then show ?thesis by (simp add: mime_kind_def)
qed

lemma validateRtpCodecCapability_ok:
  assumes "map_of ps ''mimeType'' = Some (JString m)" "mime_kind m = Some kind"
    and "absent_or is_number_integer (map_of ps ''preferredPayloadType'')"
    and "found is_number_integer (map_of ps ''clockRate'')"
    and "found (obj_with (list_all normal_parameter)) (map_of ps ''parameters'')"
    and "map_of ps ''rtcpFeedback'' = Some (JArray fbs)" "\<forall>fb\<in>set fbs. normal_feedback fb"
  shows "okE (validateRtpCodecCapability (JObject ps)) (\<lambda>_. True)"
proof -
  let ?ps = "set_channels kind (obj_set ''kind'' (JString kind) ps)"
  have p: "validate_codec_parameters ?ps = Inr ?ps"
    using assms(5) by (intro codec_parameters_keeps) (simp add: set_channels_lookup)
  have fb: "map_of ?ps ''rtcpFeedback'' = Some (JArray fbs)"
    using assms(6) by (simp add: set_channels_lookup)
  have "validateRtcpFeedback f = Inr f" if "f \<in> set fbs" for f
    using that assms(7) by (auto simp: validateRtcpFeedback_def normal_feedback_def obj_with_conv)
  then have "mapE validateRtcpFeedback fbs = Inr fbs"
    using mapE_ok [of fbs validateRtcpFeedback id] by simp
  then have "okE (validate_codec_feedback ?ps) (\<lambda>_. True)"
    by (simp add: validate_codec_feedback_def fb)
  then show ?thesis
    using assms(1-4) p by (auto simp: validateRtpCodecCapability_def elim!: okE_E)
qed

lemma normal_apt_parameters:
  "is_number_integer pt \<Longrightarrow> \<exists>w. apt_parameters pt = Inr (JObject [(''apt'', JUint w)])"
  by (auto simp: apt_parameters_def is_number_integer_conv mk_obj_def obj_emplace_def)

lemma recv_codecs_ok:
  assumes "normal_extended_codec e" "is_number_integer (remote_payload_type e)"
  shows "okE (recv_codecs e) (\<lambda>cs. \<forall>c\<in>set cs. okE (validateRtpCodecCapability c) (\<lambda>_. True))"
proof -
  from assms(1) obtain ps m kind cr lpt rpt lrtx rrtx lp rp fbs where ps: "e = JObject ps"
    "map_of ps ''mimeType'' = Some (JString m)" "mime_kind m = Some kind"
    "map_of ps ''kind'' = Some (JString kind)"
    "map_of ps ''clockRate'' = Some cr" "is_number_integer cr"
    "map_of ps ''remotePayloadType'' = Some rpt"
    "map_of ps ''remoteRtxPayloadType'' = Some rrtx" "payload_type_ok rrtx"
    "map_of ps ''localParameters'' = Some (JObject lp)" "list_all normal_parameter lp"
    "map_of ps ''rtcpFeedback'' = Some (JArray fbs)" "\<forall>fb\<in>set fbs. normal_feedback fb"
    by (rule normal_extended_codecE)
  have rpt: "is_number_integer rpt" using assms(2) ps by (simp add: remote_payload_type_def)
  from normal_apt_parameters [OF rpt] obtain w where
    apt: "apt_parameters rpt = Inr (JObject [(''apt'', JUint w)])" by blast
  let ?c = "copy_channels e (mk_obj
     [(''mimeType'', JString m), (''kind'', JString kind), (''preferredPayloadType'', rpt),
      (''clockRate'', cr), (''parameters'', JObject lp), (''rtcpFeedback'', JArray fbs)])"
  let ?x = "mk_obj [(''mimeType'', JString (kind @ ''/rtx'')), (''kind'', JString kind),
      (''preferredPayloadType'', rrtx), (''clockRate'', cr),
      (''parameters'', JObject [(''apt'', JUint w)]), (''rtcpFeedback'', JArray [])]"
  have run: "recv_codecs e = Inr (if rrtx = JNull then [JObject ?c] else [JObject ?c, JObject ?x])"
    unfolding recv_codecs_def using ps apt by (simp add: Let_def)
  have "okE (validateRtpCodecCapability (JObject ?c)) (\<lambda>_. True)"
    using ps rpt by (intro validateRtpCodecCapability_ok [where m = m and kind = kind and fbs = fbs])
      (simp_all add: list_all_iff)
  moreover have "okE (validateRtpCodecCapability (JObject ?x)) (\<lambda>_. True)" if "rrtx \<noteq> JNull"
    using ps that mime_kind_rtx
    by (intro validateRtpCodecCapability_ok [where m = "kind @ ''/rtx''" and kind = kind and fbs = "[]"])
      (auto simp: payload_type_ok_def normal_parameter_def is_number_def)
  ultimately show ?thesis unfolding run by simp
qed

lemma recv_extension_ok:
  assumes "normal_extended_extension e"
  shows "okE (recv_extension e) (\<lambda>hs. \<forall>h\<in>set hs. okE (validateRtpHeaderExtension h) (\<lambda>_. True))"
  using assms
  by (auto simp: normal_extended_extension_def obj_with_conv found_conv recv_extension_def
      is_string_conv validateRtpHeaderExtension_def Let_def)

lemma getRecvRtpCapabilities_ok:
  assumes "normal_extended e" "\<forall>c\<in>set (members e ''codecs''). is_number_integer (remote_payload_type c)"
  shows "okE (getRecvRtpCapabilities e) (\<lambda>caps. okE (validateRtpCapabilities caps) (\<lambda>_. True))"
proof -
  from assms(1) obtain ps cs hs where e: "e = JObject ps" "map_of ps ''codecs'' = Some (JArray cs)"
    "\<forall>c\<in>set cs. normal_extended_codec c" "map_of ps ''headerExtensions'' = Some (JArray hs)"
    "\<forall>h\<in>set hs. normal_extended_extension h"
    by (auto simp: normal_extended_def obj_with_conv found_conv arr_all_conv)
  have "okE (mapE recv_codecs cs) (\<lambda>ys. \<forall>y\<in>set ys. \<forall>c\<in>set y. okE (validateRtpCodecCapability c) (\<lambda>_. True))"
    using assms(2) e by (intro okE_mapE_all recv_codecs_ok) (auto simp: members_def)
  then obtain ys where ys: "mapE recv_codecs cs = Inr ys"
    "\<forall>c\<in>set (concat ys). okE (validateRtpCodecCapability c) (\<lambda>_. True)" by (auto elim!: okE_E)
  have "okE (mapE recv_extension hs) (\<lambda>ys. \<forall>y\<in>set ys. \<forall>c\<in>set y. okE (validateRtpHeaderExtension c) (\<lambda>_. True))"
    using e by (intro okE_mapE_all recv_extension_ok) auto
  then obtain zs where zs: "mapE recv_extension hs = Inr zs"
    "\<forall>c\<in>set (concat zs). okE (validateRtpHeaderExtension c) (\<lambda>_. True)" by (auto elim!: okE_E)
  have "okE (mapE validateRtpCodecCapability (concat ys)) (\<lambda>_. True)"
    "okE (mapE validateRtpHeaderExtension (concat zs)) (\<lambda>_. True)"
    using okE_mapE_all [of "concat ys" validateRtpCodecCapability "\<lambda>_. True"] ys(2)
      okE_mapE_all [of "concat zs" validateRtpHeaderExtension "\<lambda>_. True"] zs(2) by auto
  then show ?thesis
    using e ys(1) zs(1)
    by (auto simp: getRecvRtpCapabilities_def validateRtpCapabilities_def validate_array_member_def
        elim!: okE_E)
qed

section \<open>Sending parameters\<close>

lemma kind_is_extended:
  assumes "normal_extended_codec e"
  shows "okE (kind_is kind e) (\<lambda>b. b \<longleftrightarrow> jfind e ''kind'' = Some (JString kind))"
  using assms by (elim normal_extended_codecE) (auto simp: kind_is_def)

lemma find_kind:
  assumes "\<forall>c\<in>set cs. normal_extended_codec c"
  shows "find_ifE (kind_is kind) cs = Inr (find (\<lambda>c. jfind c ''kind'' = Some (JString kind)) cs)"
proof (rule find_ifE_find)
  fix c assume "c \<in> set cs"
  with kind_is_extended [of c kind] assms
  show "kind_is kind c = Inr (jfind c ''kind'' = Some (JString kind))" by (auto elim!: okE_E)
qed

text \<open>The codecs of the sending parameters: the media codec, and its RTX codec when it has one.\<close>

definition rtx_pair :: "json list \<Rightarrow> bool" where
  "rtx_pair cs =
     (length cs \<le> 2 \<and>
      (length cs = 2 \<longrightarrow>
         is_rtx (cs ! 1) \<and>
         found (obj_with (\<lambda>qs. found (\<lambda>apt. \<exists>pt. jfind (cs ! 0) ''payloadType'' = Some pt \<and>
             (get_uint pt :: 8 word result) = get_uint apt) (map_of qs ''apt'')))
           (jfind (cs ! 1) ''parameters'')))"

lemma sending_codecs_ok:
  assumes "normal_extended_codec e" "key = ''localParameters'' \<or> key = ''remoteParameters''"
  shows "okE (sending_codecs key e) (\<lambda>cs. cs \<noteq> [] \<and> \<not> is_rtx (cs ! 0) \<and> rtx_pair cs \<and>
     jfind (cs ! 0) ''mimeType'' = jfind e ''mimeType'' \<and>
     (\<forall>c\<in>set cs. found (arr_all normal_feedback) (jfind c ''rtcpFeedback'')))"
proof -
  from assms(1) obtain ps m kind cr lpt rpt lrtx rrtx lp rp fbs where ps: "e = JObject ps"
    "map_of ps ''mimeType'' = Some (JString m)" "mime_kind m = Some kind" "\<not> is_rtx_mime m"
    "map_of ps ''kind'' = Some (JString kind)"
    "map_of ps ''clockRate'' = Some cr" "is_number_integer cr"
    "map_of ps ''localPayloadType'' = Some lpt"
    "map_of ps ''localRtxPayloadType'' = Some lrtx" "lrtx = JNull \<or> is_number_integer lpt"
    "map_of ps ''localParameters'' = Some (JObject lp)" "map_of ps ''remoteParameters'' = Some (JObject rp)"
    "map_of ps ''rtcpFeedback'' = Some (JArray fbs)" "\<forall>fb\<in>set fbs. normal_feedback fb"
    by (rule normal_extended_codecE)
  obtain p where p: "map_of ps key = Some p" using assms(2) ps by auto
  let ?c = "copy_channels e (mk_obj
     [(''mimeType'', JString m), (''payloadType'', lpt), (''clockRate'', cr), (''parameters'', p),
      (''rtcpFeedback'', JArray fbs)])"
  have c: "\<not> is_rtx (JObject ?c)"
    using ps(4) by (simp add: is_rtx_def isRtxCodec_def is_rtx_mime_def)
  show ?thesis
  proof (cases "lrtx = JNull")
    case True
    then have "sending_codecs key e = Inr [JObject ?c]"
      unfolding sending_codecs_def using ps p by (simp add: Let_def)
    then show ?thesis using c ps by (simp add: rtx_pair_def list_all_iff)
  next
    case False
    then have lpt: "is_number_integer lpt" using ps by simp
    obtain w where w: "(get_uint lpt :: 8 word result) = Inr w" using get_uint_integer [OF lpt] by blast
    let ?x = "mk_obj [(''mimeType'', JString (kind @ ''/rtx'')), (''payloadType'', lrtx),
      (''clockRate'', cr), (''parameters'', JObject (mk_obj [(''apt'', JUint (ucast w))])),
      (''rtcpFeedback'', JArray [])]"
    have run: "sending_codecs key e = Inr [JObject ?c, JObject ?x]"
      unfolding sending_codecs_def using ps p w False by (simp add: Let_def apt_parameters_def)
    have "is_rtx (JObject ?x)"
      using mime_kind_SomeD [OF ps(3)]
      by (auto simp: is_rtx_def isRtxCodec_def icase_match_def to_lower_def to_lower_char_def)
    moreover have "ucast (ucast w :: 64 word) = w" by (rule bit_word_eqI) (auto simp: bit_simps)
    ultimately show ?thesis using c ps run w by (simp add: rtx_pair_def list_all_iff)
  qed
qed

definition normal_sending_extension :: "json \<Rightarrow> bool" where
  "normal_sending_extension =
     obj_with (\<lambda>ps. found is_nonempty_string (map_of ps ''uri'') \<and> found is_number_integer (map_of ps ''id'') \<and>
       found is_boolean (map_of ps ''encrypt'') \<and> map_of ps ''parameters'' = Some (JObject []))"

lemma sending_extension_ok:
  assumes "normal_extended_extension e"
  shows "okE (sending_extension kind e) (\<lambda>hs. \<forall>h\<in>set hs. normal_sending_extension h)"
  using assms
  by (auto simp: normal_extended_extension_def obj_with_conv found_conv sending_extension_def
      is_string_conv kind_is_def normal_sending_extension_def)

lemma sending_parameters_ok:
  assumes "normal_extended e" "key = ''localParameters'' \<or> key = ''remoteParameters''"
  shows "okE (sending_parameters key kind e) (\<lambda>(cs, hs).
     (\<forall>h\<in>set hs. normal_sending_extension h) \<and>
     (\<forall>c\<in>set cs. found (arr_all normal_feedback) (jfind c ''rtcpFeedback'')) \<and>
     rtx_pair cs \<and> (cs \<noteq> [] \<longleftrightarrow> canSend kind e = Inr True) \<and>
     (cs \<noteq> [] \<longrightarrow> \<not> is_rtx (cs ! 0) \<and>
        (\<exists>c\<in>set (members e ''codecs''). jfind c ''kind'' = Some (JString kind) \<and>
           jfind (cs ! 0) ''mimeType'' = jfind c ''mimeType'')))"
proof -
  from assms(1) obtain ps es hs where e: "e = JObject ps" "map_of ps ''codecs'' = Some (JArray es)"
    "\<forall>c\<in>set es. normal_extended_codec c" "map_of ps ''headerExtensions'' = Some (JArray hs)"
    "\<forall>h\<in>set hs. normal_extended_extension h"
    by (auto simp: normal_extended_def obj_with_conv found_conv arr_all_conv)
  have "okE (mapE (sending_extension kind) hs) (\<lambda>ys. \<forall>y\<in>set ys. \<forall>h\<in>set y. normal_sending_extension h)"
    using e by (intro okE_mapE_all sending_extension_ok) auto
  then obtain zs where zs: "mapE (sending_extension kind) hs = Inr zs"
    "\<forall>h\<in>set (concat zs). normal_sending_extension h" by (auto elim!: okE_E)
  define c where "c = find (\<lambda>c. jfind c ''kind'' = Some (JString kind)) es"
  have c: "find_ifE (kind_is kind) es = Inr c" unfolding c_def by (rule find_kind [OF e(3)])
  have can: "canSend kind e = Inr (c \<noteq> None)" using e c by (simp add: canSend_def)
  show ?thesis
  proof (cases c)
    case None
    then show ?thesis using e c can zs by (simp add: sending_parameters_def rtx_pair_def)
  next
    case (Some x)
    then have x: "x \<in> set es" "jfind x ''kind'' = Some (JString kind)"
      unfolding c_def by (auto simp: find_Some_iff)
    then have "okE (sending_codecs key x) (\<lambda>cs. cs \<noteq> [] \<and> \<not> is_rtx (cs ! 0) \<and> rtx_pair cs \<and>
       jfind (cs ! 0) ''mimeType'' = jfind x ''mimeType'' \<and>
       (\<forall>c\<in>set cs. found (arr_all normal_feedback) (jfind c ''rtcpFeedback'')))"
      using e(3) assms(2) by (intro sending_codecs_ok) auto
    then obtain cs where cs: "sending_codecs key x = Inr cs" "cs \<noteq> []" "\<not> is_rtx (cs ! 0)" "rtx_pair cs"
       "jfind (cs ! 0) ''mimeType'' = jfind x ''mimeType''"
       "\<forall>c\<in>set cs. found (arr_all normal_feedback) (jfind c ''rtcpFeedback'')" by (auto elim!: okE_E)
    have run: "sending_parameters key kind e = Inr (cs, concat zs)"
      using e c Some cs(1) zs(1) by (simp add: sending_parameters_def)
    have "\<exists>c\<in>set (members e ''codecs''). jfind c ''kind'' = Some (JString kind) \<and>
           jfind (cs ! 0) ''mimeType'' = jfind c ''mimeType''"
      using x cs(5) e by (auto simp: members_def)
    then show ?thesis unfolding run using zs(2) cs can Some by simp
  qed
qed

section \<open>Reducing the feedback\<close>

definition feedback_type :: "json \<Rightarrow> string option" where
  "feedback_type fb = (case jfind fb ''type'' of Some (JString t) \<Rightarrow> Some t | _ \<Rightarrow> None)"

lemma erase_feedback_eq:
  assumes "\<forall>fb\<in>set fbs. normal_feedback fb"
  shows "erase_feedback types fbs =
     Inr (filter (\<lambda>fb. feedback_type fb \<notin> Some ` set types) fbs)"
  using assms
proof (induction fbs)
  case (Cons fb fbs)
  then obtain ps t where "fb = JObject ps" "map_of ps ''type'' = Some (JString t)"
    by (auto simp: normal_feedback_def obj_with_conv found_conv is_string_conv)
  then show ?case using Cons by (auto simp: feedback_type_def)
qed simp

text \<open>A codec without its feedback entries of the given types.\<close>

definition drop_feedback :: "string list \<Rightarrow> json \<Rightarrow> json" where
  "drop_feedback types codec =
     (case codec of
        JObject ps \<Rightarrow>
          JObject (obj_set ''rtcpFeedback''
            (JArray (filter (\<lambda>fb. feedback_type fb \<notin> Some ` set types) (members codec ''rtcpFeedback''))) ps)
      | _ \<Rightarrow> codec)"

lemma reduce_codec_feedback_eq:
  assumes "found (arr_all normal_feedback) (jfind c ''rtcpFeedback'')"
  shows "reduce_codec_feedback types c = Inr (drop_feedback types c)"
  using assms
  by (cases c) (auto simp: found_conv arr_all_conv reduce_codec_feedback_def drop_feedback_def
      erase_feedback_eq members_def)

text \<open>The types that go, depending on the header extensions that can be sent.\<close>

definition has_extension :: "string \<Rightarrow> json list \<Rightarrow> bool" where
  "has_extension uri hs = (\<exists>h\<in>set hs. jfind h ''uri'' = Some (JString uri))"

definition dropped_types :: "json list \<Rightarrow> string list" where
  "dropped_types hs =
     (if has_extension uri_transport_cc hs then [''goog-remb'']
      else if has_extension uri_abs_send_time hs then [''transport-cc'']
      else [''transport-cc'', ''goog-remb''])"

lemma find_uri:
  assumes "\<forall>h\<in>set hs. normal_sending_extension h"
  shows "\<exists>x. find_ifE (has_uri uri) hs = Inr x \<and> (x \<noteq> None \<longleftrightarrow> has_extension uri hs)"
proof -
  have "find_ifE (has_uri uri) hs = Inr (find (\<lambda>h. jfind h ''uri'' = Some (JString uri)) hs)"
  proof (rule find_ifE_find)
    fix h assume "h \<in> set hs"
    then show "has_uri uri h = Inr (jfind h ''uri'' = Some (JString uri))"
      using assms by (auto simp: normal_sending_extension_def obj_with_conv found_conv
          is_nonempty_string_conv has_uri_def)
  qed
  then show ?thesis by (simp add: has_extension_def find_Some_ex)
qed

lemma getSendingRemoteRtpParameters_eq:
  assumes "normal_extended e" "sending_parameters ''remoteParameters'' kind e = Inr (cs, hs)"
  shows "getSendingRemoteRtpParameters kind e =
     Inr (rtp_parameters (map (drop_feedback (dropped_types hs)) cs) hs)"
proof -
  have ok: "\<forall>h\<in>set hs. normal_sending_extension h"
    "\<forall>c\<in>set cs. found (arr_all normal_feedback) (jfind c ''rtcpFeedback'')"
    using sending_parameters_ok [OF assms(1), of "''remoteParameters''" kind] assms(2) by simp_all
  obtain x y where x: "find_ifE (has_uri uri_transport_cc) hs = Inr x"
      "x \<noteq> None \<longleftrightarrow> has_extension uri_transport_cc hs"
    and y: "find_ifE (has_uri uri_abs_send_time) hs = Inr y"
      "y \<noteq> None \<longleftrightarrow> has_extension uri_abs_send_time hs"
    using find_uri [OF ok(1)] by blast
  have "mapE (reduce_codec_feedback types) cs = Inr (map (drop_feedback types) cs)" for types
    using ok(2) by (intro mapE_ok reduce_codec_feedback_eq) auto
  then show ?thesis
    using assms(2) x y by (simp add: getSendingRemoteRtpParameters_def dropped_types_def)
qed

section \<open>Receiving a codec\<close>

lemma canReceive_ok:
  assumes "normal_extended e" "wf_json p" "validateRtpParameters p = Inr p'"
  shows "canReceive p e =
     Inr (\<exists>c\<in>set (members e ''codecs''). \<exists>pc cs. members p' ''codecs'' = pc # cs \<and>
            (\<exists>pt. jfind pc ''payloadType'' = Some pt \<and> json_eq (remote_payload_type c) pt), p')"
proof -
  from assms(1) obtain ps es where e: "e = JObject ps" "map_of ps ''codecs'' = Some (JArray es)"
    "\<forall>c\<in>set es. normal_extended_codec c"
    by (auto simp: normal_extended_def obj_with_conv found_conv arr_all_conv)
  from pars.normalises [OF assms(2,3)] obtain qs cs where p': "p' = JObject qs"
    "map_of qs ''codecs'' = Some (JArray cs)" "\<forall>c\<in>set cs. normal_codec_parameters c"
    by (auto simp: normal_parameters_def obj_with_conv found_conv arr_all_conv)
  show ?thesis
  proof (cases cs)
    case Nil
    then show ?thesis using assms(3) p' e by (simp add: canReceive_def members_def)
  next
    case (Cons pc cs')
    then obtain rs pt where pc: "pc = JObject rs" "map_of rs ''payloadType'' = Some pt"
      using p'(3) by (auto simp: normal_codec_parameters_def obj_with_conv found_conv split: option.splits)
    have "find_ifE (\<lambda>codec. bindE (jat codec ''remotePayloadType'') (\<lambda>rpt.
          bindE (jref pc ''payloadType'') (\<lambda>(pt, _). ok (json_eq rpt pt)))) es
        = Inr (find (\<lambda>c. json_eq (remote_payload_type c) pt) es)"
    proof (rule find_ifE_find)
      fix c assume "c \<in> set es"
      with e(3) have "normal_extended_codec c" by blast
      then show "bindE (jat c ''remotePayloadType'') (\<lambda>rpt.
          bindE (jref pc ''payloadType'') (\<lambda>(pt, _). ok (json_eq rpt pt)))
        = Inr (json_eq (remote_payload_type c) pt)"
        by (elim normal_extended_codecE) (simp add: pc remote_payload_type_def)
    qed
    then show ?thesis
      using assms(3) p' e pc Cons by (simp add: canReceive_def members_def find_Some_ex)
  qed
qed

section \<open>Reducing codecs\<close>

text \<open>The capability codec matches the codec at an index and none before it.\<close>

definition first_match :: "json list \<Rightarrow> json \<Rightarrow> nat \<Rightarrow> bool" where
  "first_match cs cap n =
     (n < length cs \<and> matchCodecs (cs ! n) cap False False = Inr (True, cs ! n, cap) \<and>
      (\<forall>i<n. matchCodecs (cs ! i) cap False False = Inr (False, cs ! i, cap)))"

lemma reduce_from_first:
  "first_match cs cap n \<Longrightarrow>
   reduce_from cs cap =
     (if Suc n < length cs
      then bindE (isRtxCodec (cs ! Suc n)) (\<lambda>rtx. ok (if rtx then [cs ! n, cs ! Suc n] else [cs ! n]))
      else throw (JsonError 305))"
proof (induction cs arbitrary: n)
  case (Cons c cs)
  show ?case
  proof (cases n)
    case 0
    then show ?thesis using Cons.prems by (auto simp: first_match_def isRtxCodec_def neq_Nil_conv cong: if_cong)
  next
    case (Suc k)
    with Cons.prems have "first_match cs cap k" "matchCodecs c cap False False = Inr (False, c, cap)"
      unfolding first_match_def by fastforce+
    then show ?thesis using Cons.IH Suc by (simp cong: if_cong)
  qed
qed (simp add: first_match_def)

lemma reduce_from_none:
  "\<forall>c\<in>set cs. matchCodecs c cap False False = Inr (False, c, cap) \<Longrightarrow>
   reduce_from cs cap = throw (TypeError ''no matching codec found'')"
  by (induction cs) auto

section \<open>The probator\<close>

lemma probator_extensions_eq:
  assumes "\<forall>h\<in>set hs. normal_header_extension_parameters h"
  shows "probator_extensions hs = Inr (filter (\<lambda>h. jfind h ''uri'' \<in>
     {Some (JString uri_abs_send_time), Some (JString uri_transport_cc)}) hs)"
  using assms
proof (induction hs)
  case (Cons h hs)
  then obtain ps u where "h = JObject ps" "map_of ps ''uri'' = Some (JString u)"
    by (auto simp: normal_header_extension_parameters_def obj_with_conv found_conv is_nonempty_string_conv)
  then show ?case using Cons by auto
qed simp

lemma generateProbator_ok:
  assumes "wf_json p" "validateRtpParameters p = Inr p'" "members p' ''codecs'' = c # cs"
  shows "okE (generateProbatorRtpParameters p) (\<lambda>q.
     members q ''codecs'' = [c] \<and>
     members q ''headerExtensions'' = filter (\<lambda>h. jfind h ''uri'' \<in>
       {Some (JString uri_abs_send_time), Some (JString uri_transport_cc)}) (members p' ''headerExtensions'') \<and>
     members q ''encodings'' = [JObject [(''ssrc'', JUint 1234)]] \<and>
     okE (validateRtpParameters q) (\<lambda>_. True))"
proof -
  from pars.normalises [OF assms(1,2)] obtain qs cs' hs where p': "p' = JObject qs" "wf_json p'"
    "map_of qs ''codecs'' = Some (JArray cs')" "\<forall>c\<in>set cs'. normal_codec_parameters c"
    "map_of qs ''headerExtensions'' = Some (JArray hs)" "\<forall>h\<in>set hs. normal_header_extension_parameters h"
    by (auto simp: normal_parameters_def obj_with_conv found_conv arr_all_conv)
  have cs': "cs' = c # cs" using assms(3) p' by (simp add: members_def)
  define hs' where "hs' = filter (\<lambda>h. jfind h ''uri'' \<in>
     {Some (JString uri_abs_send_time), Some (JString uri_transport_cc)}) hs"
  define q where "q = JObject (mk_obj
       [(''mid'', JString ProbatorMid), (''codecs'', JArray [c]), (''headerExtensions'', JArray hs'),
        (''encodings'', JArray [JObject [(''ssrc'', JUint (ucast ProbatorSsrc))]]),
        (''rtcp'', JObject [(''cname'', JString ''probator'')])])"
  have run: "generateProbatorRtpParameters p = Inr q"
    using assms(2) p' cs' probator_extensions_eq [OF p'(6)]
    by (simp add: generateProbatorRtpParameters_def q_def hs'_def)
  have wf: "wf_json c" "\<forall>h\<in>set hs'. wf_json h"
    using wf_map_of [OF p'(2) [unfolded p'(1)]] p'(3,5) cs' by (fastforce simp: hs'_def)+
  have c: "validateRtpCodecParameters c = Inr c" using cp.keeps [OF wf(1)] p'(4) cs' by simp
  have h: "mapE validateRtpHeaderExtensionParameters hs' = Inr hs'"
    using wf(2) p'(6) by (intro hp.list_keeps) (auto simp: hs'_def)
  have "okE (validateRtpParameters q) (\<lambda>_. True)"
    using c h
    by (simp add: q_def validateRtpParameters_def validate_array_member_def ProbatorMid_def
        validateRtpEncodingParameters_def validateRtcpParameters_def)
  then show ?thesis
    unfolding run using p' by (simp add: q_def members_def hs'_def ProbatorSsrc_def)
qed

section \<open>Example capabilities\<close>

definition example_codec :: "string \<Rightarrow> 64 word \<Rightarrow> json" where
  "example_codec mime pt =
     JObject [(''clockRate'', JUint 90000), (''kind'', JString ''video''), (''mimeType'', JString mime),
              (''parameters'', JObject []), (''preferredPayloadType'', JUint pt),
              (''rtcpFeedback'', JArray
                 [JObject [(''parameter'', JString []), (''type'', JString ''goog-remb'')],
                  JObject [(''parameter'', JString []), (''type'', JString ''transport-cc'')]])]"

definition example_rtx :: "64 word \<Rightarrow> 64 word \<Rightarrow> json" where
  "example_rtx pt apt =
     JObject [(''clockRate'', JUint 90000), (''kind'', JString ''video''), (''mimeType'', JString ''video/rtx''),
              (''parameters'', JObject [(''apt'', JUint apt)]), (''preferredPayloadType'', JUint pt),
              (''rtcpFeedback'', JArray [])]"

definition example_extension :: "64 word \<Rightarrow> json" where
  "example_extension i =
     JObject [(''direction'', JString ''sendrecv''), (''kind'', JString ''video''),
              (''preferredEncrypt'', JBool False), (''preferredId'', JUint i),
              (''uri'', JString uri_transport_cc)]"

definition example_caps :: "string \<Rightarrow> 64 word \<Rightarrow> json" where
  "example_caps mime pt =
     JObject [(''codecs'', JArray [example_codec mime pt, example_rtx (pt + 1) pt]),
              (''headerExtensions'', JArray [example_extension pt])]"

lemma example_caps_valid:
  "validateRtpCapabilities (example_caps ''video/VP8'' 96) = ok (example_caps ''video/VP8'' 96)"
  "validateRtpCapabilities (example_caps ''video/vp8'' 101) = ok (example_caps ''video/vp8'' 101)"
  "wf_json (example_caps ''video/VP8'' 96)" "wf_json (example_caps ''video/vp8'' 101)"
  "negotiable_codecs (example_caps ''video/VP8'' 96)" "negotiable_codecs (example_caps ''video/vp8'' 101)"
  "negotiable_extensions (example_caps ''video/vp8'' 101)"
  by code_simp+

lemma example_extended:
  "\<exists>e. getExtendedRtpCapabilities (example_caps ''video/VP8'' 96) (example_caps ''video/vp8'' 101) = ok e \<and>
     normal_extended e"
  using getExtendedRtpCapabilities_ok [OF example_caps_valid] by (auto elim!: okE_E)

lemma canSend_ok: "normal_extended e \<Longrightarrow> okE (canSend kind e) (\<lambda>_. True)"
  by (auto simp: normal_extended_def obj_with_conv found_conv arr_all_conv canSend_def find_kind)

section \<open>Both sides negotiated\<close>

lemma negotiated_ok:
  assumes "wf_json l" "wf_json r"
    and "validateRtpCapabilities l = ok l'" "validateRtpCapabilities r = ok r'"
    and "negotiable_codecs l'" "negotiable_codecs r'" "negotiable_extensions r'"
    and "\<forall>c\<in>set (members r' ''codecs''). is_rtx c \<or> found is_number_integer (jfind c ''preferredPayloadType'')"
  shows "\<exists>e caps caps'. getExtendedRtpCapabilities l r = ok e \<and> normal_extended e \<and> getRecvRtpCapabilities e = ok caps \<and>
     validateRtpCapabilities caps = ok caps'"
proof -
  from getExtendedRtpCapabilities_ok [OF assms(3,4,1,2,5,6,7)] obtain e where
    e: "getExtendedRtpCapabilities l r = ok e" "normal_extended e"
      "subseq (map remote_payload_type (members e ''codecs''))
         (map (snd \<circ> codec_core) (filter (\<lambda>c. \<not> is_rtx c) (members r' ''codecs'')))"
    by (auto elim!: okE_E)
  have "is_number_integer (remote_payload_type c)" if "c \<in> set (members e ''codecs'')" for c
  proof -
    have "remote_payload_type c \<in> set (map remote_payload_type (members e ''codecs''))" using that by simp
    then have "remote_payload_type c \<in> set (map (snd \<circ> codec_core) (filter (\<lambda>c. \<not> is_rtx c) (members r' ''codecs'')))"
      using list_emb_set [OF e(3)] by blast
    then show ?thesis using assms(8) by (auto simp: codec_core_def found_conv)
  qed
  then have "okE (getRecvRtpCapabilities e) (\<lambda>caps. okE (validateRtpCapabilities caps) (\<lambda>_. True))"
    using getRecvRtpCapabilities_ok [OF e(2)] by blast
  then show ?thesis using e(1,2) by (auto elim!: okE_E)
qed

section \<open>Properties\<close>



text \<open>C21. When moreover every remote media codec has a payload type, the receiving capabilities are
  computed and pass the validation \<open>Device::Load\<close> applies to them.\<close>

theorem receiving_capabilities_valid:
  assumes "wf_json l" "wf_json r"
    and "validateRtpCapabilities l = ok l'" "validateRtpCapabilities r = ok r'"
    and "negotiable_codecs l'" "negotiable_codecs r'" "negotiable_extensions r'"
    and "\<forall>c\<in>set (members r' ''codecs''). is_rtx c \<or> found is_number_integer (jfind c ''preferredPayloadType'')"
  shows "\<exists>e caps caps'. getExtendedRtpCapabilities l r = ok e \<and> getRecvRtpCapabilities e = ok caps \<and>
     validateRtpCapabilities caps = ok caps'"
  using negotiated_ok [OF assms] by blast

theorem receiving_capabilities_valid_witness:
  "\<exists>e caps caps'. getExtendedRtpCapabilities (example_caps ''video/VP8'' 96) (example_caps ''video/vp8'' 101) = ok e \<and>
     getRecvRtpCapabilities e = ok caps \<and> validateRtpCapabilities caps = ok caps'"
proof -
  have "\<forall>c\<in>set (members (example_caps ''video/vp8'' 101) ''codecs'').
      is_rtx c \<or> found is_number_integer (jfind c ''preferredPayloadType'')" by code_simp
  from receiving_capabilities_valid [OF example_caps_valid(3,4,1,2,5,6,7) this] show ?thesis .
qed



text \<open>C22. In the parameters for the remote side of a sender the congestion-control feedback is settled:
  no codec keeps \<open>transport-cc\<close> unless the transport-wide sequence number extension is sent, and none
  keeps \<open>goog-remb\<close> unless only the absolute send time extension is. Every other feedback entry stays.\<close>

theorem remote_parameters_feedback:
  assumes "normal_extended e"
  shows "\<exists>cs hs p. sending_parameters ''remoteParameters'' kind e = ok (cs, hs) \<and>
     getSendingRemoteRtpParameters kind e = ok p \<and> members p ''headerExtensions'' = hs \<and>
     map (\<lambda>c. members c ''rtcpFeedback'') (members p ''codecs'') =
       map (\<lambda>c. filter (\<lambda>fb.
           (feedback_type fb = Some ''transport-cc'' \<longrightarrow> has_extension uri_transport_cc hs) \<and>
           (feedback_type fb = Some ''goog-remb'' \<longrightarrow>
              \<not> has_extension uri_transport_cc hs \<and> has_extension uri_abs_send_time hs))
         (members c ''rtcpFeedback'')) cs"
proof -
  from sending_parameters_ok [OF assms, of "''remoteParameters''" kind] obtain cs hs where
    run: "sending_parameters ''remoteParameters'' kind e = Inr (cs, hs)" and
    fb: "\<forall>c\<in>set cs. found (arr_all normal_feedback) (jfind c ''rtcpFeedback'')"
    by (auto elim!: okE_E)
  let ?p = "rtp_parameters (map (drop_feedback (dropped_types hs)) cs) hs"
  have keep: "feedback_type x \<notin> Some ` set (dropped_types hs) \<longleftrightarrow>
      (feedback_type x = Some ''transport-cc'' \<longrightarrow> has_extension uri_transport_cc hs) \<and>
      (feedback_type x = Some ''goog-remb'' \<longrightarrow>
         \<not> has_extension uri_transport_cc hs \<and> has_extension uri_abs_send_time hs)" for x
    by (auto simp: dropped_types_def)
  have "members (drop_feedback types c) ''rtcpFeedback'' =
      filter (\<lambda>x. feedback_type x \<notin> Some ` set types) (members c ''rtcpFeedback'')" if "c \<in> set cs" for c types
    using fb that by (cases c) (auto simp: drop_feedback_def members_def found_conv)
  then have "map (\<lambda>c. members c ''rtcpFeedback'') (members ?p ''codecs'') =
      map (\<lambda>c. filter (\<lambda>x. feedback_type x \<notin> Some ` set (dropped_types hs)) (members c ''rtcpFeedback'')) cs"
    by (simp add: rtp_parameters_def members_def)
  moreover have "members ?p ''headerExtensions'' = hs" by (simp add: rtp_parameters_def members_def)
  ultimately show ?thesis
    using run getSendingRemoteRtpParameters_eq [OF assms run] unfolding keep by blast
qed

theorem remote_parameters_feedback_witness:
  "\<exists>e p. getExtendedRtpCapabilities (example_caps ''video/VP8'' 96) (example_caps ''video/vp8'' 101) = ok e \<and>
     getSendingRemoteRtpParameters ''video'' e = ok p"
  using example_extended remote_parameters_feedback [of _ "''video''"] by blast

text \<open>C23. RTP parameters can be received exactly when some extended codec has the payload type of their
  first codec as its remote payload type; parameters without codecs cannot. The parameters are left
  validated.\<close>

theorem can_receive_iff:
  assumes "normal_extended e" "wf_json p" "validateRtpParameters p = ok p'"
  shows "\<exists>can. canReceive p e = ok (can, p') \<and>
     (can \<longleftrightarrow> (\<exists>pc cs pt. members p' ''codecs'' = pc # cs \<and> jfind pc ''payloadType'' = Some pt \<and>
        (\<exists>c\<in>set (members e ''codecs''). json_eq (remote_payload_type c) pt)))"
  unfolding canReceive_ok [OF assms] by (rule exI, rule conjI, rule refl) blast

definition example_parameters :: "64 word \<Rightarrow> json" where
  "example_parameters pt =
     JObject [(''codecs'', JArray [JObject [(''clockRate'', JUint 90000), (''mimeType'', JString ''video/VP8''),
                (''parameters'', JObject []), (''payloadType'', JUint pt), (''rtcpFeedback'', JArray [])]]),
              (''encodings'', JArray []), (''headerExtensions'', JArray []),
              (''rtcp'', JObject [(''reducedSize'', JBool True)])]"

lemma example_parameters_valid:
  "wf_json (example_parameters 101)"
  "validateRtpParameters (example_parameters 101) = ok (example_parameters 101)"
  by code_simp+

theorem can_receive_iff_witness:
  "\<exists>e can. getExtendedRtpCapabilities (example_caps ''video/VP8'' 96) (example_caps ''video/vp8'' 101) = ok e \<and>
     canReceive (example_parameters 101) e = ok (can, example_parameters 101)"
  using example_extended can_receive_iff [OF _ example_parameters_valid] by blast

text \<open>C24. With a capability codec, \<open>reduceCodecs\<close> keeps the first codec it matches and the RTX codec that
  follows it. When the match is the last codec of the list there is no following one: the read past
  the end appends null and the RTX test on it throws the JSON library's \<open>type_error\<close> 305, so the
  only valid choice is refused.\<close>

theorem reduce_codecs_first_match:
  assumes "first_match cs (JObject cap) n"
  shows "reduceCodecs (JArray cs) (Some (JObject cap)) =
     (if Suc n < length cs
      then bindE (isRtxCodec (cs ! Suc n)) (\<lambda>rtx. ok (if rtx then [cs ! n, cs ! Suc n] else [cs ! n]))
      else throw (JsonError 305))"
  using reduce_from_first [OF assms] by (simp add: reduceCodecs_def)

theorem reduce_codecs_first_match_witness:
  "reduceCodecs (JArray [example_codec ''video/VP8'' 96, example_rtx 97 96])
       (Some (example_codec ''video/vp8'' 96)) = ok [example_codec ''video/VP8'' 96, example_rtx 97 96] \<and>
   reduceCodecs (JArray [example_codec ''video/VP8'' 96]) (Some (example_codec ''video/vp8'' 96))
     = throw (JsonError 305)"
proof -
  obtain cap where cap: "example_codec ''video/vp8'' 96 = JObject cap" by (simp add: example_codec_def)
  have "first_match [example_codec ''video/VP8'' 96, example_rtx 97 96] (example_codec ''video/vp8'' 96) 0"
    "first_match [example_codec ''video/VP8'' 96] (example_codec ''video/vp8'' 96) 0"
    "isRtxCodec (example_rtx 97 96) = ok True"
    by code_simp+
  with reduce_codecs_first_match [of _ cap 0] show ?thesis by (auto simp: cap)
qed

text \<open>C25. The probator parameters made from video parameters with at least one codec have that codec, the
  two bandwidth-estimation extensions the video has, and one encoding with SSRC 1234; they are valid
  RTP parameters.\<close>

theorem probator_parameters:
  assumes "wf_json p" "validateRtpParameters p = ok p'" "members p' ''codecs'' = c # cs"
  shows "\<exists>q q'. generateProbatorRtpParameters p = ok q \<and> validateRtpParameters q = ok q' \<and>
     members q ''codecs'' = [c] \<and>
     members q ''headerExtensions'' = filter (\<lambda>h. jfind h ''uri'' \<in>
       {Some (JString uri_abs_send_time), Some (JString uri_transport_cc)}) (members p' ''headerExtensions'') \<and>
     members q ''encodings'' = [JObject [(''ssrc'', JUint 1234)]]"
  using generateProbator_ok [OF assms] by (auto elim!: okE_E)

theorem probator_parameters_witness:
  "\<exists>q q'. generateProbatorRtpParameters (example_parameters 101) = ok q \<and> validateRtpParameters q = ok q'"
proof -
  obtain c where "members (example_parameters 101) ''codecs'' = [c]"
    by (simp add: example_parameters_def members_def)
  from probator_parameters [OF example_parameters_valid this] show ?thesis by blast
qed

end
