(* ===== verification/Regex.thy ===== *)
theory Regex
  imports Prelude
begin

text \<open>
  The regular expressions of the SDP grammar: a backtracking matcher with the priorities of
  ECMAScript (\<open>std::regex\<close> in its default syntax), searching and full matching, captured groups,
  and the rules for the first match that the round trips of the grammar rest on.
\<close>

section \<open>Character classes\<close>

definition is_digit :: "char \<Rightarrow> bool" where
  "is_digit c = (let n = of_char c :: int in 48 \<le> n \<and> n \<le> 57)"

definition is_alpha :: "char \<Rightarrow> bool" where
  "is_alpha c = (let n = of_char c :: int in 65 \<le> n \<and> n \<le> 90 \<or> 97 \<le> n \<and> n \<le> 122)"

text \<open>\<open>\w\<close>\<close>

definition is_word :: "char \<Rightarrow> bool" where
  "is_word c = (is_alpha c \<or> is_digit c \<or> c = CHR ''_'')"

text \<open>\<open>\s\<close>, which is \<open>isspace\<close> in the C locale\<close>

definition is_space :: "char \<Rightarrow> bool" where
  "is_space c = (let n = of_char c :: int in n = 32 \<or> 9 \<le> n \<and> n \<le> 13)"

text \<open>\<open>.\<close> matches all but the line terminators\<close>

definition is_any :: "char \<Rightarrow> bool" where
  "is_any c = (c \<noteq> CHR 0x0A \<and> c \<noteq> CHR 0x0D)"

section \<open>Regular expressions\<close>

datatype re =
    Eps
  | Sym "char \<Rightarrow> bool"
  | Lit string
  | Bol
  | Eol
  | Seq re re
  | Alt re re
  | Opt re
  | Star re
  | Cap nat re

text \<open>
  The state of a match: whether the position is the start of the searched string, the rest of the
  input and the captured groups, the latest first.
\<close>

type_synonym mstate = "bool \<times> string \<times> (nat \<times> string) list"

text \<open>
  The matches from a state in the order a backtracking ECMAScript matcher finds them: alternatives
  from left to right, repetitions greedily. An iteration that consumes nothing ends its branch.
\<close>

function re_run :: "re \<Rightarrow> mstate \<Rightarrow> mstate list" where
  "re_run Eps st = [st]"
| "re_run (Sym p) st =
     (case st of
        (_, x # xs, c) \<Rightarrow> if p x then [(False, xs, c)] else []
      | _ \<Rightarrow> [])"
| "re_run (Lit l) st =
     (case st of (b, s, c) \<Rightarrow> if take (length l) s = l then [(b \<and> l = [], drop (length l) s, c)] else [])"
| "re_run Bol st = (if fst st then [st] else [])"
| "re_run Eol st = (if fst (snd st) = [] then [st] else [])"
| "re_run (Seq r q) st = concat (map (re_run q) (re_run r st))"
| "re_run (Alt r q) st = re_run r st @ re_run q st"
| "re_run (Opt r) st = re_run r st @ [st]"
| "re_run (Star r) st =
     concat (map (\<lambda>st'. if length (fst (snd st')) < length (fst (snd st)) then re_run (Star r) st' else [])
                 (re_run r st)) @ [st]"
| "re_run (Cap i r) st =
     map (\<lambda>(b, s, c). (b, s, (i, take (length (fst (snd st)) - length s) (fst (snd st))) # c)) (re_run r st)"
  by pat_completeness auto
termination
  by (relation "measures [\<lambda>(r, _). size r, \<lambda>(_, st). length (fst (snd st))]") auto

declare re_run.simps(9) [simp del]

definition re_first :: "re \<Rightarrow> mstate \<Rightarrow> mstate option" where
  "re_first r st = (case re_run r st of [] \<Rightarrow> None | m # _ \<Rightarrow> Some m)"

text \<open>
  \<open>std::regex_search\<close>: the leftmost match, as prefix, matched part, rest and groups. Only the first
  attempt is at the start of the string.
\<close>

fun re_search_from :: "re \<Rightarrow> bool \<Rightarrow> string \<Rightarrow> (string \<times> string \<times> string \<times> (nat \<times> string) list) option" where
  "re_search_from r b s =
     (case re_first r (b, s, []) of
        Some (_, s', c) \<Rightarrow> Some ([], take (length s - length s') s, s', c)
      | None \<Rightarrow>
          (case s of
             [] \<Rightarrow> None
           | x # xs \<Rightarrow> map_option (\<lambda>(p, m). (x # p, m)) (re_search_from r False xs)))"

declare re_search_from.simps [simp del]

definition re_search :: "re \<Rightarrow> string \<Rightarrow> (string \<times> string \<times> string \<times> (nat \<times> string) list) option" where
  "re_search r s = re_search_from r True s"

text \<open>\<open>std::regex_match\<close>: the first match of the whole string.\<close>

definition re_match :: "re \<Rightarrow> string \<Rightarrow> (nat \<times> string) list option" where
  "re_match r s = map_option (\<lambda>(_, _, c). c) (find (\<lambda>(_, s', _). s' = []) (re_run r (True, s, [])))"

text \<open>\<open>match[i].str()\<close>: empty for a group that did not take part.\<close>

definition re_group :: "(nat \<times> string) list \<Rightarrow> nat \<Rightarrow> string" where
  "re_group c i = (case map_of c i of Some s \<Rightarrow> s | None \<Rightarrow> [])"

primrec re_groups :: "re \<Rightarrow> nat" where
  "re_groups Eps = 0"
| "re_groups (Sym p) = 0"
| "re_groups (Lit l) = 0"
| "re_groups Bol = 0"
| "re_groups Eol = 0"
| "re_groups (Seq r q) = re_groups r + re_groups q"
| "re_groups (Alt r q) = re_groups r + re_groups q"
| "re_groups (Opt r) = re_groups r"
| "re_groups (Star r) = re_groups r"
| "re_groups (Cap i r) = Suc (re_groups r)"

text \<open>Sequences, one or more repetitions, alternatives.\<close>

fun seqs :: "re list \<Rightarrow> re" where
  "seqs [] = Eps"
| "seqs (r # rs) = Seq r (seqs rs)"

definition re_plus :: "re \<Rightarrow> re" where
  "re_plus r = Seq r (Star r)"

fun alts :: "re list \<Rightarrow> re" where
  "alts [] = Eps"
| "alts [r] = r"
| "alts (r # rs) = Alt r (alts rs)"

section \<open>First matches\<close>

lemma re_first_Eps [simp]: "re_first Eps st = Some st"
  by (simp add: re_first_def)

lemma re_first_Bol [simp]: "re_first Bol (True, s, c) = Some (True, s, c)"
  by (simp add: re_first_def)

lemma re_first_Eol [simp]: "re_first Eol (b, [], c) = Some (b, [], c)"
  by (simp add: re_first_def)

lemma re_first_Sym [simp]: "p x \<Longrightarrow> re_first (Sym p) (b, x # xs, c) = Some (False, xs, c)"
  by (simp add: re_first_def)

lemma re_first_Seq: "re_first r st = Some m \<Longrightarrow> re_first q m = Some n \<Longrightarrow> re_first (Seq r q) st = Some n"
  by (auto simp: re_first_def split: list.splits)

lemma re_first_Alt1: "re_first r st = Some m \<Longrightarrow> re_first (Alt r q) st = Some m"
  by (auto simp: re_first_def split: list.splits)

lemma re_first_Alt2: "re_first r st = None \<Longrightarrow> re_first (Alt r q) st = re_first q st"
  by (auto simp: re_first_def split: list.splits)

lemma re_first_Opt1: "re_first r st = Some m \<Longrightarrow> re_first (Opt r) st = Some m"
  by (auto simp: re_first_def split: list.splits)

lemma re_first_Opt2: "re_first r st = None \<Longrightarrow> re_first (Opt r) st = Some st"
  by (auto simp: re_first_def split: list.splits)

lemma re_first_Cap:
  "re_first r (b, s, c) = Some (b', s', c') \<Longrightarrow>
   re_first (Cap i r) (b, s, c) = Some (b', s', (i, take (length s - length s') s) # c')"
  by (auto simp: re_first_def split: list.splits)

lemma re_first_Star_Sym:
  "\<forall>x\<in>set xs. p x \<Longrightarrow> ys = [] \<or> \<not> p (hd ys) \<Longrightarrow>
   re_first (Star (Sym p)) (b, xs @ ys, c) = Some (b \<and> xs = [], ys, c)"
proof (induction xs arbitrary: b)
  case Nil
  then show ?case by (cases ys) (simp_all add: re_first_def re_run.simps(9))
next
  case (Cons x xs)
  then have "re_first (Star (Sym p)) (False, xs @ ys, c) = Some (False, ys, c)"
    using Cons.IH [of False] by simp
  then show ?case
    using Cons.prems
    by (auto simp: re_first_def re_run.simps(9) [of _ "(b, x # xs @ ys, c)"] split: list.splits)
qed

lemma re_first_Seq_None1: "re_first r st = None \<Longrightarrow> re_first (Seq r q) st = None"
  by (auto simp: re_first_def split: list.splits)

lemma re_first_Sym_None [simp]: "\<not> p x \<Longrightarrow> re_first (Sym p) (b, x # xs, c) = None" "re_first (Sym p) (b, [], c) = None"
  by (simp_all add: re_first_def)

lemma re_first_Lit: "re_first (Lit l) (b, l @ s, c) = Some (b \<and> l = [], s, c)"
  by (simp add: re_first_def)

lemma re_first_Lit_None: "take (length l) s \<noteq> l \<Longrightarrow> re_first (Lit l) (b, s, c) = None"
  by (simp add: re_first_def)

lemma re_search_first:
  "re_first r (True, s, []) = Some (b, s', c) \<Longrightarrow> re_search r s = Some ([], take (length s - length s') s, s', c)"
  by (simp add: re_search_def re_search_from.simps)

section \<open>Literal prefixes\<close>

text \<open>The literals one of which every match starts with.\<close>

primrec must_start :: "re \<Rightarrow> string list" where
  "must_start Eps = [[]]"
| "must_start (Sym p) = [[]]"
| "must_start (Lit l) = [l]"
| "must_start Bol = [[]]"
| "must_start Eol = [[]]"
| "must_start (Seq r q) = (case r of Bol \<Rightarrow> must_start q | _ \<Rightarrow> must_start r)"
| "must_start (Alt r q) = must_start r @ must_start q"
| "must_start (Opt r) = [[]]"
| "must_start (Star r) = [[]]"
| "must_start (Cap i r) = must_start r"

fun anchored :: "re \<Rightarrow> bool" where
  "anchored (Seq Bol r) = True"
| "anchored _ = False"

lemma must_start_run:
  "m \<in> set (re_run r st) \<Longrightarrow> \<exists>l\<in>set (must_start r). take (length l) (fst (snd st)) = l"
proof (induction r arbitrary: st m)
  case (Lit l)
  then show ?case by (auto split: prod.splits if_splits)
next
  case (Seq r q)
  then obtain m' where m': "m' \<in> set (re_run r st)" "m \<in> set (re_run q m')"
    by auto
  show ?case
  proof (cases "r = Bol")
    case True
    then show ?thesis
      using m' Seq.IH(2) [of m st] by (auto split: if_splits)
  next
    case False
    then show ?thesis
      using Seq.IH(1) [OF m'(1)] by (cases r) simp_all
  qed
next
  case (Alt r q)
  then have "m \<in> set (re_run r st) \<or> m \<in> set (re_run q st)"
    by simp
  then show ?case
    using Alt.IH(1) [of m st] Alt.IH(2) [of m st] by fastforce
next
  case (Cap i r)
  then obtain m' where "m' \<in> set (re_run r st)"
    by auto
  then show ?case
    using Cap.IH [of m' st] by simp
qed simp_all

lemma re_search_from_anchored: "anchored r \<Longrightarrow> re_search_from r False s = None"
proof (induction s)
  case Nil
  then show ?case by (cases r rule: anchored.cases) (simp_all add: re_search_from.simps re_first_def)
next
  case (Cons x s)
  then show ?case
    by (cases r rule: anchored.cases) (simp_all add: re_search_from.simps [of _ _ "x # s"] re_first_def)
qed

lemma re_search_anchored:
  "anchored r \<Longrightarrow> re_search r s =
     map_option (\<lambda>(_, s', c). ([], take (length s - length s') s, s', c)) (re_first r (True, s, []))"
  by (cases s)
    (auto simp: re_search_def re_search_from.simps [of r True] re_search_from_anchored split: option.splits)

lemma re_search_mismatch:
  assumes "anchored r" "\<forall>l\<in>set (must_start r). take (length l) s \<noteq> l"
  shows "re_search r s = None"
proof -
  have "re_run r (True, s, []) = []"
    using must_start_run [of _ r "(True, s, [])"] assms(2) by (cases "re_run r (True, s, [])") auto
  then show ?thesis
    by (simp add: re_search_anchored [OF assms(1)] re_first_def)
qed

end
