(* ===== verification/Numbers.thy ===== *)
theory Numbers
  imports Regex
begin

text \<open>
  The conversions between numbers and text that the C++ streams do: rounding to binary precision,
  the default printing of a float, and the reading of integers and floating-point numbers.
\<close>

section \<open>Rounding\<close>

definition rat_pow :: "nat \<Rightarrow> int \<Rightarrow> rat" where
  "rat_pow b x = (if 0 \<le> x then of_nat b ^ nat x else 1 / of_nat b ^ nat (- x))"

definition round_half_even :: "rat \<Rightarrow> int" where
  "round_half_even r =
     (let f = \<lfloor>r\<rfloor>; d = r - of_int f in
      if d < 1 / 2 \<or> d = 1 / 2 \<and> even f then f else f + 1)"

text \<open>The largest exponent in the range of a double whose power is at most the (positive) value.\<close>

definition exponent :: "nat \<Rightarrow> rat \<Rightarrow> int" where
  "exponent b a = (case find (\<lambda>x. rat_pow b x \<le> a) (rev [- 1100..1100]) of Some x \<Rightarrow> x | None \<Rightarrow> - 1100)"

text \<open>
  Rounding to nearest, ties to even, with a precision in bits and a least exponent: \<open>float\<close> has 24
  bits and \<open>double\<close> 53.
\<close>

definition round_bin :: "int \<Rightarrow> int \<Rightarrow> rat \<Rightarrow> rat" where
  "round_bin prec least r =
     (if r = 0 then 0
      else
        let q = max (exponent 2 \<bar>r\<bar> - (prec - 1)) least
        in of_int (round_half_even (r / rat_pow 2 q)) * rat_pow 2 q)"

text \<open>The conversion of a double to a float is undefined when the value is out of range.\<close>

definition to_float :: "rat \<Rightarrow> rat result" where
  "to_float r =
     (let f = round_bin 24 (- 149) r in if \<bar>f\<bar> < rat_pow 2 128 then ok f else throw Undefined)"

section \<open>Printing\<close>

text \<open>\<open>std::ostream << float\<close> with the default format: six significant digits, as \<open>%g\<close>.\<close>

definition strip_zeros :: "string \<Rightarrow> string" where
  "strip_zeros s = rev (dropWhile (\<lambda>c. c = CHR ''0'') (rev s))"

definition with_fraction :: "string \<Rightarrow> string \<Rightarrow> string" where
  "with_fraction i f = (if strip_zeros f = [] then i else i @ ''.'' @ strip_zeros f)"

definition show_g6 :: "rat \<Rightarrow> string" where
  "show_g6 r =
     (if r = 0 then ''0''
      else
        let a = \<bar>r\<bar>; e0 = exponent 10 a; n0 = round_half_even (a / rat_pow 10 (e0 - 5));
            (e, n) = (if n0 = 1000000 then (e0 + 1, 100000) else (e0, n0));
            ds = show_nat (nat n);
            body =
              (if - 4 \<le> e \<and> e < 6 then
                 if 0 \<le> e then with_fraction (take (nat e + 1) ds) (drop (nat e + 1) ds)
                 else with_fraction ''0'' (replicate (nat (- e) - 1) (CHR ''0'') @ ds)
               else
                 with_fraction (take 1 ds) (drop 1 ds) @ (if e < 0 then ''e-'' else ''e+'') @
                 (if \<bar>e\<bar> < 10 then ''0'' else []) @ show_nat (nat \<bar>e\<bar>))
        in (if r < 0 then CHR ''-'' # body else body))"

section \<open>Reading\<close>

definition split_sign :: "string \<Rightarrow> bool \<times> string" where
  "split_sign s =
     (case s of
        c # cs \<Rightarrow> if c = CHR ''-'' then (True, cs) else if c = CHR ''+'' then (False, cs) else (False, s)
      | [] \<Rightarrow> (False, []))"

definition dec_int :: "string \<Rightarrow> int" where
  "dec_int s = foldl (\<lambda>a c. 10 * a + (of_char c - 48)) 0 s"

definition signed :: "bool \<Rightarrow> int \<Rightarrow> int" where
  "signed neg v = (if neg then - v else v)"

text \<open>
  Reading a whole string with \<open>iss >> std::noskipws >> n\<close>: the sign and the digits, up to the end of
  the stream, in the range of the type. A negative number read into an unsigned one wraps.
\<close>

definition read_int64 :: "string \<Rightarrow> int option" where
  "read_int64 s =
     (let (neg, ds) = split_sign s; v = signed neg (dec_int ds) in
      if ds \<noteq> [] \<and> list_all is_digit ds \<and> - (2 ^ 63) \<le> v \<and> v < 2 ^ 63 then Some v else None)"

definition read_uint64 :: "string \<Rightarrow> 64 word option" where
  "read_uint64 s =
     (let (neg, ds) = split_sign s; v = dec_int ds in
      if ds \<noteq> [] \<and> list_all is_digit ds \<and> v < 2 ^ 64 then Some (word_of_int (signed neg v)) else None)"

text \<open>
  The numbers \<open>strtod\<close> reads to the end, among those a stream passes to it: decimal and hexadecimal
  floating constants, infinities and NaNs.
\<close>

datatype strtod_value = Finite rat | NonFinite

definition span :: "('a \<Rightarrow> bool) \<Rightarrow> 'a list \<Rightarrow> 'a list \<times> 'a list" where
  "span p xs = (takeWhile p xs, dropWhile p xs)"

definition is_hex :: "char \<Rightarrow> bool" where
  "is_hex c = (is_digit c \<or> to_lower_char c \<in> set ''abcdef'')"

definition hex_int :: "string \<Rightarrow> int" where
  "hex_int s =
     foldl (\<lambda>a c. 16 * a + (if is_digit c then of_char c - 48 else of_char (to_lower_char c) - 87)) 0 s"

definition read_exponent :: "char \<Rightarrow> string \<Rightarrow> int option" where
  "read_exponent mark s =
     (case s of
        [] \<Rightarrow> Some 0
      | c # cs \<Rightarrow>
          let (neg, ds) = split_sign cs in
          if to_lower_char c = mark \<and> ds \<noteq> [] \<and> list_all is_digit ds then Some (signed neg (dec_int ds))
          else None)"

definition read_mantissa :: "(char \<Rightarrow> bool) \<Rightarrow> string \<Rightarrow> string \<times> string \<times> string" where
  "read_mantissa p s =
     (let (whole, r) = span p s in
      case r of
        c # r' \<Rightarrow> if c = CHR ''.'' then (whole, span p r') else (whole, [], r)
      | [] \<Rightarrow> (whole, [], []))"

definition read_unsigned_float :: "string \<Rightarrow> strtod_value option" where
  "read_unsigned_float s =
     (if to_lower s \<in> {''inf'', ''nan''} then Some NonFinite
      else if to_lower (take 2 s) = ''0x'' then
        let (w, f, r) = read_mantissa is_hex (drop 2 s) in
        if w @ f = [] then None
        else map_option (\<lambda>x. Finite (of_int (hex_int (w @ f)) * rat_pow 2 (x - 4 * int (length f))))
               (read_exponent CHR ''p'' r)
      else
        let (w, f, r) = read_mantissa is_digit s in
        if w @ f = [] then None
        else map_option (\<lambda>x. Finite (of_int (dec_int (w @ f)) * rat_pow 10 (x - int (length f))))
               (read_exponent CHR ''e'' r))"

definition read_strtod :: "string \<Rightarrow> strtod_value option" where
  "read_strtod s =
     (let (neg, r) = split_sign s in
      map_option (\<lambda>v. case v of Finite x \<Rightarrow> Finite (if neg then - x else x) | NonFinite \<Rightarrow> NonFinite)
        (read_unsigned_float r))"

text \<open>
  \<open>iss >> f\<close> for a \<open>float\<close> or \<open>double\<close> of a precision, least exponent and range: \<open>None\<close> when the
  stream fails or has input left. A result below the normal range is not modelled.
\<close>

definition read_binary :: "int \<Rightarrow> int \<Rightarrow> int \<Rightarrow> string \<Rightarrow> rat option result" where
  "read_binary prec least emax s =
     (case read_strtod s of
        None \<Rightarrow> ok None
      | Some NonFinite \<Rightarrow> throw Unmodelled
      | Some (Finite r) \<Rightarrow>
          let f = round_bin prec least r in
          if rat_pow 2 emax \<le> \<bar>f\<bar> then ok None
          else if r \<noteq> 0 \<and> \<bar>r\<bar> < rat_pow 2 (2 - emax) then throw Unmodelled
          else ok (Some f))"

definition read_float :: "string \<Rightarrow> rat option result" where
  "read_float = read_binary 24 (- 149) 128"

definition read_double :: "string \<Rightarrow> rat option result" where
  "read_double = read_binary 53 (- 1074) 1024"

end
