(* ===== verification/Media_Section.thy ===== *)
theory Media_Section
  imports Ortc_Validate Numbers
begin

text \<open>
  The m= sections of the remote session description (\<open>src/sdp/MediaSection.cpp\<close>): the base class
  with its ICE attributes, the sections of an SDP answer and of an SDP offer, and the operations
  the remote description applies to them. A section is its \<open>mediaObject\<close>; the two subclasses differ
  in their constructors and in \<open>SetDtlsRole\<close>.
\<close>

section \<open>Printing\<close>

text \<open>What \<open>j.items()\<close> visits: the members of an object, the elements of an array under their index.\<close>

fun jitems_all :: "json \<Rightarrow> (string \<times> json) list" where
  "jitems_all JNull = []"
| "jitems_all (JObject ps) = ps"
| "jitems_all (JArray xs) = zip (map show_nat [0..<length xs]) xs"
| "jitems_all j = [([], j)]"

text \<open>The value part of an fmtp parameter; a value of any other type prints nothing.\<close>

definition show_fmtp_value :: "json \<Rightarrow> string result" where
  "show_fmtp_value v =
     (case v of
        JString s \<Rightarrow> ok s
      | JFloat r \<Rightarrow> bindE (to_float r) (\<lambda>f. ok (show_g6 f))
      | JInt i \<Rightarrow> ok (show_int (sint i))
      | JUint u \<Rightarrow> ok (show_int (sint u))
      | _ \<Rightarrow> ok [])"

fun fmtp_config :: "string \<Rightarrow> (string \<times> json) list \<Rightarrow> string result" where
  "fmtp_config config [] = ok config"
| "fmtp_config config ((k, v) # items) =
     bindE (show_fmtp_value v) (\<lambda>s.
     fmtp_config ((if config = [] then [] else config @ '';'') @ k @ ''='' @ s) items)"

section \<open>The base class\<close>

definition SetIceParameters :: "json \<Rightarrow> jobj \<Rightarrow> jobj result" where
  "SetIceParameters iceParameters mediaObject =
     bindE (jat iceParameters ''usernameFragment'') (\<lambda>ufrag.
     bindE (jat iceParameters ''password'') (\<lambda>pwd.
     ok (obj_set ''icePwd'' pwd (obj_set ''iceUfrag'' ufrag mediaObject))))"

definition candidate_object :: "json \<Rightarrow> json result" where
  "candidate_object candidate =
     bindE (jat candidate ''foundation'') (\<lambda>foundation.
     bindE (jat candidate ''ip'') (\<lambda>ip.
     bindE (jat candidate ''port'') (\<lambda>port.
     bindE (jat candidate ''priority'') (\<lambda>priority.
     bindE (jat candidate ''protocol'') (\<lambda>protocol.
     bindE (jat candidate ''type'') (\<lambda>type.
     let c = mk_obj
          [(''component'', JInt 1), (''foundation'', foundation), (''ip'', ip), (''port'', port),
           (''priority'', priority), (''transport'', protocol), (''type'', type)]
     in ok (JObject (case jfind candidate ''tcpType'' of
                       Some t \<Rightarrow> obj_set ''tcptype'' t c
                     | None \<Rightarrow> c))))))))"

definition MediaSection_new :: "json \<Rightarrow> json \<Rightarrow> jobj result" where
  "MediaSection_new iceParameters iceCandidates =
     bindE (SetIceParameters iceParameters []) (\<lambda>m.
     bindE (mapE candidate_object (jelems iceCandidates)) (\<lambda>candidates.
     ok (obj_set ''iceOptions'' (JString ''renomination'')
          (obj_set ''endOfCandidates'' (JString ''end-of-candidates'')
            (obj_set ''candidates'' (JArray candidates) m)))))"

definition GetMid :: "jobj \<Rightarrow> string result" where
  "GetMid mediaObject = bindE (jat (JObject mediaObject) ''mid'') get_string"

definition IsClosed :: "jobj \<Rightarrow> bool result" where
  "IsClosed mediaObject = bindE (jat (JObject mediaObject) ''port'') (\<lambda>port. ok (json_eq port (JInt 0)))"

definition MediaSection_Disable :: "jobj \<Rightarrow> jobj" where
  "MediaSection_Disable mediaObject =
     obj_del ''rids'' (obj_del ''simulcast'' (obj_del ''ssrcGroups'' (obj_del ''ssrcs'' (obj_del ''ext''
       (obj_set ''direction'' (JString ''inactive'') mediaObject)))))"

definition MediaSection_Close :: "jobj \<Rightarrow> jobj" where
  "MediaSection_Close mediaObject =
     obj_del ''extmapAllowMixed'' (obj_del ''rids'' (obj_del ''simulcast'' (obj_del ''ssrcGroups''
       (obj_del ''ssrcs'' (obj_del ''ext''
         (obj_set ''port'' (JInt 0) (obj_set ''direction'' (JString ''inactive'') mediaObject)))))))"

section \<open>Common parts of the two constructors\<close>

text \<open>\<open>getCodecName\<close>: the prefix \<open>^(audio|video)/\<close>, case insensitive, is removed.\<close>

definition getCodecName :: "json \<Rightarrow> string result" where
  "getCodecName codec =
     bindE (jat codec ''mimeType'') (\<lambda>m.
     bindE (get_string m) (\<lambda>mimeType.
     ok (if to_lower (take 5 mimeType) \<in> {''audio'', ''video''} \<and> take 1 (drop 5 mimeType) = ''/''
         then drop 6 mimeType else mimeType)))"

definition connection_object :: json where
  "connection_object = JObject (mk_obj [(''ip'', JString ''127.0.0.1''), (''version'', JInt 4)])"

definition rtp_object :: "json \<Rightarrow> json \<Rightarrow> json result" where
  "rtp_object payloadType codec =
     bindE (getCodecName codec) (\<lambda>name.
     bindE (jat codec ''clockRate'') (\<lambda>rate.
     let rtp = mk_obj [(''payload'', payloadType), (''codec'', JString name), (''rate'', rate)] in
     case jfind codec ''channels'' of
       None \<Rightarrow> ok (JObject rtp)
     | Some c \<Rightarrow>
         bindE (get_uint c :: 8 word result) (\<lambda>channels.
         ok (JObject (if 1 < channels then obj_set ''encoding'' (JUint (ucast channels)) rtp else rtp)))))"

definition fmtp_objects :: "json \<Rightarrow> json \<Rightarrow> json list result" where
  "fmtp_objects payloadType parameters =
     bindE (fmtp_config [] (jitems_all parameters)) (\<lambda>config.
     ok (if config = [] then []
         else [JObject (mk_obj [(''payload'', payloadType), (''config'', JString config)])]))"

definition rtcpFb_object :: "json \<Rightarrow> json \<Rightarrow> json result" where
  "rtcpFb_object payloadType fb =
     bindE (jat fb ''type'') (\<lambda>type.
     bindE (jat fb ''parameter'') (\<lambda>parameter.
     ok (JObject (mk_obj [(''payload'', payloadType), (''type'', type), (''subtype'', parameter)]))))"

definition payload_string :: "json \<Rightarrow> string result" where
  "payload_string codec =
     bindE (jat codec ''payloadType'') (\<lambda>p.
     bindE (get_uint p :: 8 word result) (\<lambda>payloadType. ok (show_nat (unat payloadType))))"

text \<open>The elements separated by a blank; an empty prefix takes no separator.\<close>

definition append_word :: "string \<Rightarrow> string \<Rightarrow> string" where
  "append_word s w = (if s = [] then w else s @ '' '' @ w)"

definition payloads_string :: "json list \<Rightarrow> string result" where
  "payloads_string codecs = bindE (mapE payload_string codecs) (\<lambda>ps. ok (foldl append_word [] ps))"

definition ext_object :: "json \<Rightarrow> json result" where
  "ext_object ext =
     bindE (jat ext ''uri'') (\<lambda>uri.
     bindE (jat ext ''id'') (\<lambda>i. ok (JObject (mk_obj [(''uri'', uri), (''value'', i)]))))"

text \<open>The data channel members, in both constructors.\<close>

definition set_application :: "json \<Rightarrow> jobj \<Rightarrow> jobj result" where
  "set_application sctpParameters m =
     bindE (jat sctpParameters ''port'') (\<lambda>port.
     bindE (jat sctpParameters ''maxMessageSize'') (\<lambda>maxMessageSize.
     ok (obj_set ''maxMessageSize'' maxMessageSize (obj_set ''sctpPort'' port
          (obj_set ''payloads'' (JString ''webrtc-datachannel'') m)))))"

definition set_codec_lines :: "(json \<times> json list \<times> json list) list \<Rightarrow> string \<Rightarrow> jobj \<Rightarrow> jobj" where
  "set_codec_lines lines payloads m =
     obj_set ''payloads'' (JString payloads)
       (obj_set ''fmtp'' (JArray (concat (map (\<lambda>(_, f, _). f) lines)))
         (obj_set ''rtcpFb'' (JArray (concat (map (\<lambda>(_, _, b). b) lines)))
           (obj_set ''rtp'' (JArray (map (\<lambda>(r, _, _). r) lines)) m)))"

definition set_rtcp_members :: "jobj \<Rightarrow> jobj" where
  "set_rtcp_members m =
     obj_set ''rtcpRsize'' (JString ''rtcp-rsize'') (obj_set ''rtcpMux'' (JString ''rtcp-mux'') m)"

section \<open>The section of an answer\<close>

text \<open>Non-const reads of members that may be missing: each inserts null.\<close>

fun jtouch :: "string list \<Rightarrow> json \<Rightarrow> json result" where
  "jtouch [] j = ok j"
| "jtouch (k # ks) j = bindE (jref j k) (\<lambda>(_, j'). jtouch ks j')"

definition bool_option ::
  "json \<Rightarrow> string \<Rightarrow> string \<Rightarrow> string \<Rightarrow> json \<times> json \<Rightarrow> (json \<times> json) result" where
  "bool_option codecOptions option offerKey key st =
     (case jfind codecOptions option of
        None \<Rightarrow> ok st
      | Some v \<Rightarrow>
          let (offerCodec, codecParameters) = st in
          bindE (get_bool v) (\<lambda>b.
          bindE (jref offerCodec ''parameters'') (\<lambda>(parameters, offerCodec').
          bindE (jput parameters offerKey (JInt (if b then 1 else 0))) (\<lambda>parameters'.
          bindE (jput offerCodec' ''parameters'' parameters') (\<lambda>offerCodec''.
          bindE (jput codecParameters key (JInt (if b then 1 else 0))) (\<lambda>codecParameters'.
          ok (offerCodec'', codecParameters')))))))"

definition uint_option ::
  "json \<Rightarrow> string \<Rightarrow> string \<Rightarrow> json \<times> json \<Rightarrow> (json \<times> json) result" where
  "uint_option codecOptions option key st =
     (case jfind codecOptions option of
        None \<Rightarrow> ok st
      | Some v \<Rightarrow>
          let (offerCodec, codecParameters) = st in
          bindE (get_uint v :: 32 word result) (\<lambda>n.
          bindE (jput codecParameters key (JUint (ucast n))) (\<lambda>codecParameters'.
          ok (offerCodec, codecParameters'))))"

definition apply_codec_options :: "json \<Rightarrow> string \<Rightarrow> json \<times> json \<Rightarrow> (json \<times> json) result" where
  "apply_codec_options codecOptions mimeType st =
     (if mimeType = ''audio/opus'' then
        bindE (bool_option codecOptions ''opusStereo'' ''sprop-stereo'' ''stereo'' st) (\<lambda>st.
        bindE (bool_option codecOptions ''opusFec'' ''useinbandfec'' ''useinbandfec'' st) (\<lambda>st.
        bindE (bool_option codecOptions ''opusDtx'' ''usedtx'' ''usedtx'' st) (\<lambda>st.
        bindE (bool_option codecOptions ''opusCbr'' ''cbr'' ''cbr'' st) (\<lambda>st.
        bindE (uint_option codecOptions ''opusMaxPlaybackRate'' ''maxplaybackrate'' st) (\<lambda>st.
        bindE (uint_option codecOptions ''opusMaxAverageBitrate'' ''maxaveragebitrate'' st) (\<lambda>st.
        uint_option codecOptions ''opusPtime'' ''ptime'' st))))))
      else if mimeType \<in> {''video/vp8'', ''video/vp9'', ''video/h264'', ''video/h265''} then
        bindE (uint_option codecOptions ''videoGoogleStartBitrate'' ''x-google-start-bitrate'' st) (\<lambda>st.
        bindE (uint_option codecOptions ''videoGoogleMaxBitrate'' ''x-google-max-bitrate'' st) (\<lambda>st.
        uint_option codecOptions ''videoGoogleMinBitrate'' ''x-google-min-bitrate'' st))
      else ok st)"

text \<open>
  The search for the offered codec with the payload type of an answered one; the codecs visited are
  touched at their payload type. An iterator at the end is dereferenced unchecked, which the
  library only reports for null.
\<close>

fun update_offer_codec ::
  "json \<Rightarrow> (json \<Rightarrow> (json \<times> 'a) result) \<Rightarrow> json list \<Rightarrow> (json list \<times> 'a) option result" where
  "update_offer_codec payloadType f [] = ok None"
| "update_offer_codec payloadType f (offerCodec # cs) =
     bindE (jref offerCodec ''payloadType'') (\<lambda>(pt, offerCodec').
     if json_eq pt payloadType then
       bindE (f offerCodec') (\<lambda>(offerCodec'', x). ok (Some (offerCodec'' # cs, x)))
     else
       bindE (update_offer_codec payloadType f cs) (\<lambda>r.
       ok (map_option (\<lambda>(cs', x). (offerCodec' # cs', x)) r)))"

definition codec_parameters ::
  "json option \<Rightarrow> json \<Rightarrow> json \<Rightarrow> (json \<times> json) result" where
  "codec_parameters codecOptions codec offerRtpParameters =
     bindE (jat codec ''parameters'') (\<lambda>codecParameters.
     case codecOptions of
       None \<Rightarrow> ok (codecParameters, offerRtpParameters)
     | Some options \<Rightarrow>
         if jempty options then ok (codecParameters, offerRtpParameters)
         else
           bindE (jat codec ''payloadType'') (\<lambda>payloadType.
           bindE (jref offerRtpParameters ''codecs'') (\<lambda>(offerCodecs, offerRtpParameters').
           bindE (jat codec ''mimeType'') (\<lambda>m.
           bindE (get_string m) (\<lambda>mimeType.
           bindE (update_offer_codec payloadType
                    (\<lambda>offerCodec. apply_codec_options options (to_lower mimeType) (offerCodec, codecParameters))
                    (jelems offerCodecs)) (\<lambda>r.
           case r of
             None \<Rightarrow> (if is_null offerCodecs then throw (JsonError 214) else throw Undefined)
           | Some (cs, codecParameters') \<Rightarrow>
               bindE (jput offerRtpParameters' ''codecs'' (jrebuild offerCodecs cs)) (\<lambda>offerRtpParameters''.
               ok (codecParameters', offerRtpParameters''))))))))"

fun answer_codecs ::
  "json option \<Rightarrow> json list \<Rightarrow> json \<Rightarrow> ((json \<times> json list \<times> json list) list \<times> json) result" where
  "answer_codecs codecOptions [] offerRtpParameters = ok ([], offerRtpParameters)"
| "answer_codecs codecOptions (codec # codecs) offerRtpParameters =
     bindE (jtouch [''payloadType'', ''clockRate'', ''parameters'', ''rtcpFeedback''] codec) (\<lambda>codec'.
     bindE (jat codec' ''payloadType'') (\<lambda>payloadType.
     bindE (rtp_object payloadType codec') (\<lambda>rtp.
     bindE (codec_parameters codecOptions codec' offerRtpParameters) (\<lambda>(parameters, offerRtpParameters').
     bindE (fmtp_objects payloadType parameters) (\<lambda>fmtps.
     bindE (jat codec' ''rtcpFeedback'') (\<lambda>fbs.
     bindE (mapE (jtouch [''type'', ''parameter'']) (jelems fbs)) (\<lambda>fbs'.
     bindE (mapE (rtcpFb_object payloadType) fbs') (\<lambda>rtcpFbs.
     bindE (answer_codecs codecOptions codecs offerRtpParameters') (\<lambda>(ls, offerRtpParameters'').
     ok ((rtp, fmtps, rtcpFbs) # ls, offerRtpParameters''))))))))))"

definition answer_ext :: "json \<Rightarrow> json \<Rightarrow> json list result" where
  "answer_ext offerMediaObject ext =
     bindE (jat offerMediaObject ''ext'') (\<lambda>localExts.
     bindE (find_ifE (\<lambda>localExt.
              bindE (jat localExt ''uri'') (\<lambda>u.
              bindE (jref ext ''uri'') (\<lambda>(uri, _). ok (json_eq u uri)))) (jelems localExts)) (\<lambda>l.
     case l of
       None \<Rightarrow> ok []
     | Some _ \<Rightarrow>
         bindE (jtouch [''uri'', ''id''] ext) (\<lambda>ext'. bindE (ext_object ext') (\<lambda>e. ok [e]))))"

definition answer_rid :: "json \<Rightarrow> json list result" where
  "answer_rid rid =
     bindE (jat rid ''direction'') (\<lambda>d.
     if \<not> json_eq d (JString ''send'') then ok []
     else
       bindE (jat rid ''id'') (\<lambda>i.
       ok [JObject (mk_obj [(''id'', i), (''direction'', JString ''recv'')])]))"

definition answer_simulcast :: "json \<Rightarrow> jobj \<Rightarrow> jobj result" where
  "answer_simulcast offerMediaObject m =
     (case jfind offerMediaObject ''simulcast'' of
        Some (JObject s) \<Rightarrow>
          (case jfind offerMediaObject ''rids'' of
             None \<Rightarrow> throw Undefined
           | Some (JArray rids) \<Rightarrow>
               bindE (jat (JObject s) ''list1'') (\<lambda>list1.
               bindE (mapE answer_rid rids) (\<lambda>rs.
               ok (obj_set ''rids'' (JArray (concat rs))
                    (obj_set ''simulcast''
                      (JObject (mk_obj [(''dir1'', JString ''recv''), (''list1'', list1)])) m))))
           | Some _ \<Rightarrow> ok m)
      | _ \<Rightarrow> ok m)"

definition set_setup :: "string \<Rightarrow> jobj \<Rightarrow> jobj" where
  "set_setup role m =
     (if role = ''client'' then obj_set ''setup'' (JString ''active'') m
      else if role = ''server'' then obj_set ''setup'' (JString ''passive'') m
      else if role = ''auto'' then obj_set ''setup'' (JString ''actpass'') m
      else m)"

text \<open>
  The constructor: the media object and the offer's RTP parameters, in which the codec options are
  recorded. The updates of the answer's parameters by non-const reads are not returned: no caller
  reads them again.
\<close>

definition AnswerMediaSection_new ::
  "json \<Rightarrow> json \<Rightarrow> json \<Rightarrow> json \<Rightarrow> json \<Rightarrow> json \<Rightarrow> json \<Rightarrow> json option \<Rightarrow> (jobj \<times> json) result" where
  "AnswerMediaSection_new iceParameters iceCandidates dtlsParameters sctpParameters offerMediaObject
     offerRtpParameters answerRtpParameters codecOptions =
     bindE (MediaSection_new iceParameters iceCandidates) (\<lambda>m0.
     bindE (jat offerMediaObject ''type'') (\<lambda>t.
     bindE (get_string t) (\<lambda>type.
     bindE (jat offerMediaObject ''mid'') (\<lambda>mid.
     bindE (jat offerMediaObject ''protocol'') (\<lambda>protocol.
     let m1 = obj_set ''port'' (JInt 7) (obj_set ''connection'' connection_object
                (obj_set ''protocol'' protocol (obj_set ''type'' (JString type) (obj_set ''mid'' mid m0)))) in
     bindE (jat dtlsParameters ''role'') (\<lambda>r.
     bindE (get_string r) (\<lambda>dtlsRole.
     let m2 = set_setup dtlsRole m1 in
     if type = ''audio'' \<or> type = ''video'' then
       bindE (jref answerRtpParameters ''codecs'') (\<lambda>(codecs, answer').
       bindE (answer_codecs codecOptions (jelems codecs) offerRtpParameters) (\<lambda>(ls, offerRtpParameters').
       bindE (mapE (jtouch [''payloadType'']) (jelems codecs)) (\<lambda>codecs'.
       bindE (payloads_string codecs') (\<lambda>payloads.
       bindE (jref answer' ''headerExtensions'') (\<lambda>(exts, _).
       bindE (mapE (answer_ext offerMediaObject) (jelems exts)) (\<lambda>es.
       let m3 = obj_set ''ext'' (JArray (concat es))
                  (set_codec_lines ls payloads (obj_set ''direction'' (JString ''recvonly'') m2));
           m4 = (if found is_string (jfind offerMediaObject ''extmapAllowMixed'')
                 then obj_set ''extmapAllowMixed'' (JString ''extmap-allow-mixed'') m3 else m3) in
       bindE (answer_simulcast offerMediaObject m4) (\<lambda>m5.
       ok (set_rtcp_members m5, offerRtpParameters'))))))))
     else if type = ''application'' then
       bindE (set_application sctpParameters m2) (\<lambda>m3. ok (m3, offerRtpParameters))
     else ok (m2, offerRtpParameters))))))))"

section \<open>The section of an offer\<close>

fun offer_codecs :: "json list \<Rightarrow> (json \<times> json list \<times> json list) list result" where
  "offer_codecs [] = ok []"
| "offer_codecs (codec # codecs) =
     bindE (jat codec ''payloadType'') (\<lambda>payloadType.
     bindE (rtp_object payloadType codec) (\<lambda>rtp.
     bindE (jat codec ''parameters'') (\<lambda>parameters.
     bindE (fmtp_objects payloadType parameters) (\<lambda>fmtps.
     bindE (jat codec ''rtcpFeedback'') (\<lambda>fbs.
     bindE (mapE (rtcpFb_object payloadType) (jelems fbs)) (\<lambda>rtcpFbs.
     bindE (offer_codecs codecs) (\<lambda>ls. ok ((rtp, fmtps, rtcpFbs) # ls))))))))"

definition ssrc_object :: "32 word \<Rightarrow> string \<Rightarrow> string \<Rightarrow> json" where
  "ssrc_object ssrc attribute value =
     JObject (mk_obj [(''id'', JUint (ucast ssrc)), (''attribute'', JString attribute),
                      (''value'', JString value)])"

definition show_u32 :: "32 word \<Rightarrow> string" where
  "show_u32 w = show_nat (unat w)"

text \<open>The a=ssrc and a=ssrc-group lines of an encoding.\<close>

definition ssrc_lines :: "32 word \<Rightarrow> 32 word \<Rightarrow> string \<Rightarrow> string \<Rightarrow> json list \<times> json list" where
  "ssrc_lines ssrc rtxSsrc cname msid =
     (if rtxSsrc \<noteq> 0 then
        ([ssrc_object ssrc ''cname'' cname, ssrc_object ssrc ''msid'' msid,
          ssrc_object rtxSsrc ''cname'' cname, ssrc_object rtxSsrc ''msid'' msid],
         [JObject (mk_obj [(''semantics'', JString ''FID''),
                           (''ssrcs'', JString (show_u32 ssrc @ '' '' @ show_u32 rtxSsrc))])])
      else ([ssrc_object ssrc ''cname'' cname, ssrc_object ssrc ''msid'' msid], []))"

definition encoding_rtx_ssrc :: "json \<Rightarrow> 32 word result" where
  "encoding_rtx_ssrc encoding =
     (case jfind encoding ''rtx'' of
        None \<Rightarrow> ok 0
      | Some rtx \<Rightarrow> (case jfind rtx ''ssrc'' of None \<Rightarrow> ok 0 | Some s \<Rightarrow> get_uint s))"

definition set_ssrcs :: "json \<Rightarrow> string \<Rightarrow> string \<Rightarrow> jobj \<Rightarrow> jobj result" where
  "set_ssrcs offerRtpParameters streamId trackId m =
     bindE (jat offerRtpParameters ''encodings'') (\<lambda>encodings.
     bindE (jat_idx encodings 0) (\<lambda>encoding.
     bindE (jat encoding ''ssrc'') (\<lambda>s.
     bindE (get_uint s) (\<lambda>ssrc.
     bindE (encoding_rtx_ssrc encoding) (\<lambda>rtxSsrc.
     bindE (jat offerRtpParameters ''rtcp'') (\<lambda>rtcp.
     let (ssrcs, groups) =
       (case jfind rtcp ''cname'' of
          Some (JString cname) \<Rightarrow> ssrc_lines ssrc rtxSsrc cname (streamId @ '' '' @ trackId)
        | _ \<Rightarrow> ([], []))
     in ok (obj_set ''ssrcGroups'' (JArray groups) (obj_set ''ssrcs'' (JArray ssrcs) m))))))))"

definition OfferMediaSection_new ::
  "json \<Rightarrow> json \<Rightarrow> json \<Rightarrow> string \<Rightarrow> string \<Rightarrow> json \<Rightarrow> string \<Rightarrow> string \<Rightarrow> jobj result" where
  "OfferMediaSection_new iceParameters iceCandidates sctpParameters mid kind offerRtpParameters
     streamId trackId =
     bindE (MediaSection_new iceParameters iceCandidates) (\<lambda>m0.
     let m1 = obj_set ''setup'' (JString ''actpass'') (obj_set ''port'' (JInt 7)
                (obj_set ''connection'' connection_object
                  (obj_set ''protocol'' (JString (if sctpParameters = JNull then ''UDP/TLS/RTP/SAVPF''
                                               else ''UDP/DTLS/SCTP''))
                    (obj_set ''type'' (JString kind) (obj_set ''mid'' (JString mid) m0))))) in
     if kind = ''audio'' \<or> kind = ''video'' then
       bindE (jat offerRtpParameters ''codecs'') (\<lambda>codecs.
       bindE (offer_codecs (jelems codecs)) (\<lambda>ls.
       bindE (payloads_string (jelems codecs)) (\<lambda>payloads.
       bindE (jat offerRtpParameters ''headerExtensions'') (\<lambda>exts.
       bindE (mapE ext_object (jelems exts)) (\<lambda>es.
       set_ssrcs offerRtpParameters streamId trackId
         (set_rtcp_members (obj_set ''ext'' (JArray es)
           (set_codec_lines ls payloads (obj_set ''direction'' (JString ''sendonly'') m1)))))))))
     else if kind = ''application'' then set_application sctpParameters m1
     else ok m1)"

section \<open>Sections and their DTLS role\<close>

datatype media_section =
    AnswerMediaSection (mediaObject: jobj)
  | OfferMediaSection (mediaObject: jobj)

fun SetDtlsRole :: "string \<Rightarrow> media_section \<Rightarrow> media_section" where
  "SetDtlsRole role (AnswerMediaSection m) = AnswerMediaSection (set_setup role m)"
| "SetDtlsRole role (OfferMediaSection m) =
     OfferMediaSection (obj_set ''setup'' (JString ''actpass'') m)"

definition map_object :: "(jobj \<Rightarrow> jobj) \<Rightarrow> media_section \<Rightarrow> media_section" where
  "map_object f s =
     (case s of AnswerMediaSection m \<Rightarrow> AnswerMediaSection (f m) | OfferMediaSection m \<Rightarrow> OfferMediaSection (f m))"

end
