(* ===== verification/Section_Table.thy ===== *)
theory Section_Table
  imports Media_Section
begin

text \<open>
  What the remote description relies on in a media section, as a contract, and the abstract view of
  a list of sections: the table of their MIDs with a closed flag. The contract is discharged for the
  sections of \<open>Media_Section\<close>; the constructors are shown to produce open, well-formed sections.
\<close>

section \<open>The observable part of a section\<close>

definition section_mid :: "media_section \<Rightarrow> string" where
  "section_mid s = (case map_of (mediaObject s) ''mid'' of Some (JString m) \<Rightarrow> m | _ \<Rightarrow> [])"

definition section_closed :: "media_section \<Rightarrow> bool" where
  "section_closed s = (case map_of (mediaObject s) ''port'' of Some p \<Rightarrow> json_eq p (JInt 0) | None \<Rightarrow> False)"

definition section_wf :: "media_section \<Rightarrow> bool" where
  "section_wf s =
     (found is_string (map_of (mediaObject s) ''mid'') \<and> map_of (mediaObject s) ''port'' \<noteq> None \<and>
      map_of (mediaObject s) ''payloads'' \<noteq> None)"

lemma GetMid_wf: "section_wf s \<Longrightarrow> GetMid (mediaObject s) = Inr (section_mid s)"
  by (auto simp: section_wf_def section_mid_def GetMid_def found_conv is_string_conv)

lemma IsClosed_wf: "section_wf s \<Longrightarrow> IsClosed (mediaObject s) = Inr (section_closed s)"
  by (auto simp: section_wf_def section_closed_def IsClosed_def)

lemma mediaObject_map [simp]: "mediaObject (map_object f s) = f (mediaObject s)"
  by (cases s) (simp_all add: map_object_def)

text \<open>An update that leaves MID, port and payloads alone is invisible.\<close>

definition same_view :: "media_section \<Rightarrow> media_section \<Rightarrow> bool" where
  "same_view s s' =
     (map_of (mediaObject s') ''mid'' = map_of (mediaObject s) ''mid'' \<and>
      map_of (mediaObject s') ''port'' = map_of (mediaObject s) ''port'' \<and>
      map_of (mediaObject s') ''payloads'' = map_of (mediaObject s) ''payloads'')"

lemma same_viewD:
  "same_view s s' \<Longrightarrow> section_mid s' = section_mid s"
  "same_view s s' \<Longrightarrow> section_closed s' = section_closed s"
  "same_view s s' \<Longrightarrow> section_wf s' = section_wf s"
  by (simp_all add: same_view_def section_mid_def section_closed_def section_wf_def)

lemma same_view_Disable: "same_view s (map_object MediaSection_Disable s)"
  by (simp add: same_view_def MediaSection_Disable_def)

lemma same_view_SetDtlsRole: "same_view s (SetDtlsRole role s)"
  by (cases s) (simp_all add: same_view_def set_setup_def)

lemma Close_view:
  "section_mid (map_object MediaSection_Close s) = section_mid s"
  "section_closed (map_object MediaSection_Close s)"
  "section_wf s \<Longrightarrow> section_wf (map_object MediaSection_Close s)"
  by (simp_all add: section_mid_def section_closed_def section_wf_def MediaSection_Close_def)

section \<open>Tables of sections\<close>

type_synonym section_table = "(string \<times> bool) list"

definition t_upd :: "string \<Rightarrow> (string \<times> bool \<Rightarrow> string \<times> bool) \<Rightarrow> section_table \<Rightarrow> section_table" where
  "t_upd m f t = map (\<lambda>p. if fst p = m then f p else p) t"

definition t_add :: "string \<Rightarrow> section_table \<Rightarrow> section_table" where
  "t_add m t = t @ [(m, False)]"

definition t_replace :: "string \<Rightarrow> string \<Rightarrow> section_table \<Rightarrow> section_table" where
  "t_replace old new t = t_upd old (\<lambda>_. (new, False)) t"

text \<open>Closing the first section only disables it.\<close>

definition t_close :: "string \<Rightarrow> section_table \<Rightarrow> section_table" where
  "t_close m t = (if t \<noteq> [] \<and> fst (hd t) = m then t else t_upd m (\<lambda>(m', _). (m', True)) t)"

definition t_receive :: "string \<Rightarrow> section_table \<Rightarrow> section_table" where
  "t_receive m t = (case find snd t of Some (old, _) \<Rightarrow> t_replace old m t | None \<Rightarrow> t_add m t)"

definition open_mids :: "section_table \<Rightarrow> string list" where
  "open_mids t = map fst (filter (\<lambda>p. \<not> snd p) t)"

lemma t_upd_nth:
  "distinct (map fst t) \<Longrightarrow> i < length t \<Longrightarrow> fst (t ! i) = m \<Longrightarrow> t_upd m f t = t[i := f (t ! i)]"
  by (rule nth_equalityI) (auto simp: t_upd_def nth_list_update distinct_conv_nth)

lemma t_upd_length [simp]: "length (t_upd m f t) = length t"
  by (simp add: t_upd_def)

text \<open>A map from keys to their position in a list.\<close>

definition indexed :: "(string \<rightharpoonup> nat) \<Rightarrow> string list \<Rightarrow> bool" where
  "indexed idx ms = (distinct ms \<and> (\<forall>m i. idx m = Some i \<longleftrightarrow> i < length ms \<and> ms ! i = m))"

lemma indexed_Nil [simp]: "indexed Map.empty []"
  by (simp add: indexed_def)

lemma indexed_distinct: "indexed idx ms \<Longrightarrow> distinct ms"
  by (simp add: indexed_def)

lemma indexed_SomeD: "indexed idx ms \<Longrightarrow> idx m = Some i \<Longrightarrow> i < length ms \<and> ms ! i = m"
  by (simp add: indexed_def)

lemma indexed_mem: "indexed idx ms \<Longrightarrow> m \<in> set ms \<longleftrightarrow> (\<exists>i. idx m = Some i)"
  by (auto simp: indexed_def in_set_conv_nth)

lemma indexed_dom: "indexed idx ms \<Longrightarrow> dom idx = set ms"
  by (auto simp: indexed_mem)

lemma indexed_add:
  "indexed idx ms \<Longrightarrow> m \<notin> set ms \<Longrightarrow> indexed (idx(m \<mapsto> length ms)) (ms @ [m])"
  by (auto simp: indexed_def nth_append less_Suc_eq in_set_conv_nth)

lemma indexed_replace:
  assumes "indexed idx ms" "i < length ms" "m \<notin> set ms - {ms ! i}"
  shows "indexed ((idx(ms ! i := None))(m \<mapsto> i)) (ms[i := m])"
proof -
  have d: "distinct ms" and iff: "\<And>m i. idx m = Some i \<longleftrightarrow> i < length ms \<and> ms ! i = m"
    using assms(1) by (auto simp: indexed_def)
  have "((idx(ms ! i := None))(m \<mapsto> i)) k = Some j \<longleftrightarrow> j < length ms \<and> ms[i := m] ! j = k" for k j
  proof (cases "j = i")
    case True
    then show ?thesis
      using assms(2) d iff by (auto simp: nth_eq_iff_index_eq)
  next
    case False
    have "ms ! j \<noteq> m" if "j < length ms"
      using assms that False d by (auto simp: nth_eq_iff_index_eq)
    then show ?thesis
      using False iff d assms(2) by (auto simp: nth_eq_iff_index_eq)
  qed
  moreover have "distinct (ms[i := m])"
    using d assms by (intro distinct_list_update) auto
  ultimately show ?thesis
    by (simp add: indexed_def)
qed

section \<open>The contract\<close>

locale media_sections =
  fixes mid :: "'s \<Rightarrow> string"
    and closed :: "'s \<Rightarrow> bool"
    and close disable :: "'s \<Rightarrow> 's"
  assumes mid_close: "mid (close s) = mid s"
    and closed_close: "closed (close s)"
    and mid_disable: "mid (disable s) = mid s"
    and closed_disable: "closed (disable s) = closed s"
begin

abbreviation table :: "'s list \<Rightarrow> section_table" where
  "table ss \<equiv> map (\<lambda>s. (mid s, closed s)) ss"

lemma table_update: "table (ss[i := s]) = (table ss)[i := (mid s, closed s)]"
  by (simp add: map_update)

lemma table_mids: "map fst (table ss) = map mid ss"
  by simp

lemma table_replace:
  assumes "distinct (map mid ss)" "i < length ss" "\<not> closed s"
  shows "table (ss[i := s]) = t_replace (mid (ss ! i)) (mid s) (table ss)"
  unfolding t_replace_def using assms
  by (subst t_upd_nth [where i = i]) (simp_all add: map_update comp_def)

lemma table_disable:
  assumes "i < length ss"
  shows "table (ss[i := disable (ss ! i)]) = table ss"
  using assms by (simp add: map_update mid_disable closed_disable list_update_same_conv)

lemma table_close:
  assumes "distinct (map mid ss)" "i < length ss"
  shows "table (ss[i := if i = 0 then disable (ss ! i) else close (ss ! i)]) = t_close (mid (ss ! i)) (table ss)"
proof (cases i)
  case 0
  then show ?thesis
    using assms by (cases ss) (simp_all add: t_close_def mid_disable closed_disable)
next
  case (Suc j)
  have "mid (ss ! 0) \<noteq> mid (ss ! i)"
    using assms Suc nth_eq_iff_index_eq [OF assms(1), of 0 i] by (cases "ss = []") auto
  then have "t_close (mid (ss ! i)) (table ss) = t_upd (mid (ss ! i)) (\<lambda>(m', _). (m', True)) (table ss)"
    using assms(2) by (cases ss) (auto simp: t_close_def)
  also have "\<dots> = (table ss)[i := (mid (ss ! i), True)]"
    using assms by (subst t_upd_nth [where i = i]) (simp_all add: comp_def)
  finally show ?thesis
    using Suc by (simp add: map_update mid_close closed_close)
qed

lemma find_closed_table: "find snd (table ss) = map_option (\<lambda>s. (mid s, closed s)) (find closed ss)"
  by (induction ss) simp_all

lemma table_receive:
  assumes "distinct (map mid ss)"
  shows "find closed ss = None \<Longrightarrow> table (ss @ [s]) = t_receive (mid s) (table ss) \<or> closed s"
    and "find closed ss = Some c \<Longrightarrow> t_receive m (table ss) = t_replace (mid c) m (table ss)"
  by (simp_all add: t_receive_def t_add_def find_closed_table)

end

interpretation sec: media_sections section_mid section_closed
  "map_object MediaSection_Close" "map_object MediaSection_Disable"
  by unfold_locales (simp_all add: Close_view same_viewD [OF same_view_Disable])

section \<open>The sections the constructors make\<close>

definition open_section :: "string \<Rightarrow> media_section \<Rightarrow> bool" where
  "open_section mid s = (section_wf s \<and> section_mid s = mid \<and> \<not> section_closed s)"

lemma open_sectionI:
  "map_of (mediaObject s) ''mid'' = Some (JString mid) \<Longrightarrow> map_of (mediaObject s) ''port'' = Some (JInt 7) \<Longrightarrow>
   map_of (mediaObject s) ''payloads'' \<noteq> None \<Longrightarrow> open_section mid s"
  by (simp add: open_section_def section_wf_def section_mid_def section_closed_def)

text \<open>The kinds of sections both constructors fill in.\<close>

definition is_media_kind :: "string \<Rightarrow> bool" where
  "is_media_kind kind = (kind \<in> {''audio'', ''video'', ''application''})"

lemma answer_simulcast_frame:
  "answer_simulcast j m = Inr m' \<Longrightarrow> k \<notin> {''simulcast'', ''rids''} \<Longrightarrow> map_of m' k = map_of m k"
  by (auto simp: answer_simulcast_def split: option.splits json.splits)

lemma set_application_frame:
  "set_application j m = Inr m' \<Longrightarrow> k \<notin> {''maxMessageSize'', ''sctpPort'', ''payloads''} \<Longrightarrow>
   map_of m' k = map_of m k"
  by (auto simp: set_application_def)

lemma set_application_payloads: "set_application j m = Inr m' \<Longrightarrow> map_of m' ''payloads'' \<noteq> None"
  by (auto simp: set_application_def)

lemma set_ssrcs_frame:
  "set_ssrcs j a b m = Inr m' \<Longrightarrow> k \<notin> {''ssrcs'', ''ssrcGroups''} \<Longrightarrow> map_of m' k = map_of m k"
  by (auto simp: set_ssrcs_def Let_def split: prod.splits)

lemma set_setup_frame: "k \<noteq> ''setup'' \<Longrightarrow> map_of (set_setup role m) k = map_of m k"
  by (simp add: set_setup_def)

lemmas section_frames =
  answer_simulcast_frame set_application_frame set_ssrcs_frame set_setup_frame

lemma AnswerMediaSection_open:
  assumes "AnswerMediaSection_new ice cands dtls sctp offer p q opts = Inr (m, p')"
    and "jat offer ''mid'' = Inr (JString mid)"
    and "jat offer ''type'' = Inr (JString kind)" "is_media_kind kind"
  shows "open_section mid (AnswerMediaSection m)"
proof -
  have "map_of m ''payloads'' \<noteq> None"
    using assms
    by (auto simp: AnswerMediaSection_new_def Let_def section_frames set_codec_lines_def set_rtcp_members_def is_media_kind_def
        dest!: set_application_payloads split: if_split_asm)
  then show ?thesis
    using assms(1,2)
    by (intro open_sectionI)
      (auto simp: AnswerMediaSection_new_def Let_def section_frames set_codec_lines_def set_rtcp_members_def
         split: if_split_asm)
qed

lemma OfferMediaSection_open:
  assumes "OfferMediaSection_new ice cands sctp mid kind p streamId trackId = Inr m" "is_media_kind kind"
  shows "open_section mid (OfferMediaSection m)"
proof -
  have "map_of m ''payloads'' \<noteq> None"
    using assms
    by (auto simp: OfferMediaSection_new_def Let_def section_frames set_codec_lines_def set_rtcp_members_def is_media_kind_def
        dest!: set_application_payloads split: if_split_asm)
  then show ?thesis
    using assms(1)
    by (intro open_sectionI)
      (auto simp: OfferMediaSection_new_def Let_def section_frames set_codec_lines_def set_rtcp_members_def
         split: if_split_asm)
qed

end
