(* ===== verification/Media_Section_Props.thy ===== *)
theory Media_Section_Props
  imports Section_Table Ortc_Contract
begin

text \<open>
  The constructors on validated input: parameters the validators of \<open>ortc.cpp\<close> have accepted never
  make the construction of an offer section fail, and its lines follow the codecs.
\<close>

section \<open>The m= lines of an offer section\<close>

text \<open>Every fmtp parameter can be printed: a float parameter is in the range of \<open>float\<close>.\<close>

definition printable :: "json \<Rightarrow> bool" where
  "printable codec =
     (\<forall>ps. jfind codec ''parameters'' = Some (JObject ps) \<longrightarrow>
        (\<forall>kv\<in>set ps. okE (show_fmtp_value (snd kv)) (\<lambda>_. True)))"

lemma fmtp_config_ok:
  "\<forall>kv\<in>set items. okE (show_fmtp_value (snd kv)) (\<lambda>_. True) \<Longrightarrow> okE (fmtp_config config items) (\<lambda>_. True)"
  by (induction config items rule: fmtp_config.induct) (auto simp: okE_conv)

lemma fmtp_objects_ok:
  "\<forall>kv\<in>set ps. okE (show_fmtp_value (snd kv)) (\<lambda>_. True) \<Longrightarrow> okE (fmtp_objects pt (JObject ps)) (\<lambda>_. True)"
  using fmtp_config_ok [of ps "[]"] by (auto simp: fmtp_objects_def okE_conv)

lemma rtp_object_ok:
  assumes "normal_codec_parameters (JObject ps)"
  shows "okE (rtp_object pt (JObject ps)) (\<lambda>l. jfind l ''payload'' = Some pt)"
proof -
  obtain mime rate where "map_of ps ''mimeType'' = Some (JString mime)" "map_of ps ''clockRate'' = Some rate"
    "absent_or is_number_integer (map_of ps ''channels'')"
    using assms
    by (auto simp: normal_codec_parameters_def codec_kind_def normal_codec_def found_conv
        split: option.splits json.splits if_splits)
  then show ?thesis
    by (cases "map_of ps ''channels''")
      (auto simp: rtp_object_def getCodecName_def Let_def is_number_integer_conv)
qed

lemma rtcpFb_object_ok: "normal_feedback fb \<Longrightarrow> okE (rtcpFb_object pt fb) (\<lambda>_. True)"
  by (auto simp: normal_feedback_def obj_with_conv found_conv rtcpFb_object_def)

lemma ext_object_ok: "normal_header_extension_parameters x \<Longrightarrow> okE (ext_object x) (\<lambda>_. True)"
  by (auto simp: normal_header_extension_parameters_def obj_with_conv found_conv ext_object_def)

text \<open>The lines follow the codecs, each with the payload type of its codec.\<close>

definition lines_of :: "json list \<Rightarrow> (json \<times> json list \<times> json list) list \<Rightarrow> bool" where
  "lines_of = list_all2 (\<lambda>codec (rtp, _, _). jfind rtp ''payload'' = jfind codec ''payloadType'')"

lemma offer_codecs_ok:
  "\<forall>c\<in>set codecs. normal_codec_parameters c \<and> printable c \<Longrightarrow> okE (offer_codecs codecs) (lines_of codecs)"
proof (induction codecs)
  case (Cons c codecs)
  obtain ps pt params fbs where c: "c = JObject ps" "map_of ps ''payloadType'' = Some pt"
    "map_of ps ''parameters'' = Some (JObject params)" "map_of ps ''rtcpFeedback'' = Some (JArray fbs)"
    "\<forall>fb\<in>set fbs. normal_feedback fb"
    using Cons.prems
    by (auto simp: normal_codec_parameters_def normal_codec_def obj_with_conv arr_all_conv found_conv
        split: option.splits)
  obtain rtp where rtp: "rtp_object pt c = Inr rtp" "jfind rtp ''payload'' = Some pt"
    using rtp_object_ok [of ps pt] Cons.prems c(1) by (auto simp: okE_conv)
  obtain fmtps where fmtps: "fmtp_objects pt (JObject params) = Inr fmtps"
    using fmtp_objects_ok [of params pt] Cons.prems c(1,3) by (auto simp: okE_conv printable_def)
  obtain rs where rs: "mapE (rtcpFb_object pt) fbs = Inr rs"
    using rtcpFb_object_ok c(5) by (metis mapE_ex_iff okE_conv)
  show ?case
    using Cons.IH Cons.prems c rtp fmtps rs by (auto simp: okE_conv lines_of_def)
qed (simp add: lines_of_def)

definition payload_word :: "json \<Rightarrow> string" where
  "payload_word codec =
     (case jfind codec ''payloadType'' of
        Some p \<Rightarrow> (case get_uint p :: 8 word result of Inr w \<Rightarrow> show_nat (unat w) | Inl _ \<Rightarrow> [])
      | None \<Rightarrow> [])"

lemma payloads_string_ok:
  assumes "\<forall>c\<in>set codecs. normal_codec_parameters c"
  shows "payloads_string codecs = Inr (foldl append_word [] (map payload_word codecs))"
proof -
  have "payload_string c = Inr (payload_word c)" if "c \<in> set codecs" for c
    using bspec [OF assms that]
    by (auto simp: normal_codec_parameters_def obj_with_conv found_conv is_number_integer_conv payload_string_def
        payload_word_def split: option.splits)
  then show ?thesis
    by (simp add: payloads_string_def mapE_ok [where g = payload_word])
qed

lemma candidate_object_ok: "validateIceCandidate c = Inr c' \<Longrightarrow> okE (candidate_object c) (\<lambda>_. True)"
  by (auto simp: validateIceCandidate_def candidate_object_def found_conv Let_def split: json.splits if_splits)

lemma MediaSection_new_ok:
  assumes "normal_ice_parameters ice" "validateIceCandidates cands = Inr cands'"
  shows "okE (MediaSection_new ice cands) (\<lambda>_. True)"
proof -
  obtain cs cs' where cs: "cands = JArray cs" "mapE validateIceCandidate cs = Inr cs'"
    using assms(2) by (auto simp: validateIceCandidates_def split: json.splits)
  then have "\<forall>c\<in>set cs. \<exists>y. candidate_object c = Inr y"
    using candidate_object_ok mapE_ex_iff [of validateIceCandidate cs] by (fastforce simp: okE_conv)
  then obtain os where "mapE candidate_object cs = Inr os"
    using mapE_ex_iff by blast
  then show ?thesis
    using assms(1) cs(1)
    by (auto simp: normal_ice_parameters_def obj_with_conv found_conv MediaSection_new_def SetIceParameters_def)
qed

text \<open>The encoding the section is for, and its SSRCs.\<close>

definition first_encoding :: "json \<Rightarrow> json option" where
  "first_encoding p = (case jfind p ''encodings'' of Some (JArray (x # _)) \<Rightarrow> Some x | _ \<Rightarrow> None)"

definition has_ssrc :: "json \<Rightarrow> bool" where
  "has_ssrc p = (case first_encoding p of Some x \<Rightarrow> jfind x ''ssrc'' \<noteq> None | None \<Rightarrow> False)"

lemma set_ssrcs_ok:
  assumes "normal_parameters p" "has_ssrc p"
  shows "okE (set_ssrcs p a b m) (\<lambda>m'. \<forall>k. k \<notin> {''ssrcs'', ''ssrcGroups''} \<longrightarrow> map_of m' k = map_of m k)"
proof -
  obtain ps x xs rtcp where p: "p = JObject ps" "map_of ps ''encodings'' = Some (JArray (x # xs))"
    "normal_encoding x" "map_of ps ''rtcp'' = Some rtcp"
    using assms
    by (auto simp: normal_parameters_def obj_with_conv found_conv has_ssrc_def first_encoding_def
        split: option.splits json.splits list.splits)
  have "jat x ''ssrc'' = Inr (the (jfind x ''ssrc''))" "is_number_integer (the (jfind x ''ssrc''))"
    using assms(2) p(1-3)
    by (auto simp: has_ssrc_def first_encoding_def normal_encoding_def obj_with_conv)
  moreover have "\<exists>w. encoding_rtx_ssrc x = Inr w"
    using p(3)
    by (auto simp: normal_encoding_def obj_with_conv encoding_rtx_ssrc_def found_conv is_number_integer_conv
        split: option.splits)
  ultimately show ?thesis
    using p(1,2,4)
    by (auto simp: set_ssrcs_def is_number_integer_conv Let_def split: prod.splits)
qed


definition example_offer_parameters :: json where
  "example_offer_parameters = JObject (mk_obj
     [(''codecs'', JArray [JObject (mk_obj [(''mimeType'', JString ''audio/opus''), (''payloadType'', JUint 100),
         (''clockRate'', JUint 48000), (''channels'', JUint 2),
         (''parameters'', JObject (mk_obj [(''useinbandfec'', JUint 1)])), (''rtcpFeedback'', JArray [])])]),
      (''headerExtensions'', JArray []),
      (''encodings'', JArray [JObject (mk_obj [(''ssrc'', JUint 1111), (''dtx'', JBool False)])]),
      (''rtcp'', JObject (mk_obj [(''cname'', JString ''c''), (''reducedSize'', JBool True)]))])"

definition example_ice_parameters :: json where
  "example_ice_parameters = JObject (mk_obj [(''usernameFragment'', JString ''u''), (''password'', JString ''p''),
     (''iceLite'', JBool True)])"


end
