(* ===== verification/Sdp_Grammar.thy ===== *)
theory Sdp_Grammar
  imports Regex Json
begin

text \<open>
  The grammar of \<open>libsdptransform\<close> (\<open>src/grammar.cpp\<close>): for every line type the rules in their
  order, each with its regular expression, the names and types of its groups and its format.
\<close>

record grammar_rule =
  g_name :: string
  g_push :: string
  g_reg :: re
  g_names :: "string list"
  g_types :: string
  g_format :: string
  g_formatFunc :: "json \<Rightarrow> string"

definition hasValue :: "json \<Rightarrow> string \<Rightarrow> bool" where
  "hasValue o' key =
     (case jfind o' key of
        None \<Rightarrow> False
      | Some (JString s) \<Rightarrow> s \<noteq> []
      | Some j \<Rightarrow> is_number j)"

text \<open>The repetitions most rules use: \<open>\d*\<close>, \<open>\S*\<close>, \<open>\w*\<close> and \<open>.*\<close>.\<close>

abbreviation digits :: re where
  "digits \<equiv> Star (Sym is_digit)"

abbreviation nonblanks :: re where
  "nonblanks \<equiv> Star (Sym (\<lambda>c. \<not> is_space c))"

abbreviation words :: re where
  "words \<equiv> Star (Sym is_word)"

abbreviation anything :: re where
  "anything \<equiv> Star (Sym is_any)"

text \<open>Rules of the common shapes: one raw value, and named values.\<close>

abbreviation raw_rule :: "string \<Rightarrow> re \<Rightarrow> char \<Rightarrow> string \<Rightarrow> grammar_rule" where
  "raw_rule name reg type format \<equiv>
     \<lparr> g_name = name, g_push = [], g_reg = reg, g_names = [], g_types = [type], g_format = format,
       g_formatFunc = (\<lambda>_. []) \<rparr>"

section \<open>Session lines\<close>

definition rule_version :: grammar_rule where
  "rule_version = raw_rule ''version''
     (seqs [Bol, Cap 1 digits, Eol])
     CHR ''d'' ''%d''"

definition rule_origin :: grammar_rule where
  "rule_origin =
     \<lparr> g_name = ''origin'', g_push = [],
       g_reg = seqs [Bol, Cap 1 nonblanks, Lit '' '', Cap 2 digits, Lit '' '', Cap 3 digits, Lit '' '', Cap 4
         nonblanks, Lit '' IP'', Cap 5 (Sym is_digit), Lit '' '', Cap 6 nonblanks],
       g_names = [''username'', ''sessionId'', ''sessionVersion'', ''netType'', ''ipVer'', ''address''],
       g_types = ''suusds'', g_format = ''%s %d %d %s IP%d %s'',
       g_formatFunc = (\<lambda>_. []) \<rparr>"

definition rule_name :: grammar_rule where
  "rule_name = raw_rule ''name''
     (Cap 1 anything)
     CHR ''s'' ''%s''"

definition rule_description :: grammar_rule where
  "rule_description = raw_rule ''description''
     (Cap 1 anything)
     CHR ''s'' ''%s''"

definition rule_uri :: grammar_rule where
  "rule_uri = raw_rule ''uri''
     (Cap 1 anything)
     CHR ''s'' ''%s''"

definition rule_email :: grammar_rule where
  "rule_email = raw_rule ''email''
     (Cap 1 anything)
     CHR ''s'' ''%s''"

definition rule_phone :: grammar_rule where
  "rule_phone = raw_rule ''phone''
     (Cap 1 anything)
     CHR ''s'' ''%s''"

definition rule_timezones :: grammar_rule where
  "rule_timezones = raw_rule ''timezones''
     (Cap 1 anything)
     CHR ''s'' ''%s''"

definition rule_repeats :: grammar_rule where
  "rule_repeats = raw_rule ''repeats''
     (Cap 1 anything)
     CHR ''s'' ''%s''"

definition rule_timing :: grammar_rule where
  "rule_timing =
     \<lparr> g_name = ''timing'', g_push = [],
       g_reg = seqs [Bol, Cap 1 digits, Lit '' '', Cap 2 digits],
       g_names = [''start'', ''stop''],
       g_types = ''dd'', g_format = ''%d %d'',
       g_formatFunc = (\<lambda>_. []) \<rparr>"

definition rule_connection :: grammar_rule where
  "rule_connection =
     \<lparr> g_name = ''connection'', g_push = [],
       g_reg = seqs [Bol, Lit ''IN IP'', Cap 1 (Sym is_digit), Lit '' '', Cap 2 (Star (Sym (\<lambda>c. \<not>
         (c \<in> {CHR 0x5C, CHR ''S'', CHR ''/''})))), Opt (seqs [Lit ''/'', Cap 3 digits])],
       g_names = [''version'', ''ip'', ''ttl''],
       g_types = ''dsd'', g_format = [],
       g_formatFunc = (\<lambda>o'.
       if hasValue o' ''ttl'' then ''IN IP%d %s/%d'' else ''IN IP%d %s'') \<rparr>"

section \<open>Bandwidth and media lines\<close>

definition rule_bandwidth :: grammar_rule where
  "rule_bandwidth =
     \<lparr> g_name = [], g_push = ''bandwidth'',
       g_reg = seqs [Bol, Cap 1 (alts [Lit ''TIAS'', Lit ''AS'', Lit ''CT'', Lit ''RR'', Lit ''RS'']), Lit
         '':'', Cap 2 digits],
       g_names = [''type'', ''limit''],
       g_types = ''sd'', g_format = ''%s:%d'',
       g_formatFunc = (\<lambda>_. []) \<rparr>"

definition rule_media :: grammar_rule where
  "rule_media =
     \<lparr> g_name = [], g_push = [],
       g_reg = seqs [Bol, Cap 1 words, Lit '' '', Cap 2 digits, Opt (seqs [Lit ''/'', Cap 3 digits]), Lit
         '' '', Cap 4 (Star (Sym (\<lambda>c. is_word c \<or> c \<in> {CHR ''/''}))), Opt (seqs [Lit
         '' '', Cap 5 anything])],
       g_names = [''type'', ''port'', ''numPorts'', ''protocol'', ''payloads''],
       g_types = ''sddss'', g_format = [],
       g_formatFunc = (\<lambda>o'.
       if hasValue o' ''numPorts'' then ''%s %d/%d %s %s'' else ''%s %d%v %s %s'') \<rparr>"

section \<open>Attribute lines\<close>

definition rule_rtp :: grammar_rule where
  "rule_rtp =
     \<lparr> g_name = [], g_push = ''rtp'',
       g_reg = seqs [Bol, Lit ''rtpmap:'', Cap 1 digits, Lit '' '', Cap 2 (Star (Sym (\<lambda>c. is_word c
         \<or> c \<in> {CHR ''-'', CHR ''.''}))), Opt (seqs [Star (Sym is_space), Lit ''/'', Cap 3
         digits, Opt (seqs [Star (Sym is_space), Lit ''/'', Cap 4 nonblanks])])],
       g_names = [''payload'', ''codec'', ''rate'', ''encoding''],
       g_types = ''dsds'', g_format = [],
       g_formatFunc = (\<lambda>o'.
       if hasValue o' ''encoding'' then ''rtpmap:%d %s/%s/%s''
       else if hasValue o' ''rate'' then ''rtpmap:%d %s/%s'' else ''rtpmap:%d %s'') \<rparr>"

definition rule_fmtp :: grammar_rule where
  "rule_fmtp =
     \<lparr> g_name = [], g_push = ''fmtp'',
       g_reg = seqs [Bol, Lit ''fmtp:'', Cap 1 digits, Lit '' '', Cap 2 anything],
       g_names = [''payload'', ''config''],
       g_types = ''ds'', g_format = ''fmtp:%d %s'',
       g_formatFunc = (\<lambda>_. []) \<rparr>"

definition rule_control :: grammar_rule where
  "rule_control = raw_rule ''control''
     (seqs [Bol, Lit ''control:'', Cap 1 anything])
     CHR ''s'' ''control:%s''"

definition rule_rtcp :: grammar_rule where
  "rule_rtcp =
     \<lparr> g_name = ''rtcp'', g_push = [],
       g_reg = seqs [Bol, Lit ''rtcp:'', Cap 1 digits, Opt (seqs [Lit '' '', Cap 2 nonblanks, Lit '' IP'', Cap
         3 (Sym is_digit), Lit '' '', Cap 4 nonblanks])],
       g_names = [''port'', ''netType'', ''ipVer'', ''address''],
       g_types = ''dsds'', g_format = [],
       g_formatFunc = (\<lambda>o'.
       if hasValue o' ''address'' then ''rtcp:%d %s IP%d %s'' else ''rtcp:%d'') \<rparr>"

definition rule_rtcpFbTrrInt :: grammar_rule where
  "rule_rtcpFbTrrInt =
     \<lparr> g_name = [], g_push = ''rtcpFbTrrInt'',
       g_reg = seqs [Bol, Lit ''rtcp-fb:'', Cap 1 (alts [Lit ''*'', digits]), Lit '' trr-int '', Cap 2 digits],
       g_names = [''payload'', ''value''],
       g_types = ''sd'', g_format = ''rtcp-fb:%s trr-int %d'',
       g_formatFunc = (\<lambda>_. []) \<rparr>"

definition rule_rtcpFb :: grammar_rule where
  "rule_rtcpFb =
     \<lparr> g_name = [], g_push = ''rtcpFb'',
       g_reg = seqs [Bol, Lit ''rtcp-fb:'', Cap 1 (alts [Lit ''*'', digits]), Lit '' '', Cap 2 (Star (Sym
         (\<lambda>c. is_word c \<or> c \<in> {CHR ''-''}))), Opt (seqs [Lit '' '', Cap 3 (Star (Sym
         (\<lambda>c. is_word c \<or> c \<in> {CHR ''-''})))])],
       g_names = [''payload'', ''type'', ''subtype''],
       g_types = ''sss'', g_format = [],
       g_formatFunc = (\<lambda>o'.
       if hasValue o' ''subtype'' then ''rtcp-fb:%s %s %s'' else ''rtcp-fb:%s %s'') \<rparr>"

definition rule_ext :: grammar_rule where
  "rule_ext =
     \<lparr> g_name = [], g_push = ''ext'',
       g_reg = seqs [Bol, Lit ''extmap:'', Cap 1 (re_plus (Sym is_digit)), Opt (seqs [Lit ''/'', Cap 2 (re_plus
         (Sym is_word))]), Opt (seqs [Lit '' '', Cap 3 (Lit ''urn:ietf:params:rtp-hdrext:encrypt'')]),
         Lit '' '', Cap 4 nonblanks, Opt (seqs [Lit '' '', Cap 5 nonblanks])],
       g_names = [''value'', ''direction'', ''encrypt-uri'', ''uri'', ''config''],
       g_types = ''dssss'', g_format = [],
       g_formatFunc = (\<lambda>o'.
       ''extmap:%d'' @ (if hasValue o' ''direction'' then ''/%s'' else ''%v'') @
       (if hasValue o' ''encrypt-uri'' then '' %s'' else ''%v'') @ '' %s'' @ (if hasValue o' ''config'' then '' %s'' else [])) \<rparr>"

definition rule_extmapAllowMixed :: grammar_rule where
  "rule_extmapAllowMixed = raw_rule ''extmapAllowMixed''
     (seqs [Bol, Cap 1 (Lit ''extmap-allow-mixed'')])
     CHR ''s'' ''%s''"

definition rule_crypto :: grammar_rule where
  "rule_crypto =
     \<lparr> g_name = [], g_push = ''crypto'',
       g_reg = seqs [Bol, Lit ''crypto:'', Cap 1 digits, Lit '' '', Cap 2 words, Lit '' '', Cap 3 nonblanks,
         Opt (seqs [Lit '' '', Cap 4 nonblanks])],
       g_names = [''id'', ''suite'', ''config'', ''sessionConfig''],
       g_types = ''dsss'', g_format = [],
       g_formatFunc = (\<lambda>o'.
       if hasValue o' ''sessionConfig'' then ''crypto:%d %s %s %s'' else ''crypto:%d %s %s'') \<rparr>"

definition rule_setup :: grammar_rule where
  "rule_setup = raw_rule ''setup''
     (seqs [Bol, Lit ''setup:'', Cap 1 words])
     CHR ''s'' ''setup:%s''"

definition rule_mid :: grammar_rule where
  "rule_mid = raw_rule ''mid''
     (seqs [Bol, Lit ''mid:'', Cap 1 nonblanks])
     CHR ''s'' ''mid:%s''"

definition rule_msid :: grammar_rule where
  "rule_msid = raw_rule ''msid''
     (seqs [Bol, Lit ''msid:'', Cap 1 anything])
     CHR ''s'' ''msid:%s''"

definition rule_ptime :: grammar_rule where
  "rule_ptime = raw_rule ''ptime''
     (seqs [Bol, Lit ''ptime:'', Cap 1 digits])
     CHR ''d'' ''ptime:%d''"

definition rule_maxptime :: grammar_rule where
  "rule_maxptime = raw_rule ''maxptime''
     (seqs [Bol, Lit ''maxptime:'', Cap 1 digits])
     CHR ''d'' ''maxptime:%d''"

definition rule_direction :: grammar_rule where
  "rule_direction = raw_rule ''direction''
     (seqs [Bol, Cap 1 (alts [Lit ''sendrecv'', Lit ''recvonly'', Lit ''sendonly'', Lit ''inactive''])])
     CHR ''s'' ''%s''"

definition rule_icelite :: grammar_rule where
  "rule_icelite = raw_rule ''icelite''
     (seqs [Bol, Cap 1 (Lit ''ice-lite'')])
     CHR ''s'' ''%s''"

definition rule_iceUfrag :: grammar_rule where
  "rule_iceUfrag = raw_rule ''iceUfrag''
     (seqs [Bol, Lit ''ice-ufrag:'', Cap 1 nonblanks])
     CHR ''s'' ''ice-ufrag:%s''"

definition rule_icePwd :: grammar_rule where
  "rule_icePwd = raw_rule ''icePwd''
     (seqs [Bol, Lit ''ice-pwd:'', Cap 1 nonblanks])
     CHR ''s'' ''ice-pwd:%s''"

definition rule_fingerprint :: grammar_rule where
  "rule_fingerprint =
     \<lparr> g_name = ''fingerprint'', g_push = [],
       g_reg = seqs [Bol, Lit ''fingerprint:'', Cap 1 nonblanks, Lit '' '', Cap 2 nonblanks],
       g_names = [''type'', ''hash''],
       g_types = ''ss'', g_format = ''fingerprint:%s %s'',
       g_formatFunc = (\<lambda>_. []) \<rparr>"

definition rule_candidates :: grammar_rule where
  "rule_candidates =
     \<lparr> g_name = [], g_push = ''candidates'',
       g_reg = seqs [Bol, Lit ''candidate:'', Cap 1 nonblanks, Lit '' '', Cap 2 digits, Lit '' '', Cap 3
         nonblanks, Lit '' '', Cap 4 digits, Lit '' '', Cap 5 nonblanks, Lit '' '', Cap 6 digits, Lit
         '' typ '', Cap 7 nonblanks, Opt (seqs [Lit '' raddr '', Cap 8 nonblanks, Lit '' rport '', Cap 9
         digits]), Opt (seqs [Lit '' tcptype '', Cap 10 nonblanks]), Opt (seqs [Lit '' generation '', Cap
         11 digits]), Opt (seqs [Lit '' network-id '', Cap 12 digits]), Opt (seqs [Lit
         '' network-cost '', Cap 13 digits])],
       g_names = [''foundation'', ''component'', ''transport'', ''priority'', ''ip'', ''port'', ''type'',
         ''raddr'', ''rport'', ''tcptype'', ''generation'', ''network-id'', ''network-cost''],
       g_types = ''sdsdsdssdsdddd'', g_format = [],
       g_formatFunc = (\<lambda>o'.
       ''candidate:%s %d %s %d %s %d typ %s'' @ (if hasValue o' ''raddr'' then '' raddr %s rport %d'' else ''%v%v'') @
       (if hasValue o' ''tcptype'' then '' tcptype %s'' else ''%v'') @
       (if hasValue o' ''generation'' then '' generation %d'' else []) @
       (if hasValue o' ''network-id'' then '' network-id %d'' else ''%v'') @
       (if hasValue o' ''network-cost'' then '' network-cost %d'' else ''%v'')) \<rparr>"

definition rule_endOfCandidates :: grammar_rule where
  "rule_endOfCandidates = raw_rule ''endOfCandidates''
     (seqs [Bol, Cap 1 (Lit ''end-of-candidates'')])
     CHR ''s'' ''%s''"

definition rule_remoteCandidates :: grammar_rule where
  "rule_remoteCandidates = raw_rule ''remoteCandidates''
     (seqs [Bol, Lit ''remote-candidates:'', Cap 1 anything])
     CHR ''s'' ''remote-candidates:%s''"

definition rule_iceOptions :: grammar_rule where
  "rule_iceOptions = raw_rule ''iceOptions''
     (seqs [Bol, Lit ''ice-options:'', Cap 1 nonblanks])
     CHR ''s'' ''ice-options:%s''"

definition rule_ssrcs :: grammar_rule where
  "rule_ssrcs =
     \<lparr> g_name = [], g_push = ''ssrcs'',
       g_reg = seqs [Bol, Lit ''ssrc:'', Cap 1 digits, Lit '' '', Cap 2 (Star (Sym (\<lambda>c. is_word c \<or>
         c \<in> {CHR ''-''}))), Opt (seqs [Lit '':'', Cap 3 anything])],
       g_names = [''id'', ''attribute'', ''value''],
       g_types = ''dss'', g_format = [],
       g_formatFunc = (\<lambda>o'.
       ''ssrc:%d'' @ (if hasValue o' ''attribute'' then '' %s'' @ (if hasValue o' ''value'' then '':%s'' else []) else [])) \<rparr>"

definition rule_ssrcGroups :: grammar_rule where
  "rule_ssrcGroups =
     \<lparr> g_name = [], g_push = ''ssrcGroups'',
       g_reg = seqs [Bol, Lit ''ssrc-group:'', Cap 1 (Star (Sym (\<lambda>c. is_word c \<or> c \<in> {CHR
         ''!'', CHR ''#'', CHR ''$'', CHR ''%'', CHR ''&'', CHR 0x27, CHR ''*'', CHR ''+'', CHR '','',
         CHR ''-'', CHR ''.''}))), Lit '' '', Cap 2 anything],
       g_names = [''semantics'', ''ssrcs''],
       g_types = ''ss'', g_format = ''ssrc-group:%s %s'',
       g_formatFunc = (\<lambda>_. []) \<rparr>"

definition rule_msidSemantic :: grammar_rule where
  "rule_msidSemantic =
     \<lparr> g_name = ''msidSemantic'', g_push = [],
       g_reg = seqs [Bol, Lit ''msid-semantic:'', Opt (Sym is_space), Cap 1 words, Lit '' '', Cap 2 nonblanks],
       g_names = [''semantic'', ''token''],
       g_types = ''ss'', g_format = ''msid-semantic: %s %s'',
       g_formatFunc = (\<lambda>_. []) \<rparr>"

definition rule_groups :: grammar_rule where
  "rule_groups =
     \<lparr> g_name = [], g_push = ''groups'',
       g_reg = seqs [Bol, Lit ''group:'', Cap 1 words, Lit '' '', Cap 2 anything],
       g_names = [''type'', ''mids''],
       g_types = ''ss'', g_format = ''group:%s %s'',
       g_formatFunc = (\<lambda>_. []) \<rparr>"

definition rule_rtcpMux :: grammar_rule where
  "rule_rtcpMux = raw_rule ''rtcpMux''
     (seqs [Bol, Cap 1 (Lit ''rtcp-mux'')])
     CHR ''s'' ''%s''"

definition rule_rtcpRsize :: grammar_rule where
  "rule_rtcpRsize = raw_rule ''rtcpRsize''
     (seqs [Bol, Cap 1 (Lit ''rtcp-rsize'')])
     CHR ''s'' ''%s''"

definition rule_sctpmap :: grammar_rule where
  "rule_sctpmap =
     \<lparr> g_name = ''sctpmap'', g_push = [],
       g_reg = seqs [Bol, Lit ''sctpmap:'', Cap 1 (re_plus (Sym is_digit)), Lit '' '', Cap 2 nonblanks, Opt
         (seqs [Lit '' '', Cap 3 digits])],
       g_names = [''sctpmapNumber'', ''app'', ''maxMessageSize''],
       g_types = ''dsd'', g_format = [],
       g_formatFunc = (\<lambda>o'.
       if hasValue o' ''maxMessageSize'' then ''sctpmap:%s %s %s'' else ''sctpmap:%s %s'') \<rparr>"

definition rule_xGoogleFlag :: grammar_rule where
  "rule_xGoogleFlag = raw_rule ''xGoogleFlag''
     (seqs [Lit ''x-google-flag:'', Cap 1 nonblanks])
     CHR ''s'' ''x-google-flag:%s''"

definition rule_rids :: grammar_rule where
  "rule_rids =
     \<lparr> g_name = [], g_push = ''rids'',
       g_reg = seqs [Bol, Lit ''rid:'', Cap 1 (re_plus (Sym is_word)), Lit '' '', Cap 2 (re_plus (Sym
         is_word)), Opt (seqs [Lit '' '', Cap 3 anything])],
       g_names = [''id'', ''direction'', ''params''],
       g_types = ''sss'', g_format = [],
       g_formatFunc = (\<lambda>o'.
       if hasValue o' ''params'' then ''rid:%s %s %s'' else ''rid:%s %s'') \<rparr>"

definition rule_imageattrs :: grammar_rule where
  "rule_imageattrs =
     \<lparr> g_name = [], g_push = ''imageattrs'',
       g_reg = seqs [Bol, Lit ''imageattr:'', Cap 1 (alts [re_plus (Sym is_digit), Lit ''*'']), re_plus (Sym
         is_space), Cap 2 (alts [Lit ''send'', Lit ''recv'']), re_plus (Sym is_space), Cap 3 (alts [Lit
         ''*'', seqs [Lit ''['', re_plus (Sym (\<lambda>c. \<not> is_space c)), Lit '']'', Star (seqs
         [re_plus (Sym is_space), Lit ''['', re_plus (Sym (\<lambda>c. \<not> is_space c)), Lit
         '']''])]]), Opt (seqs [re_plus (Sym is_space), Cap 4 (alts [Lit ''recv'', Lit ''send'']),
         re_plus (Sym is_space), Cap 5 (alts [Lit ''*'', seqs [Lit ''['', re_plus (Sym (\<lambda>c.
         \<not> is_space c)), Lit '']'', Star (seqs [re_plus (Sym is_space), Lit ''['', re_plus (Sym
         (\<lambda>c. \<not> is_space c)), Lit '']''])]])])],
       g_names = [''pt'', ''dir1'', ''attrs1'', ''dir2'', ''attrs2''],
       g_types = ''sssss'', g_format = [],
       g_formatFunc = (\<lambda>o'.
       ''imageattr:%s %s %s'' @ (if hasValue o' ''dir2'' then '' %s %s'' else [])) \<rparr>"

definition rule_simulcast :: grammar_rule where
  "rule_simulcast =
     \<lparr> g_name = ''simulcast'', g_push = [],
       g_reg = seqs [Bol, Lit ''simulcast:'', Cap 1 (alts [Lit ''send'', Lit ''recv'']), Lit '' '', Cap 2
         (re_plus (Sym (\<lambda>c. is_alpha c \<or> is_digit c \<or> c \<in> {CHR ''-'', CHR ''_'', CHR
         ''~'', CHR '';'', CHR '',''}))), Opt (seqs [Opt (Sym is_space), Cap 3 (alts [Lit ''send'', Lit
         ''recv'']), Lit '' '', Cap 4 (re_plus (Sym (\<lambda>c. is_alpha c \<or> is_digit c \<or> c
         \<in> {CHR ''-'', CHR ''_'', CHR ''~'', CHR '';'', CHR '',''})))]), Eol],
       g_names = [''dir1'', ''list1'', ''dir2'', ''list2''],
       g_types = ''ssss'', g_format = [],
       g_formatFunc = (\<lambda>o'.
       ''simulcast:%s %s'' @ (if hasValue o' ''dir2'' then '' %s %s'' else [])) \<rparr>"

definition rule_simulcast_03 :: grammar_rule where
  "rule_simulcast_03 =
     \<lparr> g_name = ''simulcast_03'', g_push = [],
       g_reg = seqs [Bol, Lit ''simulcast: '', Cap 1 (re_plus (Sym is_any)), Eol],
       g_names = [''value''],
       g_types = ''s'', g_format = ''simulcast: %s'',
       g_formatFunc = (\<lambda>_. []) \<rparr>"

definition rule_framerate :: grammar_rule where
  "rule_framerate = raw_rule ''framerate''
     (seqs [Bol, Lit ''framerate:'', Cap 1 (seqs [re_plus (Sym is_digit), alts [Eol, seqs [Lit ''.'',
      re_plus (Sym is_digit)]]])])
     CHR ''f'' ''framerate:%s''"

definition rule_sourceFilter :: grammar_rule where
  "rule_sourceFilter =
     \<lparr> g_name = ''sourceFilter'', g_push = [],
       g_reg = seqs [Bol, Lit ''source-filter:'', re_plus (Sym is_space), Cap 1 (alts [Lit ''excl'', Lit
         ''incl'']), Lit '' '', Cap 2 nonblanks, Lit '' '', Cap 3 (alts [Lit ''IP4'', Lit ''IP6'', Lit
         ''*'']), Lit '' '', Cap 4 nonblanks, Lit '' '', Cap 5 anything],
       g_names = [''filterMode'', ''netType'', ''addressTypes'', ''destAddress'', ''srcList''],
       g_types = ''sssss'', g_format = ''source-filter: %s %s %s %s %s'',
       g_formatFunc = (\<lambda>_. []) \<rparr>"

definition rule_tsRefclk :: grammar_rule where
  "rule_tsRefclk = raw_rule ''tsRefclk''
     (seqs [Bol, Lit ''ts-refclk:'', Cap 1 anything])
     CHR ''s'' ''ts-refclk:%s''"

definition rule_mediaclk :: grammar_rule where
  "rule_mediaclk = raw_rule ''mediaclk''
     (seqs [Bol, Lit ''mediaclk:'', Cap 1 anything])
     CHR ''s'' ''mediaclk:%s''"

definition rule_invalid :: grammar_rule where
  "rule_invalid =
     \<lparr> g_name = [], g_push = ''invalid'',
       g_reg = Cap 1 anything,
       g_names = [''value''],
       g_types = ''s'', g_format = ''%s'',
       g_formatFunc = (\<lambda>_. []) \<rparr>"

section \<open>The table\<close>

definition attribute_rules :: "grammar_rule list" where
  "attribute_rules =
     [rule_rtp, rule_fmtp, rule_control, rule_rtcp, rule_rtcpFbTrrInt, rule_rtcpFb, rule_ext,
      rule_extmapAllowMixed, rule_crypto, rule_setup, rule_mid, rule_msid, rule_ptime, rule_maxptime,
      rule_direction, rule_icelite, rule_iceUfrag, rule_icePwd, rule_fingerprint, rule_candidates,
      rule_endOfCandidates, rule_remoteCandidates, rule_iceOptions, rule_ssrcs, rule_ssrcGroups,
      rule_msidSemantic, rule_groups, rule_rtcpMux, rule_rtcpRsize, rule_sctpmap, rule_xGoogleFlag,
      rule_rids, rule_imageattrs, rule_simulcast, rule_simulcast_03, rule_framerate, rule_sourceFilter,
      rule_tsRefclk, rule_mediaclk, rule_invalid]"

definition rulesMap :: "char \<Rightarrow> grammar_rule list option" where
  "rulesMap = map_of [
     (CHR ''v'', [rule_version]),
     (CHR ''o'', [rule_origin]),
     (CHR ''s'', [rule_name]),
     (CHR ''i'', [rule_description]),
     (CHR ''u'', [rule_uri]),
     (CHR ''e'', [rule_email]),
     (CHR ''p'', [rule_phone]),
     (CHR ''z'', [rule_timezones]),
     (CHR ''r'', [rule_repeats]),
     (CHR ''t'', [rule_timing]),
     (CHR ''c'', [rule_connection]),
     (CHR ''b'', [rule_bandwidth]),
     (CHR ''m'', [rule_media]),
     (CHR ''a'', attribute_rules)]"

end
