(* ===== verification/Sdp_Writer.thy ===== *)
theory Sdp_Writer
  imports Sdp_Grammar Numbers
begin

text \<open>
  The writer of \<open>libsdptransform\<close> (\<open>src/writer.cpp\<close>): the session lines in the order of the RFC, then
  for every media section its lines. Serialising a float, an array or an object as an argument is
  not modelled.
\<close>

definition print_arg :: "json \<Rightarrow> string result" where
  "print_arg arg =
     (case arg of
        JString s \<Rightarrow> ok s
      | JNull \<Rightarrow> ok ''null''
      | JBool b \<Rightarrow> ok (if b then ''true'' else ''false'')
      | JInt i \<Rightarrow> ok (show_int (sint i))
      | JUint u \<Rightarrow> ok (show_int (uint u))
      | _ \<Rightarrow> throw Unmodelled)"

text \<open>The next match of \<open>%[sdv%]\<close>: the text before it, the letter and the rest.\<close>

fun next_fmt :: "string \<Rightarrow> (string \<times> char \<times> string) option" where
  "next_fmt (p # c # s) =
     (if p = CHR ''%'' \<and> c \<in> set ''sdv%'' then Some ([], c, s)
      else map_option (\<lambda>(pre, x). (p # pre, x)) (next_fmt (c # s)))"
| "next_fmt _ = None"

lemma next_fmt_length: "next_fmt s = Some (pre, c, r) \<Longrightarrow> length r < length s"
  by (induction s arbitrary: pre rule: next_fmt.induct) (auto split: if_splits)

text \<open>
  The text before a directive is written only when an argument is left for it, and the text after
  the last directive is not written.
\<close>

function format_args :: "string \<Rightarrow> json list \<Rightarrow> string result" where
  "format_args format args =
     (case next_fmt format of
        None \<Rightarrow> ok []
      | Some (pre, c, rest) \<Rightarrow>
          (case args of
             [] \<Rightarrow> bindE (format_args rest []) (\<lambda>s. ok ([CHR ''%'', c] @ s))
           | arg # args' \<Rightarrow>
               bindE (if c = CHR ''%'' then ok ''%''
                      else if c = CHR ''s'' \<or> c = CHR ''d'' then print_arg arg
                      else ok []) (\<lambda>a.
               bindE (format_args rest args') (\<lambda>s. ok (pre @ a @ s)))))"
  by auto
termination
  by (relation "measure (\<lambda>(f, _). length f)") (auto dest: next_fmt_length)

declare format_args.simps [simp del]

text \<open>The argument of a name: a member of the named member, a member of the location, or empty.\<close>

definition line_arg :: "grammar_rule \<Rightarrow> json \<Rightarrow> string \<Rightarrow> json" where
  "line_arg rule location name =
     (case (if g_name rule \<noteq> [] then jfind location (g_name rule) else None) of
        Some l \<Rightarrow>
          (case jfind l name of
             Some v \<Rightarrow> v
           | None \<Rightarrow> (case jfind location name of Some v \<Rightarrow> v | None \<Rightarrow> JString []))
      | None \<Rightarrow> (case jfind location name of Some v \<Rightarrow> v | None \<Rightarrow> JString []))"

definition line_args :: "grammar_rule \<Rightarrow> json \<Rightarrow> json list" where
  "line_args rule location =
     (if g_names rule \<noteq> [] then map (line_arg rule location) (g_names rule)
      else (case jfind location (g_name rule) of Some v \<Rightarrow> [v] | None \<Rightarrow> []))"

text \<open>\<open>location.at(name)\<close>\<close>

definition jat_checked :: "json \<Rightarrow> string \<Rightarrow> json result" where
  "jat_checked j key =
     (case j of
        JObject ps \<Rightarrow> (case map_of ps key of Some v \<Rightarrow> ok v | None \<Rightarrow> throw (JsonError 403))
      | _ \<Rightarrow> throw (JsonError 304))"

definition line_format :: "grammar_rule \<Rightarrow> json \<Rightarrow> string result" where
  "line_format rule location =
     (if g_format rule \<noteq> [] then ok (g_format rule)
      else
        bindE (if g_push rule \<noteq> [] then ok location
               else if g_name rule \<noteq> [] then jat_checked location (g_name rule)
               else ok location) (\<lambda>o'. ok (g_formatFunc rule o')))"

definition makeLine :: "char \<Rightarrow> grammar_rule \<Rightarrow> json \<Rightarrow> string result" where
  "makeLine type rule location =
     bindE (line_format rule location) (\<lambda>format.
     bindE (format_args format (line_args rule location)) (\<lambda>s.
     ok ([type, CHR ''=''] @ s @ [CHR 0x0D, CHR 0x0A])))"

text \<open>The lines of a rule at a location: a named member, or the elements of a pushed array.\<close>

definition rule_lines :: "char \<Rightarrow> json \<Rightarrow> grammar_rule \<Rightarrow> string result" where
  "rule_lines type location rule =
     (if g_name rule \<noteq> [] \<and> found (\<lambda>j. \<not> is_null j) (jfind location (g_name rule)) then makeLine type rule location
      else if g_push rule \<noteq> [] \<and> found is_array (jfind location (g_push rule)) then
        bindE (mapE (makeLine type rule) (case jfind location (g_push rule) of Some j \<Rightarrow> jelems j | None \<Rightarrow> [])) (\<lambda>ls.
        ok (concat ls))
      else ok [])"

definition type_lines :: "json \<Rightarrow> char \<Rightarrow> string result" where
  "type_lines location type =
     (case rulesMap type of
        None \<Rightarrow> throw (StdError ''out_of_range'')
      | Some rules \<Rightarrow> bindE (mapE (rule_lines type location) rules) (\<lambda>ls. ok (concat ls)))"

definition OuterOrder :: string where
  "OuterOrder = ''vosiuepcbtrza''"

definition InnerOrder :: string where
  "InnerOrder = ''icba''"

definition media_lines :: "json \<Rightarrow> string result" where
  "media_lines mLine =
     bindE (makeLine CHR ''m'' rule_media mLine) (\<lambda>l.
     bindE (mapE (type_lines mLine) InnerOrder) (\<lambda>ls. ok (l @ concat ls)))"

text \<open>\<open>json::emplace\<close>-like defaults: a missing member is set.\<close>

definition set_default :: "string \<Rightarrow> json \<Rightarrow> json \<Rightarrow> json result" where
  "set_default key v j = (if jfind j key = None then jput j key v else ok j)"

text \<open>The text, and the session with the defaults filled in.\<close>

definition sdp_write :: "json \<Rightarrow> (string \<times> json) result" where
  "sdp_write session =
     (if \<not> is_object session then throw (StdError ''invalid_argument'')
      else
        bindE (set_default ''version'' (JInt 0) session) (\<lambda>s1.
        bindE (set_default ''name'' (JString ''-'') s1) (\<lambda>s2.
        bindE (set_default ''media'' (JArray []) s2) (\<lambda>s3.
        bindE (jat_checked s3 ''media'') (\<lambda>media.
        bindE (mapE (set_default ''payloads'' (JString [])) (jelems media)) (\<lambda>ms.
        bindE (jput s3 ''media'' (jrebuild media ms)) (\<lambda>s4.
        bindE (mapE (type_lines s4) OuterOrder) (\<lambda>outer.
        bindE (mapE media_lines ms) (\<lambda>inner.
        ok (concat outer @ concat inner, s4))))))))))"

end
