(* ===== verification/Remote_Sdp.thy ===== *)
theory Remote_Sdp
  imports Media_Section Sdp_Writer
begin

text \<open>
  The remote session description (\<open>src/sdp/RemoteSdp.cpp\<close>): the media sections, their index by MID,
  the MID of the first section and the SDP object that is printed for the peer connection. A
  \<open>std::map\<close> lookup with \<open>operator[]\<close> inserts index 0 for an unknown MID; a vector access past the
  end is undefined.
\<close>

record remote_sdp =
  rs_iceParameters :: json
  rs_iceCandidates :: json
  rs_dtlsParameters :: json
  rs_sctpParameters :: json
  rs_mediaSections :: "media_section list"
  rs_midToIndex :: "string \<rightharpoonup> nat"
  rs_firstMid :: string
  rs_sdpObject :: json

section \<open>Construction\<close>

definition initial_sdp_object :: jobj where
  "initial_sdp_object = mk_obj
     [(''version'', JInt 0),
      (''origin'', JObject (mk_obj
         [(''address'', JString ''0.0.0.0''), (''ipVer'', JInt 4), (''netType'', JString ''IN''),
          (''sessionId'', JInt 10000), (''sessionVersion'', JInt 0),
          (''username'', JString ''libmediasoupclient'')])),
      (''name'', JString ''-''),
      (''timing'', JObject (mk_obj [(''start'', JInt 0), (''stop'', JInt 0)])),
      (''media'', JArray [])]"

text \<open>
  Algorithm and value of the last fingerprint, and the DTLS parameters after the non-const reads.
  With no fingerprint the index is the largest \<open>size_t\<close>: the count of elements the non-const
  \<open>operator[]\<close> inserts wraps to 0 and the access is out of range.
\<close>

definition last_fingerprint :: "json \<Rightarrow> (json \<times> json \<times> json) result" where
  "last_fingerprint dtlsParameters =
     bindE (jref dtlsParameters ''fingerprints'') (\<lambda>(fingerprints, dtls').
     let n = jsize fingerprints in
     if n = 0 then (if is_object fingerprints then throw (JsonError 305) else throw Undefined)
     else
       bindE (jref_idx fingerprints (n - 1)) (\<lambda>(f, fingerprints').
       bindE (jref f ''algorithm'') (\<lambda>(algorithm, f').
       bindE (jref f' ''value'') (\<lambda>(value, f'').
       bindE (jput dtls' ''fingerprints'' (JArray ((jelems fingerprints')[n - 1 := f''])))
         (\<lambda>dtls''. ok (algorithm, value, dtls''))))))"

definition RemoteSdp_new :: "json \<Rightarrow> json \<Rightarrow> json \<Rightarrow> json \<Rightarrow> remote_sdp result" where
  "RemoteSdp_new iceParameters iceCandidates dtlsParameters sctpParameters =
     (let sdp1 = (if jfind iceParameters ''iceLite'' \<noteq> None
                  then obj_set ''icelite'' (JString ''ice-lite'') initial_sdp_object
                  else initial_sdp_object);
          sdp2 = obj_set ''msidSemantic''
                   (JObject (mk_obj [(''semantic'', JString ''WMS''), (''token'', JString ''*'')])) sdp1
      in
      bindE (last_fingerprint dtlsParameters) (\<lambda>(algorithm, value, dtls).
      let sdp3 = obj_set ''fingerprint'' (JObject (mk_obj [(''type'', algorithm), (''hash'', value)])) sdp2;
          sdp4 = obj_set ''groups'' (JArray [JObject (mk_obj [(''type'', JString ''BUNDLE''),
                                                           (''mids'', JString [])])]) sdp3
      in ok \<lparr> rs_iceParameters = iceParameters, rs_iceCandidates = iceCandidates,
              rs_dtlsParameters = dtls, rs_sctpParameters = sctpParameters,
              rs_mediaSections = [], rs_midToIndex = Map.empty, rs_firstMid = [],
              rs_sdpObject = JObject sdp4 \<rparr>))"

section \<open>Updates of the SDP object\<close>

text \<open>\<open>sdpObject["media"][idx] = object\<close>\<close>

definition sdp_set_media :: "nat \<Rightarrow> json \<Rightarrow> json \<Rightarrow> json result" where
  "sdp_set_media idx object sdp =
     bindE (jref sdp ''media'') (\<lambda>(media, sdp').
     bindE (jref_idx media idx) (\<lambda>(_, media').
     jput sdp' ''media'' (JArray ((jelems media')[idx := object]))))"

text \<open>\<open>sdpObject["media"].push_back(object)\<close>\<close>

definition sdp_push_media :: "json \<Rightarrow> json \<Rightarrow> json result" where
  "sdp_push_media object sdp =
     bindE (jref sdp ''media'') (\<lambda>(media, sdp').
     bindE (jpush media object) (\<lambda>media'. jput sdp' ''media'' media'))"

text \<open>\<open>sdpObject["groups"][0]["mids"] = mids\<close>\<close>

definition sdp_set_mids :: "string \<Rightarrow> json \<Rightarrow> json result" where
  "sdp_set_mids mids sdp =
     bindE (jref sdp ''groups'') (\<lambda>(groups, sdp').
     bindE (jref_idx groups 0) (\<lambda>(group, groups').
     bindE (jput group ''mids'' (JString mids)) (\<lambda>group'.
     jput sdp' ''groups'' (JArray ((jelems groups')[0 := group'])))))"

definition sdp_set_icelite :: "json \<Rightarrow> json \<Rightarrow> json result" where
  "sdp_set_icelite iceParameters sdp =
     (if jfind iceParameters ''iceLite'' \<noteq> None then jput sdp ''icelite'' (JString ''ice-lite'') else ok sdp)"

section \<open>Operations\<close>

fun bundle_mids :: "string \<Rightarrow> media_section list \<Rightarrow> string result" where
  "bundle_mids mids [] = ok mids"
| "bundle_mids mids (s # ss) =
     bindE (IsClosed (mediaObject s)) (\<lambda>closed.
     if closed then bundle_mids mids ss
     else bindE (GetMid (mediaObject s)) (\<lambda>mid. bundle_mids (append_word mids mid) ss))"

definition RegenerateBundleMids :: "remote_sdp \<Rightarrow> remote_sdp result" where
  "RegenerateBundleMids s =
     bindE (bundle_mids [] (rs_mediaSections s)) (\<lambda>mids.
     bindE (sdp_set_mids mids (rs_sdpObject s)) (\<lambda>sdp. ok (s\<lparr> rs_sdpObject := sdp \<rparr>)))"

text \<open>The update of every section and of its entry in the SDP object, from an index on.\<close>

fun update_sections ::
  "(media_section \<Rightarrow> media_section result) \<Rightarrow> nat \<Rightarrow> media_section list \<Rightarrow> json \<Rightarrow>
   (media_section list \<times> json) result" where
  "update_sections f idx [] sdp = ok ([], sdp)"
| "update_sections f idx (s # ss) sdp =
     bindE (f s) (\<lambda>s'.
     bindE (sdp_set_media idx (JObject (mediaObject s')) sdp) (\<lambda>sdp'.
     bindE (update_sections f (Suc idx) ss sdp') (\<lambda>(ss', sdp''). ok (s' # ss', sdp''))))"

definition set_section_ice :: "json \<Rightarrow> media_section \<Rightarrow> media_section result" where
  "set_section_ice iceParameters s =
     bindE (SetIceParameters iceParameters (mediaObject s)) (\<lambda>m. ok (map_object (\<lambda>_. m) s))"

definition UpdateIceParameters :: "json \<Rightarrow> remote_sdp \<Rightarrow> remote_sdp result" where
  "UpdateIceParameters iceParameters s =
     bindE (sdp_set_icelite iceParameters (rs_sdpObject s)) (\<lambda>sdp.
     bindE (update_sections (set_section_ice iceParameters) 0 (rs_mediaSections s) sdp) (\<lambda>(ss, sdp').
     ok (s\<lparr> rs_iceParameters := iceParameters, rs_mediaSections := ss, rs_sdpObject := sdp' \<rparr>)))"

definition UpdateDtlsRole :: "string \<Rightarrow> remote_sdp \<Rightarrow> remote_sdp result" where
  "UpdateDtlsRole role s =
     bindE (jput (rs_dtlsParameters s) ''role'' (JString role)) (\<lambda>dtls.
     bindE (sdp_set_icelite (rs_iceParameters s) (rs_sdpObject s)) (\<lambda>sdp.
     bindE (update_sections (\<lambda>x. ok (SetDtlsRole role x)) 0 (rs_mediaSections s) sdp) (\<lambda>(ss, sdp').
     ok (s\<lparr> rs_dtlsParameters := dtls, rs_mediaSections := ss, rs_sdpObject := sdp' \<rparr>))))"

text \<open>The index of the first closed section with its MID, or the number of sections and no MID.\<close>

fun next_section :: "nat \<Rightarrow> media_section list \<Rightarrow> (nat \<times> string) result" where
  "next_section idx [] = ok (idx, [])"
| "next_section idx (s # ss) =
     bindE (IsClosed (mediaObject s)) (\<lambda>closed.
     if closed then bindE (GetMid (mediaObject s)) (\<lambda>mid. ok (idx, mid))
     else next_section (Suc idx) ss)"

definition GetNextMediaSectionIdx :: "remote_sdp \<Rightarrow> (nat \<times> string) result" where
  "GetNextMediaSectionIdx s = next_section 0 (rs_mediaSections s)"

definition AddMediaSection :: "media_section \<Rightarrow> remote_sdp \<Rightarrow> remote_sdp result" where
  "AddMediaSection new s =
     bindE (GetMid (mediaObject new)) (\<lambda>mid.
     let s1 = (if rs_firstMid s = [] then s\<lparr> rs_firstMid := mid \<rparr> else s);
         sections = rs_mediaSections s @ [new];
         s2 = s1\<lparr> rs_mediaSections := sections,
                  rs_midToIndex := (rs_midToIndex s)(mid \<mapsto> length sections - 1) \<rparr>
     in
     bindE (sdp_push_media (JObject (mediaObject new)) (rs_sdpObject s)) (\<lambda>sdp.
     RegenerateBundleMids (s2\<lparr> rs_sdpObject := sdp \<rparr>)))"

text \<open>\<open>midToIndex[mid]\<close>: the index, and the map with 0 inserted when the MID is unknown.\<close>

definition mid_index :: "string \<Rightarrow> remote_sdp \<Rightarrow> nat \<times> (string \<rightharpoonup> nat)" where
  "mid_index mid s =
     (case rs_midToIndex s mid of
        Some i \<Rightarrow> (i, rs_midToIndex s)
      | None \<Rightarrow> (0, (rs_midToIndex s)(mid \<mapsto> 0)))"

definition ReplaceMediaSection :: "media_section \<Rightarrow> string \<Rightarrow> remote_sdp \<Rightarrow> remote_sdp result" where
  "ReplaceMediaSection new reuseMid s =
     (if reuseMid \<noteq> [] then
        let (idx, index) = mid_index reuseMid s in
        if \<not> idx < length (rs_mediaSections s) then throw Undefined
        else
          bindE (GetMid (mediaObject (rs_mediaSections s ! idx))) (\<lambda>oldMid.
          bindE (GetMid (mediaObject new)) (\<lambda>newMid.
          bindE (sdp_set_media idx (JObject (mediaObject new)) (rs_sdpObject s)) (\<lambda>sdp.
          RegenerateBundleMids
            (s\<lparr> rs_mediaSections := (rs_mediaSections s)[idx := new],
               rs_midToIndex := (index(oldMid := None))(newMid \<mapsto> idx),
               rs_sdpObject := sdp \<rparr>))))
      else
        bindE (GetMid (mediaObject new)) (\<lambda>newMid.
        let (idx, index) = mid_index newMid s in
        if \<not> idx < length (rs_mediaSections s) then throw Undefined
        else
          bindE (sdp_set_media (length (rs_mediaSections s) - 1) (JObject (mediaObject new)) (rs_sdpObject s))
            (\<lambda>sdp.
          ok (s\<lparr> rs_mediaSections := (rs_mediaSections s)[idx := new], rs_midToIndex := index,
                rs_sdpObject := sdp \<rparr>))))"

definition RemoteSdp_Send ::
  "json \<Rightarrow> string \<Rightarrow> json \<Rightarrow> json \<Rightarrow> json option \<Rightarrow> remote_sdp \<Rightarrow> (json \<times> remote_sdp) result" where
  "RemoteSdp_Send offerMediaObject reuseMid offerRtpParameters answerRtpParameters codecOptions s =
     bindE (AnswerMediaSection_new (rs_iceParameters s) (rs_iceCandidates s) (rs_dtlsParameters s)
              (rs_sctpParameters s) offerMediaObject offerRtpParameters answerRtpParameters codecOptions)
       (\<lambda>(m, offerRtpParameters').
     bindE (if reuseMid \<noteq> [] then ReplaceMediaSection (AnswerMediaSection m) reuseMid s
            else AddMediaSection (AnswerMediaSection m) s) (\<lambda>s'.
     ok (offerRtpParameters', s')))"

definition SendSctpAssociation :: "json \<Rightarrow> remote_sdp \<Rightarrow> remote_sdp result" where
  "SendSctpAssociation offerMediaObject s =
     bindE (AnswerMediaSection_new (rs_iceParameters s) (rs_iceCandidates s) (rs_dtlsParameters s)
              (rs_sctpParameters s) offerMediaObject JNull JNull None) (\<lambda>(m, _).
     AddMediaSection (AnswerMediaSection m) s)"

definition RecvSctpAssociation :: "remote_sdp \<Rightarrow> remote_sdp result" where
  "RecvSctpAssociation s =
     bindE (OfferMediaSection_new (rs_iceParameters s) (rs_iceCandidates s) (rs_sctpParameters s)
              ''datachannel'' ''application'' JNull [] []) (\<lambda>m.
     AddMediaSection (OfferMediaSection m) s)"

fun find_closed :: "media_section list \<Rightarrow> media_section option result" where
  "find_closed ss = find_ifE (\<lambda>s. IsClosed (mediaObject s)) ss"

definition RemoteSdp_Receive ::
  "string \<Rightarrow> string \<Rightarrow> json \<Rightarrow> string \<Rightarrow> string \<Rightarrow> remote_sdp \<Rightarrow> remote_sdp result" where
  "RemoteSdp_Receive mid kind offerRtpParameters streamId trackId s =
     bindE (OfferMediaSection_new (rs_iceParameters s) (rs_iceCandidates s) JNull mid kind
              offerRtpParameters streamId trackId) (\<lambda>m.
     bindE (find_closed (rs_mediaSections s)) (\<lambda>closed.
     case closed of
       Some c \<Rightarrow>
         bindE (GetMid (mediaObject c)) (\<lambda>oldMid.
         ReplaceMediaSection (OfferMediaSection m) oldMid s)
     | None \<Rightarrow> AddMediaSection (OfferMediaSection m) s))"

definition DisableMediaSection :: "string \<Rightarrow> remote_sdp \<Rightarrow> remote_sdp result" where
  "DisableMediaSection mid s =
     (let (idx, index) = mid_index mid s in
      if \<not> idx < length (rs_mediaSections s) then throw Undefined
      else ok (s\<lparr> rs_midToIndex := index,
                 rs_mediaSections := (rs_mediaSections s)
                   [idx := map_object MediaSection_Disable (rs_mediaSections s ! idx)] \<rparr>))"

definition CloseMediaSection :: "string \<Rightarrow> remote_sdp \<Rightarrow> remote_sdp result" where
  "CloseMediaSection mid s =
     (let (idx, index) = mid_index mid s in
      if \<not> idx < length (rs_mediaSections s) then throw Undefined
      else
        let x = map_object (if mid = rs_firstMid s then MediaSection_Disable else MediaSection_Close)
                  (rs_mediaSections s ! idx)
        in
        bindE (sdp_set_media idx (JObject (mediaObject x)) (rs_sdpObject s)) (\<lambda>sdp.
        RegenerateBundleMids
          (s\<lparr> rs_midToIndex := index, rs_mediaSections := (rs_mediaSections s)[idx := x],
             rs_sdpObject := sdp \<rparr>)))"

text \<open>
  \<open>GetSdp\<close>: the session version is increased as an unsigned 32-bit number, then the object is
  printed, which fills in its defaults.
\<close>

definition increase_version :: "remote_sdp \<Rightarrow> remote_sdp result" where
  "increase_version s =
     bindE (jref (rs_sdpObject s) ''origin'') (\<lambda>(origin, sdp).
     bindE (jref origin ''sessionVersion'') (\<lambda>(v, origin').
     bindE (get_uint v :: 32 word result) (\<lambda>version.
     bindE (jput origin' ''sessionVersion'' (JUint (ucast (version + 1)))) (\<lambda>origin''.
     bindE (jput sdp ''origin'' origin'') (\<lambda>sdp'.
     ok (s\<lparr> rs_sdpObject := sdp' \<rparr>))))))"

definition GetSdp :: "remote_sdp \<Rightarrow> (string \<times> remote_sdp) result" where
  "GetSdp s =
     bindE (increase_version s) (\<lambda>s'.
     bindE (sdp_write (rs_sdpObject s')) (\<lambda>(text, sdp). ok (text, s'\<lparr> rs_sdpObject := sdp \<rparr>)))"

end
