(* ===== verification/Remote_Sdp_Inv.thy ===== *)
theory Remote_Sdp_Inv
  imports Remote_Sdp Section_Table
begin

text \<open>
  The invariant of the remote description: the printed media array is the list of the sections, the
  index is exactly the position of every MID, the bundle group lists the MIDs of the open sections
  and the first section is never closed. Every operation keeps it and refines an operation on the
  table of MIDs.
\<close>

section \<open>The SDP object\<close>

definition sdp_shows :: "json \<Rightarrow> json list \<Rightarrow> string \<Rightarrow> 32 word \<Rightarrow> bool" where
  "sdp_shows j media mids version =
     obj_with (\<lambda>sdp.
       map_of sdp ''media'' = Some (JArray media) \<and>
       (\<exists>g. map_of sdp ''groups'' = Some (JArray [JObject g]) \<and> map_of g ''mids'' = Some (JString mids)) \<and>
       (\<exists>origin v. map_of sdp ''origin'' = Some (JObject origin) \<and>
          map_of origin ''sessionVersion'' = Some v \<and> get_uint v = Inr version)) j"

lemma sdp_set_media_ok:
  "sdp_shows j media mids v \<Longrightarrow> i < length media \<Longrightarrow>
   okE (sdp_set_media i x j) (\<lambda>j'. sdp_shows j' (media[i := x]) mids v)"
  by (auto simp: sdp_shows_def obj_with_conv sdp_set_media_def)

lemma sdp_push_media_ok:
  "sdp_shows j media mids v \<Longrightarrow> okE (sdp_push_media x j) (\<lambda>j'. sdp_shows j' (media @ [x]) mids v)"
  by (auto simp: sdp_shows_def obj_with_conv sdp_push_media_def)

lemma sdp_set_mids_ok:
  "sdp_shows j media mids v \<Longrightarrow> okE (sdp_set_mids mids' j) (\<lambda>j'. sdp_shows j' media mids' v)"
  by (auto simp: sdp_shows_def obj_with_conv sdp_set_mids_def)

lemma sdp_set_icelite_ok:
  "sdp_shows j media mids v \<Longrightarrow> okE (sdp_set_icelite ice j) (\<lambda>j'. sdp_shows j' media mids v)"
  by (auto simp: sdp_shows_def obj_with_conv sdp_set_icelite_def)

abbreviation section_objects :: "media_section list \<Rightarrow> json list" where
  "section_objects \<equiv> map (\<lambda>x. JObject (mediaObject x))"

lemma update_sections_ok:
  assumes "\<And>x. x \<in> set ss \<Longrightarrow> okE (f x) (same_view x)"
    and "sdp_shows j (pre @ section_objects ss) mids v"
  shows "okE (update_sections f (length pre) ss j) (\<lambda>(ss', j').
    list_all2 same_view ss ss' \<and> sdp_shows j' (pre @ section_objects ss') mids v)"
  using assms
proof (induction ss arbitrary: pre j)
  case Nil
  then show ?case by simp
next
  case (Cons x ss)
  obtain x' where x': "f x = Inr x'" "same_view x x'"
    using Cons.prems(1) [of x] by (auto simp: okE_conv)
  obtain j' where j': "sdp_set_media (length pre) (JObject (mediaObject x')) j = Inr j'"
    "sdp_shows j' ((pre @ [JObject (mediaObject x')]) @ section_objects ss) mids v"
    using sdp_set_media_ok [OF Cons.prems(2), of "length pre" "JObject (mediaObject x')"]
    by (auto simp: okE_conv)
  show ?case
    using Cons.IH [OF _ j'(2)] Cons.prems(1) x' j'(1) by (fastforce simp: okE_conv)
qed

section \<open>The invariant\<close>

definition sections_of :: "remote_sdp \<Rightarrow> section_table" where
  "sections_of s = map (\<lambda>x. (section_mid x, section_closed x)) (rs_mediaSections s)"

definition bundle_of :: "section_table \<Rightarrow> string" where
  "bundle_of t = foldl append_word [] (open_mids t)"

definition table_ok :: "(string \<rightharpoonup> nat) \<Rightarrow> string \<Rightarrow> media_section list \<Rightarrow> bool" where
  "table_ok idx firstMid ss =
     ((\<forall>x\<in>set ss. section_wf x \<and> section_mid x \<noteq> []) \<and> indexed idx (map section_mid ss) \<and>
      (case ss of [] \<Rightarrow> firstMid = [] | x # _ \<Rightarrow> firstMid = section_mid x \<and> \<not> section_closed x))"

definition rs_inv :: "32 word \<Rightarrow> remote_sdp \<Rightarrow> bool" where
  "rs_inv v s =
     (table_ok (rs_midToIndex s) (rs_firstMid s) (rs_mediaSections s) \<and>
      sdp_shows (rs_sdpObject s) (section_objects (rs_mediaSections s)) (bundle_of (sections_of s)) v)"

lemma bundle_mids_wf:
  "\<forall>x\<in>set ss. section_wf x \<Longrightarrow>
   bundle_mids mids ss =
     Inr (foldl append_word mids (open_mids (map (\<lambda>x. (section_mid x, section_closed x)) ss)))"
  by (induction ss arbitrary: mids) (simp_all add: IsClosed_wf GetMid_wf open_mids_def)

text \<open>After the sections and their entries are updated, regenerating the bundle restores the invariant.\<close>

lemma RegenerateBundleMids_ok:
  assumes "table_ok (rs_midToIndex s) (rs_firstMid s) (rs_mediaSections s)"
    and "sdp_shows (rs_sdpObject s) (section_objects (rs_mediaSections s)) mids v"
    and "P (sections_of s)"
  shows "okE (RegenerateBundleMids s) (\<lambda>s'. rs_inv v s' \<and> P (sections_of s'))"
proof -
  have "\<forall>x\<in>set (rs_mediaSections s). section_wf x"
    using assms(1) by (simp add: table_ok_def)
  then show ?thesis
    using sdp_set_mids_ok [OF assms(2), of "bundle_of (sections_of s)"] assms
    by (auto simp: RegenerateBundleMids_def bundle_mids_wf okE_conv rs_inv_def sections_of_def bundle_of_def)
qed

lemma table_ok_add:
  "table_ok idx first ss \<Longrightarrow> open_section mid x \<Longrightarrow> mid \<noteq> [] \<Longrightarrow> mid \<notin> section_mid ` set ss \<Longrightarrow>
   table_ok (idx(mid \<mapsto> length ss)) (if first = [] then mid else first) (ss @ [x])"
  using indexed_add [of idx "map section_mid ss" mid]
  by (cases ss) (auto simp: table_ok_def open_section_def)

lemma AddMediaSection_ok:
  assumes "rs_inv v s" "open_section mid x" "mid \<noteq> []" "mid \<notin> fst ` set (sections_of s)"
  shows "okE (AddMediaSection x s) (\<lambda>s'. rs_inv v s' \<and> sections_of s' = t_add mid (sections_of s))"
proof -
  let ?s = "\<lambda>sdp. s\<lparr> rs_firstMid := if rs_firstMid s = [] then mid else rs_firstMid s,
     rs_mediaSections := rs_mediaSections s @ [x],
     rs_midToIndex := (rs_midToIndex s)(mid \<mapsto> length (rs_mediaSections s)), rs_sdpObject := sdp \<rparr>"
  have mid: "GetMid (mediaObject x) = Inr mid"
    using assms(2) by (simp add: open_section_def GetMid_wf)
  obtain sdp where sdp: "sdp_push_media (JObject (mediaObject x)) (rs_sdpObject s) = Inr sdp"
    "sdp_shows sdp (section_objects (rs_mediaSections s @ [x])) (bundle_of (sections_of s)) v"
    using assms(1) sdp_push_media_ok by (fastforce simp: rs_inv_def okE_conv)
  have "table_ok (rs_midToIndex (?s sdp)) (rs_firstMid (?s sdp)) (rs_mediaSections (?s sdp))"
    using assms table_ok_add [of "rs_midToIndex s" "rs_firstMid s" "rs_mediaSections s" mid x]
    by (auto simp: rs_inv_def sections_of_def image_comp comp_def)
  then have "okE (RegenerateBundleMids (?s sdp))
      (\<lambda>s'. rs_inv v s' \<and> sections_of s' = t_add mid (sections_of s))"
    by (rule RegenerateBundleMids_ok)
      (use sdp(2) assms(2) in \<open>simp_all add: sections_of_def t_add_def open_section_def\<close>)
  then show ?thesis
    using mid sdp(1) by (cases "rs_firstMid s = []") (simp_all add: AddMediaSection_def Let_def)
qed

section \<open>Closing and replacing a section\<close>

lemma rs_inv_nth:
  assumes "rs_inv v s" "rs_midToIndex s mid = Some i"
  shows "i < length (rs_mediaSections s)" "section_mid (rs_mediaSections s ! i) = mid"
    "section_wf (rs_mediaSections s ! i)"
  using assms indexed_SomeD [of "rs_midToIndex s" "map section_mid (rs_mediaSections s)" mid i]
  by (auto simp: rs_inv_def table_ok_def)

lemma rs_inv_distinct: "rs_inv v s \<Longrightarrow> distinct (map section_mid (rs_mediaSections s))"
  by (auto simp: rs_inv_def table_ok_def dest: indexed_distinct)

lemma rs_inv_mem:
  "rs_inv v s \<Longrightarrow> mid \<in> fst ` set (sections_of s) \<longleftrightarrow> (\<exists>i. rs_midToIndex s mid = Some i)"
  using indexed_mem [of "rs_midToIndex s" "map section_mid (rs_mediaSections s)" mid]
  by (simp add: rs_inv_def table_ok_def sections_of_def image_comp comp_def)

lemma table_ok_update:
  assumes "table_ok idx first ss" "i < length ss" "section_mid x = section_mid (ss ! i)" "section_wf x"
    and "i = 0 \<Longrightarrow> section_closed x = section_closed (ss ! 0)"
  shows "table_ok idx first (ss[i := x])"
proof -
  have "map section_mid (ss[i := x]) = map section_mid ss"
    using assms(2,3) by (simp add: map_update list_update_same_conv)
  moreover have "\<forall>y\<in>set (ss[i := x]). section_wf y \<and> section_mid y \<noteq> []"
    using assms(1) bspec [OF _ nth_mem [OF assms(2)], of "\<lambda>x. section_mid x \<noteq> []"] assms(3,4)
    by (auto simp: table_ok_def dest!: set_update_subset_insert [THEN subsetD])
  ultimately show ?thesis
    using assms by (cases ss; cases i) (auto simp: table_ok_def)
qed

lemma CloseMediaSection_ok:
  assumes "rs_inv v s" "mid \<in> fst ` set (sections_of s)"
  shows "okE (CloseMediaSection mid s) (\<lambda>s'. rs_inv v s' \<and> sections_of s' = t_close mid (sections_of s))"
proof -
  obtain i where i: "rs_midToIndex s mid = Some i"
    using assms rs_inv_mem by blast
  note nth = rs_inv_nth [OF assms(1) i]
  let ?old = "rs_mediaSections s ! i"
  let ?x = "if i = 0 then map_object MediaSection_Disable ?old else map_object MediaSection_Close ?old"
  let ?s = "\<lambda>sdp. s\<lparr> rs_midToIndex := rs_midToIndex s, rs_mediaSections := (rs_mediaSections s)[i := ?x],
     rs_sdpObject := sdp \<rparr>"
  have first: "mid = rs_firstMid s \<longleftrightarrow> i = 0"
  proof -
    obtain x xs where "rs_mediaSections s = x # xs" "rs_firstMid s = section_mid x"
      using nth(1) assms(1) by (cases "rs_mediaSections s") (auto simp: rs_inv_def table_ok_def)
    then show ?thesis
      using nth nth_eq_iff_index_eq [OF rs_inv_distinct [OF assms(1)], of 0 i] by auto
  qed
  obtain sdp where sdp: "sdp_set_media i (JObject (mediaObject ?x)) (rs_sdpObject s) = Inr sdp"
    "sdp_shows sdp (section_objects ((rs_mediaSections s)[i := ?x])) (bundle_of (sections_of s)) v"
    using assms(1) nth(1) sdp_set_media_ok [of "rs_sdpObject s" "section_objects (rs_mediaSections s)" _ v i]
    by (fastforce simp: rs_inv_def okE_conv map_update)
  have "table_ok (rs_midToIndex (?s sdp)) (rs_firstMid (?s sdp)) (rs_mediaSections (?s sdp))"
    using assms(1) nth
    by (auto simp: rs_inv_def Close_view same_viewD [OF same_view_Disable] intro!: table_ok_update)
  then have "okE (RegenerateBundleMids (?s sdp))
      (\<lambda>s'. rs_inv v s' \<and> sections_of s' = t_close mid (sections_of s))"
    by (rule RegenerateBundleMids_ok)
      (use sdp(2) sec.table_close [OF rs_inv_distinct [OF assms(1)] nth(1)] nth(2) in
        \<open>simp_all add: sections_of_def\<close>)
  then show ?thesis
    using i nth(1) sdp(1) first by (simp add: CloseMediaSection_def mid_index_def Let_def if_distrib [of "\<lambda>f. map_object f _"])
qed

lemma table_ok_replace:
  assumes "table_ok idx first ss" "i < length ss" "0 < i" "open_section mid x" "mid \<noteq> []"
    and "mid \<notin> section_mid ` set ss - {section_mid (ss ! i)}"
  shows "table_ok ((idx(section_mid (ss ! i) := None))(mid \<mapsto> i)) first (ss[i := x])"
proof -
  have "indexed ((idx(section_mid (ss ! i) := None))(mid \<mapsto> i)) (map section_mid (ss[i := x]))"
    using assms indexed_replace [of idx "map section_mid ss" i mid]
    by (simp add: table_ok_def open_section_def map_update)
  moreover have "\<forall>y\<in>set (ss[i := x]). section_wf y \<and> section_mid y \<noteq> []"
    using assms by (auto simp: table_ok_def open_section_def dest!: set_update_subset_insert [THEN subsetD])
  ultimately show ?thesis
    using assms by (cases ss; cases i) (auto simp: table_ok_def)
qed

lemma closed_not_first:
  assumes "rs_inv v s" "rs_midToIndex s old = Some i" "section_closed (rs_mediaSections s ! i)"
  shows "0 < i" "old \<noteq> []"
  using assms rs_inv_nth [OF assms(1,2)]
  by (cases "rs_mediaSections s"; cases i; auto simp: rs_inv_def table_ok_def)+

lemma ReplaceMediaSection_ok:
  assumes "rs_inv v s" "(old, True) \<in> set (sections_of s)" "open_section mid x" "mid \<noteq> []"
    and "mid \<notin> fst ` set (sections_of s) - {old}"
  shows "okE (ReplaceMediaSection x old s) (\<lambda>s'. rs_inv v s' \<and> sections_of s' = t_replace old mid (sections_of s))"
proof -
  obtain i where i: "rs_midToIndex s old = Some i"
    using assms(1,2) rs_inv_mem by force
  note nth = rs_inv_nth [OF assms(1) i]
  have closed: "section_closed (rs_mediaSections s ! i)"
  proof -
    obtain k where "k < length (rs_mediaSections s)" "section_mid (rs_mediaSections s ! k) = old"
      "section_closed (rs_mediaSections s ! k)"
      using assms(2) by (auto simp: sections_of_def in_set_conv_nth)
    then show ?thesis
      using nth nth_eq_iff_index_eq [OF rs_inv_distinct [OF assms(1)], of k i] by auto
  qed
  let ?s = "\<lambda>sdp. s\<lparr> rs_mediaSections := (rs_mediaSections s)[i := x],
     rs_midToIndex := ((rs_midToIndex s)(old := None))(mid \<mapsto> i), rs_sdpObject := sdp \<rparr>"
  obtain sdp where sdp: "sdp_set_media i (JObject (mediaObject x)) (rs_sdpObject s) = Inr sdp"
    "sdp_shows sdp (section_objects ((rs_mediaSections s)[i := x])) (bundle_of (sections_of s)) v"
    using assms(1) nth(1) sdp_set_media_ok [of "rs_sdpObject s" "section_objects (rs_mediaSections s)" _ v i]
    by (fastforce simp: rs_inv_def okE_conv map_update)
  have "table_ok (rs_midToIndex (?s sdp)) (rs_firstMid (?s sdp)) (rs_mediaSections (?s sdp))"
    using assms nth closed_not_first [OF assms(1) i closed]
      table_ok_replace [of "rs_midToIndex s" "rs_firstMid s" "rs_mediaSections s" i mid x]
    by (auto simp: rs_inv_def sections_of_def image_comp comp_def)
  then have "okE (RegenerateBundleMids (?s sdp))
      (\<lambda>s'. rs_inv v s' \<and> sections_of s' = t_replace old mid (sections_of s))"
    by (rule RegenerateBundleMids_ok)
      (use sdp(2) sec.table_replace [OF rs_inv_distinct [OF assms(1)] nth(1), of x] nth(2) assms(3) in
        \<open>simp_all add: sections_of_def open_section_def\<close>)
  then show ?thesis
    using i nth sdp(1) assms(3) closed_not_first(2) [OF assms(1) i closed]
    by (simp add: ReplaceMediaSection_def mid_index_def Let_def GetMid_wf open_section_def)
qed

section \<open>Updates of all sections\<close>

lemma same_view_list:
  assumes "list_all2 same_view ss ss'"
  shows "map (\<lambda>x. (section_mid x, section_closed x)) ss' = map (\<lambda>x. (section_mid x, section_closed x)) ss"
    and "table_ok idx first ss \<Longrightarrow> table_ok idx first ss'"
proof -
  show "map (\<lambda>x. (section_mid x, section_closed x)) ss' = map (\<lambda>x. (section_mid x, section_closed x)) ss"
    by (rule list_all2_map_same [OF assms]) (simp only: same_viewD)
  have "map section_mid ss' = map section_mid ss" "map section_closed ss' = map section_closed ss"
    by (rule list_all2_map_same [OF assms], erule same_viewD)+
  moreover have "map (\<lambda>x. section_wf x \<and> section_mid x \<noteq> []) ss' = map (\<lambda>x. section_wf x \<and> section_mid x \<noteq> []) ss"
    by (rule list_all2_map_same [OF assms]) (simp only: same_viewD)
  then have "(\<forall>x\<in>set ss'. section_wf x \<and> section_mid x \<noteq> []) = (\<forall>x\<in>set ss. section_wf x \<and> section_mid x \<noteq> [])"
    by (rule all_map_same)
  ultimately show "table_ok idx first ss \<Longrightarrow> table_ok idx first ss'"
    by (cases ss; cases ss') (auto simp: table_ok_def simp del: map_eq_conv)
qed

lemma rs_inv_updateE:
  assumes inv: "rs_inv v s" and f: "\<And>x. x \<in> set (rs_mediaSections s) \<Longrightarrow> okE (f x) (same_view x)"
  obtains sdp ss sdp' where "sdp_set_icelite ice (rs_sdpObject s) = Inr sdp"
    "update_sections f 0 (rs_mediaSections s) sdp = Inr (ss, sdp')"
    "rs_inv v (s\<lparr> rs_mediaSections := ss, rs_sdpObject := sdp' \<rparr>)"
    "sections_of (s\<lparr> rs_mediaSections := ss \<rparr>) = sections_of s"
proof -
  obtain sdp where sdp: "sdp_set_icelite ice (rs_sdpObject s) = Inr sdp"
    "sdp_shows sdp ([] @ section_objects (rs_mediaSections s)) (bundle_of (sections_of s)) v"
    using inv sdp_set_icelite_ok by (fastforce simp: rs_inv_def okE_conv)
  obtain ss sdp' where upd: "update_sections f 0 (rs_mediaSections s) sdp = Inr (ss, sdp')"
    "list_all2 same_view (rs_mediaSections s) ss" "sdp_shows sdp' (section_objects ss) (bundle_of (sections_of s)) v"
    using update_sections_ok [of "rs_mediaSections s" f, OF f sdp(2)] by (auto simp: okE_conv)
  have "sections_of (s\<lparr> rs_mediaSections := ss, rs_sdpObject := sdp' \<rparr>) = sections_of s"
    using same_view_list(1) [OF upd(2)] by (simp add: sections_of_def)
  then have "rs_inv v (s\<lparr> rs_mediaSections := ss, rs_sdpObject := sdp' \<rparr>)"
    using inv upd(3) same_view_list(2) [OF upd(2)] by (simp add: rs_inv_def)
  then show ?thesis
    by (rule that [OF sdp(1) upd(1)]) (use same_view_list(1) [OF upd(2)] in \<open>simp add: sections_of_def\<close>)
qed

definition has_ice :: "json \<Rightarrow> bool" where
  "has_ice = obj_with (\<lambda>ps. map_of ps ''usernameFragment'' \<noteq> None \<and> map_of ps ''password'' \<noteq> None)"

lemma set_section_ice_view: "set_section_ice ice x = Inr x' \<Longrightarrow> same_view x x'"
  by (auto simp: set_section_ice_def SetIceParameters_def same_view_def)

lemma set_section_ice_ok: "has_ice ice \<Longrightarrow> okE (set_section_ice ice x) (same_view x)"
  by (auto simp: has_ice_def obj_with_conv set_section_ice_def SetIceParameters_def same_view_def)

lemma UpdateIceParameters_ok:
  assumes "rs_inv v s" "has_ice ice \<or> rs_mediaSections s = []"
  shows "okE (UpdateIceParameters ice s) (\<lambda>s'. rs_inv v s' \<and> sections_of s' = sections_of s)"
  by (rule rs_inv_updateE [OF assms(1), of "set_section_ice ice" ice])
    (use assms(2) set_section_ice_ok in \<open>auto simp: UpdateIceParameters_def rs_inv_def sections_of_def\<close>)

lemma UpdateDtlsRole_ok:
  assumes "rs_inv v s" "jput (rs_dtlsParameters s) ''role'' (JString role) = Inr dtls"
  shows "okE (UpdateDtlsRole role s) (\<lambda>s'. rs_inv v s' \<and> sections_of s' = sections_of s)"
  by (rule rs_inv_updateE [OF assms(1), of "\<lambda>x. Inr (SetDtlsRole role x)" "rs_iceParameters s"])
    (simp_all add: assms(2) UpdateDtlsRole_def rs_inv_def sections_of_def same_view_SetDtlsRole)

lemma increase_version_ok:
  assumes "rs_inv v s"
  shows "okE (increase_version s) (\<lambda>s'. rs_inv (v + 1) s' \<and> sections_of s' = sections_of s)"
  using assms by (auto simp: increase_version_def rs_inv_def sdp_shows_def obj_with_conv sections_of_def)

text \<open>Printing fills in defaults only where a member is missing, and a section has its payloads.\<close>

lemma set_default_shows:
  "sdp_shows j media mids v \<Longrightarrow> key \<notin> {''media'', ''groups'', ''origin''} \<Longrightarrow>
   okE (set_default key x j) (\<lambda>j'. sdp_shows j' media mids v)"
  by (auto simp: set_default_def sdp_shows_def obj_with_conv)

lemma sdp_write_shows:
  assumes "sdp_shows j media mids v" "\<forall>m\<in>set media. jfind m ''payloads'' \<noteq> None" "sdp_write j = Inr (text, j')"
  shows "sdp_shows j' media mids v"
proof -
  obtain j1 where j1: "set_default ''version'' (JInt 0) j = Inr j1" "sdp_shows j1 media mids v"
    using set_default_shows [OF assms(1), of "''version''" "JInt 0"] by (auto simp: okE_conv)
  obtain j2 where j2: "set_default ''name'' (JString ''-'') j1 = Inr j2" "sdp_shows j2 media mids v"
    using set_default_shows [OF j1(2), of "''name''" "JString ''-''"] by (auto simp: okE_conv)
  obtain sdp where sdp: "j2 = JObject sdp" "map_of sdp ''media'' = Some (JArray media)"
    using j2(2) by (auto simp: sdp_shows_def obj_with_conv)
  have "mapE (set_default ''payloads'' (JString [])) media = Inr media"
    using mapE_ok [of media "set_default ''payloads'' (JString [])" id] assms(2) by (simp add: set_default_def)
  then have "j' = JObject (obj_set ''media'' (JArray media) sdp)"
    using assms(3) j1(1) j2(1) sdp
    by (auto simp: sdp_write_def set_default_def [of "''media''"] jat_checked_def split: if_splits)
  then show ?thesis
    using j2(2) sdp by (auto simp: sdp_shows_def)
qed

lemma GetSdp_inv:
  assumes "rs_inv v s" "GetSdp s = Inr (text, s')"
  shows "rs_inv (v + 1) s' \<and> sections_of s' = sections_of s"
proof -
  obtain s1 j where s1: "increase_version s = Inr s1" "sdp_write (rs_sdpObject s1) = Inr (text, j)"
    "s' = s1\<lparr> rs_sdpObject := j \<rparr>"
    using assms(2) by (auto simp: GetSdp_def)
  have inv: "rs_inv (v + 1) s1" "sections_of s1 = sections_of s"
    using increase_version_ok [OF assms(1)] s1(1) by simp_all
  then have "\<forall>m\<in>set (section_objects (rs_mediaSections s1)). jfind m ''payloads'' \<noteq> None"
    by (auto simp: rs_inv_def table_ok_def section_wf_def)
  then show ?thesis
    using sdp_write_shows [OF _ _ s1(2)] inv by (auto simp: rs_inv_def s1(3) sections_of_def)
qed

lemma RemoteSdp_new_inv:
  "RemoteSdp_new ice cands dtls sctp = Inr s \<Longrightarrow> rs_inv 0 s \<and> sections_of s = []"
  by (auto simp: RemoteSdp_new_def Let_def rs_inv_def table_ok_def sections_of_def bundle_of_def open_mids_def
      sdp_shows_def initial_sdp_object_def split: if_splits)

end
