(* ===== verification/Remote_Sdp_Runs.thy ===== *)
theory Remote_Sdp_Runs
  imports Remote_Sdp_Inv
begin

text \<open>
  Runs of the remote description: the sequences of calls the handlers make on it, as a step
  relation, and the same sequences on the table of MIDs. Every run refines its abstract run and
  keeps the invariant.
\<close>

section \<open>Recycling\<close>

definition reuse_mid :: "section_table \<Rightarrow> string" where
  "reuse_mid t = (case find snd t of Some (m, _) \<Rightarrow> m | None \<Rightarrow> [])"

lemma next_section_wf:
  "\<forall>x\<in>set ss. section_wf x \<Longrightarrow>
   okE (next_section n ss) (\<lambda>(i, mid). mid = reuse_mid (map (\<lambda>x. (section_mid x, section_closed x)) ss))"
  by (induction ss arbitrary: n) (simp_all add: IsClosed_wf GetMid_wf reuse_mid_def)

lemma rs_inv_wf: "rs_inv v s \<Longrightarrow> x \<in> set (rs_mediaSections s) \<Longrightarrow> section_wf x \<and> section_mid x \<noteq> []"
  by (simp add: rs_inv_def table_ok_def)

lemma GetNextMediaSectionIdx_ok:
  "rs_inv v s \<Longrightarrow> okE (GetNextMediaSectionIdx s) (\<lambda>(i, mid). mid = reuse_mid (sections_of s))"
  using next_section_wf [of "rs_mediaSections s" 0] rs_inv_wf
  by (auto simp: GetNextMediaSectionIdx_def sections_of_def)

lemma find_closed_wf:
  "rs_inv v s \<Longrightarrow> find_closed (rs_mediaSections s) = Inr (find section_closed (rs_mediaSections s))"
  using rs_inv_wf by (auto intro!: find_ifE_find IsClosed_wf)

lemma reuse_mid_closed:
  assumes "rs_inv v s"
  shows "reuse_mid (sections_of s) \<noteq> [] \<longleftrightarrow> find snd (sections_of s) \<noteq> None"
    and "reuse_mid (sections_of s) \<noteq> [] \<Longrightarrow> (reuse_mid (sections_of s), True) \<in> set (sections_of s)"
proof -
  have *: "m \<noteq> [] \<and> (m, c) \<in> set (sections_of s) \<and> c" if "find snd (sections_of s) = Some (m, c)" for m c
    using that rs_inv_wf [OF assms] by (fastforce simp: sections_of_def find_Some_iff in_set_conv_nth)
  show "reuse_mid (sections_of s) \<noteq> [] \<longleftrightarrow> find snd (sections_of s) \<noteq> None"
    using * by (fastforce simp: reuse_mid_def split: option.splits)
  show "reuse_mid (sections_of s) \<noteq> [] \<Longrightarrow> (reuse_mid (sections_of s), True) \<in> set (sections_of s)"
    using * by (fastforce simp: reuse_mid_def split: option.splits)
qed

text \<open>Placing a new section: in the first closed one, or at the end.\<close>

lemma place_section_ok:
  assumes "rs_inv v s" "open_section mid x" "mid \<noteq> []"
    and "mid \<notin> fst ` set (sections_of s) - {reuse_mid (sections_of s)}"
  shows "okE (if reuse_mid (sections_of s) \<noteq> [] then ReplaceMediaSection x (reuse_mid (sections_of s)) s
       else AddMediaSection x s)
     (\<lambda>s'. rs_inv v s' \<and> sections_of s' = t_receive mid (sections_of s))"
proof (cases "reuse_mid (sections_of s) = []")
  case True
  then have "find snd (sections_of s) = None"
    using reuse_mid_closed(1) [OF assms(1)] by blast
  moreover have "[] \<notin> fst ` set (sections_of s)"
    using rs_inv_wf [OF assms(1)] by (fastforce simp: sections_of_def)
  ultimately show ?thesis
    using AddMediaSection_ok [OF assms(1-3)] assms(4) True by (simp add: t_receive_def)
next
  case False
  then show ?thesis
    using ReplaceMediaSection_ok [OF assms(1) reuse_mid_closed(2) [OF assms(1) False] assms(2,3)] assms(4)
      reuse_mid_closed(1) [OF assms(1)]
    by (auto simp: t_receive_def reuse_mid_def)
qed

lemma RemoteSdp_Receive_place:
  assumes "rs_inv v s" "OfferMediaSection_new (rs_iceParameters s) (rs_iceCandidates s) JNull mid kind p streamId trackId = Inr m"
  shows "RemoteSdp_Receive mid kind p streamId trackId s =
    (if reuse_mid (sections_of s) \<noteq> [] then ReplaceMediaSection (OfferMediaSection m) (reuse_mid (sections_of s)) s
     else AddMediaSection (OfferMediaSection m) s)"
proof -
  have f: "find snd (sections_of s) = map_option (\<lambda>x. (section_mid x, section_closed x)) (find section_closed (rs_mediaSections s))"
    unfolding sections_of_def by (rule sec.find_closed_table)
  show ?thesis
  proof (cases "find section_closed (rs_mediaSections s)")
    case None
    then show ?thesis
      using assms f reuse_mid_closed(1) [OF assms(1)]
      by (simp add: RemoteSdp_Receive_def find_closed_wf del: find_closed.simps)
  next
    case (Some c)
    then have "section_wf c" "section_mid c \<noteq> []"
      using rs_inv_wf [OF assms(1), of c] by (auto simp: find_Some_iff in_set_conv_nth)
    then show ?thesis
      using assms f Some
      by (simp add: RemoteSdp_Receive_def find_closed_wf GetMid_wf reuse_mid_def del: find_closed.simps)
  qed
qed


section \<open>Runs\<close>

text \<open>
  The calls the handlers make on a remote description. A send asks for the section to reuse first;
  \<open>GetSdp\<close> prints the description.
\<close>

datatype sdp_event =
    EvSend json json json "json option"
  | EvSendSctp json
  | EvRecvSctp
  | EvReceive string string json string string
  | EvClose string
  | EvIce json
  | EvDtls string
  | EvGetSdp

fun sdp_exec :: "sdp_event \<Rightarrow> remote_sdp \<Rightarrow> remote_sdp result" where
  "sdp_exec (EvSend offer p q opts) s =
     bindE (GetNextMediaSectionIdx s) (\<lambda>(_, reuseMid).
     bindE (RemoteSdp_Send offer reuseMid p q opts s) (\<lambda>(_, s'). ok s'))"
| "sdp_exec (EvSendSctp offer) s = SendSctpAssociation offer s"
| "sdp_exec EvRecvSctp s = RecvSctpAssociation s"
| "sdp_exec (EvReceive mid kind p streamId trackId) s = RemoteSdp_Receive mid kind p streamId trackId s"
| "sdp_exec (EvClose mid) s = CloseMediaSection mid s"
| "sdp_exec (EvIce ice) s = UpdateIceParameters ice s"
| "sdp_exec (EvDtls role) s = UpdateDtlsRole role s"
| "sdp_exec EvGetSdp s = bindE (GetSdp s) (\<lambda>(_, s'). ok s')"

definition offered_mid :: "json \<Rightarrow> string" where
  "offered_mid offer = (case jat offer ''mid'' of Inr (JString m) \<Rightarrow> m | _ \<Rightarrow> [])"

definition offered_kind :: "json \<Rightarrow> string" where
  "offered_kind offer = (case jat offer ''type'' of Inr (JString k) \<Rightarrow> k | _ \<Rightarrow> [])"

text \<open>
  What the callers guarantee: a new section is of kind audio, video or application, its MID is not
  empty and names no other section, a closed MID is known.
\<close>

fun event_ok :: "sdp_event \<Rightarrow> section_table \<Rightarrow> bool" where
  "event_ok (EvSend offer _ _ _) t =
     (is_media_kind (offered_kind offer) \<and> offered_mid offer \<noteq> [] \<and> offered_mid offer \<notin> fst ` set t - {reuse_mid t})"
| "event_ok (EvSendSctp offer) t =
     (is_media_kind (offered_kind offer) \<and> offered_mid offer \<noteq> [] \<and> offered_mid offer \<notin> fst ` set t)"
| "event_ok EvRecvSctp t = (''datachannel'' \<notin> fst ` set t)"
| "event_ok (EvReceive mid kind _ _ _) t = (is_media_kind kind \<and> mid \<noteq> [] \<and> mid \<notin> fst ` set t - {reuse_mid t})"
| "event_ok (EvClose mid) t = (mid \<in> fst ` set t)"
| "event_ok _ t = True"

fun t_exec :: "sdp_event \<Rightarrow> section_table \<Rightarrow> section_table" where
  "t_exec (EvSend offer _ _ _) t = t_receive (offered_mid offer) t"
| "t_exec (EvSendSctp offer) t = t_add (offered_mid offer) t"
| "t_exec EvRecvSctp t = t_add ''datachannel'' t"
| "t_exec (EvReceive mid _ _ _ _) t = t_receive mid t"
| "t_exec (EvClose mid) t = t_close mid t"
| "t_exec _ t = t"

inductive sdp_run :: "remote_sdp \<Rightarrow> sdp_event list \<Rightarrow> remote_sdp \<Rightarrow> bool" for s0 where
  run_Nil: "sdp_run s0 [] s0"
| run_snoc: "sdp_run s0 es s \<Longrightarrow> event_ok e (sections_of s) \<Longrightarrow> sdp_exec e s = Inr s' \<Longrightarrow> sdp_run s0 (es @ [e]) s'"

definition prints :: "sdp_event list \<Rightarrow> nat" where
  "prints es = length (filter (\<lambda>e. e = EvGetSdp) es)"

lemma offered_mid_conv:
  "offered_mid offer \<noteq> [] \<Longrightarrow> jat offer ''mid'' = Inr (JString (offered_mid offer))"
  by (simp add: offered_mid_def split: sum.splits json.splits)

lemma offered_kind_conv:
  "is_media_kind (offered_kind offer) \<Longrightarrow> jat offer ''type'' = Inr (JString (offered_kind offer))"
  by (simp add: offered_kind_def is_media_kind_def split: sum.splits json.splits)

lemma UpdateIceParameters_has_ice:
  "UpdateIceParameters ice s = Inr s' \<Longrightarrow> has_ice ice \<or> rs_mediaSections s = []"
  by (cases "rs_mediaSections s"; cases ice)
    (auto simp: UpdateIceParameters_def set_section_ice_def SetIceParameters_def has_ice_def split: option.splits)

lemma sdp_step:
  assumes inv: "rs_inv v s" and "event_ok e (sections_of s)" "sdp_exec e s = Inr s'"
  shows "rs_inv (if e = EvGetSdp then v + 1 else v) s' \<and> sections_of s' = t_exec e (sections_of s)"
proof (cases e)
  case (EvSend offer p q opts)
  then obtain m p' where m: "AnswerMediaSection_new (rs_iceParameters s) (rs_iceCandidates s) (rs_dtlsParameters s)
      (rs_sctpParameters s) offer p q opts = Inr (m, p')"
    "(if reuse_mid (sections_of s) \<noteq> [] then ReplaceMediaSection (AnswerMediaSection m) (reuse_mid (sections_of s)) s
      else AddMediaSection (AnswerMediaSection m) s) = Inr s'"
    using assms(3) GetNextMediaSectionIdx_ok [OF inv] by (auto simp: RemoteSdp_Send_def)
  then show ?thesis
    using assms(2) EvSend place_section_ok [OF inv AnswerMediaSection_open [OF m(1) offered_mid_conv offered_kind_conv]]
    by (simp only: event_ok.simps t_exec.simps sdp_event.distinct if_False okE_simps m(2) simp_thms)
next
  case (EvReceive mid kind p streamId trackId)
  then obtain m where m: "OfferMediaSection_new (rs_iceParameters s) (rs_iceCandidates s) JNull mid kind p streamId trackId = Inr m"
    using assms(3) by (auto simp: RemoteSdp_Receive_def)
  note RemoteSdp_Receive_place [OF inv m]
  then show ?thesis
    using assms(2,3) EvReceive place_section_ok [OF inv OfferMediaSection_open [OF m]]
    by (simp only: event_ok.simps t_exec.simps sdp_exec.simps sdp_event.distinct if_False okE_simps simp_thms)
next
  case (EvSendSctp offer)
  then obtain m p' where m: "AnswerMediaSection_new (rs_iceParameters s) (rs_iceCandidates s) (rs_dtlsParameters s)
      (rs_sctpParameters s) offer JNull JNull None = Inr (m, p')"
    "AddMediaSection (AnswerMediaSection m) s = Inr s'"
    using assms(3) by (auto simp: SendSctpAssociation_def)
  have "offered_mid offer \<noteq> []" "is_media_kind (offered_kind offer)" "offered_mid offer \<notin> fst ` set (sections_of s)"
    using assms(2) EvSendSctp by auto
  from AddMediaSection_ok [OF inv AnswerMediaSection_open [OF m(1) offered_mid_conv offered_kind_conv], OF this(1,2,2,1,3)]
  show ?thesis
    by (simp add: m(2) EvSendSctp)
next
  case EvRecvSctp
  then obtain m where m: "OfferMediaSection_new (rs_iceParameters s) (rs_iceCandidates s) (rs_sctpParameters s)
      ''datachannel'' ''application'' JNull [] [] = Inr m" "AddMediaSection (OfferMediaSection m) s = Inr s'"
    using assms(3) by (auto simp: RecvSctpAssociation_def)
  have "is_media_kind ''application''" "''datachannel'' \<notin> fst ` set (sections_of s)"
    using assms(2) EvRecvSctp by (auto simp: is_media_kind_def)
  from AddMediaSection_ok [OF inv OfferMediaSection_open [OF m(1)], OF this(1) _ this(2)] show ?thesis
    by (simp add: m(2) EvRecvSctp)
next
  case (EvClose mid)
  then show ?thesis
    using assms CloseMediaSection_ok [OF inv, of mid] by simp
next
  case (EvIce ice)
  then show ?thesis
    using assms UpdateIceParameters_ok [OF inv, of ice] UpdateIceParameters_has_ice [of ice s s'] by simp
next
  case (EvDtls role)
  then show ?thesis
    using assms UpdateDtlsRole_ok [OF inv, of role] by (auto simp: UpdateDtlsRole_def)
next
  case EvGetSdp
  then show ?thesis
    using assms GetSdp_inv [OF inv] by auto
qed


lemma sdp_run_inv:
  assumes "sdp_run s0 es s" "rs_inv v s0"
  shows "rs_inv (v + of_nat (prints es)) s \<and> sections_of s = fold t_exec es (sections_of s0)"
  using assms
proof (induction rule: sdp_run.induct)
  case run_Nil
  then show ?case by (simp add: prints_def)
next
  case (run_snoc es s e s')
  then show ?case
    using sdp_step [of "v + of_nat (prints es)" s e s'] by (auto simp: prints_def algebra_simps)
qed

text \<open>An executable form of runs.\<close>

fun sdp_execs :: "sdp_event list \<Rightarrow> remote_sdp \<Rightarrow> remote_sdp result" where
  "sdp_execs [] s = ok s"
| "sdp_execs (e # es) s =
     (if event_ok e (sections_of s) then bindE (sdp_exec e s) (sdp_execs es) else throw Undefined)"

lemma sdp_run_trans: "sdp_run s1 es2 s2 \<Longrightarrow> sdp_run s0 es1 s1 \<Longrightarrow> sdp_run s0 (es1 @ es2) s2"
  by (induction rule: sdp_run.induct) (auto simp flip: append_assoc intro: sdp_run.intros)

lemma sdp_execs_run: "sdp_execs es s0 = Inr s \<Longrightarrow> sdp_run s0 es s"
proof (induction es arbitrary: s0)
  case (Cons e es)
  then obtain s1 where "event_ok e (sections_of s0)" "sdp_exec e s0 = Inr s1" "sdp_execs es s1 = Inr s"
    by (auto split: if_splits)
  then show ?case
    using sdp_run_trans [OF Cons.IH, of s1 s0 "[e]"] run_snoc [OF run_Nil] by fastforce
qed (simp add: run_Nil)

section \<open>The number of sections\<close>

fun is_sctp_event :: "sdp_event \<Rightarrow> bool" where
  "is_sctp_event (EvSendSctp _) = True"
| "is_sctp_event EvRecvSctp = True"
| "is_sctp_event _ = False"

text \<open>The largest number of open sections along the events.\<close>

fun t_peak :: "section_table \<Rightarrow> sdp_event list \<Rightarrow> nat" where
  "t_peak t [] = length (open_mids t)"
| "t_peak t (e # es) = max (length (open_mids t)) (t_peak (t_exec e t) es)"

lemma t_receive_length: "length (t_receive m t) \<le> max (length t) (length (open_mids (t_receive m t)))"
proof (cases "find snd t")
  case None
  then have "filter (\<lambda>p. \<not> snd p) t = t"
    by (simp only: filter_id_conv find_None_iff) blast
  then show ?thesis
    using None by (simp add: t_receive_def t_add_def open_mids_def)
qed (auto simp: t_receive_def t_replace_def)

lemma t_exec_length:
  "\<not> is_sctp_event e \<Longrightarrow> length (t_exec e t) \<le> max (length t) (length (open_mids (t_exec e t)))"
  using t_receive_length by (cases e) (simp_all add: t_close_def)

lemma t_peak_ge: "length (open_mids t) \<le> t_peak t es"
  by (cases es) simp_all

lemma fold_t_exec_length:
  "\<forall>e\<in>set es. \<not> is_sctp_event e \<Longrightarrow> length (fold t_exec es t) \<le> max (length t) (t_peak t es)"
proof (induction es arbitrary: t)
  case (Cons e es)
  then show ?case
    using t_exec_length [of e t] t_peak_ge [of "t_exec e t" es] Cons.IH [of "t_exec e t"] by fastforce
qed simp

end
