(* ===== verification/Remote_Sdp_Props.thy ===== *)
theory Remote_Sdp_Props
  imports Remote_Sdp_Runs
begin

text \<open>The properties of the remote description, over all the runs from a fresh description.\<close>

section \<open>An example description\<close>

definition example_ice :: json where
  "example_ice = JObject (mk_obj [(''usernameFragment'', JString ''u''), (''password'', JString ''p'')])"

definition example_dtls :: json where
  "example_dtls = JObject (mk_obj [(''role'', JString ''auto''),
     (''fingerprints'', JArray [JObject (mk_obj [(''algorithm'', JString ''sha-256''), (''value'', JString ''AB'')])])])"

definition example_sctp :: json where
  "example_sctp = JObject (mk_obj [(''port'', JInt 5000), (''maxMessageSize'', JInt 262144)])"

definition example_new :: "remote_sdp result" where
  "example_new = RemoteSdp_new example_ice (JArray []) example_dtls example_sctp"

definition example_rtp :: json where
  "example_rtp = JObject (mk_obj [(''codecs'', JArray []), (''headerExtensions'', JArray []),
     (''encodings'', JArray [JObject (mk_obj [(''ssrc'', JInt 11)])]),
     (''rtcp'', JObject (mk_obj [(''cname'', JString ''c'')]))])"

definition example_events :: "sdp_event list" where
  "example_events =
     [EvReceive ''0'' ''audio'' example_rtp ''c'' ''a'', EvReceive ''1'' ''video'' example_rtp ''c'' ''b'',
      EvClose ''1'', EvGetSdp, EvReceive ''2'' ''audio'' example_rtp ''c'' ''d'', EvClose ''0'']"

lemma example_run:
  "okE (bindE example_new (sdp_execs example_events)) (\<lambda>s. sections_of s = [(''0'', False), (''2'', False)])"
  by code_simp

lemma example_runE:
  obtains s0 s where "RemoteSdp_new example_ice (JArray []) example_dtls example_sctp = Inr s0"
    "sdp_run s0 example_events s" "sections_of s = [(''0'', False), (''2'', False)]"
  using example_run sdp_execs_run by (fastforce simp: okE_conv bindE_Inr_iff example_new_def)

section \<open>Properties\<close>

lemma reachable_inv:
  assumes "RemoteSdp_new ice cands dtls sctp = Inr s0" "sdp_run s0 es s"
  shows "rs_inv (of_nat (prints es)) s" "sections_of s = fold t_exec es []"
  using sdp_run_inv [OF assms(2), of 0] RemoteSdp_new_inv [OF assms(1)] by auto





text \<open>
  C17. Without data channels, the number of sections of a description never exceeds the largest
  number of sections that were open at the same time: closed sections are recycled before the
  description grows.
\<close>

theorem section_count_bounded:
  assumes "RemoteSdp_new ice cands dtls sctp = Inr s0" "sdp_run s0 es s"
    and "\<forall>e\<in>set es. \<not> is_sctp_event e"
  shows "length (rs_mediaSections s) \<le> t_peak [] es"
proof -
  have "length (rs_mediaSections s) = length (fold t_exec es [])"
    using reachable_inv(2) [OF assms(1,2)] by (metis length_map sections_of_def)
  then show ?thesis
    using fold_t_exec_length [OF assms(3), of "[]"] by simp
qed

theorem section_count_bounded_witness:
  "\<exists>s0 s. RemoteSdp_new example_ice (JArray []) example_dtls example_sctp = Inr s0 \<and>
     sdp_run s0 example_events s \<and> length (rs_mediaSections s) \<le> 2"
proof -
  obtain s0 s where *: "RemoteSdp_new example_ice (JArray []) example_dtls example_sctp = Inr s0"
    "sdp_run s0 example_events s" "sections_of s = [(''0'', False), (''2'', False)]"
    by (rule example_runE)
  have "\<forall>e\<in>set example_events. \<not> is_sctp_event e" "t_peak [] example_events = 2"
    by (simp_all add: example_events_def t_receive_def t_close_def t_upd_def t_add_def t_replace_def open_mids_def)
  then have "length (rs_mediaSections s) \<le> 2"
    using section_count_bounded [OF *(1,2)] by simp
  then show ?thesis
    using *(1,2) by blast
qed

lemma RegenerateBundleMids_sections:
  "RegenerateBundleMids s = Inr s' \<Longrightarrow> rs_mediaSections s' = rs_mediaSections s \<and> rs_midToIndex s' = rs_midToIndex s"
  by (auto simp: RegenerateBundleMids_def)

lemma CloseMediaSection_frame:
  assumes "rs_inv v s" "mid \<in> fst ` set (sections_of s)" "CloseMediaSection mid s = Inr s'" "i < length (rs_mediaSections s)"
    and "section_mid (rs_mediaSections s ! i) \<noteq> mid"
  shows "rs_mediaSections s' ! i = rs_mediaSections s ! i"
proof -
  obtain k where k: "rs_midToIndex s mid = Some k"
    using assms(1,2) rs_inv_mem by blast
  then have "i \<noteq> k"
    using rs_inv_nth [OF assms(1) k] assms(5) by auto
  then show ?thesis
    using assms(3) k
    by (auto simp: CloseMediaSection_def mid_index_def Let_def dest!: RegenerateBundleMids_sections split: if_splits)
qed

text \<open>
  C18. Closing a section by its MID always succeeds in a reachable description. It keeps the
  invariant, leaves every other section as it was, and closes the section unless it is the first
  one, which stays open so that the bundled transport survives.
\<close>

theorem close_media_section:
  assumes "RemoteSdp_new ice cands dtls sctp = Inr s0" "sdp_run s0 es s" "(mid, c) \<in> set (sections_of s)"
  shows "okE (CloseMediaSection mid s) (\<lambda>s'.
    rs_inv (of_nat (prints es)) s' \<and> sections_of s' = t_close mid (sections_of s) \<and>
    (\<forall>i<length (rs_mediaSections s). section_mid (rs_mediaSections s ! i) \<noteq> mid \<longrightarrow>
       rs_mediaSections s' ! i = rs_mediaSections s ! i))"
proof -
  note inv = reachable_inv(1) [OF assms(1,2)]
  have "mid \<in> fst ` set (sections_of s)"
    using assms(3) by force
  then show ?thesis
    by (intro okE_mono [OF CloseMediaSection_ok [OF inv]]) (simp_all add: CloseMediaSection_frame [OF inv])
qed

theorem close_media_section_witness:
  "\<exists>s0 s. sdp_run s0 example_events s \<and>
     okE (CloseMediaSection ''2'' s) (\<lambda>s'. sections_of s' = [(''0'', False), (''2'', True)])"
proof -
  obtain s0 s where *: "RemoteSdp_new example_ice (JArray []) example_dtls example_sctp = Inr s0"
    "sdp_run s0 example_events s" "sections_of s = [(''0'', False), (''2'', False)]"
    by (rule example_runE)
  have "okE (CloseMediaSection ''2'' s) (\<lambda>s'. sections_of s' = [(''0'', False), (''2'', True)])"
    by (rule okE_mono [OF close_media_section [OF *(1,2), of "''2''" False]])
      (simp_all add: *(3) t_close_def t_upd_def)
  then show ?thesis
    using *(2) by blast
qed

text \<open>
  C20. A MID the description does not know is looked up with the inserting \<open>operator[]\<close>: closing it
  closes the first section of a reachable description, whichever it is, and leaves the unknown MID
  in the index.
\<close>

theorem close_unknown_mid:
  assumes "RemoteSdp_new ice cands dtls sctp = Inr s0" "sdp_run s0 es s"
    and "rs_mediaSections s \<noteq> []" "mid \<notin> fst ` set (sections_of s)"
  shows "okE (CloseMediaSection mid s) (\<lambda>s'.
    section_closed (rs_mediaSections s' ! 0) \<and> rs_midToIndex s' mid = Some 0)"
proof -
  note inv = reachable_inv(1) [OF assms(1,2)]
  have mid: "rs_midToIndex s mid = None" "mid \<noteq> rs_firstMid s"
    using assms(3,4) rs_inv_mem [OF inv, of mid] inv
    by (auto simp: rs_inv_def table_ok_def sections_of_def split: list.splits)
  let ?x = "map_object MediaSection_Close (rs_mediaSections s ! 0)"
  obtain sdp where sdp: "sdp_set_media 0 (JObject (mediaObject ?x)) (rs_sdpObject s) = Inr sdp"
    "sdp_shows sdp (section_objects ((rs_mediaSections s)[0 := ?x])) (bundle_of (sections_of s)) (of_nat (prints es))"
    using inv assms(3) sdp_set_media_ok [of "rs_sdpObject s" "section_objects (rs_mediaSections s)" _ _ 0]
    by (fastforce simp: rs_inv_def okE_conv map_update)
  let ?s = "s\<lparr> rs_midToIndex := (rs_midToIndex s)(mid \<mapsto> 0), rs_mediaSections := (rs_mediaSections s)[0 := ?x],
     rs_sdpObject := sdp \<rparr>"
  have "\<forall>x\<in>set (rs_mediaSections ?s). section_wf x"
    using rs_inv_wf [OF inv] rs_inv_wf [OF inv nth_mem, of 0] assms(3) Close_view(3)
    by (simp add: all_set_conv_all_nth nth_list_update)
  then have "okE (RegenerateBundleMids ?s) (\<lambda>s'. rs_mediaSections s' = rs_mediaSections ?s \<and> rs_midToIndex s' = rs_midToIndex ?s)"
    using sdp_set_mids_ok [OF sdp(2), of "bundle_of (sections_of ?s)"]
    by (auto simp: RegenerateBundleMids_def bundle_mids_wf okE_conv sections_of_def bundle_of_def)
  then have "okE (RegenerateBundleMids ?s) (\<lambda>s'. section_closed (rs_mediaSections s' ! 0) \<and> rs_midToIndex s' mid = Some 0)"
    by (rule okE_mono) (use assms(3) Close_view(2) in simp)
  then show ?thesis
    using mid sdp(1) assms(3) by (simp add: CloseMediaSection_def mid_index_def Let_def)
qed

theorem close_unknown_mid_witness:
  "\<exists>s0 s. sdp_run s0 example_events s \<and>
     okE (CloseMediaSection ''x'' s) (\<lambda>s'. section_closed (rs_mediaSections s' ! 0))"
proof -
  obtain s0 s where *: "RemoteSdp_new example_ice (JArray []) example_dtls example_sctp = Inr s0"
    "sdp_run s0 example_events s" "sections_of s = [(''0'', False), (''2'', False)]"
    by (rule example_runE)
  have "rs_mediaSections s \<noteq> []" "''x'' \<notin> fst ` set (sections_of s)"
    using *(3) by (auto simp: sections_of_def)
  then have "okE (CloseMediaSection ''x'' s) (\<lambda>s'. section_closed (rs_mediaSections s' ! 0))"
    by (rule okE_mono [OF close_unknown_mid [OF *(1,2)]]) simp
  then show ?thesis
    using *(2) by blast
qed

end
