(* ===== verification/Sdp_Parser.thy ===== *)
theory Sdp_Parser
  imports Sdp_Grammar Numbers
begin

text \<open>
  The parser of \<open>libsdptransform\<close> (\<open>src/parser.cpp\<close>): \<open>parse\<close> reads a session description line by
  line into a JSON object, with the helpers that read parameter lists, payloads, image attributes
  and simulcast streams.
\<close>

section \<open>Values\<close>

text \<open>The pieces \<open>std::getline\<close> reads up to a delimiter; nothing follows a final delimiter.\<close>

function getlines :: "char \<Rightarrow> string \<Rightarrow> string list" where
  "getlines d s =
     (if s = [] then []
      else
        takeWhile (\<lambda>c. c \<noteq> d) s #
        (case dropWhile (\<lambda>c. c \<noteq> d) s of [] \<Rightarrow> [] | _ # r \<Rightarrow> getlines d r))"
  by auto
termination
proof (relation "measure (\<lambda>(_, s). length s)")
  fix d s x r
  assume "dropWhile (\<lambda>c. c \<noteq> d) s = x # r"
  then have "length r < length s"
    by (metis length_dropWhile_le length_Cons Suc_le_eq)
  then show "((d, r), (d, s)) \<in> measure (\<lambda>(_, s). length s)"
    by simp
qed simp

declare getlines.simps [simp del]

definition trim :: "string \<Rightarrow> string" where
  "trim s = rev (dropWhile is_space (rev (dropWhile is_space s)))"

definition isInt :: "string \<Rightarrow> bool" where
  "isInt s = (read_int64 s \<noteq> None)"

definition isFloat :: "string \<Rightarrow> bool result" where
  "isFloat s = bindE (read_float s) (\<lambda>r. ok (r \<noteq> None))"

definition toType :: "string \<Rightarrow> char \<Rightarrow> json result" where
  "toType str type =
     (if type = CHR ''s'' then ok (JString str)
      else if type = CHR ''u'' then
        ok (JUint (case read_uint64 str of Some w \<Rightarrow> w | None \<Rightarrow> 0))
      else if type = CHR ''d'' then
        ok (JInt (case read_int64 str of Some i \<Rightarrow> word_of_int i | None \<Rightarrow> 0))
      else if type = CHR ''f'' then
        bindE (read_double str) (\<lambda>r. ok (JFloat (case r of Some x \<Rightarrow> x | None \<Rightarrow> 0)))
      else ok JNull)"

section \<open>Parameters\<close>

definition KeyValueRegex :: re where
  "KeyValueRegex = seqs
     [Bol, Star (Sym is_space), Cap 1 (re_plus (Sym (\<lambda>c. c \<noteq> CHR ''='' \<and> c \<noteq> CHR '' ''))),
      Opt (seqs [Star (Sym is_space), Lit ''='', Star (Sym is_space), Cap 2 (re_plus (Sym (\<lambda>c. c \<noteq> CHR '' '')))]),
      Eol]"

definition WellKnownParameters :: "string \<Rightarrow> char option" where
  "WellKnownParameters = map_of
     [(''profile-level-id'', CHR ''s''), (''packetization-mode'', CHR ''d''), (''profile-id'', CHR ''s'')]"

definition insertParam :: "json \<Rightarrow> string \<Rightarrow> json result" where
  "insertParam o' str =
     (case re_match KeyValueRegex str of
        None \<Rightarrow> ok o'
      | Some m \<Rightarrow>
          let param = re_group m 1; value = re_group m 2 in
          bindE
            (case WellKnownParameters param of
               Some t \<Rightarrow> ok t
             | None \<Rightarrow>
                 if isInt value then ok CHR ''d''
                 else bindE (isFloat value) (\<lambda>f. ok (if f then CHR ''f'' else CHR ''s''))) (\<lambda>type.
          bindE (toType value type) (\<lambda>v. jput o' param v)))"

text \<open>The parameters of a list, trimmed, the empty ones skipped.\<close>

fun insert_params :: "json \<Rightarrow> string list \<Rightarrow> json result" where
  "insert_params o' [] = ok o'"
| "insert_params o' (p # ps) =
     (let param = trim p in
      if param = [] then insert_params o' ps
      else bindE (insertParam o' param) (\<lambda>o''. insert_params o'' ps))"

definition parseParams :: "string \<Rightarrow> json result" where
  "parseParams str = insert_params (JObject []) (getlines CHR '';'' str)"

text \<open>\<open>std::stoi\<close>: blanks, a sign and the leading digits.\<close>

definition stoi :: "string \<Rightarrow> int result" where
  "stoi str =
     (let (neg, r) = split_sign (dropWhile is_space str); ds = takeWhile is_digit r; v = signed neg (dec_int ds) in
      if ds = [] then throw (StdError ''invalid_argument'')
      else if - (2 ^ 31) \<le> v \<and> v < 2 ^ 31 then ok v
      else throw (StdError ''out_of_range''))"

definition parsePayloads :: "string \<Rightarrow> int list result" where
  "parsePayloads str = mapE stoi (getlines CHR '' '' str)"

text \<open>The item \<open>*\<close> replaces the whole list.\<close>

fun image_attributes :: "json list \<Rightarrow> string list \<Rightarrow> json result" where
  "image_attributes arr [] = ok (JArray arr)"
| "image_attributes arr (i # items) =
     (let item = trim i in
      if item = ''*'' then ok (JString item)
      else if length item < 5 then image_attributes arr items
      else
        bindE (insert_params (JObject []) (getlines CHR '','' (take (length item - 2) (drop 1 item)))) (\<lambda>obj.
        image_attributes (arr @ [obj]) items))"

definition parseImageAttributes :: "string \<Rightarrow> json result" where
  "parseImageAttributes str = image_attributes [] (getlines CHR '' '' str)"

definition simulcast_format :: "string \<Rightarrow> json" where
  "simulcast_format format =
     (if hd format \<noteq> CHR ''~''
      then JObject (mk_obj [(''scid'', JString format), (''paused'', JBool False)])
      else JObject (mk_obj [(''scid'', JString (drop 1 format)), (''paused'', JBool True)]))"

definition parseSimulcastStreamList :: "string \<Rightarrow> json" where
  "parseSimulcastStreamList str =
     JArray (map (\<lambda>item. JArray (map simulcast_format (filter (\<lambda>f. f \<noteq> []) (getlines CHR '','' item))))
               (filter (\<lambda>item. item \<noteq> []) (getlines CHR '';'' str)))"

section \<open>Lines\<close>

fun attach_names :: "(nat \<times> string) list \<Rightarrow> nat \<Rightarrow> nat \<Rightarrow> string list \<Rightarrow> string \<Rightarrow> json \<Rightarrow> json result" where
  "attach_names m count i [] types location = ok location"
| "attach_names m count i (name # names) types location =
     (if i + 1 < count \<and> re_group m (i + 1) \<noteq> [] then
        bindE (toType (re_group m (i + 1)) (types ! i)) (\<lambda>v.
        bindE (jput location name v) (\<lambda>location'. attach_names m count (i + 1) names types location'))
      else attach_names m count (i + 1) names types location)"

definition attachProperties ::
  "(nat \<times> string) list \<Rightarrow> nat \<Rightarrow> json \<Rightarrow> string list \<Rightarrow> string \<Rightarrow> string \<Rightarrow> json result" where
  "attachProperties m count location names rawName types =
     (if rawName \<noteq> [] \<and> names = [] then
        bindE (toType (re_group m 1) (types ! 0)) (\<lambda>v. jput location rawName v)
      else attach_names m count 0 names types location)"

text \<open>A rule applied to the groups of its match.\<close>

definition parseReg :: "grammar_rule \<Rightarrow> json \<Rightarrow> (nat \<times> string) list \<Rightarrow> json result" where
  "parseReg rule location m =
     (let needsBlank = g_name rule \<noteq> [] \<and> g_names rule \<noteq> [];
          attach = (\<lambda>l. attachProperties m (re_groups (g_reg rule) + 1) l (g_names rule) (g_name rule) (g_types rule))
      in
      bindE
        (if g_push rule \<noteq> [] \<and> jfind location (g_push rule) = None then jput location (g_push rule) (JArray [])
         else if needsBlank \<and> jfind location (g_name rule) = None then jput location (g_name rule) (JObject [])
         else ok location) (\<lambda>location.
      if g_push rule \<noteq> [] then
        bindE (attach (JObject [])) (\<lambda>object.
        bindE (jref location (g_push rule)) (\<lambda>(arr, location').
        bindE (jpush arr object) (\<lambda>arr'. jput location' (g_push rule) arr')))
      else if needsBlank then
        bindE (jref location (g_name rule)) (\<lambda>(l, location').
        bindE (attach l) (\<lambda>l'. jput location' (g_name rule) l'))
      else attach location))"

text \<open>The first rule that matches.\<close>

fun apply_rules :: "grammar_rule list \<Rightarrow> string \<Rightarrow> json \<Rightarrow> json result" where
  "apply_rules [] content location = ok location"
| "apply_rules (rule # rules) content location =
     (case re_search (g_reg rule) content of
        Some (_, _, _, m) \<Rightarrow> parseReg rule location m
      | None \<Rightarrow> apply_rules rules content location)"

definition ValidLineRegex :: re where
  "ValidLineRegex = seqs
     [Bol, Cap 1 (Sym (\<lambda>c. is_alpha c \<and> to_lower_char c = c)), Lit ''='', Cap 2 (Star (Sym is_any))]"

definition strip_cr :: "string \<Rightarrow> string" where
  "strip_cr line = (if line \<noteq> [] \<and> last line = CHR 0x0D then butlast line else line)"

text \<open>
  One line: the state is the session and the media sections read so far; the rules apply to the
  last section, or to the session before the first one.
\<close>

definition parse_line :: "string \<Rightarrow> json \<times> json list \<Rightarrow> (json \<times> json list) result" where
  "parse_line l st =
     (let line = strip_cr l; (session, media) = st in
      if re_search ValidLineRegex line = None then ok st
      else
        let type = hd line; content = drop 2 line;
            media1 = (if type = CHR ''m''
                      then media @ [JObject (mk_obj [(''rtp'', JArray []), (''fmtp'', JArray [])])] else media)
        in
        (case rulesMap type of
           None \<Rightarrow> ok (session, media1)
         | Some rules \<Rightarrow>
             if media1 = [] then
               bindE (apply_rules rules content session) (\<lambda>session'. ok (session', media1))
             else
               bindE (apply_rules rules content (last media1)) (\<lambda>m. ok (session, butlast media1 @ [m]))))"

fun parse_lines :: "string list \<Rightarrow> json \<times> json list \<Rightarrow> (json \<times> json list) result" where
  "parse_lines [] st = ok st"
| "parse_lines (l # ls) st = bindE (parse_line l st) (parse_lines ls)"

definition sdp_parse :: "string \<Rightarrow> json result" where
  "sdp_parse sdp =
     bindE (parse_lines (getlines CHR 0x0A sdp) (JObject [], [])) (\<lambda>(session, media).
     jput session ''media'' (JArray media))"

end
