(* ===== verification/Sdp_Lines.thy ===== *)
theory Sdp_Lines
  imports Sdp_Parser Sdp_Writer
begin

text \<open>
  Reading and writing single lines: numbers are read back as printed, a rule of the table applies
  when the literals of the rules before it mismatch, and the groups of a match are those the
  sequence of the rule cuts out.
\<close>

section \<open>Numbers\<close>

lemma of_char_digit_char: "d < 10 \<Longrightarrow> of_char (digit_char d) = (48 + int d)"
proof -
  assume "d < 10"
  moreover have "digit_char d = char_of (48 + int d)"
    unfolding digit_char_def by (metis char_of_nat of_nat_add of_nat_numeral)
  ultimately show ?thesis by simp
qed

lemma is_digit_digit_char [simp]: "d < 10 \<Longrightarrow> is_digit (digit_char d)"
  by (simp add: is_digit_def of_char_digit_char)

lemma digits_show_nat: "list_all is_digit (show_nat n)"
proof (induction n rule: show_nat.induct)
  case (1 n)
  then show ?case by (subst show_nat.simps) simp
qed

lemma show_nat_Nil [simp]: "show_nat n \<noteq> []"
  by (subst show_nat.simps) simp

lemma dec_int_append: "dec_int (s @ [c]) = 10 * dec_int s + (of_char c - 48)"
  by (simp add: dec_int_def)

lemma dec_int_show_nat [simp]: "dec_int (show_nat n) = int n"
proof (induction n rule: show_nat.induct)
  case (1 n)
  show ?case
  proof (cases "n < 10")
    case True
    then show ?thesis
      by (subst show_nat.simps) (simp add: dec_int_def of_char_digit_char)
  next
    case False
    then show ?thesis
      using 1 by (subst show_nat.simps) (simp add: dec_int_append of_char_digit_char zdiv_int zmod_int)
  qed
qed

lemma split_sign_digits: "list_all is_digit s \<Longrightarrow> split_sign s = (False, s)"
  by (auto simp: split_sign_def is_digit_def split: list.splits)

lemma read_int64_show_nat [simp]: "n < 2 ^ 63 \<Longrightarrow> read_int64 (show_nat n) = Some (int n)"
proof -
  assume "n < 2 ^ 63"
  then have "int n < 2 ^ 63"
    by (metis of_nat_less_numeral_power_cancel_iff)
  then show ?thesis
    by (simp add: read_int64_def split_sign_digits [OF digits_show_nat] digits_show_nat signed_def)
qed

section \<open>First matches of sequences\<close>

definition stops :: "(char \<Rightarrow> bool) \<Rightarrow> string \<Rightarrow> bool" where
  "stops p s = (s = [] \<or> \<not> p (hd s))"

lemma stops_simps [simp]: "stops p []" "stops p (x # xs) = (\<not> p x)"
  by (simp_all add: stops_def)

named_theorems first_intros \<open>first matches of sequences\<close>

lemma first_Seq_Bol [first_intros]: "re_first q (True, s, c) = Some n \<Longrightarrow> re_first (Seq Bol q) (True, s, c) = Some n"
  by (rule re_first_Seq) simp_all

lemma first_Seq_Lit [first_intros]:
  "re_first q (b \<and> l = [], s, c) = Some n \<Longrightarrow> re_first (Seq (Lit l) q) (b, l @ s, c) = Some n"
  by (rule re_first_Seq [OF re_first_Lit])

lemma first_Seq_Cap [first_intros]:
  assumes "\<forall>x\<in>set xs. p x" "stops p ys" "re_first q (b \<and> xs = [], ys, (i, xs) # c) = Some n"
  shows "re_first (Seq (Cap i (Star (Sym p))) q) (b, xs @ ys, c) = Some n"
proof -
  have "re_first (Cap i (Star (Sym p))) (b, xs @ ys, c) = Some (b \<and> xs = [], ys, (i, xs) # c)"
    using re_first_Cap [OF re_first_Star_Sym [of xs p ys b c]] assms(1,2) by (simp add: stops_def)
  then show ?thesis
    using assms(3) by (rule re_first_Seq)
qed

lemma re_run_Seq_assoc: "re_run (Seq (Seq a b) q) st = re_run (Seq a (Seq b q)) st"
proof -
  have "concat (map q (concat (map b xs))) = concat (map (\<lambda>x. concat (map q (b x))) xs)"
    for q b and xs :: "mstate list"
    by (induction xs) simp_all
  moreover have "re_run (Seq b q) = (\<lambda>x. concat (map (re_run q) (re_run b x)))"
    by (rule ext) simp
  ultimately show ?thesis by simp
qed

lemma first_Seq_assoc: "re_first (Seq a (Seq b q)) st = Some n \<Longrightarrow> re_first (Seq (Seq a b) q) st = Some n"
  by (simp only: re_first_def re_run_Seq_assoc)

lemma first_Seq_Eps: "re_first q st = Some n \<Longrightarrow> re_first (Seq Eps q) st = Some n"
  by (simp add: re_first_def)

lemma first_Opt_skip: "re_first r st = None \<Longrightarrow> re_first q st = Some n \<Longrightarrow> re_first (Seq (Opt r) q) st = Some n"
  by (auto simp: re_first_def split: list.splits)

lemma first_Opt_take: "re_first (Seq r q) st = Some n \<Longrightarrow> re_first (Seq (Opt r) q) st = Some n"
  by (cases "concat (map (re_run q) (re_run r st))") (simp_all add: re_first_def del: concat_eq_Nil_conv)

lemma first_None_Lit: "take (length l) s \<noteq> l \<Longrightarrow> re_first (Seq (Lit l) q) (b, s, c) = None"
  by (rule re_first_Seq_None1 [OF re_first_Lit_None])

section \<open>Lines\<close>

definition mismatch :: "string \<Rightarrow> grammar_rule \<Rightarrow> bool" where
  "mismatch s rule = (anchored (g_reg rule) \<and> (\<forall>l\<in>set (must_start (g_reg rule)). take (length l) s \<noteq> l))"

lemma apply_rules_at:
  assumes "rules = rs @ rule # rest" "\<forall>r\<in>set rs. mismatch s r"
    and "re_first (g_reg rule) (True, s, []) = Some (b, s', m)"
  shows "apply_rules rules s loc = parseReg rule loc m"
proof -
  have "apply_rules (rs @ rule # rest) s loc = apply_rules (rule # rest) s loc"
    using assms(2) by (induction rs) (simp_all add: mismatch_def re_search_mismatch)
  then show ?thesis
    using assms(1,3) by (simp add: re_search_first)
qed

lemma attribute_at:
  assumes "attribute_rules ! n = rule" "n < length attribute_rules" "\<forall>r\<in>set (take n attribute_rules). mismatch s r"
    and "\<exists>b. re_first (g_reg rule) (True, s, []) = Some (b, s', m)"
  shows "apply_rules attribute_rules s loc = parseReg rule loc m"
  using assms(4) apply_rules_at [OF id_take_nth_drop [OF assms(2), unfolded assms(1)] assms(3)] by blast

lemmas rule_defs = rule_rtp_def rule_fmtp_def rule_control_def rule_rtcp_def rule_rtcpFbTrrInt_def rule_rtcpFb_def
  rule_ext_def rule_extmapAllowMixed_def rule_crypto_def rule_setup_def rule_mid_def rule_msid_def rule_ptime_def
  rule_maxptime_def rule_direction_def rule_icelite_def rule_iceUfrag_def rule_icePwd_def rule_fingerprint_def
  rule_candidates_def rule_endOfCandidates_def rule_remoteCandidates_def rule_iceOptions_def

lemmas attribute_defs = attribute_rules_def rule_defs mismatch_def

lemma first_Seq_Star0:
  "stops p ys \<Longrightarrow> re_first q (b, ys, c) = Some n \<Longrightarrow> re_first (Seq (Star (Sym p)) q) (b, ys, c) = Some n"
  using re_first_Seq [OF re_first_Star_Sym [of "[]" p ys b c]] by (simp add: stops_def)

lemma first_Eps_flag: "re_first Eps (b, s, c) = Some (b, s, c)"
  by simp

lemmas char_class_defs = is_word_def is_alpha_def is_digit_def is_space_def is_any_def

section \<open>Values in lines\<close>

text \<open>A number that is printed in decimal and read back.\<close>

definition number_arg :: "json \<Rightarrow> nat \<Rightarrow> bool" where
  "number_arg j n = (n < 2 ^ 63 \<and> (j = JInt (word_of_nat n) \<or> j = JUint (word_of_nat n)))"

lemma print_number_arg:
  assumes "number_arg j n"
  shows "print_arg j = Inr (show_nat n)"
proof -
  have n: "n < 2 ^ 63" "int n < 2 ^ 63"
    using assms by (auto simp: number_arg_def)
  then have "uint (word_of_nat n :: 64 word) = int n"
    by (simp add: unsigned_of_nat take_bit_nat_eq_self)
  moreover have "sint (word_of_nat n :: 64 word) = int n"
    using n by (simp add: signed_of_nat signed_take_bit_int_eq_self)
  ultimately show ?thesis
    using assms by (auto simp: number_arg_def print_arg_def show_int_def)
qed

lemma number_arg_hasValue: "number_arg j n \<Longrightarrow> jfind o' k = Some j \<Longrightarrow> hasValue o' k"
  by (auto simp: number_arg_def hasValue_def is_number_def)

lemma toType_number: "n < 2 ^ 63 \<Longrightarrow> toType (show_nat n) CHR ''d'' = Inr (JInt (word_of_nat n))"
  by (simp add: toType_def)

lemma digits_all: "\<forall>x\<in>set (show_nat n). is_digit x"
  using digits_show_nat by (simp add: list_all_iff)

section \<open>Attribute lines\<close>

abbreviation crlf :: string where
  "crlf \<equiv> [CHR 0x0D, CHR 0x0A]"

lemma mid_at:
  assumes "\<forall>x\<in>set v. \<not> is_space x"
  shows "apply_rules attribute_rules (''mid:'' @ v @ []) loc = parseReg rule_mid loc [(1, v)]"
proof (rule attribute_at [where n = 10])
  show "\<exists>b. re_first (g_reg rule_mid) (True, ''mid:'' @ v @ [], []) = Some (b, [], [(1, v)])"
    unfolding rule_mid_def grammar_rule.simps seqs.simps
    by (rule exI, (rule first_intros)+, rule assms, simp, rule re_first_Eps)
qed (simp_all add: attribute_defs)

text \<open>Characters of codec names.\<close>

definition is_codec_char :: "char \<Rightarrow> bool" where
  "is_codec_char c = (is_word c \<or> c \<in> {CHR ''-'', CHR ''.''})"

lemmas seq_steps = first_Seq_assoc first_Seq_Eps first_intros

lemma rtp_first:
  assumes "\<forall>x\<in>set codec. is_codec_char x"
  shows "\<exists>b. re_first (g_reg rule_rtp) (True, ''rtpmap:'' @ show_nat n @ '' '' @ codec @ ''/'' @ show_nat rate @ [], []) =
    Some (b, [], [(3, show_nat rate), (2, codec), (1, show_nat n)])"
  unfolding rule_rtp_def grammar_rule.simps seqs.simps
  by (rule exI, (rule seq_steps)+, rule digits_all, simp add: char_class_defs, (rule seq_steps)+,
      use assms in \<open>simp add: is_codec_char_def\<close>, simp add: char_class_defs,
      rule first_Opt_take, rule first_Seq_assoc, rule first_Seq_Star0, simp add: char_class_defs,
      (rule seq_steps)+, rule digits_all, simp, rule first_Seq_assoc, rule first_Opt_skip,
      simp add: re_first_def re_run.simps(9), rule first_Seq_Eps, rule re_first_Eps)

lemma rtp_first_encoding:
  assumes "\<forall>x\<in>set codec. is_codec_char x" "\<forall>x\<in>set encoding. \<not> is_space x"
  shows "\<exists>b. re_first (g_reg rule_rtp)
      (True, ''rtpmap:'' @ show_nat n @ '' '' @ codec @ ''/'' @ show_nat rate @ ''/'' @ encoding @ [], []) =
    Some (b, [], [(4, encoding), (3, show_nat rate), (2, codec), (1, show_nat n)])"
  unfolding rule_rtp_def grammar_rule.simps seqs.simps
  by (rule exI, (rule seq_steps)+, rule digits_all, simp add: char_class_defs, (rule seq_steps)+,
      use assms in \<open>simp add: is_codec_char_def\<close>, simp add: char_class_defs,
      rule first_Opt_take, rule first_Seq_assoc, rule first_Seq_Star0, simp add: char_class_defs,
      (rule seq_steps)+, rule digits_all, simp add: char_class_defs, rule first_Seq_assoc, rule first_Opt_take,
      rule first_Seq_assoc, rule first_Seq_Star0, simp add: char_class_defs, (rule seq_steps)+,
      rule assms(2), simp, (rule first_Seq_Eps)+, rule re_first_Eps)


text \<open>Pushing an object onto an array member of the location.\<close>

definition pushed :: "string \<Rightarrow> json \<Rightarrow> json \<Rightarrow> json result" where
  "pushed key object location =
     bindE (if jfind location key = None then jput location key (JArray []) else ok location) (\<lambda>location.
     bindE (jref location key) (\<lambda>(arr, location').
     bindE (jpush arr object) (\<lambda>arr'. jput location' key arr')))"

lemma parseReg_push:
  "g_push rule \<noteq> [] \<Longrightarrow> g_name rule = [] \<Longrightarrow>
   parseReg rule loc m =
     bindE (if jfind loc (g_push rule) = None then jput loc (g_push rule) (JArray []) else ok loc) (\<lambda>loc.
     bindE (attach_names m (re_groups (g_reg rule) + 1) 0 (g_names rule) (g_types rule) (JObject [])) (\<lambda>object.
     bindE (jref loc (g_push rule)) (\<lambda>(arr, loc').
     bindE (jpush arr object) (\<lambda>arr'. jput loc' (g_push rule) arr'))))"
  by (simp add: parseReg_def attachProperties_def Let_def)

lemma parseReg_pushed:
  assumes "g_push rule \<noteq> []" "g_name rule = []"
    and "attach_names m (re_groups (g_reg rule) + 1) 0 (g_names rule) (g_types rule) (JObject []) = Inr object"
  shows "parseReg rule loc m = pushed (g_push rule) object loc"
  unfolding parseReg_push [OF assms(1,2)] assms(3) pushed_def by simp

lemma rtp_attach:
  assumes "n < 2 ^ 63" "rate < 2 ^ 63" "codec \<noteq> []"
  shows "attach_names [(3, show_nat rate), (2, codec), (1, show_nat n)] (re_groups (g_reg rule_rtp) + 1) 0
      (g_names rule_rtp) (g_types rule_rtp) (JObject []) =
    Inr (JObject (mk_obj [(''payload'', JInt (word_of_nat n)), (''codec'', JString codec),
      (''rate'', JInt (word_of_nat rate))]))"
  and "encoding \<noteq> [] \<Longrightarrow> attach_names [(4, encoding), (3, show_nat rate), (2, codec), (1, show_nat n)]
      (re_groups (g_reg rule_rtp) + 1) 0 (g_names rule_rtp) (g_types rule_rtp) (JObject []) =
    Inr (JObject (mk_obj [(''payload'', JInt (word_of_nat n)), (''codec'', JString codec),
      (''rate'', JInt (word_of_nat rate)), (''encoding'', JString encoding)]))"
  using assms
  by (simp_all add: rule_rtp_def re_group_def toType_number mk_obj_def obj_emplace_def)
     (simp_all add: toType_def)

text \<open>Blank-free, non-empty text.\<close>

definition word_text :: "string \<Rightarrow> bool" where
  "word_text s = (s \<noteq> [] \<and> (\<forall>x\<in>set s. \<not> is_space x))"

lemma word_textD: "word_text s \<Longrightarrow> s \<noteq> []" "word_text s \<Longrightarrow> \<forall>x\<in>set s. \<not> is_space x"
  by (simp_all add: word_text_def)

lemma makeLine_push:
  assumes "g_push rule \<noteq> []" "g_name rule = []" "g_names rule \<noteq> []"
    and "format_args (if g_format rule \<noteq> [] then g_format rule else g_formatFunc rule o')
     (map (\<lambda>k. case jfind o' k of Some v \<Rightarrow> v | None \<Rightarrow> JString []) (g_names rule)) = Inr s"
  shows "makeLine type rule o' = Inr ([type, CHR ''=''] @ s @ crlf)"
proof -
  have "line_args rule o' = map (\<lambda>k. case jfind o' k of Some v \<Rightarrow> v | None \<Rightarrow> JString []) (g_names rule)"
    using assms(2,3) by (simp add: line_args_def line_arg_def)
  moreover have "line_format rule o' = Inr (if g_format rule \<noteq> [] then g_format rule else g_formatFunc rule o')"
    using assms(1) by (simp add: line_format_def)
  ultimately show ?thesis
    using assms(4) by (simp add: makeLine_def)
qed

lemma re_run_Star_self: "st \<in> set (re_run (Star r) st)"
  by (subst re_run.simps) simp

lemma re_first_None: "re_first r st = None \<longleftrightarrow> re_run r st = []"
  by (simp add: re_first_def split: list.splits)

lemma valid_attribute_line: "re_search ValidLineRegex (CHR ''a'' # CHR ''='' # s) \<noteq> None"
proof -
  have a: "is_alpha CHR ''a''" "to_lower_char CHR ''a'' = CHR ''a''"
    by (simp_all add: is_alpha_def to_lower_char_def)
  have "re_run (Seq (Lit ''='') (Seq (Cap 2 anything) Eps)) (False, CHR ''='' # s, [(1, ''a'')]) \<noteq> []"
    using re_run_Star_self [of "(False, s, [(1, ''a'')])" "Sym is_any"] by auto
  then have "re_run ValidLineRegex (True, CHR ''a'' # CHR ''='' # s, []) \<noteq> []"
    by (simp add: ValidLineRegex_def a)
  then have "re_first ValidLineRegex (True, CHR ''a'' # CHR ''='' # s, []) \<noteq> None"
    by (simp only: re_first_None not_False_eq_True)
  then obtain b s' c where "re_first ValidLineRegex (True, CHR ''a'' # CHR ''='' # s, []) = Some (b, s', c)"
    by (cases "re_first ValidLineRegex (True, CHR ''a'' # CHR ''='' # s, [])") auto
  from re_search_first [OF this] show ?thesis
    by simp
qed

lemma parse_attribute_line:
  "parse_line (''a='' @ s @ [CHR 0x0D]) (session, media @ [m]) =
     bindE (apply_rules attribute_rules s m) (\<lambda>m'. ok (session, media @ [m']))"
proof -
  have "strip_cr (''a='' @ s @ [CHR 0x0D]) = CHR ''a'' # CHR ''='' # s"
    by (simp add: strip_cr_def butlast_append)
  moreover have "rulesMap CHR ''a'' = Some attribute_rules"
    by (simp add: rulesMap_def)
  ultimately show ?thesis
    using valid_attribute_line [of s] by (simp add: parse_line_def Let_def del: not_None_eq)
qed

lemma attribute_roundtripI:
  assumes "makeLine CHR ''a'' rule o' = Inr (''a='' @ s @ crlf)" "\<And>m. apply_rules attribute_rules s m = f m"
  shows "\<exists>l. makeLine CHR ''a'' rule o' = Inr (l @ [CHR 0x0A]) \<and>
    (\<forall>session media m. parse_line l (session, media @ [m]) = bindE (f m) (\<lambda>m'. Inr (session, media @ [m'])))"
  using assms parse_attribute_line [of s] by (intro exI [of _ "''a='' @ s @ [CHR 0x0D]"]) auto

section \<open>Separated texts\<close>

lemma getlines_Nil [simp]: "getlines d [] = []"
  by (subst getlines.simps) simp

lemma getlines_piece: "x \<noteq> [] \<Longrightarrow> d \<notin> set x \<Longrightarrow> getlines d x = [x]"
proof -
  assume x: "x \<noteq> []" "d \<notin> set x"
  then have "takeWhile (\<lambda>c. c \<noteq> d) x = x"
    by (auto simp: takeWhile_eq_all_conv)
  moreover have "dropWhile (\<lambda>c. c \<noteq> d) x = []"
    using x by (auto simp: dropWhile_eq_Nil_conv)
  ultimately show ?thesis
    using x(1) by (subst getlines.simps) (simp del: takeWhile_eq_all_conv dropWhile_eq_Nil_conv)
qed

lemma getlines_first: "x \<noteq> [] \<Longrightarrow> d \<notin> set x \<Longrightarrow> getlines d (x @ d # s) = x # getlines d s"
proof -
  assume x: "x \<noteq> []" "d \<notin> set x"
  have "takeWhile (\<lambda>c. c \<noteq> d) (x @ d # s) = x"
    using x by (subst takeWhile_append2) auto
  moreover have "dropWhile (\<lambda>c. c \<noteq> d) (x @ d # s) = d # s"
    using x by (subst dropWhile_append2) auto
  ultimately show ?thesis
    by (subst getlines.simps) simp
qed

text \<open>The pieces of a text put together with a separator.\<close>

definition joined :: "char \<Rightarrow> string \<Rightarrow> string \<Rightarrow> string" where
  "joined d s w = (if s = [] then w else s @ d # w)"

lemma foldl_joined: "s \<noteq> [] \<Longrightarrow> foldl (joined d) s ws = s @ concat (map ((#) d) ws)"
  by (induction ws arbitrary: s) (simp_all add: joined_def)

lemma getlines_concat:
  "x \<noteq> [] \<Longrightarrow> d \<notin> set x \<Longrightarrow> \<forall>w\<in>set ws. w \<noteq> [] \<and> d \<notin> set w \<Longrightarrow> getlines d (x @ concat (map ((#) d) ws)) = x # ws"
  by (induction ws arbitrary: x) (simp_all add: getlines_piece getlines_first)

lemma getlines_joined:
  assumes "\<forall>w\<in>set ws. w \<noteq> [] \<and> d \<notin> set w"
  shows "getlines d (foldl (joined d) [] ws) = ws"
proof (cases ws)
  case (Cons w ws')
  then show ?thesis
    using assms getlines_concat [of w d ws'] by (simp add: joined_def foldl_joined [of w])
qed simp

end
