(* ===== verification/Sdp_Params.thy ===== *)
theory Sdp_Params
  imports Sdp_Lines Remote_Sdp_Props
begin

text \<open>
  Texts with separators: the parameters of a codec in an fmtp line, and the MIDs of the BUNDLE
  group of a remote description.
\<close>

section \<open>Parameters\<close>

lemma append_word_joined: "append_word = joined CHR '' ''"
  by (intro ext) (simp add: append_word_def joined_def)

lemma re_match_first: "re_first r (True, s, []) = Some (b, [], c) \<Longrightarrow> re_match r s = Some c"
  by (auto simp: re_match_def re_first_def split: list.splits)

lemma first_Seq_Cap_plus:
  assumes "xs \<noteq> []" "\<forall>x\<in>set xs. p x" "stops p ys" "re_first q (False, ys, (i, xs) # c) = Some n"
  shows "re_first (Seq (Cap i (re_plus (Sym p))) q) (b, xs @ ys, c) = Some n"
proof -
  obtain x xs' where xs: "xs = x # xs'"
    using assms(1) by (cases xs) auto
  have "re_first (re_plus (Sym p)) (b, xs @ ys, c) = Some (False, ys, c)"
    unfolding re_plus_def xs append_Cons
    by (rule re_first_Seq [OF re_first_Sym]) (use assms xs in \<open>auto simp: stops_def re_first_Star_Sym\<close>)
  then have "re_first (Cap i (re_plus (Sym p))) (b, xs @ ys, c) = Some (False, ys, (i, xs) # c)"
    by (drule_tac i = i in re_first_Cap) simp
  then show ?thesis
    using assms(4) by (rule re_first_Seq)
qed

lemma first_Seq_Eol: "re_first q (b, [], c) = Some n \<Longrightarrow> re_first (Seq Eol q) (b, [], c) = Some n"
  by (rule re_first_Seq) simp_all

definition key_text :: "string \<Rightarrow> bool" where
  "key_text k = (word_text k \<and> CHR ''='' \<notin> set k \<and> CHR '';'' \<notin> set k)"

lemma blank_space: "is_space CHR '' ''"
  by (simp add: is_space_def)

lemma key_value_match:
  assumes "key_text k" "word_text v"
  shows "re_match KeyValueRegex (k @ ''='' @ v) = Some [(2, v), (1, k)]"
proof (rule re_match_first [where b = False])
  have k: "k \<noteq> []" "\<forall>x\<in>set k. x \<noteq> CHR ''='' \<and> x \<noteq> CHR '' ''" "stops is_space (k @ ''='' @ v @ [])"
    and v: "v \<noteq> []" "\<forall>x\<in>set v. x \<noteq> CHR '' ''" "stops is_space (v @ [])"
    using assms blank_space by (auto simp: key_text_def word_text_def stops_def hd_append)
  have "re_first KeyValueRegex (True, k @ ''='' @ v @ [], []) = Some (False, [], [(2, v), (1, k)])"
    unfolding KeyValueRegex_def seqs.simps
    by (rule first_Seq_Bol, rule first_Seq_Star0, rule k, rule first_Seq_Cap_plus, rule k, rule k, simp,
        rule first_Opt_take, rule first_Seq_assoc, rule first_Seq_Star0, simp add: is_space_def,
        (rule seq_steps)+, rule first_Seq_Star0, rule v, (rule first_Seq_assoc)?, rule first_Seq_Cap_plus, rule v, rule v, simp,
        rule first_Seq_Eps, rule first_Seq_Eol, rule re_first_Eps)
  then show "re_first KeyValueRegex (True, k @ ''='' @ v, []) = Some (False, [], [(2, v), (1, k)])"
    by simp
qed

lemma trim_word: "\<forall>x\<in>set s. \<not> is_space x \<Longrightarrow> trim s = s"
proof -
  assume a: "\<forall>x\<in>set s. \<not> is_space x"
  have "dropWhile is_space t = t" if "set t = set s" for t
    using that a by (cases t) auto
  then show ?thesis
    by (simp add: trim_def)
qed

text \<open>
  Parameters whose printed value is read back: numbers whose key is not typed as text, texts whose
  key is typed as text, and texts that do not look like a number.
\<close>

definition param_ok :: "string \<times> json \<Rightarrow> bool" where
  "param_ok p =
     (key_text (fst p) \<and>
      (case snd p of
         JString s \<Rightarrow>
           word_text s \<and> CHR '';'' \<notin> set s \<and>
           (WellKnownParameters (fst p) = Some CHR ''s'' \<or>
            WellKnownParameters (fst p) = None \<and> \<not> isInt s \<and> isFloat s = Inr False)
       | JInt w \<Rightarrow> uint w < 2 ^ 63 \<and> WellKnownParameters (fst p) \<noteq> Some CHR ''s''
       | JUint w \<Rightarrow> uint w < 2 ^ 63 \<and> WellKnownParameters (fst p) \<noteq> Some CHR ''s''
       | _ \<Rightarrow> False))"

text \<open>The value read: numbers come back signed.\<close>

fun read_back :: "json \<Rightarrow> json" where
  "read_back (JUint w) = JInt w"
| "read_back j = j"

lemma WellKnown_types: "WellKnownParameters k \<in> {None, Some CHR ''s'', Some CHR ''d''}"
  by (auto simp: WellKnownParameters_def)

lemma insertParam_type:
  assumes "key_text k" "word_text v"
    and "WellKnownParameters k = Some t \<or> WellKnownParameters k = None \<and>
         (if isInt v then t = CHR ''d'' else isFloat v = Inr False \<and> t = CHR ''s'')"
  shows "insertParam o' (k @ ''='' @ v) = bindE (toType v t) (jput o' k)"
proof -
  have m: "re_match KeyValueRegex (k @ ''='' @ v) = Some [(2, v), (1, k)]"
    by (rule key_value_match [OF assms(1,2)])
  show ?thesis
    using assms(3) unfolding insertParam_def m by (auto simp: re_group_def split: if_splits)
qed

lemma word_show_nat: "word_text (show_nat n)"
  using digits_all [of n] by (auto simp: word_text_def is_digit_def is_space_def Let_def)

lemma semicolon_show_nat: "CHR '';'' \<notin> set (show_nat n)"
  using digits_all [of n] by (auto simp: is_digit_def Let_def)

lemma param_text:
  assumes "param_ok (k, j)"
  obtains v where "show_fmtp_value j = Inr v" "word_text v" "CHR '';'' \<notin> set v"
    "\<And>ps. insertParam (JObject ps) (k @ ''='' @ v) = Inr (JObject (obj_set k (read_back j) ps))"
proof (cases "is_string j")
  case True
  then obtain s where j: "j = JString s"
    by (auto simp: is_string_conv)
  then have k: "key_text k" "word_text s" "CHR '';'' \<notin> set s"
    "WellKnownParameters k = Some CHR ''s'' \<or> WellKnownParameters k = None \<and> \<not> isInt s \<and> isFloat s = Inr False"
    using assms by (simp_all add: param_ok_def)
  have "WellKnownParameters k = Some CHR ''s'' \<or> WellKnownParameters k = None \<and>
      (if isInt s then CHR ''s'' = CHR ''d'' else isFloat s = Inr False \<and> CHR ''s'' = CHR ''s'')"
    using k(4) by auto
  from insertParam_type [OF k(1,2) this]
  have i: "insertParam (JObject ps) (k @ ''='' @ s) = Inr (JObject (obj_set k (read_back j) ps))" for ps
    by (simp only: j toType_def simp_thms if_True bindE_simps jput.simps read_back.simps)
  have "show_fmtp_value j = Inr s"
    by (simp add: j show_fmtp_value_def)
  then show ?thesis
    by (rule that [OF _ k(2,3) i])
next
  case False
  then obtain w where w: "j = JInt w \<or> j = JUint w" "uint w < 2 ^ 63" "key_text k" "WellKnownParameters k \<noteq> Some CHR ''s''"
    using assms by (cases j) (simp_all add: param_ok_def)
  define n where "n = unat w"
  have i: "int n < 2 ^ 63"
    using w(2) by (simp add: n_def)
  then have n: "n < 2 ^ 63"
    by (metis of_nat_less_numeral_power_cancel_iff)
  have wn: "w = word_of_nat n"
    by (simp add: n_def)
  have s: "sint w = int n"
    using i by (simp add: wn signed_of_nat signed_take_bit_int_eq_self)
  have v: "show_fmtp_value j = Inr (show_nat n)"
    using w(1) s by (auto simp: show_fmtp_value_def show_int_def)
  have "WellKnownParameters k = Some CHR ''d'' \<or> WellKnownParameters k = None \<and> isInt (show_nat n)"
    using w(4) WellKnown_types [of k] n by (auto simp: isInt_def)
  then have "WellKnownParameters k = Some CHR ''d'' \<or> WellKnownParameters k = None \<and>
      (if isInt (show_nat n) then CHR ''d'' = CHR ''d'' else isFloat (show_nat n) = Inr False \<and> CHR ''d'' = CHR ''s'')"
    by auto
  from insertParam_type [OF w(3) word_show_nat this]
  have "insertParam (JObject ps) (k @ ''='' @ show_nat n) = Inr (JObject (obj_set k (JInt w) ps))" for ps
    by (simp only: toType_number [OF n] bindE_simps jput.simps wn)
  moreover have "read_back j = JInt w"
    using w(1) by auto
  ultimately show ?thesis
    by (intro that [OF v word_show_nat semicolon_show_nat]) simp
qed

lemma fmtp_config_texts:
  assumes "\<forall>p\<in>set ps. param_ok p"
  shows "\<exists>ts. (\<forall>s. fmtp_config s ps = Inr (foldl (joined CHR '';'') s ts)) \<and>
    (\<forall>t\<in>set ts. t \<noteq> [] \<and> CHR '';'' \<notin> set t) \<and>
    (\<forall>o'. insert_params (JObject o') ts = Inr (JObject (foldl (\<lambda>o' (k, j). obj_set k (read_back j) o') o' ps)))"
  using assms
proof (induction ps)
  case Nil
  then show ?case by (intro exI [of _ "[]"]) simp
next
  case (Cons p ps)
  obtain k j where p: "p = (k, j)"
    by (cases p)
  obtain v where v: "show_fmtp_value j = Inr v" "word_text v" "CHR '';'' \<notin> set v"
    "\<And>ps. insertParam (JObject ps) (k @ ''='' @ v) = Inr (JObject (obj_set k (read_back j) ps))"
    using Cons.prems p by (auto elim: param_text)
  have k: "key_text k"
    using Cons.prems p by (simp add: param_ok_def)
  let ?t = "k @ ''='' @ v"
  have t: "?t \<noteq> [] \<and> CHR '';'' \<notin> set ?t" "trim ?t = ?t"
    using k v(2,3) by (auto simp: key_text_def word_text_def is_space_def intro!: trim_word)
  obtain ts where ts: "\<forall>s. fmtp_config s ps = Inr (foldl (joined CHR '';'') s ts)"
    "\<forall>t\<in>set ts. t \<noteq> [] \<and> CHR '';'' \<notin> set t"
    "\<forall>o'. insert_params (JObject o') ts = Inr (JObject (foldl (\<lambda>o' (k, j). obj_set k (read_back j) o') o' ps))"
    using Cons by auto
  show ?case
  proof (intro exI [of _ "?t # ts"] conjI allI)
    show "fmtp_config s (p # ps) = Inr (foldl (joined CHR '';'') s (?t # ts))" for s
      using ts(1) v(1) by (simp add: p joined_def)
    show "\<forall>t\<in>set (?t # ts). t \<noteq> [] \<and> CHR '';'' \<notin> set t"
      using t(1) ts(2) by simp
    show "insert_params (JObject o') (?t # ts) =
        Inr (JObject (foldl (\<lambda>o' (k, j). obj_set k (read_back j) o') o' (p # ps)))" for o'
      using t v(4) ts(3) by (simp add: p Let_def)
  qed
qed

lemma obj_set_snoc: "sorted_obj (ps @ [(k, v)]) \<Longrightarrow> obj_set k v ps = ps @ [(k, v)]"
  by (induction ps) (auto simp: sorted_obj_def)

lemma foldl_obj_set_sorted:
  "sorted_obj (os @ ps) \<Longrightarrow>
   foldl (\<lambda>o' (k, j). obj_set k (read_back j) o') os ps = os @ map (\<lambda>(k, j). (k, read_back j)) ps"
proof (induction ps arbitrary: os)
  case (Cons p ps)
  obtain k j where p: "p = (k, j)"
    by (cases p)
  have "sorted_obj (os @ [(k, read_back j)])" "sorted_obj ((os @ [(k, read_back j)]) @ ps)"
    using Cons.prems by (auto simp: p sorted_obj_def sorted_wrt_append)
  then show ?case
    using Cons.IH [of "os @ [(k, read_back j)]"] by (simp add: p obj_set_snoc)
qed simp

section \<open>Properties\<close>

text \<open>
  C31. Codec parameters survive the line they are printed in: for a parameter object whose values
  are numbers below 2^63 or blank-free texts that do not look like a number, except for the keys
  that are read as text, the fmtp configuration that is printed is parsed back to the same object,
  with the numbers signed.
\<close>

theorem codec_parameters_roundtrip:
  assumes "sorted_obj ps" "\<forall>p\<in>set ps. param_ok p"
  shows "\<exists>config. fmtp_config [] (jitems_all (JObject ps)) = Inr config \<and>
    parseParams config = Inr (JObject (map (\<lambda>(k, j). (k, read_back j)) ps))"
proof -
  obtain ts where "fmtp_config [] ps = Inr (foldl (joined CHR '';'') [] ts)"
    "\<forall>t\<in>set ts. t \<noteq> [] \<and> CHR '';'' \<notin> set t"
    "insert_params (JObject []) ts = Inr (JObject (foldl (\<lambda>o' (k, j). obj_set k (read_back j) o') [] ps))"
    using fmtp_config_texts [OF assms(2)] by blast
  with assms(1) show ?thesis
    by (simp add: parseParams_def getlines_joined foldl_obj_set_sorted)
qed

definition example_parameters :: jobj where
  "example_parameters =
     [(''level-asymmetry-allowed'', JUint 1), (''packetization-mode'', JUint 1), (''profile-level-id'', JString ''42e01f'')]"

theorem codec_parameters_roundtrip_witness:
  "\<exists>config. fmtp_config [] (jitems_all (JObject example_parameters)) = Inr config \<and>
     parseParams config = Inr (JObject
       [(''level-asymmetry-allowed'', JInt 1), (''packetization-mode'', JInt 1), (''profile-level-id'', JString ''42e01f'')])"
proof -
  have "sorted_obj example_parameters" "\<forall>p\<in>set example_parameters. param_ok p"
    by (simp_all add: example_parameters_def sorted_obj_def param_ok_def key_text_def word_text_def is_space_def
        WellKnownParameters_def)
  from codec_parameters_roundtrip [OF this] show ?thesis
    by (simp add: example_parameters_def)
qed

text \<open>
  C33. The BUNDLE group of every reachable remote description lists exactly the MIDs of its open
  sections, in order, when no MID contains a blank: splitting its text at blanks gives them back.
\<close>

theorem bundle_group_lists_open_mids:
  assumes "RemoteSdp_new ice cands dtls sctp = Inr s0" "sdp_run s0 es s"
    and "\<forall>p\<in>set (sections_of s). CHR '' '' \<notin> set (fst p)"
  shows "\<exists>sdp g mids. rs_sdpObject s = JObject sdp \<and> map_of sdp ''groups'' = Some (JArray [JObject g]) \<and>
    map_of g ''mids'' = Some (JString mids) \<and> getlines CHR '' '' mids = open_mids (sections_of s)"
proof -
  have inv: "rs_inv (word_of_nat (prints es)) s"
    using reachable_inv [OF assms(1,2)] by simp
  then have "\<forall>w\<in>set (open_mids (sections_of s)). w \<noteq> [] \<and> CHR '' '' \<notin> set w"
    using assms(3) by (auto simp: rs_inv_def table_ok_def sections_of_def open_mids_def)
  then have "getlines CHR '' '' (bundle_of (sections_of s)) = open_mids (sections_of s)"
    unfolding bundle_of_def append_word_joined by (rule getlines_joined)
  then show ?thesis
    using inv by (auto simp: rs_inv_def sdp_shows_def obj_with_conv)
qed

theorem bundle_group_lists_open_mids_witness:
  "\<exists>s0 s sdp g mids. RemoteSdp_new example_ice (JArray []) example_dtls example_sctp = Inr s0 \<and>
     sdp_run s0 example_events s \<and> rs_sdpObject s = JObject sdp \<and> map_of sdp ''groups'' = Some (JArray [JObject g]) \<and>
     map_of g ''mids'' = Some (JString mids) \<and> getlines CHR '' '' mids = [''0'', ''2'']"
proof -
  obtain s0 s where *: "RemoteSdp_new example_ice (JArray []) example_dtls example_sctp = Inr s0"
    "sdp_run s0 example_events s" "sections_of s = [(''0'', False), (''2'', False)]"
    by (rule example_runE)
  have "\<forall>p\<in>set (sections_of s). CHR '' '' \<notin> set (fst p)" "open_mids (sections_of s) = [''0'', ''2'']"
    by (simp_all add: *(3) open_mids_def)
  then show ?thesis
    using bundle_group_lists_open_mids [OF *(1,2)] *(1,2) by metis
qed

end
