(* ===== verification/Sdp_Roundtrip.thy ===== *)
theory Sdp_Roundtrip
  imports Sdp_Lines
begin

text \<open>
  What the writer prints in an attribute line is what the parser reads from it: plain values,
  codecs and ICE candidates.
\<close>

section \<open>Plain values\<close>

text \<open>Rules that read and print one blank-free value after a literal.\<close>

definition raw_at :: "nat \<Rightarrow> string \<Rightarrow> string \<Rightarrow> bool" where
  "raw_at n key prefix =
     (n < length attribute_rules \<and>
      attribute_rules ! n = raw_rule key (seqs [Bol, Lit prefix, Cap 1 nonblanks]) CHR ''s'' (prefix @ ''%s'') \<and>
      key \<noteq> [] \<and> prefix \<noteq> [] \<and> CHR ''%'' \<notin> set prefix \<and>
      (\<forall>v. \<forall>r\<in>set (take n attribute_rules). mismatch (prefix @ v) r))"

lemma raw_at_mid: "raw_at 10 ''mid'' ''mid:''"
  by (simp add: raw_at_def attribute_defs)

lemma raw_at_iceUfrag: "raw_at 16 ''iceUfrag'' ''ice-ufrag:''"
  by (simp add: raw_at_def attribute_defs)

lemma raw_at_icePwd: "raw_at 17 ''icePwd'' ''ice-pwd:''"
  by (simp add: raw_at_def attribute_defs)

lemma raw_at_iceOptions: "raw_at 22 ''iceOptions'' ''ice-options:''"
  by (simp add: raw_at_def attribute_defs)

lemma next_fmt_prefix:
  "CHR ''%'' \<notin> set p \<Longrightarrow> c \<in> set ''sdv%'' \<Longrightarrow> next_fmt (p @ CHR ''%'' # c # s) = Some (p, c, s)"
proof (induction p)
  case (Cons x p)
  then show ?case by (cases p) auto
qed simp

lemma raw_line:
  assumes "raw_at n key prefix" "jfind m key = Some (JString v)"
  shows "makeLine CHR ''a'' (attribute_rules ! n) m = Inr (''a='' @ (prefix @ v) @ crlf)"
  using assms
  by (simp add: raw_at_def makeLine_def line_format_def line_args_def format_args.simps next_fmt_prefix print_arg_def)

lemma raw_read:
  assumes "raw_at n key prefix" "\<forall>x\<in>set v. \<not> is_space x"
  shows "apply_rules attribute_rules (prefix @ v) loc = jput loc key (JString v)"
proof -
  have r: "attribute_rules ! n = raw_rule key (seqs [Bol, Lit prefix, Cap 1 nonblanks]) CHR ''s'' (prefix @ ''%s'')"
    and k: "key \<noteq> []"
    using assms(1) by (simp_all add: raw_at_def)
  have "apply_rules attribute_rules (prefix @ v) loc = parseReg (attribute_rules ! n) loc [(1, v)]"
  proof (rule attribute_at [OF refl])
    have "re_first (seqs [Bol, Lit prefix, Cap 1 nonblanks]) (True, prefix @ v @ [], []) = Some ((True \<and> prefix = []) \<and> v = [], [], [(1, v)])"
      unfolding seqs.simps by ((rule first_intros)+, rule assms(2), simp, rule re_first_Eps)
    then show "\<exists>b. re_first (g_reg (attribute_rules ! n)) (True, prefix @ v, []) = Some (b, [], [(1, v)])"
      by (simp add: r)
  qed (use assms(1) in \<open>simp_all add: raw_at_def\<close>)
  then show ?thesis
    using k by (simp add: r parseReg_def attachProperties_def re_group_def toType_def Let_def)
qed

section \<open>Codecs\<close>

lemma rule_rtp_sel:
  "g_push rule_rtp = ''rtp''" "g_name rule_rtp = []" "g_names rule_rtp \<noteq> []"
  by (simp_all add: rule_rtp_def)

lemma rtpmap_line:
  assumes "jfind o' ''payload'' = Some p" "number_arg p n" "jfind o' ''rate'' = Some r" "number_arg r rate"
    and "jfind o' ''codec'' = Some (JString codec)"
  shows "jfind o' ''encoding'' = None \<Longrightarrow>
      makeLine CHR ''a'' rule_rtp o' =
      Inr (''a='' @ (''rtpmap:'' @ show_nat n @ '' '' @ codec @ ''/'' @ show_nat rate @ []) @ crlf)"
    and "jfind o' ''encoding'' = Some e \<Longrightarrow> number_arg e channels \<Longrightarrow>
      makeLine CHR ''a'' rule_rtp o' =
      Inr (''a='' @ (''rtpmap:'' @ show_nat n @ '' '' @ codec @ ''/'' @ show_nat rate @ ''/'' @ show_nat channels @ []) @ crlf)"
proof -
  have v: "hasValue o' ''rate''" "print_arg p = Inr (show_nat n)" "print_arg r = Inr (show_nat rate)"
    "print_arg (JString codec) = Inr codec"
    using assms number_arg_hasValue print_number_arg by (auto simp: print_arg_def)
  show "makeLine CHR ''a'' rule_rtp o' =
      Inr (''a='' @ (''rtpmap:'' @ show_nat n @ '' '' @ codec @ ''/'' @ show_nat rate @ []) @ crlf)"
    if "jfind o' ''encoding'' = None"
  proof -
    have "\<not> hasValue o' ''encoding''"
      using that by (simp add: hasValue_def)
    with v assms that show ?thesis
      by (subst makeLine_push) (simp_all add: rule_rtp_def format_args.simps)
  qed
  show "makeLine CHR ''a'' rule_rtp o' =
      Inr (''a='' @ (''rtpmap:'' @ show_nat n @ '' '' @ codec @ ''/'' @ show_nat rate @ ''/'' @ show_nat channels @ []) @ crlf)"
    if e: "jfind o' ''encoding'' = Some e" "number_arg e channels"
  proof -
    have "hasValue o' ''encoding''" "print_arg e = Inr (show_nat channels)"
      using e number_arg_hasValue print_number_arg by auto
    with v assms e show ?thesis
      by (subst makeLine_push) (simp_all add: rule_rtp_def format_args.simps)
  qed
qed

lemma rtpmap_read:
  assumes "n < 2 ^ 63" "rate < 2 ^ 63" "codec \<noteq> []" "\<forall>x\<in>set codec. is_codec_char x"
  shows "apply_rules attribute_rules (''rtpmap:'' @ show_nat n @ '' '' @ codec @ ''/'' @ show_nat rate @ []) loc =
    pushed ''rtp'' (JObject (mk_obj [(''payload'', JInt (word_of_nat n)), (''codec'', JString codec),
         (''rate'', JInt (word_of_nat rate))])) loc"
    and "apply_rules attribute_rules
      (''rtpmap:'' @ show_nat n @ '' '' @ codec @ ''/'' @ show_nat rate @ ''/'' @ show_nat channels @ []) loc =
    pushed ''rtp'' (JObject (mk_obj [(''payload'', JInt (word_of_nat n)), (''codec'', JString codec),
         (''rate'', JInt (word_of_nat rate)), (''encoding'', JString (show_nat channels))])) loc"
proof -
  show "apply_rules attribute_rules (''rtpmap:'' @ show_nat n @ '' '' @ codec @ ''/'' @ show_nat rate @ []) loc =
    pushed ''rtp'' (JObject (mk_obj [(''payload'', JInt (word_of_nat n)), (''codec'', JString codec),
         (''rate'', JInt (word_of_nat rate))])) loc"
    by (subst attribute_at [where n = 0 and rule = rule_rtp, OF _ _ _ rtp_first [OF assms(4)]])
       (simp_all add: attribute_rules_def parseReg_pushed [OF _ _ rtp_attach(1) [OF assms(1-3)]] rule_rtp_sel del: One_nat_def)
  have "\<forall>x\<in>set (show_nat channels). \<not> is_space x"
    using digits_all [of channels] by (auto simp: is_digit_def is_space_def Let_def)
  then show "apply_rules attribute_rules
      (''rtpmap:'' @ show_nat n @ '' '' @ codec @ ''/'' @ show_nat rate @ ''/'' @ show_nat channels @ []) loc =
    pushed ''rtp'' (JObject (mk_obj [(''payload'', JInt (word_of_nat n)), (''codec'', JString codec),
         (''rate'', JInt (word_of_nat rate)), (''encoding'', JString (show_nat channels))])) loc"
    by (subst attribute_at [where n = 0 and rule = rule_rtp, OF _ _ _ rtp_first_encoding [OF assms(4)]])
       (simp_all add: attribute_rules_def parseReg_pushed [OF _ _ rtp_attach(2) [OF assms(1-3)]] rule_rtp_sel show_nat_Nil del: One_nat_def)
qed

section \<open>Candidates\<close>

definition candidate_text :: "string \<Rightarrow> nat \<Rightarrow> string \<Rightarrow> nat \<Rightarrow> string \<Rightarrow> nat \<Rightarrow> string \<Rightarrow> string \<Rightarrow> string" where
  "candidate_text foundation cmp transport priority ip port type rest =
     ''candidate:'' @ foundation @ '' '' @ show_nat cmp @ '' '' @ transport @ '' '' @ show_nat priority @ '' '' @ ip @
     '' '' @ show_nat port @ '' typ '' @ type @ rest"

lemma candidate_first:
  assumes w: "word_text foundation" "word_text transport" "word_text ip" "word_text type"
  shows "\<exists>b. re_first (g_reg rule_candidates) (True, candidate_text foundation cmp transport priority ip port type [], []) =
     Some (b, [], [(7, type), (6, show_nat port), (5, ip), (4, show_nat priority), (3, transport),
       (2, show_nat cmp), (1, foundation)])"
    and "word_text tcp \<Longrightarrow> \<exists>b. re_first (g_reg rule_candidates)
      (True, candidate_text foundation cmp transport priority ip port type ('' tcptype '' @ tcp @ []), []) =
     Some (b, [], [(10, tcp), (7, type), (6, show_nat port), (5, ip), (4, show_nat priority), (3, transport),
       (2, show_nat cmp), (1, foundation)])"
  unfolding candidate_text_def rule_candidates_def grammar_rule.simps seqs.simps
   apply (rule exI, (rule seq_steps)+, rule word_textD, rule w, simp add: char_class_defs, (rule seq_steps)+,
      rule digits_all, simp add: char_class_defs, (rule seq_steps)+, rule word_textD, rule w, simp add: char_class_defs,
      (rule seq_steps)+, rule digits_all, simp add: char_class_defs, (rule seq_steps)+, rule word_textD, rule w,
      simp add: char_class_defs, (rule seq_steps)+, rule digits_all, simp add: char_class_defs, (rule seq_steps)+,
      rule word_textD, rule w, simp)
   apply (rule first_Opt_skip, rule first_None_Lit, simp)+
   apply (rule re_first_Eps)
   apply (rule exI, (rule seq_steps)+, rule word_textD, rule w, simp add: char_class_defs, (rule seq_steps)+,
      rule digits_all, simp add: char_class_defs, (rule seq_steps)+, rule word_textD, rule w, simp add: char_class_defs,
      (rule seq_steps)+, rule digits_all, simp add: char_class_defs, (rule seq_steps)+, rule word_textD, rule w,
      simp add: char_class_defs, (rule seq_steps)+, rule digits_all, simp add: char_class_defs, (rule seq_steps)+,
      rule word_textD, rule w, simp add: char_class_defs)
  apply (rule first_Opt_skip, rule first_None_Lit, simp)
  apply (rule first_Opt_take, (rule seq_steps)+, erule word_textD, simp, (rule seq_steps)+)
   apply (rule first_Opt_skip, rule first_None_Lit, simp)+
   apply (rule re_first_Eps)
  done


definition candidate_fields :: "string \<Rightarrow> nat \<Rightarrow> string \<Rightarrow> nat \<Rightarrow> string \<Rightarrow> nat \<Rightarrow> string \<Rightarrow> (string \<times> json) list" where
  "candidate_fields foundation cmp transport priority ip port type =
     [(''foundation'', JString foundation), (''component'', JInt (word_of_nat cmp)), (''transport'', JString transport),
      (''priority'', JInt (word_of_nat priority)), (''ip'', JString ip), (''port'', JInt (word_of_nat port)),
      (''type'', JString type)]"

lemma candidate_attach:
  assumes "word_text foundation" "word_text transport" "word_text ip" "word_text type"
    and "cmp < 2 ^ 63" "priority < 2 ^ 63" "port < 2 ^ 63"
  shows "attach_names [(7, type), (6, show_nat port), (5, ip), (4, show_nat priority), (3, transport),
       (2, show_nat cmp), (1, foundation)] (re_groups (g_reg rule_candidates) + 1) 0 (g_names rule_candidates)
       (g_types rule_candidates) (JObject []) =
     Inr (JObject (mk_obj (candidate_fields foundation cmp transport priority ip port type)))"
   and "word_text tcp \<Longrightarrow> attach_names [(10, tcp), (7, type), (6, show_nat port), (5, ip), (4, show_nat priority),
       (3, transport), (2, show_nat cmp), (1, foundation)] (re_groups (g_reg rule_candidates) + 1) 0
       (g_names rule_candidates) (g_types rule_candidates) (JObject []) =
     Inr (JObject (mk_obj (candidate_fields foundation cmp transport priority ip port type @ [(''tcptype'', JString tcp)])))"
  using assms
  by (simp_all add: rule_candidates_def candidate_fields_def word_text_def re_group_def toType_number mk_obj_def obj_emplace_def)
     (simp_all add: toType_def)

lemma candidate_read:
  assumes "word_text foundation" "word_text transport" "word_text ip" "word_text type"
    and "cmp < 2 ^ 63" "priority < 2 ^ 63" "port < 2 ^ 63"
  shows "apply_rules attribute_rules (candidate_text foundation cmp transport priority ip port type []) loc =
     pushed ''candidates'' (JObject (mk_obj (candidate_fields foundation cmp transport priority ip port type))) loc"
    and "word_text tcp \<Longrightarrow>
     apply_rules attribute_rules (candidate_text foundation cmp transport priority ip port type ('' tcptype '' @ tcp @ [])) loc =
     pushed ''candidates'' (JObject (mk_obj (candidate_fields foundation cmp transport priority ip port type
       @ [(''tcptype'', JString tcp)]))) loc"
proof -
  have r: "attribute_rules ! 19 = rule_candidates" "19 < length attribute_rules"
    "g_push rule_candidates = ''candidates''" "g_name rule_candidates = []"
    by (simp_all add: attribute_rules_def rule_candidates_def)
  have x: "\<forall>r\<in>set (take 19 attribute_rules). mismatch (candidate_text foundation cmp transport priority ip port type rest) r" for rest
    by (simp add: candidate_text_def attribute_defs)
  show "apply_rules attribute_rules (candidate_text foundation cmp transport priority ip port type []) loc =
     pushed ''candidates'' (JObject (mk_obj (candidate_fields foundation cmp transport priority ip port type))) loc"
    using attribute_at [OF r(1,2) x candidate_first(1) [OF assms(1-4)]] parseReg_pushed [OF _ _ candidate_attach(1) [OF assms]] r(3,4)
    by simp
  show "apply_rules attribute_rules (candidate_text foundation cmp transport priority ip port type ('' tcptype '' @ tcp @ [])) loc =
     pushed ''candidates'' (JObject (mk_obj (candidate_fields foundation cmp transport priority ip port type
       @ [(''tcptype'', JString tcp)]))) loc" if "word_text tcp"
    using attribute_at [OF r(1,2) x candidate_first(2) [OF assms(1-4) that]]
      parseReg_pushed [OF _ _ candidate_attach(2) [OF assms that]] r(3,4)
    by simp
qed

text \<open>The members of a candidate entry, the optional ones of other stacks left out.\<close>

definition candidate_entry ::
  "json \<Rightarrow> string \<Rightarrow> nat \<Rightarrow> string \<Rightarrow> nat \<Rightarrow> string \<Rightarrow> nat \<Rightarrow> string \<Rightarrow> bool" where
  "candidate_entry o' foundation cmp transport priority ip port type =
     (jfind o' ''foundation'' = Some (JString foundation) \<and> jfind o' ''transport'' = Some (JString transport) \<and>
      jfind o' ''ip'' = Some (JString ip) \<and> jfind o' ''type'' = Some (JString type) \<and>
      found (\<lambda>j. number_arg j cmp) (jfind o' ''component'') \<and> found (\<lambda>j. number_arg j priority) (jfind o' ''priority'') \<and>
      found (\<lambda>j. number_arg j port) (jfind o' ''port'') \<and>
      (\<forall>k\<in>set [''raddr'', ''rport'', ''generation'', ''network-id'', ''network-cost'']. jfind o' k = None))"

lemma candidate_line:
  assumes "candidate_entry o' foundation cmp transport priority ip port type"
  shows "jfind o' ''tcptype'' = None \<Longrightarrow> makeLine CHR ''a'' rule_candidates o' =
      Inr (''a='' @ candidate_text foundation cmp transport priority ip port type [] @ crlf)"
    and "jfind o' ''tcptype'' = Some (JString tcp) \<Longrightarrow> word_text tcp \<Longrightarrow> makeLine CHR ''a'' rule_candidates o' =
      Inr (''a='' @ candidate_text foundation cmp transport priority ip port type ('' tcptype '' @ tcp @ []) @ crlf)"
proof -
  obtain c p q where n: "jfind o' ''component'' = Some c" "number_arg c cmp" "jfind o' ''priority'' = Some p"
    "number_arg p priority" "jfind o' ''port'' = Some q" "number_arg q port"
    using assms by (auto simp: candidate_entry_def found_def split: option.splits)
  note p = print_number_arg [OF n(2)] print_number_arg [OF n(4)] print_number_arg [OF n(6)]
  have s: "print_arg (JString s) = Inr s" for s
    by (simp add: print_arg_def)
  have h: "\<forall>k\<in>set [''raddr'', ''rport'', ''generation'', ''network-id'', ''network-cost'']. \<not> hasValue o' k"
    using assms by (simp add: candidate_entry_def hasValue_def)
  show "makeLine CHR ''a'' rule_candidates o' =
      Inr (''a='' @ candidate_text foundation cmp transport priority ip port type [] @ crlf)"
    if t: "jfind o' ''tcptype'' = None"
  proof -
    have "\<not> hasValue o' ''tcptype''"
      using t by (simp add: hasValue_def)
    with assms t n p s h show ?thesis
      by (subst makeLine_push) (simp_all add: rule_candidates_def candidate_entry_def format_args.simps candidate_text_def)
  qed
  show "makeLine CHR ''a'' rule_candidates o' =
      Inr (''a='' @ candidate_text foundation cmp transport priority ip port type ('' tcptype '' @ tcp @ []) @ crlf)"
    if t: "jfind o' ''tcptype'' = Some (JString tcp)" "word_text tcp"
  proof -
    have "hasValue o' ''tcptype''"
      using t by (simp add: hasValue_def word_text_def)
    with assms t n p s h show ?thesis
      by (subst makeLine_push) (simp_all add: rule_candidates_def candidate_entry_def format_args.simps candidate_text_def)
  qed
qed

section \<open>Properties\<close>

text \<open>
  C32. The lines of plain values are read back as they were written: for a MID, ICE user name
  fragment, ICE password or ICE options without blanks, the printed line sets that member of the
  media section it is read into.
\<close>

theorem plain_line_roundtrip:
  assumes "rule \<in> {rule_mid, rule_iceUfrag, rule_icePwd, rule_iceOptions}"
    and "jfind mline (g_name rule) = Some (JString v)" "\<forall>x\<in>set v. \<not> is_space x"
  shows "\<exists>l. makeLine CHR ''a'' rule mline = Inr (l @ [CHR 0x0A]) \<and>
    (\<forall>session media m. parse_line l (session, media @ [m]) =
       bindE (jput m (g_name rule) (JString v)) (\<lambda>m'. Inr (session, media @ [m'])))"
proof -
  have "attribute_rules ! 10 = rule_mid" "attribute_rules ! 16 = rule_iceUfrag" "attribute_rules ! 17 = rule_icePwd"
    "attribute_rules ! 22 = rule_iceOptions"
    by (simp_all add: attribute_rules_def)
  moreover have "g_name rule_mid = ''mid''" "g_name rule_iceUfrag = ''iceUfrag''" "g_name rule_icePwd = ''icePwd''"
    "g_name rule_iceOptions = ''iceOptions''"
    by (simp_all add: rule_defs)
  ultimately obtain n prefix where r: "raw_at n (g_name rule) prefix" "attribute_rules ! n = rule"
    using assms(1) raw_at_mid raw_at_iceUfrag raw_at_icePwd raw_at_iceOptions by (elim insertE emptyE) (metis, metis, metis, metis)
  from raw_line [OF r(1) assms(2), unfolded r(2)] raw_read [OF r(1) assms(3)] show ?thesis
    by (rule attribute_roundtripI)
qed

theorem plain_line_roundtrip_witness:
  "\<exists>l. makeLine CHR ''a'' rule_iceUfrag (JObject [(''iceUfrag'', JString ''5I2u'')]) = Inr (l @ [CHR 0x0A]) \<and>
     parse_line l (JObject [], [JObject []]) = Inr (JObject [], [JObject [(''iceUfrag'', JString ''5I2u'')]])"
proof -
  have "g_name rule_iceUfrag = ''iceUfrag''" "\<forall>x\<in>set ''5I2u''. \<not> is_space x"
    by (simp_all add: rule_iceUfrag_def is_space_def)
  then obtain l where l: "makeLine CHR ''a'' rule_iceUfrag (JObject [(''iceUfrag'', JString ''5I2u'')]) = Inr (l @ [CHR 0x0A])"
    "\<And>session media m. parse_line l (session, media @ [m]) =
       bindE (jput m ''iceUfrag'' (JString ''5I2u'')) (\<lambda>m'. Inr (session, media @ [m']))"
    using plain_line_roundtrip [of rule_iceUfrag "JObject [(''iceUfrag'', JString ''5I2u'')]" "''5I2u''"] by auto
  then show ?thesis
    using l(2) [of "JObject []" "[]" "JObject []"] by auto
qed

text \<open>
  C14. An rtpmap line is read back as it was written: for a codec entry with a payload type and a
  clock rate below 2^63, a non-empty name of codec characters and, if it has an encoding, a number
  there, the first rule that applies to the printed line is the rtpmap rule, and it pushes an entry
  with the same values, the numbers as signed integers and the encoding as text.
\<close>

theorem rtpmap_line_roundtrip:
  assumes "jfind o' ''payload'' = Some p" "number_arg p n" "jfind o' ''rate'' = Some r" "number_arg r rate"
    and "jfind o' ''codec'' = Some (JString codec)" "codec \<noteq> []" "\<forall>x\<in>set codec. is_codec_char x"
    and "case jfind o' ''encoding'' of None \<Rightarrow> extra = []
         | Some e \<Rightarrow> number_arg e channels \<and> extra = [(''encoding'', JString (show_nat channels))]"
  shows "\<exists>l. makeLine CHR ''a'' rule_rtp o' = Inr (l @ [CHR 0x0A]) \<and>
    (\<forall>session media m. parse_line l (session, media @ [m]) =
       bindE (pushed ''rtp'' (JObject (mk_obj ([(''payload'', JInt (word_of_nat n)), (''codec'', JString codec),
           (''rate'', JInt (word_of_nat rate))] @ extra))) m) (\<lambda>m'. Inr (session, media @ [m'])))"
proof -
  have b: "n < 2 ^ 63" "rate < 2 ^ 63"
    using assms(2,4) by (auto simp: number_arg_def)
  note read = rtpmap_read [OF b assms(6,7)]
  show ?thesis
  proof (cases "jfind o' ''encoding''")
    case None
    then have "extra = []"
      using assms(8) by simp
    with attribute_roundtripI [OF rtpmap_line(1) [OF assms(1-5) None] read(1)] show ?thesis
      by simp
  next
    case (Some e)
    then have e: "number_arg e channels" "extra = [(''encoding'', JString (show_nat channels))]"
      using assms(8) by simp_all
    with attribute_roundtripI [OF rtpmap_line(2) [OF assms(1-5) Some e(1)] read(2)] show ?thesis
      by simp
  qed
qed

definition example_rtp :: json where
  "example_rtp = JObject (mk_obj
     [(''payload'', JUint 111), (''codec'', JString ''opus''), (''rate'', JUint 48000), (''encoding'', JUint 2)])"

theorem rtpmap_line_roundtrip_witness:
  "\<exists>l. makeLine CHR ''a'' rule_rtp example_rtp = Inr (l @ [CHR 0x0A]) \<and>
     parse_line l (JObject [], [JObject []]) =
       Inr (JObject [], [JObject [(''rtp'', JArray [JObject (mk_obj
         [(''payload'', JInt 111), (''codec'', JString ''opus''), (''rate'', JInt 48000), (''encoding'', JString ''2'')])])]])"
proof -
  have "number_arg (JUint 111) 111" "number_arg (JUint 48000) 48000" "number_arg (JUint 2) 2"
    by (simp_all add: number_arg_def)
  moreover have "\<forall>x\<in>set ''opus''. is_codec_char x"
    by (simp add: is_codec_char_def is_word_def is_alpha_def is_digit_def)
  moreover have "show_nat 2 = ''2''"
    by code_simp
  ultimately obtain l where l: "makeLine CHR ''a'' rule_rtp example_rtp = Inr (l @ [CHR 0x0A])"
    "\<And>session media m. parse_line l (session, media @ [m]) =
       bindE (pushed ''rtp'' (JObject (mk_obj ([(''payload'', JInt 111), (''codec'', JString ''opus''),
           (''rate'', JInt 48000)] @ [(''encoding'', JString ''2'')]))) m) (\<lambda>m'. Inr (session, media @ [m']))"
    using rtpmap_line_roundtrip [of example_rtp "JUint 111" 111 "JUint 48000" 48000 "''opus''"
        "[(''encoding'', JString ''2'')]" 2]
    by (auto simp: example_rtp_def)
  show ?thesis
    using l(1) l(2) [of "JObject []" "[]" "JObject []"] by (auto simp: pushed_def)
qed


definition example_candidate_entry :: json where
  "example_candidate_entry = JObject (mk_obj
     [(''component'', JInt 1), (''foundation'', JString ''udpcandidate''), (''ip'', JString ''192.0.2.1''),
      (''port'', JUint 44444), (''priority'', JUint 1076302079), (''transport'', JString ''tcp''),
      (''type'', JString ''host''), (''tcptype'', JString ''passive'')])"


text \<open>
  C34. The format of a candidate has no place holder for a missing generation, so the arguments
  after it shift: entries without a generation that differ only in their network id are printed as
  the same line.
\<close>

theorem candidate_network_id_lost:
  assumes "jfind o1 ''generation'' = None" "jfind o1 ''network-cost'' = None"
    and "hasValue o1 ''network-id''" "hasValue o2 ''network-id''"
    and "\<And>k. k \<noteq> ''network-id'' \<Longrightarrow> jfind o2 k = jfind o1 k"
  shows "makeLine CHR ''a'' rule_candidates o1 = makeLine CHR ''a'' rule_candidates o2"
proof -
  have h: "hasValue o2 k = hasValue o1 k" if "k \<noteq> ''network-id''" for k
    using assms(5) [OF that] by (simp add: hasValue_def)
  have g: "\<not> hasValue o1 ''generation''" "\<not> hasValue o1 ''network-cost''"
    using assms(1,2) by (simp_all add: hasValue_def)
  have a: "line_args rule_candidates x = map (\<lambda>k. case jfind x k of Some v \<Rightarrow> v | None \<Rightarrow> JString []) (g_names rule_candidates)" for x
    by (simp add: line_args_def line_arg_def rule_candidates_def)
  show ?thesis
    unfolding makeLine_def line_format_def a
    using assms h g
    by (cases "hasValue o1 ''raddr''"; cases "hasValue o1 ''tcptype''")
       (simp_all add: rule_candidates_def format_args.simps)
qed

theorem candidate_network_id_lost_witness:
  "makeLine CHR ''a'' rule_candidates (JObject [(''network-id'', JUint 1)]) =
   makeLine CHR ''a'' rule_candidates (JObject [(''network-id'', JUint 2)])"
  by (rule candidate_network_id_lost) (simp_all add: hasValue_def is_number_def)

end
