(* ===== verification/Sdp_Safety.thy ===== *)
theory Sdp_Safety
  imports Sdp_Parser
begin

text \<open>
  The parser on arbitrary text: no line makes it throw, and the members the rules of the grammar
  write keep their types, because no rule uses the key of another one in a different way.
\<close>

section \<open>Computations that only fail outside the model\<close>

definition safeE :: "'a result \<Rightarrow> ('a \<Rightarrow> bool) \<Rightarrow> bool" where
  "safeE r P = (case r of Inl e \<Rightarrow> e = Unmodelled | Inr x \<Rightarrow> P x)"

lemma safeE_simps [simp]: "safeE (Inr x) P = P x" "safeE (Inl e) P = (e = Unmodelled)"
  by (simp_all add: safeE_def)

lemma safeE_bind: "safeE m (\<lambda>x. safeE (f x) P) \<Longrightarrow> safeE (bindE m f) P"
  by (cases m) simp_all

lemma safeE_mono: "safeE m P \<Longrightarrow> (\<And>x. P x \<Longrightarrow> Q x) \<Longrightarrow> safeE m Q"
  by (cases m) simp_all

lemma safeE_toType: "safeE (toType s t) (\<lambda>_. True)"
  by (auto simp: toType_def read_double_def read_binary_def to_float_def Let_def intro!: safeE_bind split: option.splits strtod_value.splits if_splits)

section \<open>The members of a location\<close>

definition push_keys :: "string list" where
  "push_keys = [''bandwidth'', ''rtp'', ''fmtp'', ''rtcpFbTrrInt'', ''rtcpFb'', ''ext'', ''crypto'', ''candidates'',
     ''ssrcs'', ''ssrcGroups'', ''groups'', ''rids'', ''imageattrs'', ''invalid'']"

definition blank_keys :: "string list" where
  "blank_keys = [''origin'', ''connection'', ''timing'', ''rtcp'', ''fingerprint'', ''msidSemantic'', ''sctpmap'',
     ''simulcast'', ''simulcast_03'', ''sourceFilter'']"

text \<open>A rule writes an array, an object, or plain members that no other rule uses as such.\<close>

definition rule_ok :: "grammar_rule \<Rightarrow> bool" where
  "rule_ok r =
     (if g_push r \<noteq> [] then g_push r \<in> set push_keys \<and> g_name r = [] \<and> g_names r \<noteq> []
      else if g_name r \<noteq> [] \<and> g_names r \<noteq> [] then g_name r \<in> set blank_keys
      else \<forall>k\<in>set (g_name r # g_names r). k \<notin> set (push_keys @ blank_keys))"

definition location_ok :: "json \<Rightarrow> bool" where
  "location_ok j = obj_with (\<lambda>ps.
     (\<forall>k\<in>set push_keys. absent_or is_array (map_of ps k)) \<and> (\<forall>k\<in>set blank_keys. absent_or is_object (map_of ps k))) j"

lemma attribute_rules_ok: "list_all rule_ok attribute_rules"
  by code_simp

lemma session_rules_ok:
  "list_all rule_ok [rule_version, rule_origin, rule_name, rule_description, rule_uri, rule_email, rule_phone,
     rule_timezones, rule_repeats, rule_timing, rule_connection, rule_bandwidth, rule_media]"
  by code_simp

lemma table_rules_ok: "rulesMap c = Some rules \<Longrightarrow> \<forall>r\<in>set rules. rule_ok r"
proof -
  assume "rulesMap c = Some rules"
  then have "rules \<in> {[rule_version], [rule_origin], [rule_name], [rule_description], [rule_uri], [rule_email],
      [rule_phone], [rule_timezones], [rule_repeats], [rule_timing], [rule_connection], [rule_bandwidth], [rule_media],
      attribute_rules}"
    unfolding rulesMap_def by (drule_tac map_of_SomeD) (simp only: list.set insert_iff empty_iff prod.inject, blast)
  then show ?thesis
    using attribute_rules_ok session_rules_ok unfolding list_all_iff by (elim insertE emptyE) simp_all
qed

section \<open>Applying a rule\<close>

text \<open>Members not among the keys are kept.\<close>

definition keeps :: "string set \<Rightarrow> json \<Rightarrow> json \<Rightarrow> bool" where
  "keeps ks j j' = (\<exists>ps ps'. j = JObject ps \<and> j' = JObject ps' \<and>
     (\<forall>k. k \<notin> ks \<longrightarrow> map_of ps' k = map_of ps k) \<and> (\<forall>k. map_of ps k \<noteq> None \<longrightarrow> map_of ps' k \<noteq> None))"

lemma keeps_refl: "keeps ks (JObject ps) (JObject ps)"
  by (simp add: keeps_def)

lemma keeps_set: "keeps ks (JObject (obj_set k v ps)) j \<Longrightarrow> keeps (insert k ks) (JObject ps) j"
  by (auto simp: keeps_def)

lemma keeps_mono: "keeps ks j j' \<Longrightarrow> ks \<subseteq> ks' \<Longrightarrow> keeps ks' j j'"
  by (auto simp: keeps_def)

lemma safeE_attach_names:
  "safeE (attach_names m count i names types (JObject ps)) (keeps (set names) (JObject ps))"
proof (induction names arbitrary: i ps)
  case Nil
  then show ?case by (simp add: keeps_refl)
next
  case (Cons name names)
  have "safeE (attach_names m count (Suc i) names types (JObject (obj_set name v ps))) (keeps (set (name # names)) (JObject ps))" for v
    by (rule safeE_mono [OF Cons.IH]) (simp add: keeps_set)
  moreover have "safeE (attach_names m count (Suc i) names types (JObject ps)) (keeps (set (name # names)) (JObject ps))"
    by (rule safeE_mono [OF Cons.IH]) (erule keeps_mono, auto)
  ultimately show ?case
    by (auto intro!: safeE_bind safeE_mono [OF safeE_toType])
qed

text \<open>The location after a rule: well formed, and no member is lost.\<close>

definition grown :: "json \<Rightarrow> json \<Rightarrow> bool" where
  "grown j j' = (location_ok j' \<and> (\<forall>k. jfind j k \<noteq> None \<longrightarrow> jfind j' k \<noteq> None))"

lemma grown_refl: "location_ok j \<Longrightarrow> grown j j"
  by (simp add: grown_def)

lemma grown_trans: "grown a b \<Longrightarrow> grown b c \<Longrightarrow> grown a c"
  by (auto simp: grown_def)

lemma keys_disjoint: "set push_keys \<inter> set blank_keys = {}"
  by (simp add: push_keys_def blank_keys_def)

lemma location_ok_keeps:
  "location_ok (JObject ps) \<Longrightarrow> keeps ks (JObject ps) j \<Longrightarrow> ks \<inter> set (push_keys @ blank_keys) = {} \<Longrightarrow> grown (JObject ps) j"
  by (force simp: grown_def keeps_def location_ok_def)

lemma location_ok_push:
  "location_ok (JObject ps) \<Longrightarrow> k \<in> set push_keys \<Longrightarrow> grown (JObject ps) (JObject (obj_set k (JArray xs) ps))"
  using keys_disjoint by (auto simp: grown_def location_ok_def)

lemma location_ok_blank:
  "location_ok (JObject ps) \<Longrightarrow> k \<in> set blank_keys \<Longrightarrow> grown (JObject ps) (JObject (obj_set k (JObject xs) ps))"
  using keys_disjoint by (auto simp: grown_def location_ok_def)

lemma location_ok_member:
  "location_ok (JObject ps) \<Longrightarrow> k \<in> set push_keys \<Longrightarrow> map_of ps k = Some v \<Longrightarrow> \<exists>xs. v = JArray xs"
  "location_ok (JObject ps) \<Longrightarrow> k \<in> set blank_keys \<Longrightarrow> map_of ps k = Some v \<Longrightarrow> \<exists>o'. v = JObject o'"
  by (force simp: location_ok_def is_array_conv is_object_conv)+

text \<open>A missing member is created as an empty array or object.\<close>

lemma created_push:
  assumes "location_ok (JObject ps)" "k \<in> set push_keys"
  obtains qs xs where "(if map_of ps k = None then jput (JObject ps) k (JArray []) else ok (JObject ps)) = Inr (JObject qs)"
    "map_of qs k = Some (JArray xs)" "grown (JObject ps) (JObject qs)"
proof (cases "map_of ps k")
  case None
  then show ?thesis
    by (intro that [of "obj_set k (JArray []) ps" "[]"]) (simp_all add: location_ok_push [OF assms])
next
  case (Some v)
  then show ?thesis
    using location_ok_member(1) [OF assms Some] assms(1) by (auto intro!: that [of ps] grown_refl)
qed

lemma created_blank:
  assumes "location_ok (JObject ps)" "k \<in> set blank_keys"
  obtains qs o' where "(if map_of ps k = None then jput (JObject ps) k (JObject []) else ok (JObject ps)) = Inr (JObject qs)"
    "map_of qs k = Some (JObject o')" "grown (JObject ps) (JObject qs)"
proof (cases "map_of ps k")
  case None
  then show ?thesis
    by (intro that [of "obj_set k (JObject []) ps" "[]"]) (simp_all add: location_ok_blank [OF assms])
next
  case (Some v)
  then show ?thesis
    using location_ok_member(2) [OF assms Some] assms(1) by (auto intro!: that [of ps] grown_refl)
qed

lemma parseReg_created_push:
  assumes "g_push rule \<noteq> []" "g_name rule = []"
    and "(if map_of ps (g_push rule) = None then jput (JObject ps) (g_push rule) (JArray []) else ok (JObject ps)) = Inr l"
  shows "parseReg rule (JObject ps) m =
    bindE (attachProperties m (re_groups (g_reg rule) + 1) (JObject []) (g_names rule) (g_name rule) (g_types rule))
      (\<lambda>object. bindE (jref l (g_push rule)) (\<lambda>(arr, l'). bindE (jpush arr object) (\<lambda>arr'. jput l' (g_push rule) arr')))"
  using assms unfolding parseReg_def by (cases "map_of ps (g_push rule)") auto

lemma parseReg_created_blank:
  assumes "g_push rule = []" "g_name rule \<noteq> []" "g_names rule \<noteq> []"
    and "(if map_of ps (g_name rule) = None then jput (JObject ps) (g_name rule) (JObject []) else ok (JObject ps)) = Inr l"
  shows "parseReg rule (JObject ps) m = bindE (jref l (g_name rule)) (\<lambda>(x, l').
    bindE (attachProperties m (re_groups (g_reg rule) + 1) x (g_names rule) (g_name rule) (g_types rule))
      (\<lambda>x'. jput l' (g_name rule) x'))"
  using assms unfolding parseReg_def by (cases "map_of ps (g_name rule)") auto

lemma safeE_parseReg:
  assumes "rule_ok rule" "location_ok (JObject ps)"
  shows "safeE (parseReg rule (JObject ps) m) (grown (JObject ps))"
proof -
  let ?a = "\<lambda>l. attachProperties m (re_groups (g_reg rule) + 1) l (g_names rule) (g_name rule) (g_types rule)"
  consider (push) "g_push rule \<noteq> []" | (blank) "g_push rule = []" "g_name rule \<noteq> []" "g_names rule \<noteq> []"
    | (plain) "g_push rule = []" "\<not> (g_name rule \<noteq> [] \<and> g_names rule \<noteq> [])"
    by blast
  then show ?thesis
  proof cases
    case push
    then have k: "g_push rule \<in> set push_keys" "g_names rule \<noteq> []" "g_name rule = []"
      using assms(1) by (auto simp: rule_ok_def)
    obtain qs xs where q: "(if map_of ps (g_push rule) = None then jput (JObject ps) (g_push rule) (JArray []) else ok (JObject ps)) = Inr (JObject qs)"
      "map_of qs (g_push rule) = Some (JArray xs)" "grown (JObject ps) (JObject qs)"
      by (rule created_push [OF assms(2) k(1)])
    have "grown (JObject ps) (JObject (obj_set (g_push rule) (JArray ys) qs))" for ys
      using q(3) location_ok_push [OF _ k(1)] by (auto intro: grown_trans simp: grown_def)
    then have "safeE (bindE (?a (JObject [])) (\<lambda>object. bindE (jref (JObject qs) (g_push rule)) (\<lambda>(arr, l).
        bindE (jpush arr object) (\<lambda>arr'. jput l (g_push rule) arr')))) (grown (JObject ps))"
      using k(2) q(2) by (auto simp: attachProperties_def intro!: safeE_bind safeE_mono [OF safeE_attach_names])
    then show ?thesis
      unfolding parseReg_created_push [OF push k(3) q(1)] .
  next
    case blank
    then have k: "g_name rule \<in> set blank_keys"
      using assms(1) by (auto simp: rule_ok_def)
    obtain qs o' where q: "(if map_of ps (g_name rule) = None then jput (JObject ps) (g_name rule) (JObject []) else ok (JObject ps)) = Inr (JObject qs)"
      "map_of qs (g_name rule) = Some (JObject o')" "grown (JObject ps) (JObject qs)"
      by (rule created_blank [OF assms(2) k(1)])
    have "grown (JObject ps) (JObject (obj_set (g_name rule) (JObject ys) qs))" for ys
      using q(3) location_ok_blank [OF _ k(1)] by (auto intro: grown_trans simp: grown_def)
    then have "safeE (bindE (jref (JObject qs) (g_name rule)) (\<lambda>(l, l'). bindE (?a l) (\<lambda>x. jput l' (g_name rule) x))) (grown (JObject ps))"
      using blank q(2) by (auto simp: attachProperties_def keeps_def intro!: safeE_bind safeE_mono [OF safeE_attach_names])
    then show ?thesis
      unfolding parseReg_created_blank [OF blank q(1)] .
  next
    case plain
    then have k: "insert (g_name rule) (set (g_names rule)) \<inter> set (push_keys @ blank_keys) = {}"
      using assms(1) by (auto simp: rule_ok_def)
    have "safeE (?a (JObject ps)) (keeps (insert (g_name rule) (set (g_names rule))) (JObject ps))"
      unfolding attachProperties_def
      by (auto intro!: safeE_bind safeE_mono [OF safeE_toType] safeE_mono [OF safeE_attach_names] elim!: keeps_mono intro: keeps_set [OF keeps_refl])
    then have "safeE (?a (JObject ps)) (grown (JObject ps))"
      by (rule safeE_mono) (rule location_ok_keeps [OF assms(2) _ k])
    then show ?thesis
      using plain by (auto simp: parseReg_def)
  qed
qed

section \<open>The parser\<close>

lemma safeE_apply_rules:
  "\<forall>r\<in>set rules. rule_ok r \<Longrightarrow> location_ok (JObject ps) \<Longrightarrow> safeE (apply_rules rules content (JObject ps)) (grown (JObject ps))"
  by (induction rules) (auto simp: grown_refl intro!: safeE_parseReg split: option.splits)

definition media_ok :: "json \<Rightarrow> bool" where
  "media_ok m = (location_ok m \<and> found is_array (jfind m ''rtp'') \<and> found is_array (jfind m ''fmtp''))"

lemma grown_media_ok: "media_ok m \<Longrightarrow> grown m m' \<Longrightarrow> media_ok m'"
proof -
  assume a: "media_ok m" "grown m m'"
  have k: "''rtp'' \<in> set push_keys" "''fmtp'' \<in> set push_keys"
    by (simp_all add: push_keys_def)
  have m': "location_ok m'" "jfind m' ''rtp'' \<noteq> None" "jfind m' ''fmtp'' \<noteq> None"
    using a by (auto simp: grown_def media_ok_def found_conv)
  then obtain ps where ps: "m' = JObject ps"
    by (auto simp: location_ok_def obj_with_conv)
  show "media_ok m'"
    using m' location_ok_member(1) [of ps, OF _ k(1)] location_ok_member(1) [of ps, OF _ k(2)] unfolding ps
    by (fastforce simp: media_ok_def)
qed

lemma media_ok_new: "media_ok (JObject (mk_obj [(''rtp'', JArray []), (''fmtp'', JArray [])]))"
  by (simp add: media_ok_def location_ok_def push_keys_def blank_keys_def)

lemma location_okE: "location_ok j \<Longrightarrow> \<exists>ps. j = JObject ps"
  by (auto simp: location_ok_def obj_with_conv)

lemma safeE_parse_line:
  assumes "location_ok session" "\<forall>m\<in>set media. media_ok m"
  shows "safeE (parse_line l (session, media)) (\<lambda>(session', media'). location_ok session' \<and> (\<forall>m\<in>set media'. media_ok m))"
proof (cases "re_search ValidLineRegex (strip_cr l)")
  case None
  then show ?thesis
    using assms by (simp add: parse_line_def)
next
  case (Some x)
  define media1 where "media1 = (if hd (strip_cr l) = CHR ''m''
    then media @ [JObject (mk_obj [(''rtp'', JArray []), (''fmtp'', JArray [])])] else media)"
  have m1: "\<forall>m\<in>set media1. media_ok m"
    using assms(2) media_ok_new by (auto simp: media1_def)
  have eq: "parse_line l (session, media) =
    (case rulesMap (hd (strip_cr l)) of
       None \<Rightarrow> ok (session, media1)
     | Some rules \<Rightarrow>
         if media1 = [] then bindE (apply_rules rules (drop 2 (strip_cr l)) session) (\<lambda>session'. ok (session', media1))
         else bindE (apply_rules rules (drop 2 (strip_cr l)) (last media1)) (\<lambda>m. ok (session, butlast media1 @ [m])))"
    unfolding parse_line_def Let_def prod.case media1_def [symmetric] using Some by simp
  have "safeE (bindE (apply_rules rules c session) (\<lambda>session'. ok (session', media1)))
      (\<lambda>(session', media'). location_ok session' \<and> (\<forall>m\<in>set media'. media_ok m))"
    if "\<forall>r\<in>set rules. rule_ok r" for rules c
    using location_okE [OF assms(1)] assms(1) m1 that
    by (auto intro!: safeE_bind safeE_mono [OF safeE_apply_rules] simp: grown_def)
  moreover have "safeE (bindE (apply_rules rules c (last media1)) (\<lambda>m. ok (session, butlast media1 @ [m])))
      (\<lambda>(session', media'). location_ok session' \<and> (\<forall>m\<in>set media'. media_ok m))"
    if "\<forall>r\<in>set rules. rule_ok r" "media1 \<noteq> []" for rules c
  proof -
    have l: "media_ok (last media1)"
      using m1 that(2) by simp
    then obtain ps where ps: "last media1 = JObject ps" "location_ok (JObject ps)"
      using location_okE by (metis media_ok_def)
    show ?thesis
      using assms(1) m1 that(1) unfolding ps(1)
      by (auto intro!: safeE_bind safeE_mono [OF safeE_apply_rules [OF _ ps(2)]]
          intro: grown_media_ok [OF l [unfolded ps(1)]] dest!: in_set_butlastD)
  qed
  ultimately show ?thesis
    unfolding eq using assms(1) m1 table_rules_ok by (auto split: option.split)
qed

lemma safeE_parse_lines:
  "location_ok session \<Longrightarrow> \<forall>m\<in>set media. media_ok m \<Longrightarrow>
   safeE (parse_lines ls (session, media)) (\<lambda>(session', media'). location_ok session' \<and> (\<forall>m\<in>set media'. media_ok m))"
proof (induction ls arbitrary: session media)
  case (Cons l ls)
  then show ?case
    by (auto intro!: safeE_bind safeE_mono [OF safeE_parse_line])
qed simp

text \<open>
  C6. The parser accepts every text: it throws on no input (reading a non-finite or denormal frame
  rate is not modelled), and what it returns is an object with an array of media objects, each of
  which has the arrays of codecs and of codec parameters the callers index without a test.
\<close>

theorem parse_never_throws:
  "case sdp_parse sdp of
     Inl e \<Rightarrow> e = Unmodelled
   | Inr j \<Rightarrow> \<exists>ps media. j = JObject ps \<and> map_of ps ''media'' = Some (JArray media) \<and>
       (\<forall>m\<in>set media. found is_array (jfind m ''rtp'') \<and> found is_array (jfind m ''fmtp''))"
proof -
  have "location_ok (JObject [])"
    by (simp add: location_ok_def)
  from safeE_parse_lines [OF this, of "[]" "getlines CHR 0x0A sdp"]
  have "safeE (sdp_parse sdp) (\<lambda>j. \<exists>ps media. j = JObject ps \<and> map_of ps ''media'' = Some (JArray media) \<and>
       (\<forall>m\<in>set media. found is_array (jfind m ''rtp'') \<and> found is_array (jfind m ''fmtp'')))"
    unfolding sdp_parse_def
    by (auto intro!: safeE_bind elim!: safeE_mono simp: media_ok_def dest!: location_okE)
  then show ?thesis
    by (simp only: safeE_def)
qed

definition example_text :: string where
  "example_text = ''v=0'' @ [CHR 0x0D, CHR 0x0A] @ ''m=audio 7 RTP/AVP 0'' @ [CHR 0x0D, CHR 0x0A] @
     ''a=mid:0'' @ [CHR 0x0D, CHR 0x0A]"

theorem parse_never_throws_witness:
  "\<exists>ps m. sdp_parse example_text = Inr (JObject ps) \<and> map_of ps ''media'' = Some (JArray [m]) \<and>
     jfind m ''mid'' = Some (JString ''0'') \<and> found is_array (jfind m ''rtp'') \<and> found is_array (jfind m ''fmtp'')"
proof -
  have "case sdp_parse example_text of
      Inr j \<Rightarrow> (case jfind j ''media'' of Some (JArray [m]) \<Rightarrow> jfind m ''mid'' = Some (JString ''0'') | _ \<Rightarrow> False)
    | Inl _ \<Rightarrow> False"
    by code_simp
  then obtain j m where j: "sdp_parse example_text = Inr j" "jfind j ''media'' = Some (JArray [m])"
    "jfind m ''mid'' = Some (JString ''0'')"
    by (auto split: sum.splits option.splits json.splits list.splits)
  from parse_never_throws [of example_text] obtain ps media where
    "j = JObject ps" "map_of ps ''media'' = Some (JArray media)"
    "\<forall>m\<in>set media. found is_array (jfind m ''rtp'') \<and> found is_array (jfind m ''fmtp'')"
    unfolding j(1) by auto
  with j show ?thesis
    by simp
qed

end
