(* ===== verification/Sdp_Utils.thy ===== *)
theory Sdp_Utils
  imports Sdp_Parser Media_Section
begin

text \<open>
  What the handlers read from and write into parsed descriptions (\<open>src/sdp/Utils.cpp\<close>, with
  \<open>split\<close> and \<open>join\<close> of \<open>include/Utils.hpp\<close>): the local RTP capabilities and DTLS parameters, the
  encodings of a sending section, legacy simulcast and the codec parameters of an answer.
\<close>

section \<open>Containers and numbers\<close>

text \<open>Assignment to a key of a \<open>std::map\<close>, kept in key order.\<close>

fun kv_set :: "'k::linorder \<Rightarrow> 'v \<Rightarrow> ('k \<times> 'v) list \<Rightarrow> ('k \<times> 'v) list" where
  "kv_set k v [] = [(k, v)]"
| "kv_set k v ((k', v') # kvs) =
     (if k' < k then (k', v') # kv_set k v kvs
      else if k' = k then (k, v) # kvs
      else (k, v) # (k', v') # kvs)"

lemma map_of_kv_set [simp]: "map_of (kv_set k v kvs) k' = (if k' = k then Some v else map_of kvs k')"
  by (induction k v kvs rule: kv_set.induct) auto

definition split :: "string \<Rightarrow> char \<Rightarrow> string list" where
  "split s delimiter = getlines delimiter s"

fun join_u32 :: "32 word list \<Rightarrow> char \<Rightarrow> string" where
  "join_u32 [] delimiter = []"
| "join_u32 [v] delimiter = show_u32 v"
| "join_u32 (v # vs) delimiter = show_u32 v @ [delimiter] @ join_u32 vs delimiter"

text \<open>\<open>std::stoull\<close>: blanks, a sign and the leading digits; a minus sign negates modulo 2^64.\<close>

definition stoull :: "string \<Rightarrow> 64 word result" where
  "stoull str =
     (let (neg, r) = split_sign (dropWhile is_space str); ds = takeWhile is_digit r; v = dec_int ds in
      if ds = [] then throw (StdError ''invalid_argument'')
      else if v < 2 ^ 64 then ok (if neg then - word_of_int v else word_of_int v)
      else throw (StdError ''out_of_range''))"

text \<open>An element of a \<open>std::vector\<close>, undefined past the end.\<close>

definition vec_at :: "'a list \<Rightarrow> nat \<Rightarrow> 'a result" where
  "vec_at xs i = (if i < length xs then ok (xs ! i) else throw Undefined)"

text \<open>\<open>std::list::unique\<close>\<close>

fun list_unique :: "'a list \<Rightarrow> 'a list" where
  "list_unique (x # y # xs) = (if x = y then list_unique (x # xs) else x # list_unique (y # xs))"
| "list_unique xs = xs"

section \<open>RTP capabilities\<close>

definition rtp_codec :: "string \<Rightarrow> json \<Rightarrow> json result" where
  "rtp_codec kind rtp =
     bindE (jat rtp ''codec'') (\<lambda>c.
     bindE (get_string c) (\<lambda>name.
     bindE (jat rtp ''payload'') (\<lambda>payload.
     bindE (jat rtp ''rate'') (\<lambda>rate.
     let codec = mk_obj
          [(''kind'', JString kind), (''mimeType'', JString (kind @ ''/'' @ name)), (''preferredPayloadType'', payload),
           (''clockRate'', rate), (''parameters'', JObject []), (''rtcpFeedback'', JArray [])]
     in
     if kind = ''audio'' then
       bindE (case jfind rtp ''encoding'' of Some (JString e) \<Rightarrow> stoi e | _ \<Rightarrow> ok 1) (\<lambda>channels.
       ok (JObject (obj_set ''channels'' (JInt (word_of_int channels)) codec)))
     else ok (JObject codec)))))"

fun collect_codecs :: "string \<Rightarrow> json list \<Rightarrow> (8 word \<times> json) list \<Rightarrow> (8 word \<times> json) list result" where
  "collect_codecs kind [] codecsMap = ok codecsMap"
| "collect_codecs kind (rtp # rtps) codecsMap =
     bindE (rtp_codec kind rtp) (\<lambda>codec.
     bindE (jat codec ''preferredPayloadType'') (\<lambda>p.
     bindE (get_uint p) (\<lambda>pt. collect_codecs kind rtps (kv_set pt codec codecsMap))))"

fun collect_parameters :: "json list \<Rightarrow> (8 word \<times> json) list \<Rightarrow> (8 word \<times> json) list result" where
  "collect_parameters [] codecsMap = ok codecsMap"
| "collect_parameters (fmtp # fmtps) codecsMap =
     bindE (jat fmtp ''config'') (\<lambda>c.
     bindE (get_string c) (\<lambda>config.
     bindE (parseParams config) (\<lambda>parameters.
     bindE (jat fmtp ''payload'') (\<lambda>p.
     bindE (get_uint p) (\<lambda>pt.
     case map_of codecsMap pt of
       None \<Rightarrow> collect_parameters fmtps codecsMap
     | Some codec \<Rightarrow>
         bindE (case jfind parameters ''profile-id'' of
                  Some (JString s) \<Rightarrow> bindE (stoi s) (\<lambda>i. jput parameters ''profile-id'' (JInt (word_of_int i)))
                | _ \<Rightarrow> ok parameters) (\<lambda>parameters'.
         bindE (jput codec ''parameters'' parameters') (\<lambda>codec'.
         collect_parameters fmtps (kv_set pt codec' codecsMap))))))))"

fun collect_feedback :: "json list \<Rightarrow> (8 word \<times> json) list \<Rightarrow> (8 word \<times> json) list result" where
  "collect_feedback [] codecsMap = ok codecsMap"
| "collect_feedback (fb # fbs) codecsMap =
     bindE (jat fb ''payload'') (\<lambda>p.
     bindE (get_string p) (\<lambda>s.
     bindE (stoi s) (\<lambda>i.
     case map_of codecsMap (word_of_int i) of
       None \<Rightarrow> collect_feedback fbs codecsMap
     | Some codec \<Rightarrow>
         bindE (jat fb ''type'') (\<lambda>type.
         let feedback = (case jfind fb ''subtype'' of
                           Some s \<Rightarrow> mk_obj [(''type'', type), (''parameter'', s)]
                         | None \<Rightarrow> mk_obj [(''type'', type)])
         in
         bindE (jref codec ''rtcpFeedback'') (\<lambda>(arr, codec').
         bindE (jpush arr (JObject feedback)) (\<lambda>arr'.
         bindE (jput codec' ''rtcpFeedback'' arr') (\<lambda>codec''.
         collect_feedback fbs (kv_set (word_of_int i) codec'' codecsMap))))))))"

definition header_extension :: "string \<Rightarrow> json \<Rightarrow> json result" where
  "header_extension kind ext =
     bindE (jat ext ''uri'') (\<lambda>uri.
     bindE (jat ext ''value'') (\<lambda>value.
     ok (JObject (mk_obj [(''kind'', JString kind), (''uri'', uri), (''preferredId'', value)]))))"

definition collect_section ::
  "string \<Rightarrow> json \<Rightarrow> (8 word \<times> json) list \<times> json list \<Rightarrow> ((8 word \<times> json) list \<times> json list) result" where
  "collect_section kind m st =
     (let (codecsMap, headerExtensions) = st in
      bindE (jat m ''rtp'') (\<lambda>rtps.
      bindE (collect_codecs kind (jelems rtps) codecsMap) (\<lambda>codecsMap.
      bindE (jat m ''fmtp'') (\<lambda>fmtps.
      bindE (collect_parameters (jelems fmtps) codecsMap) (\<lambda>codecsMap.
      bindE (jat m ''rtcpFb'') (\<lambda>fbs.
      bindE (collect_feedback (jelems fbs) codecsMap) (\<lambda>codecsMap.
      bindE (jat m ''ext'') (\<lambda>exts.
      bindE (mapE (header_extension kind) (jelems exts)) (\<lambda>hs.
      ok (codecsMap, headerExtensions @ hs))))))))))"

text \<open>The first audio and the first video section count.\<close>

fun collect_media ::
  "json list \<Rightarrow> bool \<Rightarrow> bool \<Rightarrow> (8 word \<times> json) list \<times> json list \<Rightarrow> ((8 word \<times> json) list \<times> json list) result" where
  "collect_media [] gotAudio gotVideo st = ok st"
| "collect_media (m # ms) gotAudio gotVideo st =
     bindE (jat m ''type'') (\<lambda>t.
     bindE (get_string t) (\<lambda>kind.
     if kind = ''audio'' \<and> \<not> gotAudio then
       bindE (collect_section kind m st) (\<lambda>st'. collect_media ms True gotVideo st')
     else if kind = ''video'' \<and> \<not> gotVideo then
       bindE (collect_section kind m st) (\<lambda>st'. collect_media ms gotAudio True st')
     else collect_media ms gotAudio gotVideo st))"

definition extractRtpCapabilities :: "json \<Rightarrow> json result" where
  "extractRtpCapabilities sdpObject =
     bindE (jat sdpObject ''media'') (\<lambda>media.
     bindE (collect_media (jelems media) False False ([], [])) (\<lambda>(codecsMap, headerExtensions).
     ok (JObject (mk_obj
       [(''headerExtensions'', JArray headerExtensions), (''codecs'', JArray (map snd codecsMap)),
        (''fecMechanisms'', JArray [])]))))"

section \<open>DTLS parameters\<close>

fun find_transport_media :: "json list \<Rightarrow> json result" where
  "find_transport_media [] = ok JNull"
| "find_transport_media (media # ms) =
     (if jfind media ''iceUfrag'' = None then find_transport_media ms
      else
        bindE (jat media ''port'') (\<lambda>port.
        if json_eq port (JInt 0) then find_transport_media ms else ok media))"

definition dtls_role :: "string \<Rightarrow> string" where
  "dtls_role setup =
     (if setup = ''active'' then ''client''
      else if setup = ''passive'' then ''server''
      else if setup = ''actpass'' then ''auto''
      else [])"

definition extractDtlsParameters :: "json \<Rightarrow> json result" where
  "extractDtlsParameters sdpObject =
     bindE (jat sdpObject ''media'') (\<lambda>media.
     bindE (find_transport_media (jelems media)) (\<lambda>m.
     let fingerprint = (case jfind m ''fingerprint'' of
                          Some f \<Rightarrow> f
                        | None \<Rightarrow> (case jfind sdpObject ''fingerprint'' of Some f \<Rightarrow> f | None \<Rightarrow> JNull))
     in
     bindE (case jfind m ''setup'' of
              Some s \<Rightarrow> bindE (get_string s) (\<lambda>setup. ok (dtls_role setup))
            | None \<Rightarrow> ok []) (\<lambda>role.
     bindE (jref fingerprint ''type'') (\<lambda>(type, fingerprint').
     bindE (jref fingerprint' ''hash'') (\<lambda>(hash, _).
     ok (JObject (mk_obj
       [(''role'', JString role),
        (''fingerprints'', JArray [JObject (mk_obj [(''algorithm'', type), (''value'', hash)])])])))))))"

section \<open>Legacy simulcast\<close>

definition is_attribute :: "string \<Rightarrow> json \<Rightarrow> bool" where
  "is_attribute name line = (jfind line ''attribute'' = Some (JString name))"

text \<open>The RTX SSRC of the first group that starts with the SSRC, 0 when there is none.\<close>

fun find_rtx_ssrc :: "32 word \<Rightarrow> json list \<Rightarrow> 32 word result" where
  "find_rtx_ssrc firstSsrc [] = ok 0"
| "find_rtx_ssrc firstSsrc (line # ls) =
     (case (jfind line ''semantics'', jfind line ''ssrcs'') of
        (Some (JString _), Some (JString s)) \<Rightarrow>
          let v = split s CHR '' '' in
          bindE (vec_at v 0) (\<lambda>v0.
          bindE (stoull v0) (\<lambda>n.
          if n = ucast firstSsrc then
            bindE (vec_at v 1) (\<lambda>v1. bindE (stoull v1) (\<lambda>r. ok (ucast r)))
          else find_rtx_ssrc firstSsrc ls))
      | _ \<Rightarrow> find_rtx_ssrc firstSsrc ls)"

definition ssrc_line :: "32 word \<Rightarrow> string \<Rightarrow> string \<Rightarrow> json" where
  "ssrc_line ssrc attribute value =
     JObject (mk_obj [(''id'', JUint (ucast ssrc)), (''attribute'', JString attribute), (''value'', JString value)])"

definition ssrc_group :: "string \<Rightarrow> string \<Rightarrow> json" where
  "ssrc_group semantics ssrcs = JObject (mk_obj [(''semantics'', JString semantics), (''ssrcs'', JString ssrcs)])"

definition ssrc_pair :: "string \<Rightarrow> string \<Rightarrow> 32 word \<Rightarrow> json list" where
  "ssrc_pair cname msidValue ssrc = [ssrc_line ssrc ''cname'' cname, ssrc_line ssrc ''msid'' msidValue]"

text \<open>\<open>first + i\<close> for \<open>i = 0, ..., numStreams - 1\<close>, wrapping at 2^32.\<close>

definition stream_ssrcs :: "32 word \<Rightarrow> 8 word \<Rightarrow> 32 word list" where
  "stream_ssrcs first numStreams = map (\<lambda>i. first + of_nat i) [0..<unat numStreams]"

definition addLegacySimulcast :: "json \<Rightarrow> 8 word \<Rightarrow> json result" where
  "addLegacySimulcast offerMediaObject numStreams =
     (if numStreams \<le> 1 then ok offerMediaObject
      else
        bindE (jref offerMediaObject ''ssrcs'') (\<lambda>(mSsrcs, offer1).
        case find (is_attribute ''msid'') (jelems mSsrcs) of
          None \<Rightarrow> throw (ClientError ''a=ssrc line with msid information not found'')
        | Some msidLine \<Rightarrow>
            bindE (jref msidLine ''value'') (\<lambda>(value, msidLine').
            bindE (get_string value) (\<lambda>s.
            let v = split s CHR '' '' in
            bindE (vec_at v 0) (\<lambda>streamId.
            bindE (vec_at v 1) (\<lambda>trackId.
            bindE (jref msidLine' ''id'') (\<lambda>(i, _).
            bindE (get_uint i) (\<lambda>firstSsrc.
            bindE (case jfind offer1 ''ssrcGroups'' of
                     None \<Rightarrow> ok 0
                   | Some groups \<Rightarrow> find_rtx_ssrc firstSsrc (jelems groups)) (\<lambda>firstRtxSsrc.
            case find (\<lambda>line. is_attribute ''cname'' line \<and> found is_number (jfind line ''id'')) (jelems mSsrcs) of
              None \<Rightarrow> throw (ClientError ''CNAME line not found'')
            | Some cnameLine \<Rightarrow>
                bindE (jref cnameLine ''value'') (\<lambda>(c, _).
                bindE (get_string c) (\<lambda>cname.
                let ssrcs = stream_ssrcs firstSsrc numStreams;
                    rtxSsrcs = (if firstRtxSsrc \<noteq> 0 then stream_ssrcs firstRtxSsrc numStreams else []);
                    msidValue = streamId @ '' '' @ trackId
                in
                bindE (jput offer1 ''ssrcGroups'' (JArray
                         (ssrc_group ''SIM'' (join_u32 ssrcs CHR '' '') #
                          map (\<lambda>(ssrc, rtxSsrc). ssrc_group ''FID'' (show_u32 ssrc @ '' '' @ show_u32 rtxSsrc))
                            (zip ssrcs rtxSsrcs)))) (\<lambda>offer2.
                jput offer2 ''ssrcs'' (JArray (concat (map (ssrc_pair cname msidValue) (ssrcs @ rtxSsrcs))))))))))))))))"

section \<open>CNAME and encodings\<close>

definition getCname :: "json \<Rightarrow> string result" where
  "getCname offerMediaObject =
     (case jfind offerMediaObject ''ssrcs'' of
        None \<Rightarrow> ok []
      | Some mSsrcs \<Rightarrow>
          (case find (\<lambda>line. found is_string (jfind line ''attribute'')) (jelems mSsrcs) of
             None \<Rightarrow> ok []
           | Some line \<Rightarrow> bindE (jat line ''value'') get_string))"

definition line_ssrc :: "json \<Rightarrow> 32 word result" where
  "line_ssrc line = bindE (jat line ''id'') get_uint"

fun fid_groups ::
  "json list \<Rightarrow> 32 word list \<times> (32 word \<times> 32 word) list \<Rightarrow> (32 word list \<times> (32 word \<times> 32 word) list) result" where
  "fid_groups [] st = ok st"
| "fid_groups (line # ls) st =
     (let (ssrcs, ssrcToRtxSsrc) = st in
      bindE (jat line ''semantics'') (\<lambda>m.
      bindE (get_string m) (\<lambda>semantics.
      if semantics \<noteq> ''FID'' then fid_groups ls st
      else
        bindE (jat line ''ssrcs'') (\<lambda>f.
        bindE (get_string f) (\<lambda>fidLine.
        let v = split fidLine CHR '' '' in
        bindE (vec_at v 0) (\<lambda>v0.
        bindE (stoull v0) (\<lambda>ssrc.
        bindE (vec_at v 1) (\<lambda>v1.
        bindE (stoull v1) (\<lambda>rtxSsrc.
        fid_groups ls (removeAll (ucast rtxSsrc) ssrcs, kv_set (ucast ssrc) (ucast rtxSsrc) ssrcToRtxSsrc))))))))))"

definition encoding_object :: "(32 word \<times> 32 word) list \<Rightarrow> 32 word \<Rightarrow> json" where
  "encoding_object ssrcToRtxSsrc ssrc =
     JObject (case map_of ssrcToRtxSsrc ssrc of
       Some rtx \<Rightarrow> mk_obj [(''ssrc'', JUint (ucast ssrc)), (''rtx'', JObject (mk_obj [(''ssrc'', JUint (ucast rtx))]))]
     | None \<Rightarrow> mk_obj [(''ssrc'', JUint (ucast ssrc))])"

definition getRtpEncodings :: "json \<Rightarrow> json result" where
  "getRtpEncodings offerMediaObject =
     bindE (jat offerMediaObject ''ssrcs'') (\<lambda>lines.
     bindE (mapE line_ssrc (jelems lines)) (\<lambda>all.
     if all = [] then throw (ClientError ''no a=ssrc lines found'')
     else
       bindE (case jfind offerMediaObject ''ssrcGroups'' of
                None \<Rightarrow> ok (list_unique all, [])
              | Some groups \<Rightarrow> fid_groups (jelems groups) (list_unique all, [])) (\<lambda>(ssrcs, ssrcToRtxSsrc).
       ok (JArray (map (encoding_object ssrcToRtxSsrc) ssrcs)))))"

section \<open>Codec parameters of an answer\<close>

text \<open>As in a media section, but integers are printed as \<open>int\<close>.\<close>

definition show_config_value :: "json \<Rightarrow> string result" where
  "show_config_value v =
     (case v of
        JString s \<Rightarrow> ok s
      | JFloat r \<Rightarrow> bindE (to_float r) (\<lambda>f. ok (show_g6 f))
      | JInt _ \<Rightarrow> bindE (get_int32 v) (\<lambda>i. ok (show_int i))
      | JUint _ \<Rightarrow> bindE (get_int32 v) (\<lambda>i. ok (show_int i))
      | _ \<Rightarrow> ok [])"

fun config_string :: "string \<Rightarrow> (string \<times> json) list \<Rightarrow> string result" where
  "config_string config [] = ok config"
| "config_string config ((k, v) # items) =
     bindE (show_config_value v) (\<lambda>s.
     config_string ((if config = [] then [] else config @ '';'') @ k @ ''='' @ s) items)"

text \<open>The position of the first line with a payload type.\<close>

fun find_payload :: "json \<Rightarrow> json list \<Rightarrow> nat option result" where
  "find_payload codec [] = ok None"
| "find_payload codec (line # ls) =
     bindE (jat line ''payload'') (\<lambda>p.
     bindE (jat codec ''payloadType'') (\<lambda>pt.
     if json_eq p pt then ok (Some 0)
     else bindE (find_payload codec ls) (\<lambda>r. ok (map_option Suc r))))"

definition opus_config :: "json \<Rightarrow> json \<Rightarrow> json result" where
  "opus_config codec fmtp =
     bindE (jref fmtp ''config'') (\<lambda>(c, fmtp').
     bindE (get_string c) (\<lambda>config.
     bindE (parseParams config) (\<lambda>parameters.
     bindE (jat codec ''parameters'') (\<lambda>ps.
     bindE (case jfind ps ''sprop-stereo'' of
              Some (JBool b) \<Rightarrow> jput parameters ''stereo'' (JInt (if b then 1 else 0))
            | _ \<Rightarrow> ok parameters) (\<lambda>parameters'.
     bindE (config_string [] (jitems_all parameters')) (\<lambda>config'.
     jput fmtp' ''config'' (JString config')))))))"

definition apply_opus :: "json \<Rightarrow> json \<Rightarrow> json result" where
  "apply_opus codec answerMediaObject =
     bindE (jref answerMediaObject ''rtp'') (\<lambda>(rtps, answer1).
     bindE (find_payload codec (jelems rtps)) (\<lambda>r.
     if r = None then ok answer1
     else
       bindE (if jfind answer1 ''fmtp'' = None then jput answer1 ''fmtp'' (JArray []) else ok answer1) (\<lambda>answer2.
       bindE (jref answer2 ''fmtp'') (\<lambda>(fmtps, _).
       bindE (find_payload codec (jelems fmtps)) (\<lambda>f.
       bindE (case f of
                Some i \<Rightarrow> ok (i, fmtps)
              | None \<Rightarrow>
                  bindE (jat codec ''payloadType'') (\<lambda>pt.
                  bindE (jpush fmtps (JObject (mk_obj [(''payload'', pt), (''config'', JString [])]))) (\<lambda>fmtps'.
                  ok (jsize fmtps' - 1, fmtps')))) (\<lambda>(i, fmtps').
       bindE (opus_config codec (jelems fmtps' ! i)) (\<lambda>fmtp.
       jput answer2 ''fmtp'' (jrebuild fmtps' ((jelems fmtps')[i := fmtp])))))))))"

fun apply_codecs :: "json list \<Rightarrow> json \<Rightarrow> json result" where
  "apply_codecs [] answerMediaObject = ok answerMediaObject"
| "apply_codecs (codec # codecs) answerMediaObject =
     bindE (jat codec ''mimeType'') (\<lambda>m.
     bindE (get_string m) (\<lambda>mimeType.
     if to_lower mimeType \<noteq> ''audio/opus'' then apply_codecs codecs answerMediaObject
     else bindE (apply_opus codec answerMediaObject) (apply_codecs codecs)))"

definition applyCodecParameters :: "json \<Rightarrow> json \<Rightarrow> json result" where
  "applyCodecParameters offerRtpParameters answerMediaObject =
     bindE (jat offerRtpParameters ''codecs'') (\<lambda>codecs. apply_codecs (jelems codecs) answerMediaObject)"

end
