(* ===== verification/Sdp_Utils_Props.thy ===== *)
theory Sdp_Utils_Props
  imports Sdp_Utils Sdp_Params
begin

text \<open>
  Legacy simulcast and the reading of encodings: the lines the one writes are those the other
  expects.
\<close>

lemma stoull_show_nat: "n < 2 ^ 64 \<Longrightarrow> stoull (show_nat n) = Inr (word_of_nat n)"
proof -
  assume n: "n < 2 ^ 64"
  have i: "int n < 2 ^ 64"
    using n by (metis of_nat_less_numeral_power_cancel_iff)
  have d: "dropWhile is_space (show_nat n) = show_nat n"
    using word_show_nat [of n] by (cases "show_nat n") (auto simp: word_text_def)
  have t: "takeWhile is_digit (show_nat n) = show_nat n"
    using digits_all [of n] by (simp add: takeWhile_eq_all_conv)
  show ?thesis
    using i by (simp add: stoull_def d t split_sign_digits [OF digits_show_nat])
qed

lemma stoull_show_u32: "stoull (show_u32 w) = Inr (ucast w)"
proof -
  have "unat w < 2 ^ 64"
    using unsigned_less [of w, where 'a = nat] by simp
  then show ?thesis
    by (simp add: show_u32_def stoull_show_nat unsigned_ucast_eq)
qed

lemma blank_show_u32: "CHR '' '' \<notin> set (show_u32 w)"
  using digits_all [of "unat w"] by (auto simp: show_u32_def is_digit_def Let_def)

lemma split_pair: "split (show_u32 a @ '' '' @ show_u32 b) CHR '' '' = [show_u32 a, show_u32 b]"
proof -
  have "show_u32 w \<noteq> []" for w
    by (simp add: show_u32_def)
  then show ?thesis
    using blank_show_u32 by (simp add: split_def getlines_first getlines_piece)
qed

text \<open>The SSRCs of a section with two lines for each.\<close>

lemma ssrc_line_lookup [simp]:
  "line_ssrc (ssrc_line ssrc a v) = Inr ssrc"
  by (simp add: line_ssrc_def ssrc_line_def)

lemma line_ssrcs: "mapE line_ssrc (concat (map (ssrc_pair cname msid) ss)) = Inr (concat (map (\<lambda>s. [s, s]) ss))"
  by (induction ss) (simp_all add: ssrc_pair_def)

lemma list_unique_pairs: "distinct ss \<Longrightarrow> list_unique (concat (map (\<lambda>s. [s, s]) ss)) = ss"
proof (induction ss)
  case (Cons s ss)
  then show ?case
    by (cases ss) auto
qed simp

lemma fid_groups_pairs:
  "fid_groups (map (\<lambda>(ssrc, rtxSsrc). ssrc_group ''FID'' (show_u32 ssrc @ '' '' @ show_u32 rtxSsrc)) ps) (ssrcs, kvs) =
     Inr (filter (\<lambda>s. s \<notin> snd ` set ps) ssrcs, foldl (\<lambda>kvs (s, r). kv_set s r kvs) kvs ps)"
proof (induction ps arbitrary: ssrcs kvs)
  case (Cons p ps)
  obtain s r where p: "p = (s, r)"
    by (cases p)
  have "filter (\<lambda>x. x \<notin> snd ` set ps) (removeAll r ssrcs) = filter (\<lambda>x. x \<noteq> r \<and> x \<notin> snd ` set ps) ssrcs"
    by (induction ssrcs) auto
  then show ?case
    using Cons.IH [of "removeAll r ssrcs" "kv_set s r kvs"] split_pair [of s r]
    by (simp add: p ssrc_group_def vec_at_def stoull_show_u32)
qed simp

lemma map_of_foldl_kv_set:
  "distinct (map fst ps) \<Longrightarrow>
   map_of (foldl (\<lambda>kvs (s, r). kv_set s r kvs) kvs ps) k = (case map_of ps k of Some r \<Rightarrow> Some r | None \<Rightarrow> map_of kvs k)"
proof (induction ps arbitrary: kvs)
  case (Cons p ps)
  obtain s r where p: "p = (s, r)"
    by (cases p)
  then have "k = s \<Longrightarrow> map_of ps k = None"
    using Cons.prems by (simp add: map_of_eq_None_iff)
  then show ?case
    using Cons by (auto simp: p split: option.split)
qed simp

lemma stream_ssrcs_distinct: "distinct (stream_ssrcs s n)"
proof -
  have "inj_on (\<lambda>i. s + of_nat i) {0..<unat n}"
  proof (rule inj_onI)
    fix i j
    assume a: "i \<in> {0..<unat n}" "j \<in> {0..<unat n}" "s + word_of_nat i = s + word_of_nat j"
    then have "i < 2 ^ 32" "j < 2 ^ 32" "word_of_nat i = (word_of_nat j :: 32 word)"
      using unsigned_less [of n, where 'a = nat] by simp_all
    then show "i = j"
      by (simp add: word_of_nat_eq_iff take_bit_nat_eq_self)
  qed
  then show ?thesis
    by (simp add: stream_ssrcs_def distinct_map)
qed

text \<open>The encodings of consecutive streams.\<close>

definition stream_encodings :: "32 word \<Rightarrow> 32 word \<Rightarrow> 8 word \<Rightarrow> json list" where
  "stream_encodings ssrc rtxSsrc n =
     map (\<lambda>i. JObject (mk_obj ((''ssrc'', JUint (ucast (ssrc + of_nat i))) #
            (if rtxSsrc = 0 then []
             else [(''rtx'', JObject (mk_obj [(''ssrc'', JUint (ucast (rtxSsrc + of_nat i)))]))])))) [0..<unat n]"

definition simulcast_groups :: "32 word list \<Rightarrow> 32 word list \<Rightarrow> json list" where
  "simulcast_groups ssrcs rtxSsrcs =
     ssrc_group ''SIM'' (join_u32 ssrcs CHR '' '') #
     map (\<lambda>(ssrc, rtxSsrc). ssrc_group ''FID'' (show_u32 ssrc @ '' '' @ show_u32 rtxSsrc)) (zip ssrcs rtxSsrcs)"

lemma simulcast_encodings:
  assumes "jfind offer ''ssrcs'' = Some (JArray (concat (map (ssrc_pair cname msid) (ss @ rs))))"
    and "jfind offer ''ssrcGroups'' = Some (JArray (simulcast_groups ss rs))"
    and "distinct (ss @ rs)" "ss \<noteq> []" "rs = [] \<or> length rs = length ss"
  shows "getRtpEncodings offer = Inr (JArray (map (encoding_object (zip ss rs)) ss))"
proof -
  have l: "jat offer ''ssrcs'' = Inr (JArray (concat (map (ssrc_pair cname msid) (ss @ rs))))"
    using assms(1) by (cases offer) auto
  have u: "list_unique (concat (map (\<lambda>s. [s, s]) (ss @ rs))) = ss @ rs"
    by (rule list_unique_pairs [OF assms(3)])
  have r: "filter (\<lambda>s. s \<notin> snd ` set (zip ss rs)) (ss @ rs) = ss"
  proof -
    have "snd ` set (zip ss rs) = set rs"
      using assms(5) by (auto simp flip: set_map simp: map_snd_zip)
    then show ?thesis
      using assms(3) by (auto simp: filter_id_conv filter_empty_conv)
  qed
  have m: "encoding_object (foldl (\<lambda>kvs (s, r). kv_set s r kvs) [] (zip ss rs)) = encoding_object (zip ss rs)"
    using assms(3,5) map_of_foldl_kv_set [of "zip ss rs" "[]"]
    by (intro ext) (auto simp: encoding_object_def map_fst_zip split: option.splits)
  have g: "fid_groups (simulcast_groups ss rs) (ss @ rs, []) =
      Inr (ss, foldl (\<lambda>kvs (s, r). kv_set s r kvs) [] (zip ss rs))"
    using fid_groups_pairs [of "zip ss rs" "ss @ rs" "[]", unfolded r]
    by (simp add: simulcast_groups_def ssrc_group_def [of "''SIM''"])
  have n: "(concat (map (\<lambda>s. [s, s]) (ss @ rs)) = []) = False"
    using assms(4) by (cases ss) auto
  show ?thesis
    by (simp only: getRtpEncodings_def l bindE_simps jelems.simps line_ssrcs assms(2) option.case u g m n if_False prod.case)
qed

lemma encoding_streams:
  assumes "rs = (if rtx \<noteq> 0 then stream_ssrcs rtx n else [])"
  shows "map (encoding_object (zip (stream_ssrcs s n) rs)) (stream_ssrcs s n) = stream_encodings s rtx n"
proof (rule nth_equalityI)
  show "length (map (encoding_object (zip (stream_ssrcs s n) rs)) (stream_ssrcs s n)) = length (stream_encodings s rtx n)"
    by (simp add: stream_ssrcs_def stream_encodings_def)
next
  fix i
  assume "i < length (map (encoding_object (zip (stream_ssrcs s n) rs)) (stream_ssrcs s n))"
  then have i: "i < unat n"
    by (simp add: stream_ssrcs_def)
  have "map_of (zip (stream_ssrcs s n) (stream_ssrcs rtx n)) (stream_ssrcs s n ! i) = Some (stream_ssrcs rtx n ! i)"
    using i stream_ssrcs_distinct by (intro map_of_zip_nth) (simp_all add: stream_ssrcs_def)
  then show "map (encoding_object (zip (stream_ssrcs s n) rs)) (stream_ssrcs s n) ! i = stream_encodings s rtx n ! i"
    using i assms by (auto simp: stream_encodings_def encoding_object_def stream_ssrcs_def)
qed

text \<open>
  C13. Legacy simulcast and the reading of encodings agree: when the first msid line of a section
  has the given SSRC and the SSRC groups give the RTX SSRC (0 for none), adding simulcast for more
  than one stream and reading the encodings of the result gives one encoding per stream, with
  consecutive SSRCs modulo 2^32 and consecutive RTX SSRCs, if these do not meet the first.
\<close>

theorem legacy_simulcast_encodings:
  assumes "addLegacySimulcast offer numStreams = Inr offer'" "1 < numStreams"
    and "jfind offer ''ssrcs'' = Some lines" "find (is_attribute ''msid'') (jelems lines) = Some line"
    and "line_ssrc line = Inr ssrc"
    and "(case jfind offer ''ssrcGroups'' of None \<Rightarrow> Inr 0 | Some groups \<Rightarrow> find_rtx_ssrc ssrc (jelems groups)) = Inr rtxSsrc"
    and "rtxSsrc \<noteq> 0 \<longrightarrow> set (stream_ssrcs ssrc numStreams) \<inter> set (stream_ssrcs rtxSsrc numStreams) = {}"
  shows "getRtpEncodings offer' = Inr (JArray (stream_encodings ssrc rtxSsrc numStreams))"
proof -
  let ?ss = "stream_ssrcs ssrc numStreams"
  let ?rs = "if rtxSsrc \<noteq> 0 then stream_ssrcs rtxSsrc numStreams else []"
  obtain ps where o: "offer = JObject ps"
    using assms(3) by (cases offer) auto
  have l: "jref offer ''ssrcs'' = Inr (lines, offer)"
    using assms(3) by (simp add: o)
  obtain qs where q: "line = JObject qs" "jfind line ''id'' \<noteq> None"
    using assms(5) by (cases line) (auto simp: line_ssrc_def split: option.splits)
  then obtain i where i: "map_of qs ''id'' = Some i" "get_uint i = Inr ssrc"
    using assms(5) by (auto simp: line_ssrc_def)
  have "\<exists>cname msid. offer' = JObject (obj_set ''ssrcs'' (JArray (concat (map (ssrc_pair cname msid) (?ss @ ?rs))))
      (obj_set ''ssrcGroups'' (JArray (simulcast_groups ?ss ?rs)) ps))"
    using assms(1,2,4,6) i unfolding addLegacySimulcast_def l
    by (auto simp: q(1) o not_le simulcast_groups_def Let_def split: option.splits if_splits) (intro exI, rule refl)+
  then obtain cname msid where o': "jfind offer' ''ssrcs'' = Some (JArray (concat (map (ssrc_pair cname msid) (?ss @ ?rs))))"
    "jfind offer' ''ssrcGroups'' = Some (JArray (simulcast_groups ?ss ?rs))"
    by auto
  have "distinct (?ss @ ?rs)" "?ss \<noteq> []" "?rs = [] \<or> length ?rs = length ?ss"
    using assms(2,7) stream_ssrcs_distinct by (auto simp: stream_ssrcs_def word_less_nat_alt)
  from simulcast_encodings [OF o' this] show ?thesis
    by (simp add: encoding_streams)
qed

definition example_sending_section :: json where
  "example_sending_section = JObject (mk_obj
     [(''ssrcs'', JArray
         [ssrc_line 10 ''cname'' ''c'', ssrc_line 10 ''msid'' ''s t'', ssrc_line 20 ''cname'' ''c'', ssrc_line 20 ''msid'' ''s t'']),
      (''ssrcGroups'', JArray [ssrc_group ''FID'' ''10 20''])])"

theorem legacy_simulcast_encodings_witness:
  "\<exists>offer'. addLegacySimulcast example_sending_section 3 = Inr offer' \<and>
     getRtpEncodings offer' = Inr (JArray (stream_encodings 10 20 3))"
proof -
  have "case addLegacySimulcast example_sending_section 3 of Inr _ \<Rightarrow> True | Inl _ \<Rightarrow> False"
    by code_simp
  then obtain offer' where o: "addLegacySimulcast example_sending_section 3 = Inr offer'"
    by (auto split: sum.splits)
  have s: "jfind example_sending_section ''ssrcs'' = Some (JArray
         [ssrc_line 10 ''cname'' ''c'', ssrc_line 10 ''msid'' ''s t'', ssrc_line 20 ''cname'' ''c'', ssrc_line 20 ''msid'' ''s t''])"
    "find (is_attribute ''msid'') (jelems (JArray
         [ssrc_line 10 ''cname'' ''c'', ssrc_line 10 ''msid'' ''s t'', ssrc_line 20 ''cname'' ''c'', ssrc_line 20 ''msid'' ''s t''])) =
       Some (ssrc_line 10 ''msid'' ''s t'')"
    by (simp_all add: example_sending_section_def ssrc_line_def is_attribute_def)
  have g: "(case jfind example_sending_section ''ssrcGroups'' of None \<Rightarrow> Inr 0
      | Some groups \<Rightarrow> find_rtx_ssrc 10 (jelems groups)) = Inr 20"
    by code_simp
  have d: "set (stream_ssrcs 10 3) \<inter> set (stream_ssrcs 20 3) = {}"
    by code_simp
  have "getRtpEncodings offer' = Inr (JArray (stream_encodings 10 20 3))"
    using legacy_simulcast_encodings [OF o _ s ssrc_line_lookup g] d by simp
  with o show ?thesis
    by blast
qed

end
