(* ===== verification/Actions.thy ===== *)
theory Actions
  imports Prelude
begin

text \<open>
  Code that changes an object and may throw: a function from the state to a result and the state in
  which the return or the exception leaves the object, with the rules for what every run keeps and
  for the runs that return.
\<close>

type_synonym ('s, 'a) action = "'s \<Rightarrow> 'a result \<times> 's"

definition returnA :: "'a \<Rightarrow> ('s, 'a) action" where
  "returnA x = (\<lambda>s. (ok x, s))"

definition throwA :: "error \<Rightarrow> ('s, 'a) action" where
  "throwA e = (\<lambda>s. (throw e, s))"

text \<open>A computation that does not use the object.\<close>

definition liftA :: "'a result \<Rightarrow> ('s, 'a) action" where
  "liftA r = (\<lambda>s. (r, s))"

definition readA :: "('s \<Rightarrow> 'a) \<Rightarrow> ('s, 'a) action" where
  "readA f = (\<lambda>s. (ok (f s), s))"

definition modifyA :: "('s \<Rightarrow> 's) \<Rightarrow> ('s, unit) action" where
  "modifyA f = (\<lambda>s. (ok (), f s))"

definition bindA :: "('s, 'a) action \<Rightarrow> ('a \<Rightarrow> ('s, 'b) action) \<Rightarrow> ('s, 'b) action" where
  "bindA m f = (\<lambda>s. case m s of (Inl e, s') \<Rightarrow> (Inl e, s') | (Inr x, s') \<Rightarrow> f x s')"

definition thenA :: "('s, 'a) action \<Rightarrow> ('s, 'b) action \<Rightarrow> ('s, 'b) action" where
  "thenA m n = bindA m (\<lambda>_. n)"

text \<open>\<open>try { m } catch (std::exception&) { h; throw; }\<close>\<close>

definition rethrowA :: "('s, 'a) action \<Rightarrow> ('s \<Rightarrow> 's) \<Rightarrow> ('s, 'a) action" where
  "rethrowA m h = (\<lambda>s. case m s of (Inl e, s') \<Rightarrow> (Inl e, h s') | (Inr x, s') \<Rightarrow> (Inr x, s'))"

text \<open>\<open>if (!cond) m;\<close> for a condition on the object.\<close>

definition unlessA :: "('s \<Rightarrow> bool) \<Rightarrow> ('s, unit) action \<Rightarrow> ('s, unit) action" where
  "unlessA b m = (\<lambda>s. if b s then (ok (), s) else m s)"

text \<open>An action on a part of the state.\<close>

definition zoomA :: "('s \<Rightarrow> 't) \<Rightarrow> ('t \<Rightarrow> 's \<Rightarrow> 's) \<Rightarrow> ('t, 'a) action \<Rightarrow> ('s, 'a) action" where
  "zoomA get put m = (\<lambda>s. case m (get s) of (r, t) \<Rightarrow> (r, put t s))"

section \<open>Evaluation\<close>

named_theorems action_simps \<open>evaluation of actions\<close>

lemma basic_actions [simp, action_simps]:
  "returnA x s = (Inr x, s)" "throwA e s = (Inl e, s)" "liftA r s = (r, s)" "readA f s = (Inr (f s), s)"
  "modifyA g s = (Inr (), g s)"
  by (simp_all add: returnA_def throwA_def liftA_def readA_def modifyA_def)

lemma bindA_eq:
  "m s = (Inl e, s') \<Longrightarrow> bindA m f s = (Inl e, s')"
  "m s = (Inr x, s') \<Longrightarrow> bindA m f s = f x s'"
  by (simp_all add: bindA_def)

lemma bindA_simps [simp, action_simps]:
  "bindA (returnA x) f = f x" "bindA (throwA e) f = throwA e" "bindA (liftA (Inr x)) f = f x"
  "bindA (liftA (Inl e)) f = throwA e" "bindA (readA g) f s = f (g s) s" "bindA (modifyA h) f' s = f' () (h s)"
  by (simp_all add: bindA_def fun_eq_iff)

lemma thenA_simps [simp, action_simps]: "thenA (modifyA h) n s = n (h s)" "thenA (throwA e) n = throwA e"
  by (simp_all add: thenA_def)

lemma bindA_Inr_conv:
  "bindA m f s = (Inr y, s') \<longleftrightarrow> (\<exists>x s1. m s = (Inr x, s1) \<and> f x s1 = (Inr y, s'))"
  by (auto simp: bindA_def split: prod.splits sum.splits)

lemma bindA_InrE [elim!]:
  assumes "bindA m f s = (Inr y, s')"
  obtains x s1 where "m s = (Inr x, s1)" "f x s1 = (Inr y, s')"
  using assms by (auto simp: bindA_Inr_conv)

lemma thenA_InrE [elim!]:
  assumes "thenA m n s = (Inr y, s')"
  obtains x s1 where "m s = (Inr x, s1)" "n s1 = (Inr y, s')"
  using assms by (auto simp: thenA_def)

section \<open>What every run keeps\<close>

text \<open>A property of the state that every run keeps, also one that ends in an exception.\<close>

definition keeps :: "('s \<Rightarrow> bool) \<Rightarrow> ('s, 'a) action \<Rightarrow> bool" where
  "keeps I m = (\<forall>s. I s \<longrightarrow> I (snd (m s)))"

named_theorems keeps_intros \<open>what composed actions keep\<close>

lemma keepsD: "keeps I m \<Longrightarrow> I s \<Longrightarrow> I (snd (m s))"
  by (simp add: keeps_def)

lemma keeps_pure [keeps_intros, simp]:
  "keeps I (returnA x)" "keeps I (throwA e)" "keeps I (liftA r)" "keeps I (readA f)"
  by (simp_all add: keeps_def)

lemma keeps_modify [keeps_intros]: "(\<And>s. I s \<Longrightarrow> I (f s)) \<Longrightarrow> keeps I (modifyA f)"
  by (simp add: keeps_def)

lemma keeps_bind [keeps_intros]: "keeps I m \<Longrightarrow> (\<And>x. keeps I (f x)) \<Longrightarrow> keeps I (bindA m f)"
  by (fastforce simp: keeps_def bindA_def split: prod.splits sum.splits)

lemma keeps_then [keeps_intros]: "keeps I m \<Longrightarrow> keeps I n \<Longrightarrow> keeps I (thenA m n)"
  by (simp add: thenA_def keeps_bind)

lemma keeps_rethrow [keeps_intros]: "keeps I m \<Longrightarrow> (\<And>s. I s \<Longrightarrow> I (h s)) \<Longrightarrow> keeps I (rethrowA m h)"
  by (fastforce simp: keeps_def rethrowA_def split: prod.splits sum.splits)

lemma keeps_if [keeps_intros]: "keeps I m \<Longrightarrow> keeps I n \<Longrightarrow> keeps I (if b then m else n)"
  by simp

lemma keeps_unless [keeps_intros]:
  "(\<And>s. I s \<Longrightarrow> \<not> b s \<Longrightarrow> I (snd (m s))) \<Longrightarrow> keeps I (unlessA b m)"
  by (simp add: keeps_def unlessA_def)

lemma keeps_zoom [keeps_intros]:
  "(\<And>s t. I s \<Longrightarrow> I (put t s)) \<Longrightarrow> keeps I (zoomA get put m)"
  by (simp add: keeps_def zoomA_def split: prod.splits)

text \<open>Runs that return, with what holds then.\<close>

definition okA :: "('s, 'a) action \<Rightarrow> 's \<Rightarrow> ('a \<Rightarrow> 's \<Rightarrow> bool) \<Rightarrow> bool" where
  "okA m s Q = (case m s of (Inr x, s') \<Rightarrow> Q x s' | (Inl _, _) \<Rightarrow> False)"

lemma okA_conv: "okA m s Q \<longleftrightarrow> (\<exists>x s'. m s = (Inr x, s') \<and> Q x s')"
  by (auto simp: okA_def split: prod.splits sum.splits)

end
