(* ===== verification/Peer_Connection.thy ===== *)
theory Peer_Connection
  imports Actions Json
begin

text \<open>
  The wrapper of the WebRTC peer connection (\<open>src/PeerConnection.cpp\<close>). WebRTC itself is a
  parameter: a record of the functions of its interface that the wrapper and the handlers call, on
  a state of the caller's choice that stands for everything behind the interface. A call that ends
  in an observer's callback is a function that returns what the callback is given; the wrapper waits
  for it on a future. Transceivers, tracks and data channels are handles.
\<close>

section \<open>Data of the interface\<close>

type_synonym handle = nat

text \<open>The members of \<open>webrtc::RtpEncodingParameters\<close> the code uses.\<close>

record rtp_encoding =
  e_active :: bool
  e_rid :: string
  e_max_bitrate_bps :: "32 word option"
  e_max_framerate :: "rat option"
  e_scale_resolution_down_by :: "rat option"
  e_scalability_mode :: "string option"
  e_network_priority :: nat

datatype direction = SendOnly | Inactive

record transceiver_init =
  ti_direction :: direction
  ti_send_encodings :: "rtp_encoding list"
  ti_stream_ids :: "string list"

record data_channel_init =
  dc_ordered :: bool
  dc_maxRetransmitTime :: "32 word option"
  dc_maxRetransmits :: "32 word option"
  dc_protocol :: string
  dc_negotiated :: bool
  dc_id :: "32 word"

datatype sdp_type = OFFER | PRANSWER | ANSWER

fun sdpType2String :: "sdp_type \<Rightarrow> string" where
  "sdpType2String OFFER = ''offer''"
| "sdpType2String PRANSWER = ''pranswer''"
| "sdpType2String ANSWER = ''answer''"

datatype stats_selector = AllStats | SenderStats handle | ReceiverStats handle

text \<open>
  The interface. \<open>Inl\<close> of a message and \<open>Some\<close> of a message are failures; a missing handle is a null
  pointer. The text of a statistics report is given as its JSON value, \<open>None\<close> when it is empty.
\<close>

record 'w webrtc =
  wr_CreateOffer :: "bool \<Rightarrow> 'w \<Rightarrow> (string + string) \<times> 'w"
  wr_CreateAnswer :: "'w \<Rightarrow> (string + string) \<times> 'w"
  wr_CreateSessionDescription :: "string \<Rightarrow> string \<Rightarrow> string option"
  wr_SetLocalDescription :: "string \<Rightarrow> string \<Rightarrow> 'w \<Rightarrow> string option \<times> 'w"
  wr_SetRemoteDescription :: "string \<Rightarrow> string \<Rightarrow> 'w \<Rightarrow> string option \<times> 'w"
  wr_local_description :: "'w \<Rightarrow> string option"
  wr_GetTransceivers :: "'w \<Rightarrow> handle list"
  wr_AddTransceiver_kind :: "string \<Rightarrow> 'w \<Rightarrow> handle option \<times> 'w"
  wr_AddTransceiver :: "handle \<Rightarrow> transceiver_init \<Rightarrow> 'w \<Rightarrow> handle option \<times> 'w"
  wr_RemoveTrack :: "handle \<Rightarrow> 'w \<Rightarrow> bool \<times> 'w"
  wr_GetStats :: "stats_selector \<Rightarrow> 'w \<Rightarrow> json option \<times> 'w"
  wr_CreateDataChannel :: "string \<Rightarrow> data_channel_init \<Rightarrow> 'w \<Rightarrow> handle option \<times> 'w"
  wr_SetServers :: "string list \<Rightarrow> 'w \<Rightarrow> bool \<times> 'w"
  wr_Close :: "'w \<Rightarrow> 'w"
  wr_mid :: "handle \<Rightarrow> 'w \<Rightarrow> string option"
  wr_SetDirection :: "handle \<Rightarrow> direction \<Rightarrow> 'w \<Rightarrow> 'w"
  wr_SetTrack :: "handle \<Rightarrow> handle option \<Rightarrow> 'w \<Rightarrow> bool \<times> 'w"
  wr_GetParameters :: "handle \<Rightarrow> 'w \<Rightarrow> rtp_encoding list"
  wr_SetParameters :: "handle \<Rightarrow> rtp_encoding list \<Rightarrow> 'w \<Rightarrow> string option \<times> 'w"
  wr_receiver_track :: "handle \<Rightarrow> 'w \<Rightarrow> handle"
  wr_track_kind :: "handle \<Rightarrow> 'w \<Rightarrow> string"
  wr_track_ended :: "handle \<Rightarrow> 'w \<Rightarrow> bool"
  wr_track_enabled :: "handle \<Rightarrow> 'w \<Rightarrow> bool"
  wr_set_enabled :: "handle \<Rightarrow> bool \<Rightarrow> 'w \<Rightarrow> 'w"
  wr_RegisterObserver :: "handle \<Rightarrow> 'w \<Rightarrow> 'w"
  wr_dc_Close :: "handle \<Rightarrow> 'w \<Rightarrow> 'w"
  wr_dc_Send :: "handle \<Rightarrow> string \<Rightarrow> 'w \<Rightarrow> bool \<times> 'w"

text \<open>One call of the interface, as a step of the state behind it.\<close>

inductive wr_step :: "'w webrtc \<Rightarrow> 'w \<Rightarrow> 'w \<Rightarrow> bool" for wr where
  CreateOffer: "wr_step wr w (snd (wr_CreateOffer wr r w))"
| CreateAnswer: "wr_step wr w (snd (wr_CreateAnswer wr w))"
| SetLocalDescription: "wr_step wr w (snd (wr_SetLocalDescription wr type sdp w))"
| SetRemoteDescription: "wr_step wr w (snd (wr_SetRemoteDescription wr type sdp w))"
| AddTransceiver_kind: "wr_step wr w (snd (wr_AddTransceiver_kind wr kind w))"
| AddTransceiver: "wr_step wr w (snd (wr_AddTransceiver wr track init w))"
| RemoveTrack: "wr_step wr w (snd (wr_RemoveTrack wr t w))"
| GetStats: "wr_step wr w (snd (wr_GetStats wr sel w))"
| CreateDataChannel: "wr_step wr w (snd (wr_CreateDataChannel wr label config w))"
| SetServers: "wr_step wr w (snd (wr_SetServers wr servers w))"
| Close: "wr_step wr w (wr_Close wr w)"
| SetDirection: "wr_step wr w (wr_SetDirection wr t d w)"
| SetTrack: "wr_step wr w (snd (wr_SetTrack wr t track' w))"
| SetParameters: "wr_step wr w (snd (wr_SetParameters wr t es w))"
| set_enabled: "wr_step wr w (wr_set_enabled wr t b w)"
| RegisterObserver: "wr_step wr w (wr_RegisterObserver wr dc w)"
| dc_Close: "wr_step wr w (wr_dc_Close wr dc w)"
| dc_Send: "wr_step wr w (snd (wr_dc_Send wr dc buffer w))"

section \<open>The wrapper\<close>

text \<open>The future of a creation: the description, or the exception with the observer's message.\<close>

definition created :: "((string + string) \<times> 'w) \<Rightarrow> string result \<times> 'w" where
  "created r = (case r of (Inl msg, w) \<Rightarrow> (throw (ClientError msg), w) | (Inr sdp, w) \<Rightarrow> (ok sdp, w))"

definition CreateOffer :: "'w webrtc \<Rightarrow> bool \<Rightarrow> ('w, string) action" where
  "CreateOffer wr ice_restart = (\<lambda>w. created (wr_CreateOffer wr ice_restart w))"

definition CreateAnswer :: "'w webrtc \<Rightarrow> ('w, string) action" where
  "CreateAnswer wr = (\<lambda>w. created (wr_CreateAnswer wr w))"

definition applied :: "string option \<times> 'w \<Rightarrow> unit result \<times> 'w" where
  "applied r = (case r of (Some msg, w) \<Rightarrow> (throw (ClientError msg), w) | (None, w) \<Rightarrow> (ok (), w))"

definition SetLocalDescription :: "'w webrtc \<Rightarrow> sdp_type \<Rightarrow> string \<Rightarrow> ('w, unit) action" where
  "SetLocalDescription wr type sdp =
     (case wr_CreateSessionDescription wr (sdpType2String type) sdp of
        Some description \<Rightarrow> throwA (ClientError description)
      | None \<Rightarrow> (\<lambda>w. applied (wr_SetLocalDescription wr (sdpType2String type) sdp w)))"

definition SetRemoteDescription :: "'w webrtc \<Rightarrow> sdp_type \<Rightarrow> string \<Rightarrow> ('w, unit) action" where
  "SetRemoteDescription wr type sdp =
     (case wr_CreateSessionDescription wr (sdpType2String type) sdp of
        Some description \<Rightarrow> throwA (ClientError description)
      | None \<Rightarrow> (\<lambda>w. applied (wr_SetRemoteDescription wr (sdpType2String type) sdp w)))"

text \<open>A missing description is a null pointer.\<close>

definition GetLocalDescription :: "'w webrtc \<Rightarrow> ('w, string) action" where
  "GetLocalDescription wr =
     (\<lambda>w. (case wr_local_description wr w of Some sdp \<Rightarrow> ok sdp | None \<Rightarrow> throw Undefined, w))"

definition AddTransceiver_kind :: "'w webrtc \<Rightarrow> string \<Rightarrow> ('w, handle option) action" where
  "AddTransceiver_kind wr kind = (\<lambda>w. case wr_AddTransceiver_kind wr kind w of (t, w') \<Rightarrow> (ok t, w'))"

definition AddTransceiver :: "'w webrtc \<Rightarrow> handle \<Rightarrow> transceiver_init \<Rightarrow> ('w, handle option) action" where
  "AddTransceiver wr track init =
     (\<lambda>w. case wr_AddTransceiver wr track (init\<lparr> ti_stream_ids := ti_stream_ids init @ [''0''] \<rparr>) w of
            (t, w') \<Rightarrow> (ok t, w'))"

definition RemoveTrack :: "'w webrtc \<Rightarrow> handle \<Rightarrow> ('w, bool) action" where
  "RemoveTrack wr sender = (\<lambda>w. case wr_RemoveTrack wr sender w of (b, w') \<Rightarrow> (ok b, w'))"

definition GetStats :: "'w webrtc \<Rightarrow> stats_selector \<Rightarrow> ('w, json) action" where
  "GetStats wr selector =
     (\<lambda>w. case wr_GetStats wr selector w of
            (None, w') \<Rightarrow> (ok (JArray []), w')
          | (Some j, w') \<Rightarrow> (ok j, w'))"

definition CreateDataChannel :: "'w webrtc \<Rightarrow> string \<Rightarrow> data_channel_init \<Rightarrow> ('w, handle) action" where
  "CreateDataChannel wr label config =
     (\<lambda>w. case wr_CreateDataChannel wr label config w of
            (Some dc, w') \<Rightarrow> (ok dc, w')
          | (None, w') \<Rightarrow> (throw (ClientError ''Failed creating data channel''), w'))"

definition SetConfiguration :: "'w webrtc \<Rightarrow> string list \<Rightarrow> ('w, bool) action" where
  "SetConfiguration wr servers = (\<lambda>w. case wr_SetServers wr servers w of (b, w') \<Rightarrow> (ok b, w'))"

text \<open>\<open>transceiver->mid().value()\<close>\<close>

definition mid_value :: "'w webrtc \<Rightarrow> handle \<Rightarrow> ('w, string) action" where
  "mid_value wr t =
     (\<lambda>w. (case wr_mid wr t w of Some m \<Rightarrow> ok m | None \<Rightarrow> throw (StdError ''bad_optional_access''), w))"

section \<open>What the wrapper keeps\<close>

text \<open>A property of the outside that no call of the interface changes is kept by every operation.\<close>

definition stable :: "'w webrtc \<Rightarrow> ('w \<Rightarrow> bool) \<Rightarrow> bool" where
  "stable wr P = (\<forall>w w'. wr_step wr w w' \<longrightarrow> P w \<longrightarrow> P w')"

lemma stableD: "stable wr P \<Longrightarrow> wr_step wr w w' \<Longrightarrow> P w \<Longrightarrow> P w'"
  by (auto simp: stable_def)

lemma snd_created [simp]: "snd (created r) = snd r"
  by (auto simp: created_def split: prod.splits sum.splits)

lemma snd_applied [simp]: "snd (applied r) = snd r"
  by (auto simp: applied_def split: prod.splits option.splits)

lemma wrapper_state:
  "snd (CreateOffer wr r w) = snd (wr_CreateOffer wr r w)" "snd (CreateAnswer wr w) = snd (wr_CreateAnswer wr w)"
  "snd (GetLocalDescription wr w) = w" "snd (AddTransceiver_kind wr kind w) = snd (wr_AddTransceiver_kind wr kind w)"
  "snd (RemoveTrack wr t w) = snd (wr_RemoveTrack wr t w)" "snd (GetStats wr sel w) = snd (wr_GetStats wr sel w)"
  "snd (CreateDataChannel wr label config w) = snd (wr_CreateDataChannel wr label config w)"
  "snd (SetConfiguration wr servers w) = snd (wr_SetServers wr servers w)" "snd (mid_value wr t w) = w"
  "snd (AddTransceiver wr track init w) =
     snd (wr_AddTransceiver wr track (init\<lparr> ti_stream_ids := ti_stream_ids init @ [''0''] \<rparr>) w)"
  by (simp_all add: CreateOffer_def CreateAnswer_def GetLocalDescription_def AddTransceiver_kind_def AddTransceiver_def
      RemoveTrack_def GetStats_def CreateDataChannel_def SetConfiguration_def mid_value_def split: option.splits prod.splits)

lemma description_state:
  "snd (SetLocalDescription wr type sdp w) \<in> {w, snd (wr_SetLocalDescription wr (sdpType2String type) sdp w)}"
  "snd (SetRemoteDescription wr type sdp w) \<in> {w, snd (wr_SetRemoteDescription wr (sdpType2String type) sdp w)}"
  by (simp_all add: SetLocalDescription_def SetRemoteDescription_def split: option.splits)

named_theorems pc_keeps \<open>the operations of the peer connection keep stable properties\<close>

lemma wrapper_keeps [pc_keeps]:
  assumes "stable wr P"
  shows "keeps P (CreateOffer wr r)" "keeps P (CreateAnswer wr)" "keeps P (SetLocalDescription wr type sdp)"
    "keeps P (SetRemoteDescription wr type sdp)" "keeps P (GetLocalDescription wr)" "keeps P (AddTransceiver_kind wr kind)"
    "keeps P (AddTransceiver wr track init)" "keeps P (RemoveTrack wr t)" "keeps P (GetStats wr sel)"
    "keeps P (CreateDataChannel wr label config)" "keeps P (SetConfiguration wr servers)" "keeps P (mid_value wr t)"
  using description_state [of wr type sdp]
  by (auto simp: keeps_def wrapper_state intro: stableD [OF assms] wr_step.intros elim!: insertE) (metis assms insertE singletonD stableD wr_step.intros(3,4))+

end
