(* ===== verification/Scalability_Mode.thy ===== *)
theory Scalability_Mode
  imports Regex Numbers Json
begin

text \<open>The scalability mode of an encoding (\<open>src/scalabilityMode.cpp\<close>).\<close>

definition re_layers :: re where
  "re_layers = Seq (Sym (\<lambda>c. is_digit c \<and> c \<noteq> CHR ''0'')) (Opt (Sym is_digit))"

definition ScalabilityModeRegex :: re where
  "ScalabilityModeRegex = seqs
     [Bol, Sym (\<lambda>c. c = CHR ''L'' \<or> c = CHR ''S''), Cap 1 re_layers, Lit ''T'', Cap 2 re_layers, Star (Sym is_any)]"

text \<open>\<open>std::stoul\<close> of a captured group, which is a non-empty string of at most two digits.\<close>

definition stoul_digits :: "string \<Rightarrow> 64 word" where
  "stoul_digits ds = of_nat (dec_val ds)"

definition parseScalabilityMode :: "string \<Rightarrow> json" where
  "parseScalabilityMode scalabilityMode =
     (case re_match ScalabilityModeRegex scalabilityMode of
        None \<Rightarrow> JObject (mk_obj [(''spatialLayers'', JInt 1), (''temporalLayers'', JInt 1)])
      | Some m \<Rightarrow> JObject (mk_obj
          [(''spatialLayers'', JUint (stoul_digits (re_group m 1))),
           (''temporalLayers'', JUint (stoul_digits (re_group m 2)))]))"

section \<open>A direct reader\<close>

text \<open>One or two digits without a leading zero, as many as there are.\<close>

fun read_layers :: "string \<Rightarrow> (string \<times> string) option" where
  "read_layers (x # y # s) =
     (if is_digit x \<and> x \<noteq> CHR ''0'' then if is_digit y then Some ([x, y], s) else Some ([x], y # s) else None)"
| "read_layers [x] = (if is_digit x \<and> x \<noteq> CHR ''0'' then Some ([x], []) else None)"
| "read_layers [] = None"

definition read_mode :: "string \<Rightarrow> (nat \<times> nat) option" where
  "read_mode s =
     (case s of
        c # s1 \<Rightarrow>
          if c = CHR ''L'' \<or> c = CHR ''S'' then
            (case read_layers s1 of
               Some (spatial, t # s2) \<Rightarrow>
                 if t = CHR ''T'' then
                   (case read_layers s2 of
                      Some (temporal, rest) \<Rightarrow>
                        if list_all is_any rest then Some (dec_val spatial, dec_val temporal) else None
                    | None \<Rightarrow> None)
                 else None
             | _ \<Rightarrow> None)
          else None
      | [] \<Rightarrow> None)"

lemma find_append: "find P (xs @ ys) = (case find P xs of Some x \<Rightarrow> Some x | None \<Rightarrow> find P ys)"
  by (induction xs) simp_all

definition at_end :: "mstate \<Rightarrow> bool" where
  "at_end = (\<lambda>(_, s, _). s = [])"

lemma find_Star_Sym:
  "find at_end (re_run (Star (Sym p)) (b, s, c)) = (if list_all p s then Some (b \<and> s = [], [], c) else None)"
proof (induction s arbitrary: b)
  case Nil
  then show ?case by (simp add: re_run.simps(9) at_end_def)
next
  case (Cons x s)
  then show ?case
    by (simp add: re_run.simps(9) [of _ "(b, x # s, c)"] at_end_def [THEN fun_cong, of "(_, x # s, _)"] find_append
        split: option.splits)
qed

lemma run_Eps [simp]: "concat (map (re_run Eps) sts) = sts"
  by (induction sts) simp_all

lemma digit_facts: "\<not> is_digit CHR ''T''" "is_digit y \<Longrightarrow> is_any y"
  by (auto simp: is_digit_def is_any_def)

text \<open>The last group and the rest: the longest match of the group decides.\<close>

lemma run_temporal:
  "find at_end (re_run (seqs [Cap 2 re_layers, Star (Sym is_any)]) (b, s, c)) =
     (case read_layers s of
        Some (ds, rest) \<Rightarrow> if list_all is_any rest then Some (False, [], (2, ds) # c) else None
      | None \<Rightarrow> None)"
  by (cases s rule: read_layers.cases) (auto simp: re_layers_def find_append find_Star_Sym digit_facts split: option.splits)

lemma run_spatial:
  "find at_end (re_run (Seq (Cap 1 re_layers) (Seq (Lit ''T'') r)) (b, s, c)) =
     (case read_layers s of
        Some (ds, t # rest) \<Rightarrow> if t = CHR ''T'' then find at_end (re_run r (False, rest, (1, ds) # c)) else None
      | _ \<Rightarrow> None)"
  by (cases s rule: read_layers.cases)
    (auto simp: re_layers_def find_append digit_facts neq_Nil_conv split: option.splits list.splits)

lemma match_mode:
  "map_option (\<lambda>m. (dec_val (re_group m 1), dec_val (re_group m 2))) (re_match ScalabilityModeRegex s) = read_mode s"
proof -
  have m: "re_match ScalabilityModeRegex s = map_option (\<lambda>(_, _, c). c) (find at_end (re_run ScalabilityModeRegex (True, s, [])))"
    by (simp add: re_match_def at_end_def)
  show ?thesis
  proof (cases s)
    case Nil
    then show ?thesis
      by (simp add: re_match_def ScalabilityModeRegex_def read_mode_def)
  next
    case (Cons x s1)
    let ?t = "seqs [Cap 2 re_layers, Star (Sym is_any)]"
    have "find at_end (re_run ScalabilityModeRegex (True, s, [])) =
      (if x = CHR ''L'' \<or> x = CHR ''S''
       then find at_end (re_run (Seq (Cap 1 re_layers) (Seq (Lit ''T'') ?t)) (False, s1, [])) else None)"
      by (simp add: ScalabilityModeRegex_def Cons)
    then show ?thesis
      unfolding m run_spatial run_temporal
      by (auto simp: Cons read_mode_def re_group_def split: option.splits list.splits)
  qed
qed

lemma digit_value:
  assumes "is_digit x"
  obtains d where "digit_val x = Some d" "d \<le> 9" "x \<noteq> CHR ''0'' \<Longrightarrow> 1 \<le> d"
proof -
  have n: "48 \<le> (of_char x :: nat)" "(of_char x :: nat) \<le> 57"
    using assms of_nat_of_char [of x, where 'a = int] by (simp_all add: is_digit_def Let_def)
  have "(of_char x :: nat) \<noteq> of_char CHR ''0''" if "x \<noteq> CHR ''0''"
    using that by (simp only: of_char_eq_iff) simp
  then show ?thesis
    using n by (intro that [of "of_char x - 48"]) (auto simp: digit_val_def)
qed

lemma layers_bounds: "read_layers s = Some (ds, rest) \<Longrightarrow> 1 \<le> dec_val ds \<and> dec_val ds \<le> 99"
  by (cases s rule: read_layers.cases) (auto simp: dec_val_def split: if_splits elim!: digit_value)

text \<open>
  C38. \<open>parseScalabilityMode\<close> computes what a direct reader of the mode does, on every text: L or S, one or
  two digits, T, one or two digits, and anything but a line end; otherwise one layer of each kind.
  The layers it reads are between 1 and 99.
\<close>

theorem scalability_mode_reader:
  "parseScalabilityMode s =
     (case read_mode s of
        None \<Rightarrow> JObject (mk_obj [(''spatialLayers'', JInt 1), (''temporalLayers'', JInt 1)])
      | Some (spatial, temporal) \<Rightarrow>
          JObject (mk_obj [(''spatialLayers'', JUint (of_nat spatial)), (''temporalLayers'', JUint (of_nat temporal))])) \<and>
   (case read_mode s of None \<Rightarrow> True | Some (spatial, temporal) \<Rightarrow> {spatial, temporal} \<subseteq> {1..99})"
proof -
  have "{spatial, temporal} \<subseteq> {1..99}" if "read_mode s = Some (spatial, temporal)" for spatial temporal
    using that by (auto simp: read_mode_def split: list.splits if_splits option.splits dest!: layers_bounds)
  then show ?thesis
    unfolding match_mode [of s, symmetric]
    by (cases "re_match ScalabilityModeRegex s") (auto simp: parseScalabilityMode_def stoul_digits_def)
qed

end
