(* ===== verification/Handler.thy ===== *)
theory Handler
  imports Peer_Connection Scalability_Mode Remote_Sdp Sdp_Utils Ortc_Caps "HOL-Library.AList"
begin

text \<open>
  The handlers (\<open>src/Handler.cpp\<close>): they negotiate with the peer connection by session descriptions,
  keep the remote description and the transceivers by MID, and set up the transport with the first
  description. The peer connection and the listener's \<open>OnConnect\<close> are parameters that act on the
  state \<open>h_pc\<close> behind the interface.
\<close>

section \<open>State\<close>

record 'w handler =
  h_pc :: 'w
  h_remoteSdp :: remote_sdp
  h_transportReady :: bool
  h_mapMidTransceiver :: "(string \<times> handle) list"
  h_hasDataChannelMediaSection :: bool
  h_nextSendSctpStreamId :: "32 word"
  h_forcedLocalDtlsRole :: string

record 'w send_handler = "'w handler" +
  sh_sendingRtpParametersByKind :: json
  sh_sendingRemoteRtpParametersByKind :: json

definition pcA :: "('w, 'a) action \<Rightarrow> (('w, 'z) handler_scheme, 'a) action" where
  "pcA m = zoomA h_pc (\<lambda>w s. s\<lparr> h_pc := w \<rparr>) m"

text \<open>
  An operation of the remote description. Where one throws, it does so before it changes the
  description: in the constructor of a section, or at a first JSON access.
\<close>

definition sdpA :: "(remote_sdp \<Rightarrow> ('a \<times> remote_sdp) result) \<Rightarrow> (('w, 'z) handler_scheme, 'a) action" where
  "sdpA f = (\<lambda>s. case f (h_remoteSdp s) of
     Inl e \<Rightarrow> (throw e, s)
   | Inr (x, r) \<Rightarrow> (ok x, s\<lparr> h_remoteSdp := r \<rparr>))"

definition sdp_update :: "(remote_sdp \<Rightarrow> remote_sdp result) \<Rightarrow> (('w, 'z) handler_scheme, unit) action" where
  "sdp_update f = sdpA (\<lambda>r. bindE (f r) (\<lambda>r'. ok ((), r')))"

text \<open>Two operations change the description before they can throw: the version, the parameters.\<close>

definition getSdpA :: "(('w, 'z) handler_scheme, string) action" where
  "getSdpA = thenA (sdp_update increase_version)
     (sdpA (\<lambda>r. bindE (sdp_write (rs_sdpObject r)) (\<lambda>(text, sdp). ok (text, r\<lparr> rs_sdpObject := sdp \<rparr>))))"

definition updateIceA :: "json \<Rightarrow> (('w, 'z) handler_scheme, unit) action" where
  "updateIceA iceParameters =
     rethrowA (sdp_update (UpdateIceParameters iceParameters))
       (\<lambda>s. s\<lparr> h_remoteSdp := (h_remoteSdp s)\<lparr> rs_iceParameters := iceParameters \<rparr> \<rparr>)"

section \<open>The base class\<close>

definition SctpNumStreamsMis :: "32 word" where
  "SctpNumStreamsMis = 1024"

definition GetNativeRtpCapabilities :: "'w webrtc \<Rightarrow> ('w, json) action" where
  "GetNativeRtpCapabilities wr =
     thenA (AddTransceiver_kind wr ''audio'')
     (thenA (AddTransceiver_kind wr ''video'')
     (bindA (CreateOffer wr False) (\<lambda>offer.
      liftA (bindE (sdp_parse offer) extractRtpCapabilities))))"

definition GetNativeSctpCapabilities :: json where
  "GetNativeSctpCapabilities =
     JObject (mk_obj [(''numStreams'', JObject (mk_obj [(''OS'', JUint 1024), (''MIS'', JUint 1024)]))])"

definition forced_role :: "json \<Rightarrow> string result" where
  "forced_role dtlsParameters =
     (case jfind dtlsParameters ''role'' of
        None \<Rightarrow> ok []
      | Some r \<Rightarrow>
          bindE (get_string r) (\<lambda>role.
          ok (if role = ''auto'' then [] else if role = ''server'' then ''client'' else ''server'')))"

definition Handler_new :: "'w result \<Rightarrow> json \<Rightarrow> json \<Rightarrow> json \<Rightarrow> json \<Rightarrow> 'w handler result" where
  "Handler_new pc iceParameters iceCandidates dtlsParameters sctpParameters =
     bindE (forced_role dtlsParameters) (\<lambda>role.
     bindE pc (\<lambda>w.
     bindE (RemoteSdp_new iceParameters iceCandidates dtlsParameters sctpParameters) (\<lambda>r.
     ok \<lparr> h_pc = w, h_remoteSdp = r, h_transportReady = False, h_mapMidTransceiver = [],
          h_hasDataChannelMediaSection = False, h_nextSendSctpStreamId = 0, h_forcedLocalDtlsRole = role \<rparr>)))"

definition Handler_Close :: "'w webrtc \<Rightarrow> (('w, 'z) handler_scheme, unit) action" where
  "Handler_Close wr = pcA (modifyA (wr_Close wr))"

definition GetTransportStats :: "'w webrtc \<Rightarrow> (('w, 'z) handler_scheme, json) action" where
  "GetTransportStats wr = pcA (GetStats wr AllStats)"

definition UpdateIceServers :: "'w webrtc \<Rightarrow> json \<Rightarrow> (('w, 'z) handler_scheme, unit) action" where
  "UpdateIceServers wr iceServerUris =
     bindA (liftA (mapE get_string (jelems iceServerUris))) (\<lambda>servers.
     bindA (pcA (SetConfiguration wr servers)) (\<lambda>done.
     if done then returnA () else throwA (ClientError ''failed to update ICE servers'')))"

definition SetupTransport ::
  "'w webrtc \<Rightarrow> (json \<Rightarrow> ('w, unit) action) \<Rightarrow> string \<Rightarrow> json \<Rightarrow> (('w, 'z) handler_scheme, unit) action" where
  "SetupTransport wr onConnect localDtlsRole localSdpObject =
     bindA (if jempty localSdpObject
            then bindA (pcA (GetLocalDescription wr)) (\<lambda>sdp. liftA (sdp_parse sdp))
            else returnA localSdpObject) (\<lambda>sdpObject.
     bindA (liftA (extractDtlsParameters sdpObject)) (\<lambda>dtls.
     bindA (liftA (jput dtls ''role'' (JString localDtlsRole))) (\<lambda>dtlsParameters.
     thenA (sdp_update (UpdateDtlsRole (if localDtlsRole = ''client'' then ''server'' else ''client'')))
     (thenA (pcA (onConnect dtlsParameters))
     (modifyA (\<lambda>s. s\<lparr> h_transportReady := True \<rparr>))))))"

text \<open>\<open>if (!this->transportReady) this->SetupTransport(forced or default role, object);\<close>\<close>

definition ensureTransport ::
  "'w webrtc \<Rightarrow> (json \<Rightarrow> ('w, unit) action) \<Rightarrow> string \<Rightarrow> json \<Rightarrow> (('w, 'z) handler_scheme, unit) action" where
  "ensureTransport wr onConnect role localSdpObject =
     unlessA h_transportReady
       (bindA (readA h_forcedLocalDtlsRole) (\<lambda>forced.
        SetupTransport wr onConnect (if forced \<noteq> [] then forced else role) localSdpObject))"

definition find_transceiver :: "string \<Rightarrow> (('w, 'z) handler_scheme, handle) action" where
  "find_transceiver localId =
     bindA (readA (\<lambda>s. map_of (h_mapMidTransceiver s) localId)) (\<lambda>t.
     case t of Some t \<Rightarrow> returnA t | None \<Rightarrow> throwA (ClientError ''associated RtpTransceiver not found''))"

section \<open>Sending\<close>

definition SendHandler_new ::
  "'w result \<Rightarrow> json \<Rightarrow> json \<Rightarrow> json \<Rightarrow> json \<Rightarrow> json \<Rightarrow> json \<Rightarrow> 'w send_handler result" where
  "SendHandler_new pc iceParameters iceCandidates dtlsParameters sctpParameters byKind remoteByKind =
     bindE (Handler_new pc iceParameters iceCandidates dtlsParameters sctpParameters) (\<lambda>h.
     ok (handler.extend h
       \<lparr> sh_sendingRtpParametersByKind = byKind, sh_sendingRemoteRtpParametersByKind = remoteByKind \<rparr>))"

definition fillJsonRtpEncodingParameters :: "json \<Rightarrow> rtp_encoding \<Rightarrow> json result" where
  "fillJsonRtpEncodingParameters j e =
     bindE (jput j ''active'' (JBool (e_active e))) (\<lambda>j.
     bindE (if e_rid e \<noteq> [] then jput j ''rid'' (JString (e_rid e)) else ok j) (\<lambda>j.
     bindE (case e_max_bitrate_bps e of Some v \<Rightarrow> jput j ''maxBitrate'' (JInt (scast v)) | None \<Rightarrow> ok j) (\<lambda>j.
     bindE (case e_max_framerate e of Some v \<Rightarrow> jput j ''maxFramerate'' (JFloat v) | None \<Rightarrow> ok j) (\<lambda>j.
     bindE (case e_scale_resolution_down_by e of Some v \<Rightarrow> jput j ''scaleResolutionDownBy'' (JFloat v) | None \<Rightarrow> ok j) (\<lambda>j.
     bindE (case e_scalability_mode e of Some v \<Rightarrow> jput j ''scalabilityMode'' (JString v) | None \<Rightarrow> ok j) (\<lambda>j.
     jput j ''networkPriority'' (JInt (of_nat (e_network_priority e)))))))))"

text \<open>More than one encoding get the RIDs r0, r1, ..., the index being a \<open>uint8_t\<close>.\<close>

definition set_rids :: "rtp_encoding list \<Rightarrow> rtp_encoding list" where
  "set_rids es =
     (if length es > 1
      then map (\<lambda>(i, e). e\<lparr> e_rid := CHR ''r'' # show_nat (i mod 256) \<rparr>) (enumerate 0 es)
      else es)"

definition reduced_parameters :: "json \<Rightarrow> json option \<Rightarrow> json result" where
  "reduced_parameters params codec =
     bindE (jref params ''codecs'') (\<lambda>(codecs, params').
     bindE (reduceCodecs codecs codec) (\<lambda>cs. jput params' ''codecs'' (JArray cs)))"

text \<open>\<open>params["codecs"][0]["mimeType"]\<close> in lower case.\<close>

definition first_mime_type :: "json \<Rightarrow> string result" where
  "first_mime_type params =
     bindE (jref params ''codecs'') (\<lambda>(codecs, _).
     bindE (jref_idx codecs 0) (\<lambda>(codec, _).
     bindE (jref codec ''mimeType'') (\<lambda>(m, _).
     bindE (get_string m) (\<lambda>mimeType. ok (to_lower mimeType)))))"

text \<open>\<open>object["media"][idx]\<close>, and the offer with legacy simulcast in that section.\<close>

definition media_at :: "json \<Rightarrow> nat \<Rightarrow> json result" where
  "media_at sdpObject idx =
     bindE (jref sdpObject ''media'') (\<lambda>(media, _).
     bindE (jref_idx media idx) (\<lambda>(m, _). ok m))"

definition legacy_offer :: "string \<Rightarrow> nat \<Rightarrow> 8 word \<Rightarrow> string result" where
  "legacy_offer offer idx numStreams =
     bindE (sdp_parse offer) (\<lambda>sdpObject.
     bindE (jref sdpObject ''media'') (\<lambda>(media, sdpObject').
     bindE (jref_idx media idx) (\<lambda>(m, media').
     bindE (addLegacySimulcast m numStreams) (\<lambda>m'.
     bindE (jput sdpObject' ''media'' (jrebuild media' ((jelems media')[idx := m']))) (\<lambda>sdpObject''.
     bindE (sdp_write sdpObject'') (\<lambda>(text, _). ok text))))))"

text \<open>The \<open>try\<close> block of \<open>Send\<close>: the offer becomes the local description and the section gets its MID.\<close>

definition send_offer ::
  "'w webrtc \<Rightarrow> (json \<Rightarrow> ('w, unit) action) \<Rightarrow> rtp_encoding list \<Rightarrow> json \<Rightarrow> nat \<Rightarrow> handle \<Rightarrow>
   (('w, 'z) handler_scheme, string \<times> json \<times> bool) action" where
  "send_offer wr onConnect encodings params idx transceiver =
     bindA (pcA (CreateOffer wr False)) (\<lambda>offer.
     bindA (liftA (sdp_parse offer)) (\<lambda>localSdpObject.
     thenA (ensureTransport wr onConnect ''server'' localSdpObject)
     (let mode = (case encodings of e # _ \<Rightarrow> (case e_scalability_mode e of Some m \<Rightarrow> m | None \<Rightarrow> []) | [] \<Rightarrow> []) in
     bindA (liftA (bindE (jat (parseScalabilityMode mode) ''spatialLayers'') get_int32)) (\<lambda>spatialLayers.
     bindA (liftA (first_mime_type params)) (\<lambda>mimeType.
     let hackVp9Svc = (length encodings = 1 \<and> spatialLayers > 1 \<and> mimeType = ''video/vp9'') in
     bindA (if hackVp9Svc then liftA (legacy_offer offer idx (word_of_int spatialLayers)) else returnA offer) (\<lambda>offer'.
     thenA (pcA (SetLocalDescription wr OFFER offer'))
     (bindA (pcA (mid_value wr transceiver)) (\<lambda>localId.
      bindA (liftA (jput params ''mid'' (JString localId))) (\<lambda>params'.
      returnA (localId, params', hackVp9Svc))))))))))"

definition sent_encodings :: "json \<Rightarrow> rtp_encoding list \<Rightarrow> bool \<Rightarrow> json result" where
  "sent_encodings offerMediaObject encodings hackVp9Svc =
     (case encodings of
        [] \<Rightarrow> getRtpEncodings offerMediaObject
      | [e] \<Rightarrow>
          bindE (getRtpEncodings offerMediaObject) (\<lambda>new.
          case jelems new of
            [] \<Rightarrow> throw Undefined
          | x # xs \<Rightarrow>
              bindE (fillJsonRtpEncodingParameters x e) (\<lambda>x'. ok (JArray (if hackVp9Svc then [x'] else x' # xs))))
      | _ \<Rightarrow> bindE (mapE (fillJsonRtpEncodingParameters JNull) encodings) (\<lambda>xs. ok (JArray xs)))"

definition completed_parameters :: "json \<Rightarrow> rtp_encoding list \<Rightarrow> bool \<Rightarrow> json \<Rightarrow> json result" where
  "completed_parameters offerMediaObject encodings hackVp9Svc params =
     bindE (getCname offerMediaObject) (\<lambda>cname.
     bindE (jref params ''rtcp'') (\<lambda>(rtcp, params1).
     bindE (jput rtcp ''cname'' (JString cname)) (\<lambda>rtcp'.
     bindE (jput params1 ''rtcp'' rtcp') (\<lambda>params2.
     bindE (sent_encodings offerMediaObject encodings hackVp9Svc) (\<lambda>es.
     bindE (first_mime_type params2) (\<lambda>mimeType.
     bindE (if jsize es > 1 \<and> (mimeType = ''video/vp8'' \<or> mimeType = ''video/h264'')
            then bindE (mapE (\<lambda>e. jput e ''scalabilityMode'' (JString ''S1T3'')) (jelems es)) (\<lambda>xs. ok (jrebuild es xs))
            else ok es) (\<lambda>es'.
     jput params2 ''encodings'' es')))))))"

text \<open>The sending parameters of a kind, in the member and reduced to the codecs to use.\<close>

definition parameters_of_kind :: "string \<Rightarrow> json option \<Rightarrow> ('w send_handler, json) action" where
  "parameters_of_kind kind codec =
     bindA (readA sh_sendingRtpParametersByKind) (\<lambda>byKind.
     bindA (liftA (jref byKind kind)) (\<lambda>(params, byKind').
     thenA (modifyA (\<lambda>s. s\<lparr> sh_sendingRtpParametersByKind := byKind' \<rparr>))
     (liftA (reduced_parameters params codec))))"

definition remote_parameters_of_kind :: "string \<Rightarrow> json option \<Rightarrow> ('w send_handler, json) action" where
  "remote_parameters_of_kind kind codec =
     bindA (readA sh_sendingRemoteRtpParametersByKind) (\<lambda>byKind.
     bindA (liftA (jref byKind kind)) (\<lambda>(params, byKind').
     thenA (modifyA (\<lambda>s. s\<lparr> sh_sendingRemoteRtpParametersByKind := byKind' \<rparr>))
     (liftA (reduced_parameters params codec))))"

definition undo_transceiver :: "'w webrtc \<Rightarrow> handle \<Rightarrow> ('w, 'z) handler_scheme \<Rightarrow> ('w, 'z) handler_scheme" where
  "undo_transceiver wr transceiver s =
     s\<lparr> h_pc := snd (wr_SetTrack wr transceiver None (wr_SetDirection wr transceiver Inactive (h_pc s))) \<rparr>"

text \<open>The part of \<open>Send\<close> after the local description is set.\<close>

definition send_answer ::
  "'w webrtc \<Rightarrow> rtp_encoding list \<Rightarrow> json option \<Rightarrow> nat \<times> string \<Rightarrow> handle \<Rightarrow> json \<Rightarrow> string \<times> json \<times> bool \<Rightarrow>
   ('w send_handler, string \<times> handle \<times> json) action" where
  "send_answer wr encodings codecOptions mediaSectionIdx transceiver remoteParams offered =
     (case offered of (localId, params, hackVp9Svc) \<Rightarrow>
      bindA (pcA (GetLocalDescription wr)) (\<lambda>localSdp.
      bindA (liftA (sdp_parse localSdp)) (\<lambda>localSdpObject.
      bindA (liftA (media_at localSdpObject (fst mediaSectionIdx))) (\<lambda>offerMediaObject.
      bindA (liftA (completed_parameters offerMediaObject encodings hackVp9Svc params)) (\<lambda>params'.
      bindA (sdpA (RemoteSdp_Send offerMediaObject (snd mediaSectionIdx) params' remoteParams codecOptions)) (\<lambda>params''.
      bindA getSdpA (\<lambda>answer.
      thenA (pcA (SetRemoteDescription wr ANSWER answer))
      (thenA (modifyA (\<lambda>s. s\<lparr> h_mapMidTransceiver := AList.update localId transceiver (h_mapMidTransceiver s) \<rparr>))
      (returnA (localId, transceiver, params''))))))))))"

definition SendHandler_Send ::
  "'w webrtc \<Rightarrow> (json \<Rightarrow> ('w, unit) action) \<Rightarrow> handle option \<Rightarrow> rtp_encoding list option \<Rightarrow> json option \<Rightarrow> json option \<Rightarrow>
   ('w send_handler, string \<times> handle \<times> json) action" where
  "SendHandler_Send wr onConnect trackOpt encodingsOpt codecOptions codec =
     (case trackOpt of
        None \<Rightarrow> throwA (TypeError ''missing track'')
      | Some track \<Rightarrow>
          let encodings = (case encodingsOpt of Some es \<Rightarrow> set_rids es | None \<Rightarrow> []) in
          bindA (readA (\<lambda>s. wr_track_kind wr track (h_pc s))) (\<lambda>kind.
          bindA (parameters_of_kind kind codec) (\<lambda>params.
          bindA (remote_parameters_of_kind kind codec) (\<lambda>remoteParams.
          bindA (readA (\<lambda>s. GetNextMediaSectionIdx (h_remoteSdp s))) (\<lambda>next.
          bindA (liftA next) (\<lambda>mediaSectionIdx.
          bindA (pcA (AddTransceiver wr track
                   \<lparr> ti_direction = SendOnly, ti_send_encodings = encodings, ti_stream_ids = [] \<rparr>)) (\<lambda>added.
          case added of
            None \<Rightarrow> throwA (ClientError ''error creating transceiver'')
          | Some transceiver \<Rightarrow>
              bindA (rethrowA (send_offer wr onConnect encodings params (fst mediaSectionIdx) transceiver)
                       (undo_transceiver wr transceiver))
                (send_answer wr encodings codecOptions mediaSectionIdx transceiver remoteParams))))))))"

text \<open>The SCTP stream parameters of a data channel before validation.\<close>

definition stream_parameters :: "16 word \<Rightarrow> data_channel_init \<Rightarrow> json" where
  "stream_parameters streamId init =
     JObject (let ps = mk_obj [(''streamId'', JUint (ucast streamId)), (''ordered'', JBool (dc_ordered init)),
                               (''protocol'', JString (dc_protocol init))];
                  ps1 = (case dc_maxRetransmitTime init of
                           Some v \<Rightarrow> obj_set ''maxPacketLifeTime'' (JInt (scast v)) ps | None \<Rightarrow> ps)
              in case dc_maxRetransmits init of
                   Some v \<Rightarrow> obj_set ''maxRetransmits'' (JInt (scast v)) ps1 | None \<Rightarrow> ps1)"

definition is_application :: "json \<Rightarrow> bool result" where
  "is_application m = bindE (jat_checked m ''type'') (\<lambda>t. bindE (get_string t) (\<lambda>s. ok (s = ''application'')))"

definition send_sctp ::
  "'w webrtc \<Rightarrow> (json \<Rightarrow> ('w, unit) action) \<Rightarrow> (('w, 'z) handler_scheme, unit) action" where
  "send_sctp wr onConnect =
     bindA (pcA (CreateOffer wr False)) (\<lambda>offer.
     bindA (liftA (sdp_parse offer)) (\<lambda>localSdpObject.
     bindA (readA (\<lambda>s. GetNextMediaSectionIdx (h_remoteSdp s))) (\<lambda>next.
     bindA (liftA next) (\<lambda>_.
     bindA (liftA (jref localSdpObject ''media'')) (\<lambda>(media, localSdpObject').
     bindA (liftA (find_ifE is_application (jelems media))) (\<lambda>found.
     case found of
       None \<Rightarrow> throwA (ClientError ''Missing 'application' media section in SDP offer'')
     | Some offerMediaObject \<Rightarrow>
         thenA (ensureTransport wr onConnect ''server'' localSdpObject')
         (thenA (pcA (SetLocalDescription wr OFFER offer))
         (thenA (sdp_update (SendSctpAssociation offerMediaObject))
         (bindA getSdpA (\<lambda>sdpAnswer.
          thenA (pcA (SetRemoteDescription wr ANSWER sdpAnswer))
          (modifyA (\<lambda>s. s\<lparr> h_hasDataChannelMediaSection := True \<rparr>))))))))))))"

definition SendDataChannel ::
  "'w webrtc \<Rightarrow> (json \<Rightarrow> ('w, unit) action) \<Rightarrow> string \<Rightarrow> data_channel_init \<Rightarrow>
   (('w, 'z) handler_scheme, handle \<times> json) action" where
  "SendDataChannel wr onConnect label dataChannelInit =
     bindA (readA (\<lambda>s. ucast (h_nextSendSctpStreamId s))) (\<lambda>streamId.
     let init = dataChannelInit\<lparr> dc_negotiated := True, dc_id := ucast (streamId :: 16 word) \<rparr> in
     bindA (liftA (validateSctpStreamParameters (stream_parameters streamId init))) (\<lambda>sctpStreamParameters.
     bindA (pcA (CreateDataChannel wr label init)) (\<lambda>webrtcDataChannel.
     thenA (modifyA (\<lambda>s. s\<lparr> h_nextSendSctpStreamId := (h_nextSendSctpStreamId s + 1) mod SctpNumStreamsMis \<rparr>))
     (thenA (unlessA h_hasDataChannelMediaSection (send_sctp wr onConnect))
     (returnA (webrtcDataChannel, sctpStreamParameters))))))"

text \<open>The exchange that ends \<open>StopSending\<close> and \<open>RestartIce\<close>.\<close>

definition renegotiate_offer :: "'w webrtc \<Rightarrow> bool \<Rightarrow> (('w, 'z) handler_scheme, unit) action" where
  "renegotiate_offer wr ice_restart =
     bindA (pcA (CreateOffer wr ice_restart)) (\<lambda>offer.
     thenA (pcA (SetLocalDescription wr OFFER offer))
     (bindA (pcA (GetLocalDescription wr)) (\<lambda>localSdp.
      bindA (liftA (sdp_parse localSdp)) (\<lambda>_.
      bindA getSdpA (\<lambda>answer.
      pcA (SetRemoteDescription wr ANSWER answer))))))"

definition StopSending :: "'w webrtc \<Rightarrow> string \<Rightarrow> (('w, 'z) handler_scheme, unit) action" where
  "StopSending wr localId =
     bindA (find_transceiver localId) (\<lambda>transceiver.
     thenA (pcA (modifyA (\<lambda>w. snd (wr_SetTrack wr transceiver None w))))
     (thenA (pcA (RemoveTrack wr transceiver))
     (bindA (pcA (mid_value wr transceiver)) (\<lambda>mid.
      thenA (sdp_update (CloseMediaSection mid))
      (renegotiate_offer wr False)))))"

definition Handler_ReplaceTrack :: "'w webrtc \<Rightarrow> string \<Rightarrow> handle option \<Rightarrow> (('w, 'z) handler_scheme, unit) action" where
  "Handler_ReplaceTrack wr localId track =
     bindA (find_transceiver localId) (\<lambda>transceiver.
     pcA (modifyA (\<lambda>w. snd (wr_SetTrack wr transceiver track w))))"

text \<open>The three lowest encodings are switched on or off by the layer.\<close>

definition set_active :: "nat \<Rightarrow> bool \<Rightarrow> rtp_encoding list \<Rightarrow> rtp_encoding list" where
  "set_active i b es = (if i < length es then es[i := (es ! i)\<lparr> e_active := b \<rparr>] else es)"

definition edit_encodings :: "8 word \<Rightarrow> rtp_encoding list \<Rightarrow> rtp_encoding list" where
  "edit_encodings spatialLayer es =
     (if spatialLayer = 1 then set_active 2 False (set_active 1 False (set_active 0 True es))
      else if spatialLayer = 2 then set_active 2 False (set_active 1 True (set_active 0 True es))
      else if spatialLayer = 3 then set_active 2 True (set_active 1 True (set_active 0 True es))
      else es)"

definition Handler_SetMaxSpatialLayer :: "'w webrtc \<Rightarrow> string \<Rightarrow> 8 word \<Rightarrow> (('w, 'z) handler_scheme, unit) action" where
  "Handler_SetMaxSpatialLayer wr localId spatialLayer =
     bindA (find_transceiver localId) (\<lambda>transceiver.
     bindA (readA (\<lambda>s. wr_GetParameters wr transceiver (h_pc s))) (\<lambda>encodings.
     pcA (\<lambda>w. applied (wr_SetParameters wr transceiver (edit_encodings spatialLayer encodings) w))))"

definition GetSenderStats :: "'w webrtc \<Rightarrow> string \<Rightarrow> (('w, 'z) handler_scheme, json) action" where
  "GetSenderStats wr localId =
     bindA (find_transceiver localId) (\<lambda>transceiver. pcA (GetStats wr (SenderStats transceiver)))"

definition SendHandler_RestartIce :: "'w webrtc \<Rightarrow> json \<Rightarrow> (('w, 'z) handler_scheme, unit) action" where
  "SendHandler_RestartIce wr iceParameters =
     thenA (updateIceA iceParameters)
     (unlessA (\<lambda>s. \<not> h_transportReady s) (renegotiate_offer wr True))"

section \<open>Receiving\<close>

text \<open>The MID of the parameters, or the number of transceivers.\<close>

definition receive_localId :: "json \<Rightarrow> ('w, 'z) handler_scheme \<Rightarrow> string" where
  "receive_localId rtpParameters s =
     (case jfind rtpParameters ''mid'' of
        Some (JString mid) \<Rightarrow> if mid \<noteq> [] then mid else show_nat (length (h_mapMidTransceiver s))
      | _ \<Rightarrow> show_nat (length (h_mapMidTransceiver s)))"

definition rtp_cname :: "json \<Rightarrow> string result" where
  "rtp_cname rtpParameters =
     bindE (jat rtpParameters ''rtcp'') (\<lambda>rtcp. bindE (jat rtcp ''cname'') get_string)"

text \<open>The position of the section with a MID; past the end when there is none.\<close>

fun find_mid :: "string \<Rightarrow> json list \<Rightarrow> nat result" where
  "find_mid localId [] = ok 0"
| "find_mid localId (m # ms) =
     bindE (jat m ''mid'') (\<lambda>j.
     bindE (get_string j) (\<lambda>mid.
     if mid = localId then ok 0 else bindE (find_mid localId ms) (\<lambda>i. ok (Suc i))))"

text \<open>The answer with the codec parameters applied, and the object it is printed from.\<close>

definition adapted_answer :: "string \<Rightarrow> json \<Rightarrow> string \<Rightarrow> (string \<times> json) result" where
  "adapted_answer localId rtpParameters answer =
     bindE (sdp_parse answer) (\<lambda>localSdpObject.
     bindE (jref localSdpObject ''media'') (\<lambda>(media, localSdpObject').
     bindE (find_mid localId (jelems media)) (\<lambda>i.
     if \<not> i < length (jelems media) then throw Undefined
     else
       bindE (applyCodecParameters rtpParameters (jelems media ! i)) (\<lambda>m.
       bindE (jput localSdpObject' ''media'' (jrebuild media ((jelems media)[i := m]))) sdp_write))))"

text \<open>The exchange of \<open>Receive\<close> with the peer connection, and with the new section before it.\<close>

definition receive_exchange ::
  "'w webrtc \<Rightarrow> (json \<Rightarrow> ('w, unit) action) \<Rightarrow> string \<Rightarrow> json \<Rightarrow> (('w, 'z) handler_scheme, unit) action" where
  "receive_exchange wr onConnect localId rtpParameters =
     bindA getSdpA (\<lambda>offer.
     thenA (pcA (SetRemoteDescription wr OFFER offer))
     (bindA (pcA (CreateAnswer wr)) (\<lambda>created.
      bindA (liftA (adapted_answer localId rtpParameters created)) (\<lambda>adapted.
      thenA (ensureTransport wr onConnect ''client'' (snd adapted))
      (pcA (SetLocalDescription wr ANSWER (fst adapted)))))))"

definition receive_negotiation ::
  "'w webrtc \<Rightarrow> (json \<Rightarrow> ('w, unit) action) \<Rightarrow> string \<Rightarrow> string \<Rightarrow> string \<Rightarrow> json \<Rightarrow> (('w, 'z) handler_scheme, unit) action" where
  "receive_negotiation wr onConnect localId id' kind rtpParameters =
     bindA (liftA (rtp_cname rtpParameters)) (\<lambda>cname.
     thenA (sdp_update (RemoteSdp_Receive localId kind rtpParameters cname id'))
     (receive_exchange wr onConnect localId rtpParameters))"

definition RecvHandler_Receive ::
  "'w webrtc \<Rightarrow> (json \<Rightarrow> ('w, unit) action) \<Rightarrow> string \<Rightarrow> string \<Rightarrow> json \<Rightarrow>
   (('w, 'z) handler_scheme, string \<times> handle \<times> handle) action" where
  "RecvHandler_Receive wr onConnect id' kind rtpParameters =
     bindA (readA (receive_localId rtpParameters)) (\<lambda>localId.
     thenA (receive_negotiation wr onConnect localId id' kind rtpParameters)
     (bindA (readA (\<lambda>s. find (\<lambda>t. wr_mid wr t (h_pc s) = Some localId) (wr_GetTransceivers wr (h_pc s)))) (\<lambda>found.
      case found of
        None \<Rightarrow> throwA (ClientError ''new RTCRtpTransceiver not found'')
      | Some transceiver \<Rightarrow>
          thenA (modifyA (\<lambda>s. s\<lparr> h_mapMidTransceiver := AList.update localId transceiver (h_mapMidTransceiver s) \<rparr>))
          (bindA (readA (\<lambda>s. wr_receiver_track wr transceiver (h_pc s))) (\<lambda>track.
           returnA (localId, transceiver, track))))))"

definition recv_sctp ::
  "'w webrtc \<Rightarrow> (json \<Rightarrow> ('w, unit) action) \<Rightarrow> (('w, 'z) handler_scheme, unit) action" where
  "recv_sctp wr onConnect =
     thenA (sdp_update RecvSctpAssociation)
     (bindA getSdpA (\<lambda>sdpOffer.
      thenA (pcA (SetRemoteDescription wr OFFER sdpOffer))
      (bindA (pcA (CreateAnswer wr)) (\<lambda>sdpAnswer.
       thenA (unlessA h_transportReady
                (bindA (liftA (sdp_parse sdpAnswer)) (ensureTransport wr onConnect ''client'')))
       (thenA (pcA (SetLocalDescription wr ANSWER sdpAnswer))
       (modifyA (\<lambda>s. s\<lparr> h_hasDataChannelMediaSection := True \<rparr>)))))))"

definition ReceiveDataChannel ::
  "'w webrtc \<Rightarrow> (json \<Rightarrow> ('w, unit) action) \<Rightarrow> string \<Rightarrow> data_channel_init \<Rightarrow>
   (('w, 'z) handler_scheme, handle \<times> json) action" where
  "ReceiveDataChannel wr onConnect label dataChannelInit =
     (let init = dataChannelInit\<lparr> dc_negotiated := True \<rparr> in
      bindA (liftA (validateSctpStreamParameters (JObject (mk_obj
               [(''streamId'', JInt (scast (dc_id init))), (''ordered'', JBool (dc_ordered init))])))) (\<lambda>sctpStreamParameters.
      bindA (pcA (CreateDataChannel wr label init)) (\<lambda>webrtcDataChannel.
      thenA (unlessA h_hasDataChannelMediaSection (recv_sctp wr onConnect))
      (returnA (webrtcDataChannel, sctpStreamParameters)))))"

text \<open>The exchange that ends \<open>StopReceiving\<close> and \<open>RestartIce\<close>.\<close>

definition renegotiate_answer :: "'w webrtc \<Rightarrow> (('w, 'z) handler_scheme, unit) action" where
  "renegotiate_answer wr =
     bindA getSdpA (\<lambda>offer.
     thenA (pcA (SetRemoteDescription wr OFFER offer))
     (bindA (pcA (CreateAnswer wr)) (\<lambda>answer.
      pcA (SetLocalDescription wr ANSWER answer))))"

definition StopReceiving :: "'w webrtc \<Rightarrow> string \<Rightarrow> (('w, 'z) handler_scheme, unit) action" where
  "StopReceiving wr localId =
     bindA (find_transceiver localId) (\<lambda>transceiver.
     bindA (pcA (mid_value wr transceiver)) (\<lambda>mid.
     thenA (sdp_update (CloseMediaSection mid))
     (renegotiate_answer wr)))"

definition GetReceiverStats :: "'w webrtc \<Rightarrow> string \<Rightarrow> (('w, 'z) handler_scheme, json) action" where
  "GetReceiverStats wr localId =
     bindA (find_transceiver localId) (\<lambda>transceiver. pcA (GetStats wr (ReceiverStats transceiver)))"

definition RecvHandler_RestartIce :: "'w webrtc \<Rightarrow> json \<Rightarrow> (('w, 'z) handler_scheme, unit) action" where
  "RecvHandler_RestartIce wr iceParameters =
     thenA (updateIceA iceParameters)
     (unlessA (\<lambda>s. \<not> h_transportReady s) (renegotiate_answer wr))"

end
