(* ===== verification/Transport.thy ===== *)
theory Transport
  imports Handler
begin

text \<open>
  The transports (\<open>src/Transport.cpp\<close>) and what they create: producers, consumers, data producers and
  data consumers (\<open>src/Producer.cpp\<close>, \<open>src/Consumer.cpp\<close>, \<open>src/DataProducer.cpp\<close>,
  \<open>src/DataConsumer.cpp\<close>). The objects are kept in a store of the transport that created them and are
  named by their position, as the code names them by pointers; the maps by id hold positions. The
  application's listeners are parameters that act on the state outside.
\<close>

section \<open>Listeners\<close>

record 'w listener =
  ln_OnConnect :: "json \<Rightarrow> ('w, unit) action"
  ln_OnConnectionStateChange :: "string \<Rightarrow> 'w \<Rightarrow> 'w"
  ln_OnProduce :: "string \<Rightarrow> json \<Rightarrow> json \<Rightarrow> ('w, string) action"
  ln_OnProduceData :: "json \<Rightarrow> string \<Rightarrow> string \<Rightarrow> json \<Rightarrow> ('w, string) action"
  ln_OnTransportClose :: "handle \<Rightarrow> 'w \<Rightarrow> 'w"
  ln_OnTransportClose_data :: "handle \<Rightarrow> 'w \<Rightarrow> 'w"

section \<open>The base class\<close>

datatype ice_connection_state =
  IceNew | IceChecking | IceConnected | IceCompleted | IceFailed | IceDisconnected | IceClosed

fun iceConnectionState2String :: "ice_connection_state \<Rightarrow> string" where
  "iceConnectionState2String IceNew = ''new''"
| "iceConnectionState2String IceChecking = ''checking''"
| "iceConnectionState2String IceConnected = ''connected''"
| "iceConnectionState2String IceCompleted = ''completed''"
| "iceConnectionState2String IceFailed = ''failed''"
| "iceConnectionState2String IceDisconnected = ''disconnected''"
| "iceConnectionState2String IceClosed = ''closed''"

record 'h transport =
  t_handler :: 'h
  t_closed :: bool
  t_extendedRtpCapabilities :: json
  t_maxSctpMessageSize :: "64 word"
  t_probatorConsumerCreated :: bool
  t_hasSctpParameters :: bool
  t_connectionState :: ice_connection_state

definition handlerA :: "('h, 'a) action \<Rightarrow> (('h, 'z) transport_scheme, 'a) action" where
  "handlerA m = zoomA t_handler (\<lambda>h s. s\<lparr> t_handler := h \<rparr>) m"

text \<open>The state outside, seen from a transport.\<close>

definition outsideA :: "('w, 'a) action \<Rightarrow> ((('w, 'y) handler_scheme, 'z) transport_scheme, 'a) action" where
  "outsideA m = handlerA (pcA m)"

definition outside :: "(('w, 'y) handler_scheme, 'z) transport_scheme \<Rightarrow> 'w" where
  "outside s = h_pc (t_handler s)"

text \<open>\<open>if (this->closed) MSC_THROW_INVALID_STATE_ERROR(msg);\<close>\<close>

definition unless_closed :: "string \<Rightarrow> (('h, 'z) transport_scheme, 'a) action \<Rightarrow> (('h, 'z) transport_scheme, 'a) action" where
  "unless_closed msg m = (\<lambda>s. if t_closed s then (throw (InvalidStateError msg), s) else m s)"

definition Transport_Close :: "'w webrtc \<Rightarrow> ((('w, 'y) handler_scheme, 'z) transport_scheme, unit) action" where
  "Transport_Close wr =
     unlessA t_closed
       (thenA (modifyA (\<lambda>s. s\<lparr> t_closed := True \<rparr>)) (handlerA (Handler_Close wr)))"

definition Transport_GetStats :: "'w webrtc \<Rightarrow> ((('w, 'y) handler_scheme, 'z) transport_scheme, json) action" where
  "Transport_GetStats wr = unless_closed ''Transport closed'' (handlerA (GetTransportStats wr))"

text \<open>The handler's \<open>RestartIce\<close> is virtual.\<close>

definition Transport_RestartIce :: "(json \<Rightarrow> ('h, unit) action) \<Rightarrow> json \<Rightarrow> (('h, 'z) transport_scheme, unit) action" where
  "Transport_RestartIce restartIce iceParameters = unless_closed ''Transport closed'' (handlerA (restartIce iceParameters))"

definition Transport_UpdateIceServers ::
  "'w webrtc \<Rightarrow> json \<Rightarrow> ((('w, 'y) handler_scheme, 'z) transport_scheme, unit) action" where
  "Transport_UpdateIceServers wr iceServers = unless_closed ''Transport closed'' (handlerA (UpdateIceServers wr iceServers))"

definition Transport_OnConnect :: "'w listener \<Rightarrow> bool \<Rightarrow> json \<Rightarrow> ('w, unit) action" where
  "Transport_OnConnect lis is_closed dtlsParameters =
     (if is_closed then throwA (InvalidStateError ''Transport closed'') else ln_OnConnect lis dtlsParameters)"

definition Transport_OnConnectionStateChange ::
  "'w listener \<Rightarrow> ice_connection_state \<Rightarrow> ((('w, 'y) handler_scheme, 'z) transport_scheme, unit) action" where
  "Transport_OnConnectionStateChange lis state =
     thenA (modifyA (\<lambda>s. s\<lparr> t_connectionState := state \<rparr>))
     (outsideA (modifyA (ln_OnConnectionStateChange lis (iceConnectionState2String state))))"

text \<open>A call of the handler that may connect the transport.\<close>

definition connectingA ::
  "'w listener \<Rightarrow> ((json \<Rightarrow> ('w, unit) action) \<Rightarrow> (('w, 'y) handler_scheme, 'a) action) \<Rightarrow>
   ((('w, 'y) handler_scheme, 'z) transport_scheme, 'a) action" where
  "connectingA lis m = bindA (readA t_closed) (\<lambda>closed. handlerA (m (Transport_OnConnect lis closed)))"

text \<open>A loop over pointers, and access to the object behind one.\<close>

fun for_eachA :: "('a \<Rightarrow> ('s, unit) action) \<Rightarrow> 'a list \<Rightarrow> ('s, unit) action" where
  "for_eachA f [] = returnA ()"
| "for_eachA f (x # xs) = thenA (f x) (for_eachA f xs)"

definition objectA :: "('s \<Rightarrow> 'o list) \<Rightarrow> handle \<Rightarrow> ('s, 'o) action" where
  "objectA objects p =
     (\<lambda>s. (if p < length (objects s) then ok (objects s ! p) else throw Undefined, s))"

section \<open>Producers\<close>

record producer =
  pr_id :: string
  pr_localId :: string
  pr_closed :: bool
  pr_track :: handle
  pr_rtpParameters :: json
  pr_maxSpatialLayer :: "8 word"
  pr_appData :: json

record data_producer =
  dp_id :: string
  dp_closed :: bool
  dp_dataChannel :: handle
  dp_sctpStreamParameters :: json
  dp_appData :: json

record 'w send_transport = "'w send_handler transport" +
  st_canProduceByKind :: "(string \<times> bool) list"
  st_objects :: "producer list"
  st_producers :: "(string \<times> handle) list"
  st_dataObjects :: "data_producer list"
  st_dataProducers :: "(string \<times> handle) list"

definition update_producer :: "handle \<Rightarrow> (producer \<Rightarrow> producer) \<Rightarrow> ('w send_transport, unit) action" where
  "update_producer p f = modifyA (\<lambda>s. s\<lparr> st_objects := (st_objects s)[p := f (st_objects s ! p)] \<rparr>)"

definition update_data_producer :: "handle \<Rightarrow> (data_producer \<Rightarrow> data_producer) \<Rightarrow> ('w send_transport, unit) action" where
  "update_data_producer p f = modifyA (\<lambda>s. s\<lparr> st_dataObjects := (st_dataObjects s)[p := f (st_dataObjects s ! p)] \<rparr>)"

definition SendTransport_new ::
  "'w result \<Rightarrow> json \<Rightarrow> json \<Rightarrow> json \<Rightarrow> json \<Rightarrow> json \<Rightarrow> (string \<times> bool) list \<Rightarrow> 'w send_transport result" where
  "SendTransport_new pc iceParameters iceCandidates dtlsParameters sctpParameters extended canProduceByKind =
     bindE (if is_object sctpParameters then
              (case jfind sctpParameters ''maxMessageSize'' of
                 None \<Rightarrow> throw Undefined
               | Some j \<Rightarrow> if is_number_integer j then get_uint j else ok 0)
            else ok 0) (\<lambda>maxMessageSize.
     bindE (getSendingRtpParameters ''audio'' extended) (\<lambda>a.
     bindE (getSendingRtpParameters ''video'' extended) (\<lambda>v.
     bindE (getSendingRemoteRtpParameters ''audio'' extended) (\<lambda>ra.
     bindE (getSendingRemoteRtpParameters ''video'' extended) (\<lambda>rv.
     bindE (SendHandler_new pc iceParameters iceCandidates dtlsParameters sctpParameters
              (JObject (mk_obj [(''audio'', a), (''video'', v)])) (JObject (mk_obj [(''audio'', ra), (''video'', rv)]))) (\<lambda>h.
     ok \<lparr> t_handler = h, t_closed = False, t_extendedRtpCapabilities = extended, t_maxSctpMessageSize = maxMessageSize,
          t_probatorConsumerCreated = False, t_hasSctpParameters = is_object sctpParameters, t_connectionState = IceNew,
          st_canProduceByKind = canProduceByKind, st_objects = [], st_producers = [], st_dataObjects = [],
          st_dataProducers = [] \<rparr>))))))"

text \<open>\<open>try { m } catch (MediaSoupClientError&) { h; throw; }\<close>, where the handler can throw itself.\<close>

definition catch_clientA :: "('s, 'a) action \<Rightarrow> ('s, unit) action \<Rightarrow> ('s, 'a) action" where
  "catch_clientA m h =
     (\<lambda>s. case m s of
        (Inl e, s') \<Rightarrow>
          if is_client_error e then (case h s' of (Inl e', s'') \<Rightarrow> (Inl e', s'') | (Inr _, s'') \<Rightarrow> (Inl e, s''))
          else (Inl e, s')
      | (Inr x, s') \<Rightarrow> (Inr x, s'))"

definition SendTransport_Produce ::
  "'w webrtc \<Rightarrow> 'w listener \<Rightarrow> handle option \<Rightarrow> rtp_encoding list option \<Rightarrow> json option \<Rightarrow> json option \<Rightarrow> json \<Rightarrow>
   ('w send_transport, handle) action" where
  "SendTransport_Produce wr lis trackOpt encodings codecOptions codec appData =
     unless_closed ''SendTransport closed''
     (case trackOpt of
        None \<Rightarrow> throwA (TypeError ''missing track'')
      | Some track \<Rightarrow>
          bindA (readA (\<lambda>s. (wr_track_ended wr track (outside s), wr_track_kind wr track (outside s)))) (\<lambda>(ended, kind).
          if ended then throwA (InvalidStateError ''track ended'')
          else
          bindA (readA (\<lambda>s. map_of (st_canProduceByKind s) kind)) (\<lambda>can.
          if can = None then throwA (UnsupportedError ''cannot produce track kind'')
          else
          bindA (case codecOptions of
                   None \<Rightarrow> returnA None
                 | Some opts \<Rightarrow> bindA (liftA (validateProducerCodecOptions opts)) (\<lambda>opts'. returnA (Some opts'))) (\<lambda>options.
          let normalizedEncodings = (case encodings of None \<Rightarrow> [] | Some es \<Rightarrow> map (\<lambda>e. e\<lparr> e_rid := [] \<rparr>) es) in
          bindA (connectingA lis (\<lambda>onConnect.
                   SendHandler_Send wr onConnect (Some track) (Some normalizedEncodings) options codec)) (\<lambda>(localId, sender, params).
          bindA (catch_clientA
                   (bindA (liftA (validateRtpParameters params)) (\<lambda>params'.
                    bindA (readA (\<lambda>s. wr_track_kind wr track (outside s))) (\<lambda>kind'.
                    bindA (outsideA (ln_OnProduce lis kind' params' appData)) (\<lambda>producerId. returnA (producerId, params')))))
                   (handlerA (StopSending wr localId))) (\<lambda>(producerId, params').
          let producer = \<lparr> pr_id = producerId, pr_localId = localId, pr_closed = False, pr_track = track,
                           pr_rtpParameters = params', pr_maxSpatialLayer = 0, pr_appData = appData \<rparr> in
          bindA (readA (\<lambda>s. length (st_objects s))) (\<lambda>p.
          thenA (modifyA (\<lambda>s. s\<lparr> st_objects := st_objects s @ [producer],
                                  st_producers := AList.update producerId p (st_producers s) \<rparr>))
          (returnA p))))))))"

definition SendTransport_ProduceData ::
  "'w webrtc \<Rightarrow> 'w listener \<Rightarrow> string \<Rightarrow> string \<Rightarrow> bool \<Rightarrow> 32 word \<Rightarrow> 32 word \<Rightarrow> json \<Rightarrow> ('w send_transport, handle) action" where
  "SendTransport_ProduceData wr lis label protocol ordered maxRetransmits maxPacketLifeTime appData =
     bindA (readA t_hasSctpParameters) (\<lambda>hasSctp.
     if \<not> hasSctp then throwA (ClientError ''SctpParameters are mandatory when using data producer listener'')
     else if maxRetransmits \<noteq> - 1 \<and> maxPacketLifeTime \<noteq> 0
     then throwA (ClientError ''Cannot set both maxRetransmits and maxPacketLifeTime'')
     else
     bindA (connectingA lis (\<lambda>onConnect. SendDataChannel wr onConnect label
              \<lparr> dc_ordered = ordered,
                dc_maxRetransmitTime = (if maxPacketLifeTime \<noteq> 0 then Some maxPacketLifeTime else None),
                dc_maxRetransmits = (if maxRetransmits \<noteq> - 1 then Some maxRetransmits else None),
                dc_protocol = protocol, dc_negotiated = False, dc_id = - 1 \<rparr>)) (\<lambda>(dataChannel, sctpStreamParameters).
     bindA (outsideA (ln_OnProduceData lis sctpStreamParameters label protocol appData)) (\<lambda>dataProducerId.
     let dataProducer = \<lparr> dp_id = dataProducerId, dp_closed = False, dp_dataChannel = dataChannel,
                          dp_sctpStreamParameters = sctpStreamParameters, dp_appData = appData \<rparr> in
     thenA (outsideA (modifyA (wr_RegisterObserver wr dataChannel)))
     (bindA (readA (\<lambda>s. length (st_dataObjects s))) (\<lambda>p.
      thenA (modifyA (\<lambda>s. s\<lparr> st_dataObjects := st_dataObjects s @ [dataProducer],
                              st_dataProducers := AList.update dataProducerId p (st_dataProducers s) \<rparr>))
      (returnA p))))))"

definition Producer_TransportClosed :: "'w listener \<Rightarrow> handle \<Rightarrow> ('w send_transport, unit) action" where
  "Producer_TransportClosed lis p =
     bindA (objectA st_objects p) (\<lambda>producer.
     if pr_closed producer then returnA ()
     else thenA (update_producer p (\<lambda>x. x\<lparr> pr_closed := True \<rparr>)) (outsideA (modifyA (ln_OnTransportClose lis p))))"

definition DataProducer_TransportClosed :: "'w webrtc \<Rightarrow> 'w listener \<Rightarrow> handle \<Rightarrow> ('w send_transport, unit) action" where
  "DataProducer_TransportClosed wr lis p =
     bindA (objectA st_dataObjects p) (\<lambda>dataProducer.
     if dp_closed dataProducer then returnA ()
     else thenA (update_data_producer p (\<lambda>x. x\<lparr> dp_closed := True \<rparr>))
          (thenA (outsideA (modifyA (wr_dc_Close wr (dp_dataChannel dataProducer))))
          (outsideA (modifyA (ln_OnTransportClose_data lis p)))))"

definition SendTransport_Close :: "'w webrtc \<Rightarrow> 'w listener \<Rightarrow> ('w send_transport, unit) action" where
  "SendTransport_Close wr lis =
     unlessA t_closed
       (thenA (Transport_Close wr)
       (bindA (readA (\<lambda>s. map snd (st_producers s))) (\<lambda>ps.
        thenA (for_eachA (Producer_TransportClosed lis) ps)
        (bindA (readA (\<lambda>s. map snd (st_dataProducers s))) (\<lambda>ds.
         for_eachA (DataProducer_TransportClosed wr lis) ds)))))"

definition SendTransport_OnClose :: "'w webrtc \<Rightarrow> producer \<Rightarrow> ('w send_transport, unit) action" where
  "SendTransport_OnClose wr producer =
     thenA (modifyA (\<lambda>s. s\<lparr> st_producers := AList.delete (pr_id producer) (st_producers s) \<rparr>))
     (unlessA t_closed (handlerA (StopSending wr (pr_localId producer))))"

definition Producer_Close :: "'w webrtc \<Rightarrow> handle \<Rightarrow> ('w send_transport, unit) action" where
  "Producer_Close wr p =
     bindA (objectA st_objects p) (\<lambda>producer.
     if pr_closed producer then returnA ()
     else thenA (update_producer p (\<lambda>x. x\<lparr> pr_closed := True \<rparr>)) (SendTransport_OnClose wr producer))"

definition Producer_GetStats :: "'w webrtc \<Rightarrow> handle \<Rightarrow> ('w send_transport, json) action" where
  "Producer_GetStats wr p =
     bindA (objectA st_objects p) (\<lambda>producer.
     if pr_closed producer then throwA (InvalidStateError ''Producer closed'')
     else unless_closed ''SendTransport closed'' (handlerA (GetSenderStats wr (pr_localId producer))))"

text \<open>\<open>Pause\<close> and \<open>Resume\<close> do nothing on a closed producer.\<close>

definition Producer_SetEnabled :: "'w webrtc \<Rightarrow> bool \<Rightarrow> handle \<Rightarrow> ('w send_transport, unit) action" where
  "Producer_SetEnabled wr enabled p =
     bindA (objectA st_objects p) (\<lambda>producer.
     if pr_closed producer then returnA ()
     else outsideA (modifyA (wr_set_enabled wr (pr_track producer) enabled)))"

definition Producer_Pause :: "'w webrtc \<Rightarrow> handle \<Rightarrow> ('w send_transport, unit) action" where
  "Producer_Pause wr p = Producer_SetEnabled wr False p"

definition Producer_Resume :: "'w webrtc \<Rightarrow> handle \<Rightarrow> ('w send_transport, unit) action" where
  "Producer_Resume wr p = Producer_SetEnabled wr True p"

definition Producer_ReplaceTrack :: "'w webrtc \<Rightarrow> handle \<Rightarrow> handle option \<Rightarrow> ('w send_transport, unit) action" where
  "Producer_ReplaceTrack wr p trackOpt =
     bindA (objectA st_objects p) (\<lambda>producer.
     if pr_closed producer then throwA (InvalidStateError ''Producer closed'')
     else
     case trackOpt of
       None \<Rightarrow> throwA (TypeError ''missing track'')
     | Some track \<Rightarrow>
         bindA (readA (\<lambda>s. wr_track_ended wr track (outside s))) (\<lambda>ended.
         if ended then throwA (InvalidStateError ''track ended'')
         else if track = pr_track producer then returnA ()
         else
         thenA (handlerA (Handler_ReplaceTrack wr (pr_localId producer) (Some track)))
         (bindA (readA (\<lambda>s. wr_track_enabled wr (pr_track producer) (outside s))) (\<lambda>enabled.
          thenA (update_producer p (\<lambda>x. x\<lparr> pr_track := track \<rparr>))
          (outsideA (modifyA (wr_set_enabled wr track enabled)))))))"

definition Producer_SetMaxSpatialLayer :: "'w webrtc \<Rightarrow> handle \<Rightarrow> 8 word \<Rightarrow> ('w send_transport, unit) action" where
  "Producer_SetMaxSpatialLayer wr p spatialLayer =
     bindA (objectA st_objects p) (\<lambda>producer.
     if pr_closed producer then throwA (InvalidStateError ''Producer closed'')
     else
     bindA (readA (\<lambda>s. wr_track_kind wr (pr_track producer) (outside s))) (\<lambda>kind.
     if kind \<noteq> ''video'' then throwA (TypeError ''not a video Producer'')
     else if spatialLayer = pr_maxSpatialLayer producer then returnA ()
     else
     thenA (handlerA (Handler_SetMaxSpatialLayer wr (pr_localId producer) spatialLayer))
     (update_producer p (\<lambda>x. x\<lparr> pr_maxSpatialLayer := spatialLayer \<rparr>))))"

definition DataProducer_Close :: "'w webrtc \<Rightarrow> handle \<Rightarrow> ('w send_transport, unit) action" where
  "DataProducer_Close wr p =
     bindA (objectA st_dataObjects p) (\<lambda>dataProducer.
     if dp_closed dataProducer then returnA ()
     else thenA (update_data_producer p (\<lambda>x. x\<lparr> dp_closed := True \<rparr>))
          (thenA (outsideA (modifyA (wr_dc_Close wr (dp_dataChannel dataProducer))))
          (modifyA (\<lambda>s. s\<lparr> st_dataProducers := AList.delete (dp_id dataProducer) (st_dataProducers s) \<rparr>))))"

definition DataProducer_Send :: "'w webrtc \<Rightarrow> handle \<Rightarrow> string \<Rightarrow> ('w send_transport, unit) action" where
  "DataProducer_Send wr p buffer =
     bindA (objectA st_dataObjects p) (\<lambda>dataProducer.
     outsideA (modifyA (\<lambda>w. snd (wr_dc_Send wr (dp_dataChannel dataProducer) buffer w))))"

section \<open>Consumers\<close>

record consumer =
  co_id :: string
  co_localId :: string
  co_producerId :: string
  co_closed :: bool
  co_receiver :: handle
  co_track :: handle
  co_rtpParameters :: json
  co_appData :: json

record data_consumer =
  dk_id :: string
  dk_dataProducerId :: string
  dk_closed :: bool
  dk_dataChannel :: handle
  dk_sctpParameters :: json
  dk_appData :: json

record 'w recv_transport = "'w handler transport" +
  rt_objects :: "consumer list"
  rt_consumers :: "(string \<times> handle) list"
  rt_dataObjects :: "data_consumer list"
  rt_dataConsumers :: "(string \<times> handle) list"

definition update_consumer :: "handle \<Rightarrow> (consumer \<Rightarrow> consumer) \<Rightarrow> ('w recv_transport, unit) action" where
  "update_consumer p f = modifyA (\<lambda>s. s\<lparr> rt_objects := (rt_objects s)[p := f (rt_objects s ! p)] \<rparr>)"

definition update_data_consumer :: "handle \<Rightarrow> (data_consumer \<Rightarrow> data_consumer) \<Rightarrow> ('w recv_transport, unit) action" where
  "update_data_consumer p f = modifyA (\<lambda>s. s\<lparr> rt_dataObjects := (rt_dataObjects s)[p := f (rt_dataObjects s ! p)] \<rparr>)"

definition RecvTransport_new :: "'w result \<Rightarrow> json \<Rightarrow> json \<Rightarrow> json \<Rightarrow> json \<Rightarrow> json \<Rightarrow> 'w recv_transport result" where
  "RecvTransport_new pc iceParameters iceCandidates dtlsParameters sctpParameters extended =
     bindE (Handler_new pc iceParameters iceCandidates dtlsParameters sctpParameters) (\<lambda>h.
     ok \<lparr> t_handler = h, t_closed = False, t_extendedRtpCapabilities = extended, t_maxSctpMessageSize = 0,
          t_probatorConsumerCreated = False, t_hasSctpParameters = is_object sctpParameters, t_connectionState = IceNew,
          rt_objects = [], rt_consumers = [], rt_dataObjects = [], rt_dataConsumers = [] \<rparr>)"

text \<open>The consumer for RTP probation; only exceptions of the library's own classes are swallowed.\<close>

definition create_probator :: "'w webrtc \<Rightarrow> 'w listener \<Rightarrow> string \<Rightarrow> json \<Rightarrow> ('w recv_transport, unit) action" where
  "create_probator wr lis kind rtpParameters =
     (\<lambda>s. case
        bindA (liftA (generateProbatorRtpParameters rtpParameters)) (\<lambda>probator.
        thenA (connectingA lis (\<lambda>onConnect. RecvHandler_Receive wr onConnect ''probator'' kind probator))
        (modifyA (\<lambda>s. s\<lparr> t_probatorConsumerCreated := True \<rparr>))) s of
          (Inl e, s') \<Rightarrow> (if is_client_error e then ok () else throw e, s')
        | (Inr u, s') \<Rightarrow> (ok u, s'))"

text \<open>\<open>Consume\<close> once its arguments are accepted.\<close>

definition consume_received ::
  "'w webrtc \<Rightarrow> 'w listener \<Rightarrow> string \<Rightarrow> string \<Rightarrow> string \<Rightarrow> json \<Rightarrow> json \<Rightarrow> ('w recv_transport, handle) action" where
  "consume_received wr lis id' producerId kind rtpParameters appData =
     bindA (connectingA lis (\<lambda>onConnect. RecvHandler_Receive wr onConnect id' kind rtpParameters)) (\<lambda>(localId, receiver, track).
     let consumer = \<lparr> co_id = id', co_localId = localId, co_producerId = producerId, co_closed = False,
                      co_receiver = receiver, co_track = track, co_rtpParameters = rtpParameters, co_appData = appData \<rparr> in
     bindA (readA (\<lambda>s. length (rt_objects s))) (\<lambda>p.
     thenA (modifyA (\<lambda>s. s\<lparr> rt_objects := rt_objects s @ [consumer],
                             rt_consumers := AList.update id' p (rt_consumers s) \<rparr>))
     (thenA (unlessA (\<lambda>s. t_probatorConsumerCreated s \<or> kind \<noteq> ''video'') (create_probator wr lis kind rtpParameters))
     (returnA p))))"

definition RecvTransport_Consume ::
  "'w webrtc \<Rightarrow> 'w listener \<Rightarrow> string \<Rightarrow> string \<Rightarrow> string \<Rightarrow> json option \<Rightarrow> json \<Rightarrow> ('w recv_transport, handle) action" where
  "RecvTransport_Consume wr lis id' producerId kind rtpParametersOpt appData =
     unless_closed ''RecvTransport closed''
     (if id' = [] then throwA (TypeError ''missing id'')
      else if producerId = [] then throwA (TypeError ''missing producerId'')
      else if kind \<noteq> ''audio'' \<and> kind \<noteq> ''video'' then throwA (TypeError ''invalid kind'')
      else case rtpParametersOpt of
        None \<Rightarrow> throwA (TypeError ''missing rtpParameters'')
      | Some params \<Rightarrow>
          if \<not> is_object appData then throwA (TypeError ''appData must be a JSON object'')
          else
          bindA (readA t_extendedRtpCapabilities) (\<lambda>extended.
          bindA (liftA (canReceive params extended)) (\<lambda>(can, rtpParameters).
          if \<not> can then throwA (UnsupportedError ''cannot consume this Producer'')
          else
          consume_received wr lis id' producerId kind rtpParameters appData)))"

definition RecvTransport_ConsumeData ::
  "'w webrtc \<Rightarrow> 'w listener \<Rightarrow> string \<Rightarrow> string \<Rightarrow> 16 word \<Rightarrow> string \<Rightarrow> string \<Rightarrow> json \<Rightarrow> ('w recv_transport, handle) action" where
  "RecvTransport_ConsumeData wr lis id' producerId streamId label protocol appData =
     unless_closed ''RecvTransport closed''
     (bindA (readA t_hasSctpParameters) (\<lambda>hasSctp.
      if id' = [] then throwA (TypeError ''missing id'')
      else if producerId = [] then throwA (TypeError ''missing producerId'')
      else if \<not> hasSctp
      then throwA (TypeError ''Cannot use DataChannels with this transport. SctpParameters are not set.'')
      else
      bindA (connectingA lis (\<lambda>onConnect. ReceiveDataChannel wr onConnect label
               \<lparr> dc_ordered = True, dc_maxRetransmitTime = None, dc_maxRetransmits = None,
                 dc_protocol = protocol, dc_negotiated = False, dc_id = ucast streamId \<rparr>)) (\<lambda>(dataChannel, sctpStreamParameters).
      let dataConsumer = \<lparr> dk_id = id', dk_dataProducerId = producerId, dk_closed = False, dk_dataChannel = dataChannel,
                           dk_sctpParameters = sctpStreamParameters, dk_appData = appData \<rparr> in
      thenA (outsideA (modifyA (wr_RegisterObserver wr dataChannel)))
      (bindA (readA (\<lambda>s. length (rt_dataObjects s))) (\<lambda>p.
       thenA (modifyA (\<lambda>s. s\<lparr> rt_dataObjects := rt_dataObjects s @ [dataConsumer],
                               rt_dataConsumers := AList.update id' p (rt_dataConsumers s) \<rparr>))
       (returnA p))))))"

definition Consumer_TransportClosed :: "'w listener \<Rightarrow> handle \<Rightarrow> ('w recv_transport, unit) action" where
  "Consumer_TransportClosed lis p =
     bindA (objectA rt_objects p) (\<lambda>consumer.
     if co_closed consumer then returnA ()
     else thenA (update_consumer p (\<lambda>x. x\<lparr> co_closed := True \<rparr>)) (outsideA (modifyA (ln_OnTransportClose lis p))))"

definition DataConsumer_TransportClosed :: "'w webrtc \<Rightarrow> 'w listener \<Rightarrow> handle \<Rightarrow> ('w recv_transport, unit) action" where
  "DataConsumer_TransportClosed wr lis p =
     bindA (objectA rt_dataObjects p) (\<lambda>dataConsumer.
     if dk_closed dataConsumer then returnA ()
     else thenA (update_data_consumer p (\<lambda>x. x\<lparr> dk_closed := True \<rparr>))
          (thenA (outsideA (modifyA (wr_dc_Close wr (dk_dataChannel dataConsumer))))
          (outsideA (modifyA (ln_OnTransportClose_data lis p)))))"

definition RecvTransport_Close :: "'w webrtc \<Rightarrow> 'w listener \<Rightarrow> ('w recv_transport, unit) action" where
  "RecvTransport_Close wr lis =
     unlessA t_closed
       (thenA (Transport_Close wr)
       (bindA (readA (\<lambda>s. map snd (rt_consumers s))) (\<lambda>ps.
        thenA (for_eachA (Consumer_TransportClosed lis) ps)
        (bindA (readA (\<lambda>s. map snd (rt_dataConsumers s))) (\<lambda>ds.
         for_eachA (DataConsumer_TransportClosed wr lis) ds)))))"

definition RecvTransport_OnClose :: "'w webrtc \<Rightarrow> consumer \<Rightarrow> ('w recv_transport, unit) action" where
  "RecvTransport_OnClose wr consumer =
     thenA (modifyA (\<lambda>s. s\<lparr> rt_consumers := AList.delete (co_id consumer) (rt_consumers s) \<rparr>))
     (unlessA t_closed (handlerA (StopReceiving wr (co_localId consumer))))"

definition Consumer_Close :: "'w webrtc \<Rightarrow> handle \<Rightarrow> ('w recv_transport, unit) action" where
  "Consumer_Close wr p =
     bindA (objectA rt_objects p) (\<lambda>consumer.
     if co_closed consumer then returnA ()
     else thenA (update_consumer p (\<lambda>x. x\<lparr> co_closed := True \<rparr>)) (RecvTransport_OnClose wr consumer))"

definition Consumer_GetStats :: "'w webrtc \<Rightarrow> handle \<Rightarrow> ('w recv_transport, json) action" where
  "Consumer_GetStats wr p =
     bindA (objectA rt_objects p) (\<lambda>consumer.
     if co_closed consumer then throwA (InvalidStateError ''Consumer closed'')
     else unless_closed ''RecvTransport closed'' (handlerA (GetReceiverStats wr (co_localId consumer))))"

definition Consumer_SetEnabled :: "'w webrtc \<Rightarrow> bool \<Rightarrow> handle \<Rightarrow> ('w recv_transport, unit) action" where
  "Consumer_SetEnabled wr enabled p =
     bindA (objectA rt_objects p) (\<lambda>consumer.
     if co_closed consumer then returnA ()
     else outsideA (modifyA (wr_set_enabled wr (co_track consumer) enabled)))"

definition Consumer_Pause :: "'w webrtc \<Rightarrow> handle \<Rightarrow> ('w recv_transport, unit) action" where
  "Consumer_Pause wr p = Consumer_SetEnabled wr False p"

definition Consumer_Resume :: "'w webrtc \<Rightarrow> handle \<Rightarrow> ('w recv_transport, unit) action" where
  "Consumer_Resume wr p = Consumer_SetEnabled wr True p"

definition DataConsumer_Close :: "'w webrtc \<Rightarrow> handle \<Rightarrow> ('w recv_transport, unit) action" where
  "DataConsumer_Close wr p =
     bindA (objectA rt_dataObjects p) (\<lambda>dataConsumer.
     if dk_closed dataConsumer then returnA ()
     else thenA (update_data_consumer p (\<lambda>x. x\<lparr> dk_closed := True \<rparr>))
          (thenA (outsideA (modifyA (wr_dc_Close wr (dk_dataChannel dataConsumer))))
          (modifyA (\<lambda>s. s\<lparr> rt_dataConsumers := AList.delete (dk_id dataConsumer) (rt_dataConsumers s) \<rparr>))))"

end
