(* ===== verification/Handler_Inv.thy ===== *)
theory Handler_Inv
  imports Handler Remote_Sdp_Runs
begin

text \<open>
  What the calls of a handler do to its remote description and its transceivers, whatever the peer
  connection answers and wherever an exception ends them: the description keeps its invariant, and
  its table of sections is the one before or the one after the single event the call stands for.
\<close>

section \<open>The table of a handler\<close>

text \<open>
  The description is consistent and shows a table, the map of transceivers is given, and the outside
  has a property.
\<close>

definition holds ::
  "section_table \<Rightarrow> (string \<times> handle) list \<Rightarrow> ('w \<Rightarrow> bool) \<Rightarrow> ('w, 'z) handler_scheme \<Rightarrow> bool" where
  "holds T M P h =
     ((\<exists>v. rs_inv v (h_remoteSdp h)) \<and> sections_of (h_remoteSdp h) = T \<and> h_mapMidTransceiver h = M \<and> P (h_pc h))"

lemma holds_updates [simp]:
  "holds T M P (h\<lparr> h_transportReady := b \<rparr>) = holds T M P h"
  "holds T M P (h\<lparr> h_hasDataChannelMediaSection := b \<rparr>) = holds T M P h"
  "holds T M P (h\<lparr> h_nextSendSctpStreamId := n \<rparr>) = holds T M P h"
  by (simp_all add: holds_def)

lemma holds_step:
  assumes "holds T M P h" "event_ok e T" "sdp_exec e (h_remoteSdp h) = Inr r"
  shows "holds (t_exec e T) M P (h\<lparr> h_remoteSdp := r \<rparr>)"
  using assms sdp_step [of _ "h_remoteSdp h" e r] by (fastforce simp: holds_def)

text \<open>The outside property is kept by the peer connection and by the callback that connects.\<close>

definition outside_keeps :: "'w webrtc \<Rightarrow> (json \<Rightarrow> ('w, unit) action) \<Rightarrow> ('w \<Rightarrow> bool) \<Rightarrow> bool" where
  "outside_keeps wr onConnect P = (stable wr P \<and> (\<forall>d. keeps P (onConnect d)))"

lemma keepsD': "keeps I m \<Longrightarrow> m s = (r, s') \<Longrightarrow> I s \<Longrightarrow> I s'"
  by (metis keepsD snd_conv)

section \<open>Actions that keep the table\<close>

lemma pcA_eq: "pcA m h = (fst (m (h_pc h)), h\<lparr> h_pc := snd (m (h_pc h)) \<rparr>)"
  by (simp add: pcA_def zoomA_def split: prod.splits)

lemma keeps_pcA: "keeps P m \<Longrightarrow> keeps (holds T M P) (pcA m)"
  by (simp add: pcA_eq keeps_def holds_def)

lemma keeps_pc [keeps_intros]:
  assumes "stable wr P"
  shows "keeps (holds T M P) (pcA (CreateOffer wr r))" "keeps (holds T M P) (pcA (CreateAnswer wr))"
    "keeps (holds T M P) (pcA (SetLocalDescription wr type sdp))"
    "keeps (holds T M P) (pcA (SetRemoteDescription wr type sdp))" "keeps (holds T M P) (pcA (GetLocalDescription wr))"
    "keeps (holds T M P) (pcA (AddTransceiver wr track init))" "keeps (holds T M P) (pcA (RemoveTrack wr t))"
    "keeps (holds T M P) (pcA (GetStats wr sel))" "keeps (holds T M P) (pcA (CreateDataChannel wr label config))"
    "keeps (holds T M P) (pcA (SetConfiguration wr servers))" "keeps (holds T M P) (pcA (mid_value wr t))"
  using wrapper_keeps [OF assms] by (simp_all add: keeps_pcA)

lemma sdp_exec_conv:
  "UpdateDtlsRole role = sdp_exec (EvDtls role)" "UpdateIceParameters ice = sdp_exec (EvIce ice)"
  "CloseMediaSection mid = sdp_exec (EvClose mid)" "SendSctpAssociation offer = sdp_exec (EvSendSctp offer)"
  "RecvSctpAssociation = sdp_exec EvRecvSctp"
  "RemoteSdp_Receive mid kind p streamId trackId = sdp_exec (EvReceive mid kind p streamId trackId)"
  by (simp_all add: fun_eq_iff)

lemma sdp_update_cases:
  obtains e where "sdp_update f h = (Inl e, h)"
  | r where "sdp_update f h = (Inr (), h\<lparr> h_remoteSdp := r \<rparr>)" "f (h_remoteSdp h) = Inr r"
  by (cases "f (h_remoteSdp h)") (auto simp: sdp_update_def sdpA_def)

lemma event_success:
  "holds T M P h \<Longrightarrow> event_ok e T \<Longrightarrow> sdp_update (sdp_exec e) h = (Inr u, h') \<Longrightarrow> holds (t_exec e T) M P h'"
  by (cases rule: sdp_update_cases [of "sdp_exec e" h]) (auto simp: holds_step)

lemma keeps_event: "event_ok e T \<Longrightarrow> t_exec e T = T \<Longrightarrow> keeps (holds T M P) (sdp_update (sdp_exec e))"
  unfolding keeps_def using holds_step [of T M P _ e] by (metis sdp_update_cases snd_conv)

lemma keeps_getSdpA [keeps_intros]: "keeps (holds T M P) getSdpA"
  unfolding getSdpA_def
proof (rule keeps_then)
  show "keeps (holds T M P) (sdp_update increase_version)"
    using increase_version_ok
    by (fastforce simp: keeps_def sdp_update_def sdpA_def holds_def okE_conv split: sum.splits elim: bindE_InrE)
  show "keeps (holds T M P) (sdpA (\<lambda>r. bindE (sdp_write (rs_sdpObject r)) (\<lambda>(text, sdp). ok (text, r\<lparr> rs_sdpObject := sdp \<rparr>))))"
    unfolding keeps_def
  proof (intro allI impI, goal_cases)
    case (1 h)
    then obtain v where inv: "rs_inv v (h_remoteSdp h)"
      by (auto simp: holds_def)
    have p: "\<forall>m\<in>set (section_objects (rs_mediaSections (h_remoteSdp h))). jfind m ''payloads'' \<noteq> None"
      using inv by (auto simp: rs_inv_def table_ok_def section_wf_def)
    have "rs_inv v ((h_remoteSdp h)\<lparr> rs_sdpObject := sdp \<rparr>)" if "sdp_write (rs_sdpObject (h_remoteSdp h)) = Inr (x, sdp)" for x sdp
      using sdp_write_shows [OF _ p that] inv by (auto simp: rs_inv_def sections_of_def)
    then show ?case
      using 1 by (fastforce simp: sdpA_def holds_def sections_of_def split: sum.splits elim: bindE_InrE)
  qed
qed

lemma keeps_setDtls [keeps_intros]: "keeps (holds T M P) (sdp_update (UpdateDtlsRole role))"
  unfolding sdp_exec_conv by (rule keeps_event) simp_all

lemma keeps_updateIce [keeps_intros]: "keeps (holds T M P) (updateIceA ice)"
proof -
  have "rs_inv v (r\<lparr> rs_iceParameters := ice \<rparr>) = rs_inv v r" for v r
    by (simp add: rs_inv_def sections_of_def)
  then show ?thesis
    unfolding updateIceA_def sdp_exec_conv
    by (intro keeps_rethrow keeps_event) (simp_all add: holds_def sections_of_def)
qed

lemma keeps_SetupTransport [keeps_intros]:
  "outside_keeps wr onConnect P \<Longrightarrow> keeps (holds T M P) (SetupTransport wr onConnect role j)"
  unfolding SetupTransport_def outside_keeps_def by (intro keeps_intros keeps_pcA) simp_all

lemma keeps_ensureTransport [keeps_intros]:
  "outside_keeps wr onConnect P \<Longrightarrow> keeps (holds T M P) (ensureTransport wr onConnect role j)"
  unfolding ensureTransport_def by (intro keeps_intros) (simp add: keepsD [OF keeps_SetupTransport])

lemma keeps_find_transceiver [keeps_intros]: "keeps I (find_transceiver localId)"
  unfolding find_transceiver_def by (intro keeps_intros) (simp split: option.splits)

lemma keeps_renegotiate_offer [keeps_intros]: "stable wr P \<Longrightarrow> keeps (holds T M P) (renegotiate_offer wr r)"
  unfolding renegotiate_offer_def by (intro keeps_intros)

lemma keeps_renegotiate_answer [keeps_intros]: "stable wr P \<Longrightarrow> keeps (holds T M P) (renegotiate_answer wr)"
  unfolding renegotiate_answer_def by (intro keeps_intros)

section \<open>Actions that take one step\<close>

definition moving ::
  "section_table \<Rightarrow> sdp_event \<Rightarrow> (string \<times> handle) list \<Rightarrow> ('w \<Rightarrow> bool) \<Rightarrow> (('w, 'z) handler_scheme, 'a) action \<Rightarrow> bool" where
  "moving T e M P m = (\<forall>h. holds T M P h \<longrightarrow> holds T M P (snd (m h)) \<or> holds (t_exec e T) M P (snd (m h)))"

named_theorems moving_intros \<open>composed actions take one step\<close>

lemma movingD:
  "moving T e M P m \<Longrightarrow> holds T M P h \<Longrightarrow> holds T M P (snd (m h)) \<or> holds (t_exec e T) M P (snd (m h))"
  by (simp add: moving_def)

lemma moving_keep: "keeps (holds T M P) m \<Longrightarrow> moving T e M P m"
  by (simp add: moving_def keeps_def)

lemma moving_bind [moving_intros]:
  "keeps (holds T M P) m \<Longrightarrow> (\<And>x. moving T e M P (f x)) \<Longrightarrow> moving T e M P (bindA m f)"
  by (fastforce simp: moving_def keeps_def bindA_def split: prod.splits sum.splits)

lemma moving_then: "keeps (holds T M P) m \<Longrightarrow> moving T e M P n \<Longrightarrow> moving T e M P (thenA m n)"
  by (simp add: thenA_def moving_bind)

lemma moving_then_last:
  assumes "moving T e M P m" "\<And>T'. keeps (holds T' M P) n"
  shows "moving T e M P (thenA m n)"
  unfolding moving_def thenA_def
proof (intro allI impI, goal_cases)
  case (1 h)
  then have "holds T M P (snd (m h)) \<or> holds (t_exec e T) M P (snd (m h))"
    by (rule movingD [OF assms(1)])
  then show ?case
    using keepsD [OF assms(2)] by (fastforce simp: bindA_def split: prod.splits sum.splits)
qed

lemma moving_unless [moving_intros]: "moving T e M P m \<Longrightarrow> moving T e M P (unlessA b m)"
  by (simp add: moving_def unlessA_def)

lemma moving_event [moving_intros]: "event_ok e T \<Longrightarrow> moving T e M P (sdp_update (sdp_exec e))"
  unfolding moving_def using holds_step [of T M P _ e] by (metis sdp_update_cases snd_conv)

section \<open>Receiving\<close>

lemma receive_localId_nonempty: "receive_localId p h \<noteq> []"
  by (auto simp: receive_localId_def split: option.splits json.splits) (metis dec_val_show_nat list.distinct(1) show_nat.simps snoc_eq_iff_butlast)+

lemma keeps_receive_exchange [keeps_intros]:
  "outside_keeps wr onConnect P \<Longrightarrow> keeps (holds T M P) (receive_exchange wr onConnect localId p)"
  unfolding receive_exchange_def by (intro keeps_intros) (simp_all add: outside_keeps_def)

lemma receive_negotiation_holds:
  assumes "outside_keeps wr onConnect P" "is_media_kind kind" "localId \<noteq> []" "localId \<notin> fst ` set T - {reuse_mid T}"
    and "holds T M P h" "receive_negotiation wr onConnect localId id' kind p h = (r, h')"
  shows "holds T M P h' \<and> r \<noteq> Inr () \<or> holds (t_receive localId T) M P h'"
proof (cases "rtp_cname p")
  case (Inl err)
  then show ?thesis
    using assms(5,6) by (auto simp: receive_negotiation_def)
next
  case (Inr cname)
  let ?e = "EvReceive localId kind p cname id'"
  have e: "event_ok ?e T"
    using assms(2-4) by simp
  show ?thesis
  proof (cases rule: sdp_update_cases [of "RemoteSdp_Receive localId kind p cname id'" h])
    case (1 err)
    then show ?thesis
      using assms(5,6) Inr by (auto simp: receive_negotiation_def thenA_def bindA_eq)
  next
    case (2 rs)
    then have "receive_exchange wr onConnect localId p (h\<lparr> h_remoteSdp := rs \<rparr>) = (r, h')"
      using assms(6) Inr by (simp add: receive_negotiation_def thenA_def bindA_eq)
    from keepsD' [OF keeps_receive_exchange [OF assms(1)] this] holds_step [OF assms(5) e] 2(2) show ?thesis
      by simp
  qed
qed

lemma Receive_holds:
  assumes "outside_keeps wr onConnect P" "is_media_kind kind" "receive_localId p h = localId"
    and "localId \<notin> fst ` set T - {reuse_mid T}" "holds T M P h"
    and "RecvHandler_Receive wr onConnect id' kind p h = (r, h')"
  shows "(\<exists>e. r = Inl e) \<and> (holds T M P h' \<or> holds (t_receive localId T) M P h') \<or>
    (\<exists>t track. r = Inr (localId, t, track) \<and> wr_mid wr t (h_pc h') = Some localId \<and>
       holds (t_receive localId T) (AList.update localId t M) P h')"
proof -
  obtain r1 h1 where h1: "receive_negotiation wr onConnect localId id' kind p h = (r1, h1)"
    by (rule prod.exhaust)
  have l: "localId \<noteq> []"
    using receive_localId_nonempty assms(3) by metis
  note n = receive_negotiation_holds [OF assms(1,2) l assms(4,5) h1]
  let ?found = "find (\<lambda>t. wr_mid wr t (h_pc h1) = Some localId) (wr_GetTransceivers wr (h_pc h1))"
  show ?thesis
  proof (cases r1)
    case (Inl e)
    then have "r = Inl e" "h' = h1"
      using assms(3,6) h1 by (simp_all add: RecvHandler_Receive_def thenA_def bindA_eq)
    then show ?thesis
      using n by auto
  next
    case (Inr u)
    then have *: "holds (t_receive localId T) M P h1"
      using n by simp
    show ?thesis
    proof (cases ?found)
      case None
      then have "r = Inl (ClientError ''new RTCRtpTransceiver not found'')" "h' = h1"
        using assms(3,6) h1 Inr by (simp_all add: RecvHandler_Receive_def thenA_def bindA_eq)
      then show ?thesis
        using * by auto
    next
      case (Some t)
      then have "wr_mid wr t (h_pc h1) = Some localId"
        by (auto dest: find_Some_iff [THEN iffD1])
      moreover have "r = Inr (localId, t, wr_receiver_track wr t (h_pc h1))"
        "h' = h1\<lparr> h_mapMidTransceiver := AList.update localId t (h_mapMidTransceiver h1) \<rparr>"
        using assms(3,6) h1 Inr Some by (simp_all add: RecvHandler_Receive_def thenA_def bindA_eq)
      ultimately show ?thesis
        using * by (auto simp: holds_def)
    qed
  qed
qed

lemma StopReceiving_holds:
  assumes "holds T M P h" "stable wr P" "map_of M localId = Some t" "localId \<in> fst ` set T"
    and "\<And>w. P w \<Longrightarrow> wr_mid wr t w = Some localId"
  shows "holds (t_close localId T) M P (snd (StopReceiving wr localId h))"
proof -
  obtain v where v: "rs_inv v (h_remoteSdp h)"
    using assms(1) by (auto simp: holds_def)
  obtain r where r: "CloseMediaSection localId (h_remoteSdp h) = Inr r"
    using CloseMediaSection_ok [OF v, of localId] assms(1,4) by (auto simp: holds_def okE_conv)
  then have h: "holds (t_close localId T) M P (h\<lparr> h_remoteSdp := r \<rparr>)"
    using holds_step [of T M P h "EvClose localId"] assms(1,4) by simp
  have "StopReceiving wr localId h = renegotiate_answer wr (h\<lparr> h_remoteSdp := r \<rparr>)"
    using assms(1,3,5) r
    by (simp add: StopReceiving_def find_transceiver_def holds_def mid_value_def bindA_def thenA_def pcA_eq sdp_update_def sdpA_def)
  then show ?thesis
    using keepsD [OF keeps_renegotiate_answer [OF assms(2)] h] by simp
qed

lemma recv_sctp_moving:
  "outside_keeps wr onConnect P \<Longrightarrow> event_ok EvRecvSctp T \<Longrightarrow> moving T EvRecvSctp M P (recv_sctp wr onConnect)"
  unfolding recv_sctp_def sdp_exec_conv
  by (intro moving_then_last moving_event keeps_intros) (simp_all add: outside_keeps_def keepsD [OF keeps_bind] keeps_ensureTransport)

lemma ReceiveDataChannel_moving:
  assumes "outside_keeps wr onConnect P" "h_hasDataChannelMediaSection h \<or> event_ok EvRecvSctp T" "holds T M P h"
  shows "holds T M P (snd (ReceiveDataChannel wr onConnect label init h)) \<or>
    holds (t_add ''datachannel'' T) M P (snd (ReceiveDataChannel wr onConnect label init h))"
proof -
  let ?v = "validateSctpStreamParameters (JObject (mk_obj [(''streamId'', JInt (scast (dc_id init))), (''ordered'', JBool (dc_ordered init))]))"
  let ?c = "pcA (CreateDataChannel wr label (init\<lparr> dc_negotiated := True \<rparr>))"
  obtain r h1 where h1: "?c h = (r, h1)"
    by (rule prod.exhaust)
  have c: "holds T M P h1"
    by (rule keepsD' [OF keeps_pc(9) h1 assms(3)]) (use assms(1) in \<open>simp add: outside_keeps_def\<close>)
  have d: "h_hasDataChannelMediaSection h1 = h_hasDataChannelMediaSection h"
    using arg_cong [OF h1, of "\<lambda>x. h_hasDataChannelMediaSection (snd x)"] by (simp add: pcA_eq)
  have u: "holds T M P (snd (unlessA h_hasDataChannelMediaSection (recv_sctp wr onConnect) h1)) \<or>
    holds (t_add ''datachannel'' T) M P (snd (unlessA h_hasDataChannelMediaSection (recv_sctp wr onConnect) h1))"
    using c d movingD [OF recv_sctp_moving [OF assms(1)] c] assms(2) by (auto simp: unlessA_def)
  show ?thesis
  proof (cases ?v)
    case (Inl e)
    then show ?thesis
      using assms(3) by (simp add: ReceiveDataChannel_def)
  next
    case (Inr p)
    show ?thesis
    proof (cases r)
      case (Inl e)
      then show ?thesis
        using Inr h1 c by (simp add: ReceiveDataChannel_def bindA_eq)
    next
      case r: (Inr dc)
      have "snd (ReceiveDataChannel wr onConnect label init h) = snd (unlessA h_hasDataChannelMediaSection (recv_sctp wr onConnect) h1)"
        using Inr r h1 by (simp add: ReceiveDataChannel_def bindA_eq) (simp add: thenA_def bindA_def split: prod.splits sum.splits)
      then show ?thesis
        using u by simp
    qed
  qed
qed

lemma keeps_recv_calls [keeps_intros]:
  assumes "stable wr P"
  shows "keeps (holds T M P) (RecvHandler_RestartIce wr ice)" "keeps (holds T M P) (GetReceiverStats wr localId)"
  unfolding RecvHandler_RestartIce_def GetReceiverStats_def
  using assms by (intro keeps_intros; simp add: keepsD [OF keeps_renegotiate_answer])+

lemma keeps_handler_calls [keeps_intros]:
  assumes "stable wr P"
  shows "keeps (holds T M P) (Handler_Close wr)" "keeps (holds T M P) (GetTransportStats wr)"
    "keeps (holds T M P) (UpdateIceServers wr uris)"
  unfolding Handler_Close_def GetTransportStats_def UpdateIceServers_def
  using assms by (intro keeps_intros keeps_pcA; simp add: stableD [OF _ wr_step.Close])+

section \<open>A new handler\<close>

lemma Handler_new_holds:
  "Handler_new pc ice cands dtls sctp = Inr h \<Longrightarrow> pc = Inr w \<Longrightarrow> P w \<Longrightarrow>
   holds [] [] P h \<and> \<not> h_transportReady h \<and> \<not> h_hasDataChannelMediaSection h"
  by (auto simp: Handler_new_def holds_def dest!: RemoteSdp_new_inv)

end
