(* ===== verification/Transport_Inv.thy ===== *)
theory Transport_Inv
  imports Transport Handler_Inv
begin

text \<open>
  A receiving transport over all its life: the remote description stays consistent, and every open
  consumer has its own section, which is open, whatever the peer connection and the application
  answer.
\<close>

section \<open>Tables\<close>

lemma find_Some_mem: "find P xs = Some x \<Longrightarrow> x \<in> set xs \<and> P x"
  by (induction xs) (auto split: if_splits)

lemma t_upd_mem: "(m, c) \<in> set t \<Longrightarrow> m \<noteq> k \<Longrightarrow> (m, c) \<in> set (t_upd k f t)"
  by (force simp: t_upd_def)

lemma t_receive_open:
  assumes "distinct (map fst T)" "(m, False) \<in> set T"
  shows "(m, False) \<in> set (t_receive l T)"
proof (cases "find snd T")
  case (Some p)
  then have "p \<in> set T" "snd p"
    by (auto dest: find_Some_mem)
  then have "m \<noteq> fst p"
    using assms by (metis eq_key_imp_eq_value prod.collapse)
  then show ?thesis
    using Some assms(2) by (cases p) (simp add: t_receive_def t_replace_def t_upd_mem)
qed (use assms(2) in \<open>simp add: t_receive_def t_add_def\<close>)

lemma t_receive_new: "(l, False) \<in> set (t_receive l T)"
proof (cases "find snd T")
  case (Some p)
  then have "p \<in> set T"
    by (auto dest: find_Some_mem)
  then have "(l, False) \<in> (\<lambda>q. if fst q = fst p then (l, False) else q) ` set T"
    by (intro image_eqI [of _ _ p]) simp_all
  then show ?thesis
    using Some by (cases p) (simp add: t_receive_def t_replace_def t_upd_def)
qed (simp add: t_receive_def t_add_def)

lemma t_receive_fst: "fst ` set (t_receive l T) \<subseteq> insert l (fst ` set T)"
  by (auto simp: t_receive_def t_replace_def t_add_def t_upd_def split: option.splits)

lemma t_close_mem: "(m, c) \<in> set T \<Longrightarrow> m \<noteq> l \<Longrightarrow> (m, c) \<in> set (t_close l T)"
  by (simp add: t_close_def t_upd_mem)

lemma reuse_mid_not_open:
  assumes "distinct (map fst T)" "(m, False) \<in> set T" "m \<noteq> []"
  shows "m \<noteq> reuse_mid T"
proof
  assume "m = reuse_mid T"
  then obtain c where "find snd T = Some (m, c)"
    using assms(3) by (auto simp: reuse_mid_def split: option.splits)
  then have "(m, True) \<in> set T"
    by (auto dest: find_Some_mem)
  then show False
    using assms(1,2) by (metis eq_key_imp_eq_value)
qed

lemma holds_distinct: "holds T M P h \<Longrightarrow> distinct (map fst T)"
  using rs_inv_distinct by (auto simp: holds_def sections_of_def comp_def)

lemma t_close_nth:
  assumes "distinct (map fst T)" "i < length T"
  shows "t_close l T ! i = (if fst (T ! i) = l \<and> 0 < i then (l, True) else T ! i)"
proof (cases "fst (hd T) = l")
  case True
  then have "fst (T ! i) \<noteq> l" if "0 < i"
    using assms that by (cases T) (auto simp: nth_Cons' dest: nth_mem)
  then show ?thesis
    using True assms(2) by (auto simp: t_close_def)
next
  case False
  then show ?thesis
    using assms(2) by (cases "i = 0") (auto simp: t_close_def t_upd_def hd_conv_nth split: prod.splits)
qed

lemma length_t_close [simp]: "length (t_close l T) = length T"
  by (simp add: t_close_def t_upd_def)

lemma holds_nonempty: "holds T M P h \<Longrightarrow> (m, c) \<in> set T \<Longrightarrow> m \<noteq> []"
  using rs_inv_wf by (fastforce simp: holds_def sections_of_def)

section \<open>Listeners\<close>

definition listener_keeps :: "'w listener \<Rightarrow> ('w \<Rightarrow> bool) \<Rightarrow> bool" where
  "listener_keeps lis P =
     ((\<forall>d. keeps P (ln_OnConnect lis d)) \<and> (\<forall>st w. P w \<longrightarrow> P (ln_OnConnectionStateChange lis st w)) \<and>
      (\<forall>k p a. keeps P (ln_OnProduce lis k p a)) \<and> (\<forall>p l q a. keeps P (ln_OnProduceData lis p l q a)) \<and>
      (\<forall>p w. P w \<longrightarrow> P (ln_OnTransportClose lis p w)) \<and> (\<forall>p w. P w \<longrightarrow> P (ln_OnTransportClose_data lis p w)))"

text \<open>A transceiver that has a MID keeps it.\<close>

definition keeps_mids :: "'w webrtc \<Rightarrow> 'w listener \<Rightarrow> bool" where
  "keeps_mids wr lis =
     (\<forall>t m. stable wr (\<lambda>w. wr_mid wr t w = Some m) \<and> listener_keeps lis (\<lambda>w. wr_mid wr t w = Some m))"

definition mids_agree :: "'w webrtc \<Rightarrow> (string \<times> handle) list \<Rightarrow> 'w \<Rightarrow> bool" where
  "mids_agree wr M w = (\<forall>(l, t)\<in>set M. wr_mid wr t w = Some l)"

lemma set_AList_update: "set (AList.update k v xs) \<subseteq> insert (k, v) (set xs)"
  by (induction xs) auto

lemma mids_agree_update: "mids_agree wr M w \<Longrightarrow> wr_mid wr t w = Some l \<Longrightarrow> mids_agree wr (AList.update l t M) w"
  using set_AList_update [of l t M] by (auto simp: mids_agree_def)

lemma mids_agree_stable: "keeps_mids wr lis \<Longrightarrow> stable wr (mids_agree wr M)"
  by (fastforce simp: keeps_mids_def stable_def mids_agree_def)

lemma mids_agree_listener: "keeps_mids wr lis \<Longrightarrow> listener_keeps lis (mids_agree wr M)"
  by (auto simp: keeps_mids_def listener_keeps_def keeps_def mids_agree_def)

lemma OnConnect_keeps:
  "keeps_mids wr lis \<Longrightarrow> outside_keeps wr (Transport_OnConnect lis b) (mids_agree wr M)"
  using mids_agree_stable [of wr lis M] mids_agree_listener [of wr lis M]
  by (simp add: outside_keeps_def Transport_OnConnect_def listener_keeps_def)

section \<open>Consumers and their sections\<close>

text \<open>Every open consumer has a transceiver and an open section of its own.\<close>

definition own_sections :: "section_table \<Rightarrow> (string \<times> handle) list \<Rightarrow> consumer list \<Rightarrow> bool" where
  "own_sections T M os =
     ((\<forall>c\<in>set os. \<not> co_closed c \<longrightarrow> map_of M (co_localId c) \<noteq> None \<and> (co_localId c, False) \<in> set T) \<and>
      (\<forall>i j. i < j \<longrightarrow> j < length os \<longrightarrow> \<not> co_closed (os ! i) \<longrightarrow> \<not> co_closed (os ! j) \<longrightarrow>
         co_localId (os ! i) \<noteq> co_localId (os ! j)))"

definition recv_inv :: "'w webrtc \<Rightarrow> ('w, 'z) handler_scheme \<Rightarrow> consumer list \<Rightarrow> bool" where
  "recv_inv wr h os = (\<exists>T M. holds T M (mids_agree wr M) h \<and> own_sections T M os)"

lemma recv_invI: "holds T M (mids_agree wr M) h \<Longrightarrow> own_sections T M os \<Longrightarrow> recv_inv wr h os"
  by (auto simp: recv_inv_def)

lemma recv_invE:
  assumes "recv_inv wr h os"
  obtains T M where "holds T M (mids_agree wr M) h" "own_sections T M os"
  using assms by (auto simp: recv_inv_def)

lemma recv_inv_distinct: "recv_inv wr h os \<Longrightarrow> distinct (map fst (sections_of (h_remoteSdp h)))"
  by (erule recv_invE) (frule holds_distinct, simp add: holds_def)

lemma recv_inv_keep:
  assumes "recv_inv wr h os" "\<And>T M. keeps (holds T M (mids_agree wr M)) m"
  shows "recv_inv wr (snd (m h)) os"
  by (rule recv_invE [OF assms(1)]) (rule recv_invI [OF keepsD [OF assms(2)]])

lemma own_sections_close:
  assumes "own_sections T M os" "p < length os"
  shows "own_sections T M (os[p := (os ! p)\<lparr> co_closed := True \<rparr>])"
proof -
  let ?os = "os[p := (os ! p)\<lparr> co_closed := True \<rparr>]"
  have o: "?os ! i = os ! i" if "\<not> co_closed (?os ! i)" for i
    using that assms(2) by (cases "i = p") simp_all
  have "c \<in> set os" if "c \<in> set ?os" "\<not> co_closed c" for c
    using that set_update_subset_insert [of os p "(os ! p)\<lparr> co_closed := True \<rparr>"] by auto
  moreover have "co_localId (?os ! i) \<noteq> co_localId (?os ! j)"
    if "i < j" "j < length os" "\<not> co_closed (?os ! i)" "\<not> co_closed (?os ! j)" for i j
    using assms(1) that o [of i] o [of j] unfolding own_sections_def by simp
  ultimately show ?thesis
    using assms(1) unfolding own_sections_def by simp
qed

lemma recv_inv_close_object:
  "recv_inv wr h os \<Longrightarrow> p < length os \<Longrightarrow> recv_inv wr h (os[p := (os ! p)\<lparr> co_closed := True \<rparr>])"
  by (erule recv_invE) (rule recv_invI, assumption, rule own_sections_close)

lemma own_sections_mono:
  assumes "own_sections T M os" "\<And>c. c \<in> set os \<Longrightarrow> \<not> co_closed c \<Longrightarrow> (co_localId c, False) \<in> set T \<Longrightarrow> (co_localId c, False) \<in> set T'"
    and "\<And>l. map_of M l \<noteq> None \<Longrightarrow> map_of M' l \<noteq> None"
  shows "own_sections T' M' os"
  using assms unfolding own_sections_def by simp

lemma own_sections_snoc:
  assumes "own_sections T M os" "map_of M (co_localId c) \<noteq> None" "(co_localId c, False) \<in> set T"
    and "\<And>c'. c' \<in> set os \<Longrightarrow> \<not> co_closed c' \<Longrightarrow> co_localId c' \<noteq> co_localId c"
  shows "own_sections T M (os @ [c])"
  using assms unfolding own_sections_def by (auto simp: nth_append less_Suc_eq)

text \<open>Receiving adds a section, and a consumer for it.\<close>

lemma recv_inv_Receive:
  assumes "recv_inv wr h os" "keeps_mids wr lis" "is_media_kind kind" "receive_localId p h = l"
    and "l \<notin> fst ` set (sections_of (h_remoteSdp h)) - {reuse_mid (sections_of (h_remoteSdp h))}"
    and "RecvHandler_Receive wr (Transport_OnConnect lis b) id' kind p h = (r, h')"
  shows "recv_inv wr h' os \<and> fst ` set (sections_of (h_remoteSdp h')) \<subseteq> insert l (fst ` set (sections_of (h_remoteSdp h))) \<and>
    (\<forall>l' t track. r = Inr (l', t, track) \<longrightarrow> l' = l \<and> (\<forall>c. co_localId c = l \<longrightarrow> recv_inv wr h' (os @ [c])))"
proof -
  from assms(1) obtain T M where TM: "holds T M (mids_agree wr M) h" "own_sections T M os"
    by (rule recv_invE)
  then have l: "l \<notin> fst ` set T - {reuse_mid T}"
    using assms(5) by (simp add: holds_def)
  have T: "own_sections (t_receive l T) M os"
    using TM(2) t_receive_open [OF holds_distinct [OF TM(1)]] by (rule own_sections_mono)
  have sub: "fst ` set (sections_of (h_remoteSdp h')) \<subseteq> insert l (fst ` set (sections_of (h_remoteSdp h)))"
    if "holds T M' P' h' \<or> holds (t_receive l T) M' P' h'" for M' P'
    using that TM(1) t_receive_fst [of l T] by (elim disjE; simp add: holds_def subset_insertI)
  have fresh: "co_localId c \<noteq> l" if "c \<in> set os" "\<not> co_closed c" for c
  proof
    assume "co_localId c = l"
    then have "(l, False) \<in> set T"
      using TM(2) that by (auto simp: own_sections_def)
    then show False
      using l reuse_mid_not_open [OF holds_distinct [OF TM(1)]] holds_nonempty [OF TM(1)] by force
  qed
  note cases = Receive_holds [OF OnConnect_keeps [OF assms(2)] assms(3,4) l TM(1) assms(6)]
  show ?thesis
  proof (cases r)
    case (Inl e)
    then show ?thesis
      using cases TM(2) T recv_invI sub [of M "mids_agree wr M"] by auto
  next
    case (Inr x)
    then obtain t track where x: "x = (l, t, track)" "wr_mid wr t (h_pc h') = Some l"
      and hh: "holds (t_receive l T) (AList.update l t M) (mids_agree wr M) h'"
      using cases by auto
    let ?M = "AList.update l t M"
    have h': "holds (t_receive l T) ?M (mids_agree wr ?M) h'"
      using hh x(2) mids_agree_update by (auto simp: holds_def)
    have own: "own_sections (t_receive l T) ?M os"
      using T by (rule own_sections_mono) (simp_all add: update_conv')
    have "own_sections (t_receive l T) ?M (os @ [c])" if "co_localId c = l" for c
      using own fresh that by (intro own_sections_snoc) (simp_all add: update_conv' t_receive_new)
    then show ?thesis
      using Inr x(1) recv_invI [OF h'] own sub [of ?M "mids_agree wr ?M"] h' by auto
  qed
qed

text \<open>Stopping closes the section of the consumer and no other.\<close>

lemma own_sections_other:
  assumes "own_sections T M os" "p < length os" "\<not> co_closed (os ! p)"
    and "c \<in> set (os[p := (os ! p)\<lparr> co_closed := True \<rparr>])" "\<not> co_closed c"
  shows "co_localId c \<noteq> co_localId (os ! p)"
proof -
  obtain i where i: "i < length os" "c = os[p := (os ! p)\<lparr> co_closed := True \<rparr>] ! i"
    using assms(4) by (metis in_set_conv_nth length_list_update)
  then have "i \<noteq> p" "c = os ! i"
    using assms(2,5) by (auto simp: nth_list_update split: if_splits)
  then show ?thesis
    using assms(1,2,3,5) i(1) unfolding own_sections_def by (metis linorder_neqE_nat)
qed

lemma recv_inv_StopReceiving:
  assumes "recv_inv wr h os" "keeps_mids wr lis" "p < length os" "\<not> co_closed (os ! p)"
  shows "recv_inv wr (snd (StopReceiving wr (co_localId (os ! p)) h)) (os[p := (os ! p)\<lparr> co_closed := True \<rparr>])"
    and "sections_of (h_remoteSdp (snd (StopReceiving wr (co_localId (os ! p)) h))) =
      t_close (co_localId (os ! p)) (sections_of (h_remoteSdp h))"
proof -
  let ?l = "co_localId (os ! p)"
  from assms(1) obtain T M where TM: "holds T M (mids_agree wr M) h" "own_sections T M os"
    by (rule recv_invE)
  have "map_of M ?l \<noteq> None \<and> (?l, False) \<in> set T"
    using TM(2) assms(3,4) by (simp add: own_sections_def)
  then obtain t where t: "map_of M ?l = Some t" "(?l, False) \<in> set T"
    by auto
  have agree: "mids_agree wr M w \<Longrightarrow> wr_mid wr t w = Some ?l" for w
    using map_of_SomeD [OF t(1)] by (auto simp: mids_agree_def)
  have h': "holds (t_close ?l T) M (mids_agree wr M) (snd (StopReceiving wr ?l h))"
    by (rule StopReceiving_holds [OF TM(1) mids_agree_stable [OF assms(2)] t(1) _ agree]) (use t(2) in force)
  moreover have "own_sections (t_close ?l T) M (os[p := (os ! p)\<lparr> co_closed := True \<rparr>])"
    using own_sections_close [OF TM(2) assms(3)]
    by (rule own_sections_mono) (simp_all add: t_close_mem own_sections_other [OF TM(2) assms(3,4)])
  ultimately show "recv_inv wr (snd (StopReceiving wr ?l h)) (os[p := (os ! p)\<lparr> co_closed := True \<rparr>])"
    by (rule recv_invI)
  show "sections_of (h_remoteSdp (snd (StopReceiving wr ?l h))) = t_close ?l (sections_of (h_remoteSdp h))"
    using h' TM(1) by (simp add: holds_def)
qed

lemma recv_inv_DataChannel:
  assumes "recv_inv wr h os" "keeps_mids wr lis"
    and "h_hasDataChannelMediaSection h \<or> ''datachannel'' \<notin> fst ` set (sections_of (h_remoteSdp h))"
  shows "recv_inv wr (snd (ReceiveDataChannel wr (Transport_OnConnect lis b) label init h)) os"
proof -
  from assms(1) obtain T M where TM: "holds T M (mids_agree wr M) h" "own_sections T M os"
    by (rule recv_invE)
  have "own_sections (t_add ''datachannel'' T) M os"
    using TM(2) by (rule own_sections_mono) (simp_all add: t_add_def)
  moreover have "h_hasDataChannelMediaSection h \<or> event_ok EvRecvSctp T"
    using assms(3) TM(1) by (auto simp: holds_def)
  from ReceiveDataChannel_moving [OF OnConnect_keeps [OF assms(2)] this TM(1)] TM(2) calculation show ?thesis
    by (metis recv_invI)
qed

section \<open>Calls of a receiving transport\<close>

datatype recv_call =
    RConsume string string string "json option" json
  | RConsumeData string string "16 word" string string json
  | RClose
  | RGetStats
  | RRestartIce json
  | RUpdateIceServers json
  | RStateChange ice_connection_state
  | RConsumerClose handle
  | RConsumerGetStats handle
  | RConsumerPause handle
  | RConsumerResume handle
  | RDataConsumerClose handle

fun recv_exec :: "'w webrtc \<Rightarrow> 'w listener \<Rightarrow> recv_call \<Rightarrow> 'w recv_transport \<Rightarrow> 'w recv_transport" where
  "recv_exec wr lis (RConsume i pid kind p app) s = snd (RecvTransport_Consume wr lis i pid kind p app s)"
| "recv_exec wr lis (RConsumeData i pid sid label protocol app) s =
     snd (RecvTransport_ConsumeData wr lis i pid sid label protocol app s)"
| "recv_exec wr lis RClose s = snd (RecvTransport_Close wr lis s)"
| "recv_exec wr lis RGetStats s = snd (Transport_GetStats wr s)"
| "recv_exec wr lis (RRestartIce ice) s = snd (Transport_RestartIce (RecvHandler_RestartIce wr) ice s)"
| "recv_exec wr lis (RUpdateIceServers uris) s = snd (Transport_UpdateIceServers wr uris s)"
| "recv_exec wr lis (RStateChange st) s = snd (Transport_OnConnectionStateChange lis st s)"
| "recv_exec wr lis (RConsumerClose p) s = snd (Consumer_Close wr p s)"
| "recv_exec wr lis (RConsumerGetStats p) s = snd (Consumer_GetStats wr p s)"
| "recv_exec wr lis (RConsumerPause p) s = snd (Consumer_Pause wr p s)"
| "recv_exec wr lis (RConsumerResume p) s = snd (Consumer_Resume wr p s)"
| "recv_exec wr lis (RDataConsumerClose p) s = snd (DataConsumer_Close wr p s)"

abbreviation recv_table :: "'w recv_transport \<Rightarrow> section_table" where
  "recv_table s \<equiv> sections_of (h_remoteSdp (t_handler s))"

text \<open>
  What the application guarantees: the MID of a new consumer, which the server chooses, names no
  section but the one to recycle, nor does that of the probator; a data channel section is asked
  for once.
\<close>

definition fresh_mid :: "string \<Rightarrow> section_table \<Rightarrow> bool" where
  "fresh_mid l T = (l \<notin> fst ` set T - {reuse_mid T})"

fun recv_call_ok :: "recv_call \<Rightarrow> 'w recv_transport \<Rightarrow> bool" where
  "recv_call_ok (RConsume i pid kind (Some p) app) s =
     (case canReceive p (t_extendedRtpCapabilities s) of
        Inl _ \<Rightarrow> True
      | Inr (_, p') \<Rightarrow>
          let l = receive_localId p' (t_handler s) in
          fresh_mid l (recv_table s) \<and>
          (kind = ''video'' \<and> \<not> t_probatorConsumerCreated s \<longrightarrow> ''probator'' \<notin> insert l (fst ` set (recv_table s))))"
| "recv_call_ok (RConsumeData i pid sid label protocol app) s =
     (h_hasDataChannelMediaSection (t_handler s) \<or> ''datachannel'' \<notin> fst ` set (recv_table s))"
| "recv_call_ok _ s = True"

inductive recv_run :: "'w webrtc \<Rightarrow> 'w listener \<Rightarrow> 'w recv_transport \<Rightarrow> 'w recv_transport \<Rightarrow> bool" for wr lis s0 where
  recv_run_Nil: "recv_run wr lis s0 s0"
| recv_run_step: "recv_run wr lis s0 s \<Longrightarrow> recv_call_ok c s \<Longrightarrow> recv_run wr lis s0 (recv_exec wr lis c s)"

definition recv_ok :: "'w webrtc \<Rightarrow> 'w recv_transport \<Rightarrow> bool" where
  "recv_ok wr s = recv_inv wr (t_handler s) (rt_objects s)"

section \<open>Every call keeps the invariant\<close>

lemma recv_ok_cong: "t_handler s' = t_handler s \<Longrightarrow> rt_objects s' = rt_objects s \<Longrightarrow> recv_ok wr s' = recv_ok wr s"
  by (simp add: recv_ok_def)

lemma handlerA_eq: "handlerA m s = (fst (m (t_handler s)), s\<lparr> t_handler := snd (m (t_handler s)) \<rparr>)"
  by (simp add: handlerA_def zoomA_def split: prod.splits)

lemma keeps_handlerA:
  "(\<And>T M. keeps (holds T M (mids_agree wr M)) m) \<Longrightarrow> keeps (recv_ok wr) (handlerA m)"
  by (simp add: keeps_def handlerA_eq recv_ok_def recv_inv_keep [unfolded keeps_def])

lemma keeps_outsideA [keeps_intros]:
  "(\<And>M. keeps (mids_agree wr M) m) \<Longrightarrow> keeps (recv_ok wr) (outsideA m)"
  unfolding outsideA_def by (intro keeps_handlerA keeps_pcA)

lemma keeps_unless_closed [keeps_intros]: "keeps I m \<Longrightarrow> keeps I (unless_closed msg m)"
  by (simp add: keeps_def unless_closed_def)

lemma keeps_objectA [keeps_intros]: "keeps I (objectA objs p)"
  by (simp add: keeps_def objectA_def)

lemma keeps_for_each [keeps_intros]: "(\<And>x. keeps I (f x)) \<Longrightarrow> keeps I (for_eachA f xs)"
  by (induction xs) (simp_all add: keeps_intros)

lemma keeps_recv_transport_calls:
  assumes "keeps_mids wr lis"
  shows "keeps (recv_ok wr) (Transport_GetStats wr)" "keeps (recv_ok wr) (Transport_RestartIce (RecvHandler_RestartIce wr) ice)"
    "keeps (recv_ok wr) (Transport_UpdateIceServers wr uris)" "keeps (recv_ok wr) (Transport_OnConnectionStateChange lis st)"
    "keeps (recv_ok wr) (Transport_Close wr)" "keeps (recv_ok wr) (Consumer_GetStats wr p)"
    "keeps (recv_ok wr) (Consumer_SetEnabled wr b p)" "keeps (recv_ok wr) (DataConsumer_Close wr p)"
    "keeps (recv_ok wr) (DataConsumer_TransportClosed wr lis p)"
proof -
  note st = mids_agree_stable [OF assms]
  note lk = mids_agree_listener [OF assms, unfolded listener_keeps_def]
  have h: "keeps (recv_ok wr) (handlerA (GetTransportStats wr))" "keeps (recv_ok wr) (handlerA (RecvHandler_RestartIce wr ice))"
    "keeps (recv_ok wr) (handlerA (UpdateIceServers wr uris))" "keeps (recv_ok wr) (handlerA (Handler_Close wr))"
    "keeps (recv_ok wr) (handlerA (GetReceiverStats wr l))" for l
    by (intro keeps_handlerA keeps_intros st)+
  show "keeps (recv_ok wr) (Transport_GetStats wr)" "keeps (recv_ok wr) (Transport_RestartIce (RecvHandler_RestartIce wr) ice)"
    "keeps (recv_ok wr) (Transport_UpdateIceServers wr uris)"
    unfolding Transport_GetStats_def Transport_RestartIce_def Transport_UpdateIceServers_def by (intro keeps_unless_closed h)+
  show "keeps (recv_ok wr) (Transport_OnConnectionStateChange lis st)"
    unfolding Transport_OnConnectionStateChange_def using lk by (intro keeps_intros) (auto simp: recv_ok_def)
  show "keeps (recv_ok wr) (Transport_Close wr)"
    unfolding Transport_Close_def using keepsD [OF h(4)] by (intro keeps_intros) (simp add: recv_ok_def)
  show "keeps (recv_ok wr) (Consumer_GetStats wr p)"
    unfolding Consumer_GetStats_def by (intro keeps_intros h)
  show "keeps (recv_ok wr) (Consumer_SetEnabled wr b p)"
    unfolding Consumer_SetEnabled_def using stableD [OF st wr_step.set_enabled] by (intro keeps_intros)
  show "keeps (recv_ok wr) (DataConsumer_Close wr p)" "keeps (recv_ok wr) (DataConsumer_TransportClosed wr lis p)"
    unfolding DataConsumer_Close_def DataConsumer_TransportClosed_def update_data_consumer_def
    using stableD [OF st wr_step.dc_Close] lk by (intro keeps_intros; simp add: recv_ok_def)+
qed

lemma objectA_eq: "objectA objs p s = (if p < length (objs s) then Inr (objs s ! p) else Inl Undefined, s)"
  by (simp add: objectA_def)

lemma keeps_Consumer_TransportClosed:
  assumes "keeps_mids wr lis"
  shows "keeps (recv_ok wr) (Consumer_TransportClosed lis p)"
proof -
  have o: "keeps (recv_ok wr) (outsideA (modifyA (ln_OnTransportClose lis p)))"
    using mids_agree_listener [OF assms, unfolded listener_keeps_def] by (intro keeps_intros) simp
  show ?thesis
    unfolding keeps_def
  proof (intro allI impI)
    fix s
    assume s: "recv_ok wr s"
    show "recv_ok wr (snd (Consumer_TransportClosed lis p s))"
    proof (cases "p < length (rt_objects s) \<and> \<not> co_closed (rt_objects s ! p)")
      case True
      then have "recv_ok wr (s\<lparr> rt_objects := (rt_objects s)[p := (rt_objects s ! p)\<lparr> co_closed := True \<rparr>] \<rparr>)"
        using s recv_inv_close_object by (auto simp: recv_ok_def)
      from keepsD [OF o this] True show ?thesis
        by (simp add: Consumer_TransportClosed_def bindA_eq objectA_eq update_consumer_def)
    next
      case False
      then show ?thesis
        using s by (auto simp: Consumer_TransportClosed_def bindA_def objectA_eq)
    qed
  qed
qed

lemma keeps_RecvTransport_Close:
  assumes "keeps_mids wr lis"
  shows "keeps (recv_ok wr) (RecvTransport_Close wr lis)"
proof -
  have "keeps (recv_ok wr)
     (thenA (Transport_Close wr)
       (bindA (readA (\<lambda>s. map snd (rt_consumers s))) (\<lambda>ps.
        thenA (for_eachA (Consumer_TransportClosed lis) ps)
        (bindA (readA (\<lambda>s. map snd (rt_dataConsumers s))) (\<lambda>ds.
         for_eachA (DataConsumer_TransportClosed wr lis) ds)))))"
    by (intro keeps_intros keeps_recv_transport_calls [OF assms] keeps_Consumer_TransportClosed [OF assms])
  then show ?thesis
    unfolding RecvTransport_Close_def by (intro keeps_unless) (rule keepsD)
qed

lemma keeps_Consumer_Close:
  assumes "keeps_mids wr lis"
  shows "keeps (recv_ok wr) (Consumer_Close wr p)"
  unfolding keeps_def
proof (intro allI impI)
  fix s
  assume s: "recv_ok wr s"
  show "recv_ok wr (snd (Consumer_Close wr p s))"
  proof (cases "p < length (rt_objects s) \<and> \<not> co_closed (rt_objects s ! p)")
    case True
    then show ?thesis
      using s recv_inv_close_object [of wr "t_handler s" "rt_objects s" p]
        recv_inv_StopReceiving(1) [of wr "t_handler s" "rt_objects s" lis p] assms
      by (simp add: Consumer_Close_def bindA_eq objectA_eq update_consumer_def RecvTransport_OnClose_def unlessA_def
          handlerA_eq recv_ok_def)
  next
    case False
    then show ?thesis
      using s by (auto simp: Consumer_Close_def bindA_def objectA_eq)
  qed
qed

lemma Consumer_Close_open:
  assumes "p < length (rt_objects s)" "\<not> co_closed (rt_objects s ! p)" "\<not> t_closed s"
  shows "t_handler (snd (Consumer_Close wr p s)) = snd (StopReceiving wr (co_localId (rt_objects s ! p)) (t_handler s))"
    and "rt_objects (snd (Consumer_Close wr p s)) = (rt_objects s)[p := (rt_objects s ! p)\<lparr> co_closed := True \<rparr>]"
  using assms
  by (simp_all add: Consumer_Close_def bindA_eq objectA_eq update_consumer_def RecvTransport_OnClose_def unlessA_def handlerA_eq)

lemma probator_localId: "generateProbatorRtpParameters p = Inr q \<Longrightarrow> receive_localId q h = ''probator''"
  by (auto simp: generateProbatorRtpParameters_def receive_localId_def ProbatorMid_def)

lemma connectingA_eq: "connectingA lis m s = handlerA (m (Transport_OnConnect lis (t_closed s))) s"
  by (simp add: connectingA_def)

lemma create_probator_ok:
  assumes "keeps_mids wr lis" "recv_ok wr s" "is_media_kind kind" "fresh_mid ''probator'' (recv_table s)"
  shows "recv_ok wr (snd (create_probator wr lis kind p s))"
proof (cases "generateProbatorRtpParameters p")
  case (Inl e)
  then show ?thesis
    using assms(2) by (simp add: create_probator_def split: if_splits)
next
  case (Inr q)
  obtain r h' where r: "RecvHandler_Receive wr (Transport_OnConnect lis (t_closed s)) ''probator'' kind q (t_handler s) = (r, h')"
    by (rule prod.exhaust)
  have "recv_inv wr h' (rt_objects s)"
    using recv_inv_Receive [OF _ assms(1,3) probator_localId [OF Inr] _ r] assms(2,4) by (simp add: recv_ok_def fresh_mid_def)
  then show ?thesis
    using Inr r by (cases r) (simp_all add: create_probator_def thenA_def bindA_def connectingA_eq handlerA_eq recv_ok_def)
qed

lemma consume_received_ok:
  fixes s :: "'w recv_transport"
  assumes "keeps_mids wr lis" "recv_ok wr s" "is_media_kind kind" "l = receive_localId q (t_handler s)"
    and "fresh_mid l (recv_table s)"
    and "kind = ''video'' \<and> \<not> t_probatorConsumerCreated s \<Longrightarrow> ''probator'' \<notin> insert l (fst ` set (recv_table s))"
  shows "recv_ok wr (snd (consume_received wr lis i pid kind q app s))"
proof -
  obtain r h' where r: "RecvHandler_Receive wr (Transport_OnConnect lis (t_closed s)) i kind q (t_handler s) = (r, h')"
    by (rule prod.exhaust)
  have R: "recv_inv wr h' (rt_objects s)"
    "fst ` set (sections_of (h_remoteSdp h')) \<subseteq> insert l (fst ` set (recv_table s))"
    "\<And>l' t track c. r = Inr (l', t, track) \<Longrightarrow> co_localId c = l' \<Longrightarrow> recv_inv wr h' (rt_objects s @ [c])"
    using recv_inv_Receive [OF _ assms(1,3) assms(4) [symmetric] _ r] assms(2,5) by (auto simp: recv_ok_def fresh_mid_def)
  show ?thesis
  proof (cases r)
    case (Inl e)
    then show ?thesis
      using r R(1) by (simp add: consume_received_def bindA_def connectingA_eq handlerA_eq recv_ok_def)
  next
    case (Inr x)
    then obtain l' t track where y: "r = Inr (l', t, track)"
      by (cases x) auto
    define c where "c = \<lparr> co_id = i, co_localId = l', co_producerId = pid, co_closed = False, co_receiver = t, co_track = track,
      co_rtpParameters = q, co_appData = app \<rparr>"
    define s' where "s' = s\<lparr> t_handler := h', rt_objects := rt_objects s @ [c],
      rt_consumers := AList.update i (length (rt_objects s)) (rt_consumers s) \<rparr>"
    have s': "recv_ok wr s'"
      using R(3) [OF y, of c] by (simp add: recv_ok_def s'_def c_def)
    have eq: "snd (consume_received wr lis i pid kind q app s) =
      snd (unlessA (\<lambda>s. t_probatorConsumerCreated s \<or> kind \<noteq> ''video'') (create_probator wr lis kind q) s')"
      using r y
      by (auto simp: consume_received_def bindA_def thenA_def connectingA_eq handlerA_eq Let_def s'_def c_def
          split: prod.splits sum.splits)
    have "recv_ok wr (snd (create_probator wr lis kind q s'))" if "\<not> t_probatorConsumerCreated s" "kind = ''video''"
      using R(2) assms(6) that by (intro create_probator_ok [OF assms(1) s' assms(3)]) (auto simp: fresh_mid_def s'_def)
    then show ?thesis
      using s' unfolding eq by (auto simp: unlessA_def s'_def)
  qed
qed

lemma Consume_ok:
  fixes s :: "'w recv_transport"
  assumes "keeps_mids wr lis" "recv_ok wr s" "recv_call_ok (RConsume i pid kind p app) s"
  shows "recv_ok wr (snd (RecvTransport_Consume wr lis i pid kind p app s))"
proof (cases "t_closed s \<or> i = [] \<or> pid = [] \<or> (kind \<noteq> ''audio'' \<and> kind \<noteq> ''video'') \<or> p = None \<or> \<not> is_object app")
  case True
  then show ?thesis
    using assms(2) by (auto simp: RecvTransport_Consume_def unless_closed_def split: option.splits)
next
  case False
  then obtain p0 where g: "\<not> t_closed s" "i \<noteq> []" "pid \<noteq> []" "p = Some p0" "is_object app" "kind = ''audio'' \<or> kind = ''video''"
    by auto
  show ?thesis
  proof (cases "canReceive p0 (t_extendedRtpCapabilities s)")
    case (Inl e)
    then show ?thesis
      using assms(2) g by (auto simp: RecvTransport_Consume_def unless_closed_def)
  next
    case (Inr x)
    then obtain can q where x: "canReceive p0 (t_extendedRtpCapabilities s) = Inr (can, q)"
      by (cases x) simp
    have "snd (RecvTransport_Consume wr lis i pid kind p app s) = (if can then snd (consume_received wr lis i pid kind q app s) else s)"
      using x g by (auto simp: RecvTransport_Consume_def unless_closed_def)
    moreover have "recv_ok wr (snd (consume_received wr lis i pid kind q app s))"
      by (rule consume_received_ok [OF assms(1,2) _ refl])
        (use assms(3) g(4,6) x in \<open>auto simp: Let_def is_media_kind_def\<close>)
    ultimately show ?thesis
      using assms(2) by simp
  qed
qed

lemma bind_state: "I (snd (m s)) \<Longrightarrow> (\<And>x. keeps I (f x)) \<Longrightarrow> I (snd (bindA m f s))"
  by (auto simp: bindA_def keeps_def split: prod.splits sum.splits)

lemma ConsumeData_ok:
  fixes s :: "'w recv_transport"
  assumes "keeps_mids wr lis" "recv_ok wr s" "recv_call_ok (RConsumeData i pid sid label protocol app) s"
  shows "recv_ok wr (snd (RecvTransport_ConsumeData wr lis i pid sid label protocol app s))"
proof -
  let ?m = "\<lambda>onConnect. ReceiveDataChannel wr onConnect label
    \<lparr> dc_ordered = True, dc_maxRetransmitTime = None, dc_maxRetransmits = None,
      dc_protocol = protocol, dc_negotiated = False, dc_id = ucast sid \<rparr>"
  have "recv_inv wr (snd (?m (Transport_OnConnect lis (t_closed s)) (t_handler s))) (rt_objects s)"
    by (rule recv_inv_DataChannel [OF _ assms(1)]) (use assms(2,3) in \<open>auto simp: recv_ok_def\<close>)
  then have h': "recv_ok wr (snd (connectingA lis ?m s))"
    by (simp add: recv_ok_def handlerA_eq connectingA_eq)
  have o: "keeps (recv_ok wr) (outsideA (modifyA (wr_RegisterObserver wr dc)))" for dc
    using stableD [OF mids_agree_stable [OF assms(1)] wr_step.RegisterObserver] by (intro keeps_intros)
  let ?tail = "\<lambda>x. case x of (dataChannel, sctpStreamParameters) \<Rightarrow>
      let dataConsumer = \<lparr> dk_id = i, dk_dataProducerId = pid, dk_closed = False, dk_dataChannel = dataChannel,
                           dk_sctpParameters = sctpStreamParameters, dk_appData = app \<rparr> in
      thenA (outsideA (modifyA (wr_RegisterObserver wr dataChannel)))
      (bindA (readA (\<lambda>s. length (rt_dataObjects s))) (\<lambda>p.
       thenA (modifyA (\<lambda>s. s\<lparr> rt_dataObjects := rt_dataObjects s @ [dataConsumer],
                               rt_dataConsumers := AList.update i p (rt_dataConsumers s) \<rparr>))
       (returnA p)))"
  have "keeps (recv_ok wr) (?tail x)" for x
    by (cases x) (auto simp: Let_def recv_ok_def [abs_def] intro!: keeps_intros o [unfolded recv_ok_def [abs_def]])
  then have "recv_ok wr (snd (bindA (connectingA lis ?m) ?tail s))"
    by (intro bind_state [of "recv_ok wr" "connectingA lis ?m" s ?tail] h')
  then show ?thesis
    using assms(2) by (simp add: RecvTransport_ConsumeData_def unless_closed_def)
qed

lemma recv_exec_ok:
  assumes "keeps_mids wr lis" "recv_ok wr s" "recv_call_ok c s"
  shows "recv_ok wr (recv_exec wr lis c s)"
proof (cases c)
  case (RConsume i pid kind p app)
  then show ?thesis
    using Consume_ok [OF assms(1,2)] assms(3) by simp
next
  case (RConsumeData i pid sid label protocol app)
  then show ?thesis
    using ConsumeData_ok [OF assms(1,2)] assms(3) by simp
qed (use assms(2) keepsD [OF keeps_RecvTransport_Close [OF assms(1)]] keepsD [OF keeps_Consumer_Close [OF assms(1)]]
      keeps_recv_transport_calls [OF assms(1), THEN keepsD]
    in \<open>simp_all add: Consumer_Pause_def Consumer_Resume_def\<close>)

lemma recv_run_ok: "recv_run wr lis s0 s \<Longrightarrow> keeps_mids wr lis \<Longrightarrow> recv_ok wr s0 \<Longrightarrow> recv_ok wr s"
  by (induction rule: recv_run.induct) (simp_all add: recv_exec_ok)

lemma RecvTransport_new_ok:
  "RecvTransport_new (Inr w) ice cands dtls sctp ext = Inr s \<Longrightarrow> recv_ok wr s"
  using Handler_new_holds [of "Inr w" ice cands dtls sctp _ w "mids_agree wr []"]
  by (auto simp: RecvTransport_new_def recv_ok_def mids_agree_def own_sections_def intro!: recv_invI)

end
