(* ===== verification/Transport_Frame.thy ===== *)
theory Transport_Frame
  imports Transport_Inv
begin

text \<open>
  What no call of a transport changes: a property of the handler that the peer connection, the
  listeners, the descriptions and the transceivers leave alone, and that survives a connection, is
  kept by every call, wherever it ends. The locales collect these conditions; the calls are proved
  once inside them.
\<close>

section \<open>Conditions\<close>

text \<open>One callback of the application, other than the one that connects.\<close>

inductive lis_step :: "'w listener \<Rightarrow> 'w \<Rightarrow> 'w \<Rightarrow> bool" for lis where
  OnConnectionStateChange: "lis_step lis w (ln_OnConnectionStateChange lis state w)"
| OnProduce: "lis_step lis w (snd (ln_OnProduce lis kind p app w))"
| OnProduceData: "lis_step lis w (snd (ln_OnProduceData lis p label protocol app w))"
| OnTransportClose: "lis_step lis w (ln_OnTransportClose lis o1 w)"
| OnTransportClose_data: "lis_step lis w (ln_OnTransportClose_data lis o2 w)"

lemma pcA_frame:
  assumes "\<And>h w. K h \<Longrightarrow> wr_step wr (h_pc h) w \<Longrightarrow> K (h\<lparr> h_pc := w \<rparr>)" "\<And>P. stable wr P \<Longrightarrow> keeps P m"
  shows "keeps K (pcA m)"
  unfolding keeps_def
proof (intro allI impI, goal_cases)
  case (1 h)
  have "stable wr (\<lambda>w. K (h\<lparr> h_pc := w \<rparr>))"
    using assms(1) [of "h\<lparr> h_pc := _ \<rparr>"] by (fastforce simp: stable_def)
  from keepsD [OF assms(2) [OF this], of "h_pc h"] 1 show ?case
    by (simp add: pcA_eq)
qed

lemma modify_stable:
  "stable wr P \<Longrightarrow> keeps P (modifyA (wr_Close wr))"
  "stable wr P \<Longrightarrow> keeps P (modifyA (\<lambda>w. snd (wr_SetTrack wr t track w)))"
  "stable wr P \<Longrightarrow> keeps P (modifyA (wr_set_enabled wr t b))"
  "stable wr P \<Longrightarrow> keeps P (modifyA (wr_RegisterObserver wr dc))"
  "stable wr P \<Longrightarrow> keeps P (modifyA (wr_dc_Close wr dc))"
  "stable wr P \<Longrightarrow> keeps P (modifyA (\<lambda>w. snd (wr_dc_Send wr dc buffer w)))"
  "stable wr P \<Longrightarrow> keeps P (\<lambda>w. applied (wr_SetParameters wr t es w))"
  by (auto simp: keeps_def elim!: stableD intro: wr_step.intros)

text \<open>A prefix that keeps a stronger property, then a last action.\<close>

lemma keeps_last:
  "keeps J m \<Longrightarrow> (\<And>s. J s \<Longrightarrow> I s) \<Longrightarrow> (\<And>x s. J s \<Longrightarrow> I (snd (f x s))) \<Longrightarrow> J s \<Longrightarrow> I (snd (bindA m f s))"
  by (auto simp: bindA_def keeps_def split: prod.splits sum.splits)

lemma keeps_cases [keeps_intros]:
  "(\<And>a b. keeps I (f a b)) \<Longrightarrow> keeps I (case x of (a, b) \<Rightarrow> f a b)"
  "keeps I m \<Longrightarrow> (\<And>a. keeps I (g a)) \<Longrightarrow> keeps I (case y of None \<Rightarrow> m | Some a \<Rightarrow> g a)"
  by (simp_all split: prod.split option.split)

lemma keeps_result: "keeps I m \<Longrightarrow> keeps I (\<lambda>s. case m s of (Inl e, s') \<Rightarrow> (f e, s') | (Inr u, s') \<Rightarrow> (g u, s'))"
  by (fastforce simp: keeps_def split: prod.split sum.split)

lemma keeps_catch [keeps_intros]: "keeps I m \<Longrightarrow> keeps I h \<Longrightarrow> keeps I (catch_clientA m h)"
  by (fastforce simp: keeps_def catch_clientA_def split: prod.split sum.split)

section \<open>Handlers\<close>

locale handler_frame =
  fixes wr :: "'w webrtc" and lis :: "'w listener" and I :: "('w, 'z) handler_scheme \<Rightarrow> bool"
  assumes frame_outside: "I h \<Longrightarrow> wr_step wr (h_pc h) w \<Longrightarrow> I (h\<lparr> h_pc := w \<rparr>)"
    and frame_listener: "I h \<Longrightarrow> lis_step lis (h_pc h) w \<Longrightarrow> I (h\<lparr> h_pc := w \<rparr>)"
    and frame_description: "I h \<Longrightarrow> I (h\<lparr> h_remoteSdp := r \<rparr>)"
    and frame_transceivers: "I h \<Longrightarrow> I (h\<lparr> h_mapMidTransceiver := M \<rparr>)"
    and frame_channel: "I h \<Longrightarrow> I (h\<lparr> h_hasDataChannelMediaSection := b \<rparr>)"
    and frame_connected: "I h \<Longrightarrow> \<not> h_transportReady h \<Longrightarrow> ln_OnConnect lis d (h_pc h) = (Inr u, w) \<Longrightarrow>
      I (h\<lparr> h_pc := w, h_transportReady := True \<rparr>)"
    and frame_refused: "I h \<Longrightarrow> \<not> h_transportReady h \<Longrightarrow> ln_OnConnect lis d (h_pc h) = (Inl e, w) \<Longrightarrow> I (h\<lparr> h_pc := w \<rparr>)"
begin

lemma frame_pc [keeps_intros]: "(\<And>P. stable wr P \<Longrightarrow> keeps P m) \<Longrightarrow> keeps I (pcA m)"
  by (rule pcA_frame [of I wr]) (rule frame_outside)

lemma frame_sdpA [keeps_intros]: "keeps I (sdpA f)"
  using frame_description by (auto simp: keeps_def sdpA_def split: sum.splits)

lemma frame_sdp_update [keeps_intros]: "keeps I (sdp_update f)"
  unfolding sdp_update_def by (rule frame_sdpA)

lemma frame_getSdpA [keeps_intros]: "keeps I getSdpA"
  unfolding getSdpA_def by (intro keeps_intros)

lemma frame_updateIceA [keeps_intros]: "keeps I (updateIceA ice)"
  unfolding updateIceA_def by (intro keeps_intros frame_description)

lemma frame_connect:
  assumes "I h" "\<not> h_transportReady h"
  shows "I (snd (thenA (pcA (Transport_OnConnect lis b d)) (modifyA (\<lambda>s. s\<lparr> h_transportReady := True \<rparr>)) h))"
proof (cases "ln_OnConnect lis d (h_pc h)")
  case (Pair r w)
  then show ?thesis
    using assms frame_connected [OF assms] frame_refused [OF assms]
    by (cases r) (auto simp: Transport_OnConnect_def thenA_def bindA_def pcA_eq)
qed

lemma frame_SetupTransport:
  assumes "I h" "\<not> h_transportReady h"
  shows "I (snd (SetupTransport wr (Transport_OnConnect lis b) role j h))"
proof -
  let ?J = "\<lambda>h. I h \<and> \<not> h_transportReady h"
  have pc: "keeps ?J (pcA (GetLocalDescription wr))"
    by (rule pcA_frame [of ?J wr]) (auto intro: frame_outside wrapper_keeps)
  have sdp: "keeps ?J (sdp_update f)" for f
    using frame_description by (auto simp: keeps_def sdp_update_def sdpA_def split: sum.splits)
  show ?thesis
    unfolding SetupTransport_def thenA_def [of "sdp_update _"]
    by (rule keeps_last [where J = ?J], intro keeps_intros pc, simp, rule keeps_last [where J = ?J], intro keeps_intros,
        simp, rule keeps_last [where J = ?J], intro keeps_intros, simp, rule keeps_last [where J = ?J], rule sdp, simp)
      (simp_all add: frame_connect assms)
qed

lemma frame_ensureTransport [keeps_intros]: "keeps I (ensureTransport wr (Transport_OnConnect lis b) role j)"
  unfolding ensureTransport_def by (intro keeps_intros) (simp add: frame_SetupTransport)

lemmas frame_wrapper = wrapper_keeps modify_stable

lemma frame_pcs [keeps_intros]:
  "keeps I (pcA (CreateOffer wr r))" "keeps I (pcA (CreateAnswer wr))" "keeps I (pcA (SetLocalDescription wr type sdp))"
  "keeps I (pcA (SetRemoteDescription wr type sdp))" "keeps I (pcA (GetLocalDescription wr))"
  "keeps I (pcA (AddTransceiver wr track init))" "keeps I (pcA (RemoveTrack wr t))" "keeps I (pcA (GetStats wr sel))"
  "keeps I (pcA (CreateDataChannel wr label config))" "keeps I (pcA (SetConfiguration wr servers))"
  "keeps I (pcA (mid_value wr t))" "keeps I (pcA (modifyA (wr_Close wr)))"
  "keeps I (pcA (modifyA (\<lambda>w. snd (wr_SetTrack wr t track' w))))" "keeps I (pcA (modifyA (wr_set_enabled wr t b)))"
  "keeps I (pcA (modifyA (wr_RegisterObserver wr dc)))" "keeps I (pcA (modifyA (wr_dc_Close wr dc)))"
  "keeps I (pcA (modifyA (\<lambda>w. snd (wr_dc_Send wr dc buffer w))))"
  "keeps I (pcA (\<lambda>w. applied (wr_SetParameters wr t es w)))"
  by (rule frame_pc, rule frame_wrapper, assumption)+

lemma frame_listeners [keeps_intros]:
  "keeps I (pcA (modifyA (ln_OnConnectionStateChange lis state)))" "keeps I (pcA (ln_OnProduce lis kind p app))"
  "keeps I (pcA (ln_OnProduceData lis p label protocol app))" "keeps I (pcA (modifyA (ln_OnTransportClose lis o1)))"
  "keeps I (pcA (modifyA (ln_OnTransportClose_data lis o2)))"
  by (auto simp: keeps_def pcA_eq intro: frame_listener lis_step.intros)

lemma frame_store: "keeps I (modifyA (\<lambda>s. s\<lparr> h_mapMidTransceiver := f s \<rparr>))"
  "keeps I (modifyA (\<lambda>s. s\<lparr> h_hasDataChannelMediaSection := b \<rparr>))"
  by (auto simp: keeps_def intro: frame_transceivers frame_channel)

lemma frame_renegotiate [keeps_intros]: "keeps I (renegotiate_offer wr r)" "keeps I (renegotiate_answer wr)"
  unfolding renegotiate_offer_def renegotiate_answer_def by (intro keeps_intros)+

lemma frame_base [keeps_intros]:
  "keeps I (Handler_Close wr)" "keeps I (GetTransportStats wr)" "keeps I (UpdateIceServers wr uris)"
  unfolding Handler_Close_def GetTransportStats_def UpdateIceServers_def by (intro keeps_intros)+

lemma frame_sending [keeps_intros]:
  "keeps I (StopSending wr l)" "keeps I (Handler_ReplaceTrack wr l track)" "keeps I (Handler_SetMaxSpatialLayer wr l layer)"
  "keeps I (GetSenderStats wr l)" "keeps I (SendHandler_RestartIce wr ice)"
  unfolding StopSending_def Handler_ReplaceTrack_def Handler_SetMaxSpatialLayer_def GetSenderStats_def
    SendHandler_RestartIce_def
  by (intro keeps_intros; simp add: keepsD [OF frame_renegotiate(1)])+

lemma frame_receiving [keeps_intros]:
  "keeps I (StopReceiving wr l)" "keeps I (GetReceiverStats wr l)" "keeps I (RecvHandler_RestartIce wr ice)"
  unfolding StopReceiving_def GetReceiverStats_def RecvHandler_RestartIce_def
  by (intro keeps_intros; simp add: keepsD [OF frame_renegotiate(2)])+

lemma frame_Receive [keeps_intros]: "keeps I (RecvHandler_Receive wr (Transport_OnConnect lis b) i kind p)"
  unfolding RecvHandler_Receive_def receive_negotiation_def receive_exchange_def
  by (intro keeps_intros frame_store)

lemma frame_recv_sctp: "keeps I (recv_sctp wr (Transport_OnConnect lis b))"
proof -
  have "keeps I (bindA (liftA r) (ensureTransport wr (Transport_OnConnect lis b) role))" for r role
    by (intro keeps_intros)
  then show ?thesis
    unfolding recv_sctp_def by (intro keeps_intros frame_store) (rule keepsD)
qed

lemma frame_ReceiveDataChannel [keeps_intros]: "keeps I (ReceiveDataChannel wr (Transport_OnConnect lis b) label init)"
  unfolding ReceiveDataChannel_def Let_def by (intro keeps_intros) (simp add: keepsD [OF frame_recv_sctp])

lemma frame_send_sctp: "keeps I (send_sctp wr (Transport_OnConnect lis b))"
  unfolding send_sctp_def by (intro keeps_intros frame_store)

text \<open>Lifting to the transport that owns the handler.\<close>

lemma frame_transport [keeps_intros]:
  "keeps I m \<Longrightarrow> keeps (\<lambda>s. I (t_handler s)) (handlerA m)"
  "keeps I (pcA n) \<Longrightarrow> keeps (\<lambda>s. I (t_handler s)) (outsideA n)"
  "(\<And>b. keeps I (f (Transport_OnConnect lis b))) \<Longrightarrow> keeps (\<lambda>s. I (t_handler s)) (connectingA lis f)"
  by (simp_all add: keeps_def handlerA_eq outsideA_def connectingA_eq)

lemma frame_Transport_Close: "keeps (\<lambda>s. I (t_handler s)) (Transport_Close wr)"
  unfolding Transport_Close_def by (intro keeps_intros) (simp add: handlerA_eq keepsD [OF frame_base(1)])

lemma frame_Transport_calls:
  "keeps (\<lambda>s. I (t_handler s)) (Transport_GetStats wr)" "keeps (\<lambda>s. I (t_handler s)) (Transport_UpdateIceServers wr uris)"
  "keeps (\<lambda>s. I (t_handler s)) (Transport_OnConnectionStateChange lis state)"
  "(\<And>ice. keeps I (f ice)) \<Longrightarrow> keeps (\<lambda>s. I (t_handler s)) (Transport_RestartIce f ice)"
  unfolding Transport_GetStats_def Transport_UpdateIceServers_def Transport_OnConnectionStateChange_def Transport_RestartIce_def
  by (intro keeps_intros; simp)+

end

section \<open>Receiving transports\<close>

locale recv_frame = handler_frame wr lis I
  for wr :: "'w webrtc" and lis :: "'w listener" and I :: "'w handler \<Rightarrow> bool"
begin

lemma frame_consumers:
  "keeps (\<lambda>s. I (t_handler s)) (Consumer_TransportClosed lis p)"
  "keeps (\<lambda>s. I (t_handler s)) (DataConsumer_TransportClosed wr lis p)"
  "keeps (\<lambda>s. I (t_handler s)) (Consumer_GetStats wr p)" "keeps (\<lambda>s. I (t_handler s)) (Consumer_SetEnabled wr b p)"
  "keeps (\<lambda>s. I (t_handler s)) (DataConsumer_Close wr p)"
  unfolding Consumer_TransportClosed_def DataConsumer_TransportClosed_def Consumer_GetStats_def Consumer_SetEnabled_def
    DataConsumer_Close_def update_consumer_def update_data_consumer_def
  by (intro keeps_intros; simp)+

lemma frame_Consumer_Close: "keeps (\<lambda>s. I (t_handler s)) (Consumer_Close wr p)"
  unfolding Consumer_Close_def update_consumer_def RecvTransport_OnClose_def
  by (intro keeps_intros; simp add: handlerA_eq keepsD [OF frame_receiving(1)])

lemma frame_RecvTransport_Close: "keeps (\<lambda>s. I (t_handler s)) (RecvTransport_Close wr lis)"
proof -
  have "keeps (\<lambda>s. I (t_handler s))
     (thenA (Transport_Close wr)
       (bindA (readA (\<lambda>s. map snd (rt_consumers s))) (\<lambda>ps.
        thenA (for_eachA (Consumer_TransportClosed lis) ps)
        (bindA (readA (\<lambda>s. map snd (rt_dataConsumers s))) (\<lambda>ds.
         for_eachA (DataConsumer_TransportClosed wr lis) ds)))))"
    by (intro keeps_intros frame_consumers frame_Transport_Close)
  then show ?thesis
    unfolding RecvTransport_Close_def by (intro keeps_unless) (rule keepsD)
qed

lemma frame_create_probator: "keeps (\<lambda>s. I (t_handler s)) (create_probator wr lis kind p)"
  unfolding create_probator_def by (intro keeps_result keeps_intros) simp

lemma frame_Consume: "keeps (\<lambda>s. I (t_handler s)) (RecvTransport_Consume wr lis i pid kind p app)"
  unfolding RecvTransport_Consume_def consume_received_def Let_def
  by (intro keeps_intros; simp add: keepsD [OF frame_create_probator])

lemma frame_ConsumeData: "keeps (\<lambda>s. I (t_handler s)) (RecvTransport_ConsumeData wr lis i pid sid label protocol app)"
  unfolding RecvTransport_ConsumeData_def Let_def by (intro keeps_intros; simp)

lemma frame_recv_exec: "I (t_handler s) \<Longrightarrow> I (t_handler (recv_exec wr lis c s))"
  by (cases c)
    (simp_all add: Consumer_Pause_def Consumer_Resume_def keepsD [OF frame_Consume] keepsD [OF frame_ConsumeData]
      keepsD [OF frame_RecvTransport_Close] keepsD [OF frame_Consumer_Close] frame_consumers [THEN keepsD]
      frame_Transport_calls [THEN keepsD] frame_receiving)

lemma frame_recv_calls: "I (t_handler s) \<Longrightarrow> I (t_handler (fold (recv_exec wr lis) cs s))"
  by (induction cs arbitrary: s) (simp_all add: frame_recv_exec)

end

section \<open>Sending transports\<close>

datatype send_call =
    SProduce "handle option" "rtp_encoding list option" "json option" "json option" json
  | SProduceData string string bool "32 word" "32 word" json
  | SClose
  | SGetStats
  | SRestartIce json
  | SUpdateIceServers json
  | SStateChange ice_connection_state
  | SProducerClose handle
  | SProducerGetStats handle
  | SProducerPause handle
  | SProducerResume handle
  | SProducerReplaceTrack handle "handle option"
  | SProducerSetMaxSpatialLayer handle "8 word"
  | SDataProducerClose handle
  | SDataProducerSend handle string

fun send_exec :: "'w webrtc \<Rightarrow> 'w listener \<Rightarrow> send_call \<Rightarrow> 'w send_transport \<Rightarrow> 'w send_transport" where
  "send_exec wr lis (SProduce track es opts codec app) s = snd (SendTransport_Produce wr lis track es opts codec app s)"
| "send_exec wr lis (SProduceData label protocol ordered retr time app) s =
     snd (SendTransport_ProduceData wr lis label protocol ordered retr time app s)"
| "send_exec wr lis SClose s = snd (SendTransport_Close wr lis s)"
| "send_exec wr lis SGetStats s = snd (Transport_GetStats wr s)"
| "send_exec wr lis (SRestartIce ice) s = snd (Transport_RestartIce (SendHandler_RestartIce wr) ice s)"
| "send_exec wr lis (SUpdateIceServers uris) s = snd (Transport_UpdateIceServers wr uris s)"
| "send_exec wr lis (SStateChange st) s = snd (Transport_OnConnectionStateChange lis st s)"
| "send_exec wr lis (SProducerClose p) s = snd (Producer_Close wr p s)"
| "send_exec wr lis (SProducerGetStats p) s = snd (Producer_GetStats wr p s)"
| "send_exec wr lis (SProducerPause p) s = snd (Producer_Pause wr p s)"
| "send_exec wr lis (SProducerResume p) s = snd (Producer_Resume wr p s)"
| "send_exec wr lis (SProducerReplaceTrack p track) s = snd (Producer_ReplaceTrack wr p track s)"
| "send_exec wr lis (SProducerSetMaxSpatialLayer p l) s = snd (Producer_SetMaxSpatialLayer wr p l s)"
| "send_exec wr lis (SDataProducerClose p) s = snd (DataProducer_Close wr p s)"
| "send_exec wr lis (SDataProducerSend p buffer) s = snd (DataProducer_Send wr p buffer s)"

fun takes_stream :: "send_call \<Rightarrow> bool" where
  "takes_stream (SProduceData label protocol ordered retr time app) = True"
| "takes_stream _ = False"

locale send_frame = handler_frame wr lis I
  for wr :: "'w webrtc" and lis :: "'w listener" and I :: "'w send_handler \<Rightarrow> bool" +
  assumes frame_parameters: "I h \<Longrightarrow> I (h\<lparr> sh_sendingRtpParametersByKind := j \<rparr>)"
    and frame_remote_parameters: "I h \<Longrightarrow> I (h\<lparr> sh_sendingRemoteRtpParametersByKind := j \<rparr>)"
begin

lemma frame_of_kind [keeps_intros]: "keeps I (parameters_of_kind kind codec)" "keeps I (remote_parameters_of_kind kind codec)"
  unfolding parameters_of_kind_def remote_parameters_of_kind_def
  by (intro keeps_intros frame_parameters frame_remote_parameters; assumption)+

lemma frame_undo: "I h \<Longrightarrow> I (undo_transceiver wr t h)"
  using frame_outside [OF frame_outside [of h] wr_step.SetTrack [of wr _ t None]] wr_step.SetDirection
  by (fastforce simp: undo_transceiver_def)

lemma frame_Send [keeps_intros]: "keeps I (SendHandler_Send wr (Transport_OnConnect lis b) track es opts codec)"
  unfolding SendHandler_Send_def send_offer_def send_answer_def Let_def
  by (intro keeps_intros frame_store frame_undo)

lemma frame_Produce: "keeps (\<lambda>s. I (t_handler s)) (SendTransport_Produce wr lis track es opts codec app)"
  unfolding SendTransport_Produce_def Let_def by (intro keeps_intros; simp)

lemma frame_producers:
  "keeps (\<lambda>s. I (t_handler s)) (Producer_TransportClosed lis p)"
  "keeps (\<lambda>s. I (t_handler s)) (DataProducer_TransportClosed wr lis p)"
  "keeps (\<lambda>s. I (t_handler s)) (Producer_GetStats wr p)" "keeps (\<lambda>s. I (t_handler s)) (Producer_SetEnabled wr b p)"
  "keeps (\<lambda>s. I (t_handler s)) (Producer_ReplaceTrack wr p track)"
  "keeps (\<lambda>s. I (t_handler s)) (Producer_SetMaxSpatialLayer wr p layer)"
  "keeps (\<lambda>s. I (t_handler s)) (DataProducer_Close wr p)" "keeps (\<lambda>s. I (t_handler s)) (DataProducer_Send wr p buffer)"
  unfolding Producer_TransportClosed_def DataProducer_TransportClosed_def Producer_GetStats_def Producer_SetEnabled_def
    Producer_ReplaceTrack_def Producer_SetMaxSpatialLayer_def DataProducer_Close_def DataProducer_Send_def
    update_producer_def update_data_producer_def
  by (intro keeps_intros; simp)+

lemma frame_Producer_Close: "keeps (\<lambda>s. I (t_handler s)) (Producer_Close wr p)"
  unfolding Producer_Close_def update_producer_def SendTransport_OnClose_def
  by (intro keeps_intros; simp add: handlerA_eq keepsD [OF frame_sending(1)])

lemma frame_SendTransport_Close: "keeps (\<lambda>s. I (t_handler s)) (SendTransport_Close wr lis)"
proof -
  have "keeps (\<lambda>s. I (t_handler s))
     (thenA (Transport_Close wr)
       (bindA (readA (\<lambda>s. map snd (st_producers s))) (\<lambda>ps.
        thenA (for_eachA (Producer_TransportClosed lis) ps)
        (bindA (readA (\<lambda>s. map snd (st_dataProducers s))) (\<lambda>ds.
         for_eachA (DataProducer_TransportClosed wr lis) ds)))))"
    by (intro keeps_intros frame_producers frame_Transport_Close)
  then show ?thesis
    unfolding SendTransport_Close_def by (intro keeps_unless) (rule keepsD)
qed

text \<open>The calls but the one that takes a stream.\<close>

lemma frame_send_exec:
  "\<not> takes_stream c \<Longrightarrow> I (t_handler s) \<Longrightarrow> I (t_handler (send_exec wr lis c s))"
  by (cases c)
    (simp_all add: Producer_Pause_def Producer_Resume_def keepsD [OF frame_Produce] keepsD [OF frame_SendTransport_Close]
      keepsD [OF frame_Producer_Close] frame_producers [THEN keepsD] frame_Transport_calls [THEN keepsD] frame_sending)

end

locale stream_frame = send_frame +
  assumes frame_stream: "I h \<Longrightarrow> I (h\<lparr> h_nextSendSctpStreamId := n \<rparr>)"
begin

lemma frame_SendDataChannel [keeps_intros]: "keeps I (SendDataChannel wr (Transport_OnConnect lis b) label init)"
  unfolding SendDataChannel_def Let_def
  by (intro keeps_intros) (simp_all add: frame_stream keepsD [OF frame_send_sctp])

lemma frame_ProduceData: "keeps (\<lambda>s. I (t_handler s)) (SendTransport_ProduceData wr lis label protocol ord r t app)"
  unfolding SendTransport_ProduceData_def Let_def by (intro keeps_intros; simp)

lemma frame_send_calls: "I (t_handler s) \<Longrightarrow> I (t_handler (fold (send_exec wr lis) cs s))"
proof (induction cs arbitrary: s)
  case (Cons c cs)
  have "I (t_handler (send_exec wr lis c s))"
    using frame_send_exec [of c s] keepsD [OF frame_ProduceData] Cons.prems by (cases c) simp_all
  then show ?case
    by (simp add: Cons.IH)
qed simp

end

end
