(* ===== verification/Transport_Example.thy ===== *)
theory Transport_Example
  imports Transport_Frame
begin

text \<open>An example peer connection and application, and the transports between them.\<close>

section \<open>The peer connection and the application\<close>

definition example_answer :: string where
  "example_answer = concat (map (\<lambda>l. l @ [CHR 0x0D, CHR 0x0A])
     [''v=0'', ''m=audio 9 UDP/TLS/RTP/SAVPF 96'', ''a=mid:0'', ''a=ice-ufrag:u'', ''a=setup:active'',
      ''a=fingerprint:sha-256 AB'', ''a=rtpmap:96 opus/8''])"

definition example_offer :: string where
  "example_offer = concat (map (\<lambda>l. l @ [CHR 0x0D, CHR 0x0A])
     [''v=0'', ''m=video 9 UDP/TLS/RTP/SAVPF 96'', ''a=rtpmap:96 VP8/9'', ''a=rtcp-fb:96 nack'', ''a=extmap:1 u''])"

text \<open>A peer connection that accepts everything and whose transceiver number n has the MID n.\<close>

definition example_pc :: "'w webrtc" where
  "example_pc =
     \<lparr> wr_CreateOffer = (\<lambda>_ w. (Inr example_offer, w)), wr_CreateAnswer = (\<lambda>w. (Inr example_answer, w)),
       wr_CreateSessionDescription = (\<lambda>_ _. None), wr_SetLocalDescription = (\<lambda>_ _ w. (None, w)),
       wr_SetRemoteDescription = (\<lambda>_ _ w. (None, w)), wr_local_description = (\<lambda>_. None),
       wr_GetTransceivers = (\<lambda>_. [0, 1]), wr_AddTransceiver_kind = (\<lambda>_ w. (Some 0, w)),
       wr_AddTransceiver = (\<lambda>_ _ w. (Some 0, w)), wr_RemoveTrack = (\<lambda>_ w. (True, w)),
       wr_GetStats = (\<lambda>_ w. (None, w)), wr_CreateDataChannel = (\<lambda>_ _ w. (Some 7, w)),
       wr_SetServers = (\<lambda>_ w. (True, w)), wr_Close = (\<lambda>w. w), wr_mid = (\<lambda>t _. Some (show_nat t)),
       wr_SetDirection = (\<lambda>_ _ w. w), wr_SetTrack = (\<lambda>_ _ w. (True, w)), wr_GetParameters = (\<lambda>_ _. []),
       wr_SetParameters = (\<lambda>_ _ w. (None, w)), wr_receiver_track = (\<lambda>t _. t), wr_track_kind = (\<lambda>_ _. ''audio''),
       wr_track_ended = (\<lambda>_ _. False), wr_track_enabled = (\<lambda>_ _. True), wr_set_enabled = (\<lambda>_ _ w. w),
       wr_RegisterObserver = (\<lambda>_ w. w), wr_dc_Close = (\<lambda>_ w. w), wr_dc_Send = (\<lambda>_ _ w. (True, w)) \<rparr>"

text \<open>An application whose state is the number of connections it has made.\<close>

definition example_listener :: "nat listener" where
  "example_listener =
     \<lparr> ln_OnConnect = (\<lambda>_ n. (Inr (), Suc n)), ln_OnConnectionStateChange = (\<lambda>_ n. n),
       ln_OnProduce = (\<lambda>_ _ _. returnA ''p''), ln_OnProduceData = (\<lambda>_ _ _ _. returnA ''d''),
       ln_OnTransportClose = (\<lambda>_ n. n), ln_OnTransportClose_data = (\<lambda>_ n. n) \<rparr>"

section \<open>Transports\<close>

definition remote_ice :: json where
  "remote_ice = JObject (mk_obj [(''usernameFragment'', JString ''u''), (''password'', JString ''p'')])"

definition remote_dtls :: json where
  "remote_dtls = JObject (mk_obj [(''role'', JString ''auto''),
     (''fingerprints'', JArray [JObject (mk_obj [(''algorithm'', JString ''sha-256''), (''value'', JString ''AB'')])])])"

definition example_transport :: "nat recv_transport result" where
  "example_transport = RecvTransport_new (Inr 0) remote_ice (JArray []) remote_dtls JNull
     (JObject (mk_obj [(''codecs'', JArray [JObject (mk_obj [(''remotePayloadType'', JInt 96)])])]))"

definition example_sender :: "nat send_transport result" where
  "example_sender = SendTransport_new (Inr 0) remote_ice (JArray []) remote_dtls JNull
     (JObject (mk_obj [(''codecs'', JArray []), (''headerExtensions'', JArray [])])) [(''audio'', True), (''video'', True)]"

lemma example_senderE:
  obtains s0 where "example_sender = Inr s0"
proof -
  have "okE example_sender (\<lambda>_. True)"
    by code_simp
  then show ?thesis
    by (rule okE_E) (rule that)
qed

lemma example_transportE:
  obtains s0 where "example_transport = Inr s0"
proof -
  have "okE example_transport (\<lambda>_. True)"
    by code_simp
  then show ?thesis
    by (rule okE_E) (rule that)
qed

lemma example_step: "wr_step example_pc w w' \<Longrightarrow> w' = w"
  by (auto simp: example_pc_def elim!: wr_step.cases)

lemma example_stable: "stable example_pc P"
  by (auto simp: stable_def dest: example_step)

lemma example_mid: "wr_mid example_pc t w = Some (show_nat t)"
  by (simp add: example_pc_def)

lemma example_listener_step: "lis_step example_listener w w' \<Longrightarrow> w' = w"
  by (auto simp: example_listener_def elim!: lis_step.cases)

end
