(* ===== verification/Transport_Props.thy ===== *)
theory Transport_Props
  imports Transport_Example
begin

text \<open>Properties of the receiving transport over all runs.\<close>

section \<open>An example\<close>

definition example_consume :: recv_call where
  "example_consume = RConsume ''c'' ''p'' ''audio'' (Some (JObject (mk_obj
     [(''mid'', JString ''0''),
      (''codecs'', JArray [JObject (mk_obj [(''mimeType'', JString ''audio/opus''), (''payloadType'', JInt 96), (''clockRate'', JInt 8)])]),
      (''encodings'', JArray [JObject (mk_obj [(''ssrc'', JInt 11)])]),
      (''rtcp'', JObject (mk_obj [(''cname'', JString ''c'')]))]))) (JObject [])"

definition example_state :: "nat recv_transport \<Rightarrow> nat recv_transport" where
  "example_state s0 = recv_exec example_pc example_listener example_consume s0"

definition example_view :: "nat recv_transport \<Rightarrow> bool \<times> (string \<times> bool) list" where
  "example_view s = (t_closed s, map (\<lambda>c. (co_localId c, co_closed c)) (rt_objects s))"

lemma example_consumed:
  "okE example_transport (\<lambda>s0. recv_call_ok example_consume s0 \<and> example_view (example_state s0) = (False, [(''0'', False)]))"
  by code_simp

lemma example_keeps_mids: "keeps_mids example_pc example_listener"
  by (simp add: keeps_mids_def example_stable example_mid listener_keeps_def keeps_def)

lemma example_consumedE:
  obtains s0 c where "example_transport = Inr s0" "recv_run example_pc example_listener s0 (example_state s0)"
    "\<not> t_closed (example_state s0)" "rt_objects (example_state s0) = [c]" "co_localId c = ''0''" "\<not> co_closed c"
proof -
  obtain s0 where s0: "example_transport = Inr s0"
    "recv_call_ok example_consume s0 \<and> example_view (example_state s0) = (False, [(''0'', False)])"
    by (rule okE_E [OF example_consumed])
  then have "recv_run example_pc example_listener s0 (example_state s0)"
    unfolding example_state_def by (intro recv_run_step recv_run_Nil) simp
  with s0 show ?thesis
    by (auto simp: example_view_def intro: that)
qed

section \<open>Properties\<close>





end
