(* ===== verification/Connect_Props.thy ===== *)
theory Connect_Props
  imports Transport_Example Ortc_Contract
begin

text \<open>
  Properties of all the sequences of calls on a transport that rest on what every call keeps: the
  transport connects once, and data channels take distinct streams.
\<close>

section \<open>Connections\<close>

text \<open>A number on the outside that only a successful \<open>OnConnect\<close> changes: it counts them.\<close>

definition counts :: "('w \<Rightarrow> nat) \<Rightarrow> 'w webrtc \<Rightarrow> 'w listener \<Rightarrow> bool" where
  "counts cnt wr lis =
     ((\<forall>w w'. wr_step wr w w' \<or> lis_step lis w w' \<longrightarrow> cnt w' = cnt w) \<and>
      (\<forall>d w. cnt (snd (ln_OnConnect lis d w)) = (case fst (ln_OnConnect lis d w) of Inl _ \<Rightarrow> cnt w | Inr _ \<Rightarrow> Suc (cnt w))))"

definition connected_times :: "('w \<Rightarrow> nat) \<Rightarrow> 'w webrtc \<Rightarrow> 'w listener \<Rightarrow> nat \<Rightarrow> ('w, 'z) handler_scheme \<Rightarrow> bool" where
  "connected_times cnt wr lis n h = (counts cnt wr lis \<longrightarrow> cnt (h_pc h) = n + of_bool (h_transportReady h))"

lemma connected_times_frame:
  "connected_times cnt wr lis n h \<Longrightarrow> wr_step wr (h_pc h) w \<Longrightarrow> connected_times cnt wr lis n (h\<lparr> h_pc := w \<rparr>)"
  "connected_times cnt wr lis n h \<Longrightarrow> lis_step lis (h_pc h) w \<Longrightarrow> connected_times cnt wr lis n (h\<lparr> h_pc := w \<rparr>)"
  by (auto simp: connected_times_def counts_def)

lemma connected_times_connect:
  assumes "connected_times cnt wr lis n h" "\<not> h_transportReady h" "ln_OnConnect lis d (h_pc h) = (r, w)"
  shows "r = Inr u \<Longrightarrow> connected_times cnt wr lis n (h\<lparr> h_pc := w, h_transportReady := True \<rparr>)"
    "r = Inl e \<Longrightarrow> connected_times cnt wr lis n (h\<lparr> h_pc := w \<rparr>)"
proof -
  have "cnt w = (case r of Inl _ \<Rightarrow> cnt (h_pc h) | Inr _ \<Rightarrow> Suc (cnt (h_pc h)))" if "counts cnt wr lis"
    using that assms(3) unfolding counts_def by (metis fst_conv snd_conv)
  then show "r = Inr u \<Longrightarrow> connected_times cnt wr lis n (h\<lparr> h_pc := w, h_transportReady := True \<rparr>)"
    "r = Inl e \<Longrightarrow> connected_times cnt wr lis n (h\<lparr> h_pc := w \<rparr>)"
    using assms(1,2) by (auto simp: connected_times_def)
qed

lemma connected_times_updates [simp]:
  "connected_times cnt wr lis n (h\<lparr> h_remoteSdp := r \<rparr>) = connected_times cnt wr lis n h"
  "connected_times cnt wr lis n (h\<lparr> h_mapMidTransceiver := M \<rparr>) = connected_times cnt wr lis n h"
  "connected_times cnt wr lis n (h\<lparr> h_hasDataChannelMediaSection := b \<rparr>) = connected_times cnt wr lis n h"
  "connected_times cnt wr lis n (h\<lparr> h_nextSendSctpStreamId := i \<rparr>) = connected_times cnt wr lis n h"
  by (simp_all add: connected_times_def)

interpretation rc: recv_frame wr lis "connected_times cnt wr lis n" for wr lis cnt n
  by unfold_locales (auto intro: connected_times_frame connected_times_connect)

lemma connected_times_parameters [simp]:
  "connected_times cnt wr lis n (h\<lparr> sh_sendingRtpParametersByKind := j \<rparr>) = connected_times cnt wr lis n h"
  "connected_times cnt wr lis n (h\<lparr> sh_sendingRemoteRtpParametersByKind := j \<rparr>) = connected_times cnt wr lis n h"
  by (simp_all add: connected_times_def)

interpretation sc: stream_frame wr lis "connected_times cnt wr lis n" for wr lis cnt n
  by unfold_locales (auto intro: connected_times_frame connected_times_connect)

lemma transports_start:
  "RecvTransport_new (Inr w) ice cands dtls sctp ext = Inr r0 \<Longrightarrow> h_pc (t_handler r0) = w \<and> \<not> h_transportReady (t_handler r0)"
  "SendTransport_new (Inr w) ice cands dtls sctp ext can = Inr s0 \<Longrightarrow>
     h_pc (t_handler s0) = w \<and> \<not> h_transportReady (t_handler s0) \<and> h_nextSendSctpStreamId (t_handler s0) = 0 \<and> st_dataObjects s0 = []"
  by (auto simp: RecvTransport_new_def SendTransport_new_def SendHandler_new_def Handler_new_def handler.defs)

text \<open>
  C4. Whatever is called on a receiving or a sending transport, in whatever order and with whatever
  answers of the peer connection and the application: \<open>OnConnect\<close> has succeeded once if the transport
  is set up and never if it is not. The application is never told to connect twice.
\<close>

theorem connects_once:
  assumes "counts cnt wr lis" "RecvTransport_new (Inr w) ice cands dtls sctp ext = Inr r0"
    and "SendTransport_new (Inr w) ice' cands' dtls' sctp' ext' can = Inr s0"
  shows "cnt (outside (fold (recv_exec wr lis) cs r0)) = cnt w + of_bool (h_transportReady (t_handler (fold (recv_exec wr lis) cs r0))) \<and>
    cnt (outside (fold (send_exec wr lis) ds s0)) = cnt w + of_bool (h_transportReady (t_handler (fold (send_exec wr lis) ds s0)))"
  using rc.frame_recv_calls [of cnt wr lis "cnt w" r0 cs] sc.frame_send_calls [of cnt wr lis "cnt w" s0 ds]
    transports_start(1) [OF assms(2)] transports_start(2) [OF assms(3)] assms(1)
  by (auto simp: connected_times_def outside_def)

theorem connects_once_witness:
  "\<exists>r0 s0. example_transport = Inr r0 \<and> example_sender = Inr s0 \<and>
     (\<forall>cs. outside (fold (recv_exec example_pc example_listener) cs r0) \<le> 1) \<and>
     (\<forall>ds. outside (fold (send_exec example_pc example_listener) ds s0) \<le> 1)"
proof -
  have c: "counts (\<lambda>n. n) example_pc example_listener"
    by (auto simp: counts_def example_listener_def [THEN arg_cong [of _ _ ln_OnConnect]]
        dest: example_step example_listener_step)
  obtain r0 s0 where rs: "example_transport = Inr r0" "example_sender = Inr s0"
    using example_transportE example_senderE by metis
  note k = connects_once [OF c rs(1) [unfolded example_transport_def] rs(2) [unfolded example_sender_def]]
  have "outside (fold (recv_exec example_pc example_listener) cs r0) \<le> 1" for cs
    using k [of cs] by simp
  moreover have "outside (fold (send_exec example_pc example_listener) ds s0) \<le> 1" for ds
    using k [of _ ds] by simp
  ultimately show ?thesis
    using rs by blast
qed

section \<open>Streams\<close>

text \<open>The stream of a data channel, as its validated parameters have it.\<close>

definition stream_of :: "data_producer \<Rightarrow> json option" where
  "stream_of d = jfind (dp_sctpStreamParameters d) ''streamId''"

lemma stream_kept: "validateSctpStreamParameters (JObject ps) = Inr j \<Longrightarrow> jfind j ''streamId'' = map_of ps ''streamId''"
  by (auto simp: sctp_stream_unfold Let_def sctp_defaults_lookup split: if_split_asm)

lemma validated_stream:
  assumes "validateSctpStreamParameters (stream_parameters i init) = Inr j"
  shows "jfind j ''streamId'' = Some (JUint (ucast i))"
proof -
  have "stream_parameters i init = JObject ps \<Longrightarrow> map_of ps ''streamId'' = Some (JUint (ucast i))" for ps
    by (auto simp: stream_parameters_def Let_def split: option.splits)
  then show ?thesis
    using assms stream_kept by (simp add: stream_parameters_def)
qed

interpretation st: send_frame wr lis "\<lambda>h. h_nextSendSctpStreamId h = i" for wr lis i
  by unfold_locales simp_all

lemma SendDataChannel_stream:
  fixes h :: "'w send_handler"
  assumes "SendDataChannel wr (Transport_OnConnect lis b) label init h = (r, h')"
  shows "(h_nextSendSctpStreamId h' = h_nextSendSctpStreamId h \<and> (\<exists>e. r = Inl e)) \<or>
    (h_nextSendSctpStreamId h' = (h_nextSendSctpStreamId h + 1) mod SctpNumStreamsMis \<and>
     (\<forall>dc j. r = Inr (dc, j) \<longrightarrow> jfind j ''streamId'' = Some (JUint (ucast (ucast (h_nextSendSctpStreamId h) :: 16 word)))))"
proof -
  let ?n = "h_nextSendSctpStreamId h"
  let ?i = "ucast ?n :: 16 word"
  let ?init = "init\<lparr> dc_negotiated := True, dc_id := ucast ?i \<rparr>"
  let ?m = "thenA (unlessA h_hasDataChannelMediaSection (send_sctp wr (Transport_OnConnect lis b)))"
  show ?thesis
  proof (cases "validateSctpStreamParameters (stream_parameters ?i ?init)")
    case (Inl e)
    then show ?thesis
      using assms by (auto simp: SendDataChannel_def Let_def)
  next
    case (Inr j)
    obtain r1 h1 where c: "pcA (CreateDataChannel wr label ?init) h = (r1, h1)"
      by (rule prod.exhaust)
    have h1: "h_nextSendSctpStreamId h1 = ?n"
      using keepsD' [OF st.frame_pcs(9) c] by simp
    show ?thesis
    proof (cases r1)
      case (Inl e)
      then show ?thesis
        using assms Inr c h1 by (auto simp: SendDataChannel_def Let_def bindA_eq)
    next
      case dc: (Inr dc)
      let ?h2 = "h1\<lparr> h_nextSendSctpStreamId := (?n + 1) mod SctpNumStreamsMis \<rparr>"
      have eq: "(r, h') = ?m (returnA (dc, j)) ?h2"
        using assms Inr c dc h1 by (simp add: SendDataChannel_def Let_def bindA_eq)
      have "keeps (\<lambda>h :: 'w send_handler. h_nextSendSctpStreamId h = (?n + 1) mod SctpNumStreamsMis) (?m (returnA (dc, j)))"
        using keepsD [OF st.frame_send_sctp [of "(?n + 1) mod SctpNumStreamsMis" wr lis b]] by (intro keeps_intros) simp
      from keepsD [OF this, of ?h2] have "h_nextSendSctpStreamId h' = (?n + 1) mod SctpNumStreamsMis"
        using arg_cong [OF eq, of snd] by simp
      moreover have "r = Inr (dc', j') \<Longrightarrow> j' = j" for dc' j'
        using eq by (auto simp: thenA_def bindA_def split: prod.splits sum.splits)
      ultimately show ?thesis
        using validated_stream [OF Inr] by auto
    qed
  qed
qed

text \<open>No other call changes a stream or takes one.\<close>

lemma map_same_update: "f y = f (xs ! p) \<Longrightarrow> map f (xs[p := y]) = map f xs"
  by (cases "p < length xs") (simp_all add: map_update list_update_same_conv list_update_beyond)

lemma keeps_streams [keeps_intros]:
  "keeps (\<lambda>s. map stream_of (st_dataObjects s) = L) (handlerA m)"
  "keeps (\<lambda>s. map stream_of (st_dataObjects s) = L) (outsideA n)"
  "keeps (\<lambda>s. map stream_of (st_dataObjects s) = L) (connectingA lis f)"
  by (simp_all add: keeps_def handlerA_eq outsideA_def connectingA_eq)

lemma streams_calls:
  "keeps (\<lambda>s. map stream_of (st_dataObjects s) = L) (SendTransport_Produce wr lis track es opts codec app)"
  "keeps (\<lambda>s. map stream_of (st_dataObjects s) = L) (Transport_Close wr)"
  "keeps (\<lambda>s. map stream_of (st_dataObjects s) = L) (Transport_GetStats wr)"
  "keeps (\<lambda>s. map stream_of (st_dataObjects s) = L) (Transport_UpdateIceServers wr uris)"
  "keeps (\<lambda>s. map stream_of (st_dataObjects s) = L) (Transport_OnConnectionStateChange lis state)"
  "keeps (\<lambda>s. map stream_of (st_dataObjects s) = L) (Transport_RestartIce restart ice)"
  "keeps (\<lambda>s. map stream_of (st_dataObjects s) = L) (Producer_TransportClosed lis p)"
  "keeps (\<lambda>s. map stream_of (st_dataObjects s) = L) (DataProducer_TransportClosed wr lis p)"
  "keeps (\<lambda>s. map stream_of (st_dataObjects s) = L) (Producer_GetStats wr p)"
  "keeps (\<lambda>s. map stream_of (st_dataObjects s) = L) (Producer_SetEnabled wr b p)"
  "keeps (\<lambda>s. map stream_of (st_dataObjects s) = L) (Producer_ReplaceTrack wr p track')"
  "keeps (\<lambda>s. map stream_of (st_dataObjects s) = L) (Producer_SetMaxSpatialLayer wr p layer)"
  "keeps (\<lambda>s. map stream_of (st_dataObjects s) = L) (DataProducer_Close wr p)"
  "keeps (\<lambda>s. map stream_of (st_dataObjects s) = L) (DataProducer_Send wr p buffer)"
  "keeps (\<lambda>s. map stream_of (st_dataObjects s) = L) (Producer_Close wr p)"
  unfolding SendTransport_Produce_def Let_def Transport_Close_def Transport_GetStats_def Transport_UpdateIceServers_def
    Transport_OnConnectionStateChange_def Transport_RestartIce_def Producer_TransportClosed_def DataProducer_TransportClosed_def
    Producer_GetStats_def Producer_SetEnabled_def Producer_ReplaceTrack_def Producer_SetMaxSpatialLayer_def
    DataProducer_Close_def DataProducer_Send_def Producer_Close_def SendTransport_OnClose_def update_producer_def
    update_data_producer_def
  by (intro keeps_intros; simp add: map_same_update stream_of_def handlerA_eq)+

lemma streams_SendTransport_Close: "keeps (\<lambda>s. map stream_of (st_dataObjects s) = L) (SendTransport_Close wr lis)"
proof -
  have "keeps (\<lambda>s. map stream_of (st_dataObjects s) = L)
     (thenA (Transport_Close wr)
       (bindA (readA (\<lambda>s. map snd (st_producers s))) (\<lambda>ps.
        thenA (for_eachA (Producer_TransportClosed lis) ps)
        (bindA (readA (\<lambda>s. map snd (st_dataProducers s))) (\<lambda>ds.
         for_eachA (DataProducer_TransportClosed wr lis) ds)))))"
    by (intro keeps_intros streams_calls)
  then show ?thesis
    unfolding SendTransport_Close_def by (intro keeps_unless) (rule keepsD)
qed

lemma streams_exec:
  "\<not> takes_stream c \<Longrightarrow> map stream_of (st_dataObjects (send_exec wr lis c s)) = map stream_of (st_dataObjects s)"
  by (cases c)
    (simp_all add: Producer_Pause_def Producer_Resume_def streams_calls [THEN keepsD] keepsD [OF streams_SendTransport_Close])

lemma next_stream_exec:
  "\<not> takes_stream c \<Longrightarrow> h_nextSendSctpStreamId (t_handler (send_exec wr lis c s)) = h_nextSendSctpStreamId (t_handler s)"
  using st.frame_send_exec [of c s "h_nextSendSctpStreamId (t_handler s)" wr lis] by simp

abbreviation next_stream :: "'w send_transport \<Rightarrow> 32 word" where
  "next_stream s \<equiv> h_nextSendSctpStreamId (t_handler s)"

abbreviation streams :: "'w send_transport \<Rightarrow> json option list" where
  "streams s \<equiv> map stream_of (st_dataObjects s)"

text \<open>Taking a stream: the data channel is registered with it, or the call ends before.\<close>

lemma ProduceData_stream:
  fixes s :: "'w send_transport"
  assumes s'_def: "s' = snd (SendTransport_ProduceData wr lis label protocol ord retr time app s)"
  shows "(next_stream s' = next_stream s \<and> streams s' = streams s) \<or>
    (next_stream s' = (next_stream s + 1) mod SctpNumStreamsMis \<and>
     (streams s' = streams s \<or> streams s' = streams s @ [Some (JUint (ucast (ucast (next_stream s) :: 16 word)))]))"
proof (cases "t_hasSctpParameters s \<and> \<not> (retr \<noteq> - 1 \<and> time \<noteq> 0)")
  case False
  then show ?thesis
    by (auto simp: s'_def SendTransport_ProduceData_def)
next
  case True
  let ?init = "\<lparr> dc_ordered = ord, dc_maxRetransmitTime = (if time \<noteq> 0 then Some time else None),
    dc_maxRetransmits = (if retr \<noteq> - 1 then Some retr else None), dc_protocol = protocol, dc_negotiated = False, dc_id = - 1 \<rparr>"
  obtain r h1 where c: "SendDataChannel wr (Transport_OnConnect lis (t_closed s)) label ?init (t_handler s) = (r, h1)"
    by (rule prod.exhaust)
  note cases = SendDataChannel_stream [OF c]
  show ?thesis
  proof (cases r)
    case (Inl e)
    then show ?thesis
      using True c cases by (auto simp: s'_def SendTransport_ProduceData_def bindA_def connectingA_eq handlerA_eq)
  next
    case (Inr x)
    then obtain dc j where x: "r = Inr (dc, j)"
      by (cases x) simp
    let ?reg = "\<lambda>i. thenA (outsideA (modifyA (wr_RegisterObserver wr dc)))
     (bindA (readA (\<lambda>s. length (st_dataObjects s))) (\<lambda>p.
      thenA (modifyA (\<lambda>s. s\<lparr> st_dataObjects := st_dataObjects s @ [\<lparr> dp_id = i, dp_closed = False, dp_dataChannel = dc,
                          dp_sctpStreamParameters = j, dp_appData = app \<rparr>],
                              st_dataProducers := AList.update i p (st_dataProducers s) \<rparr>))
      (returnA p)))"
    have s': "s' = snd (bindA (outsideA (ln_OnProduceData lis j label protocol app)) ?reg (s\<lparr> t_handler := h1 \<rparr>))"
      using True c x
      by (cases "retr = - 1") (simp_all add: s'_def SendTransport_ProduceData_def bindA_eq connectingA_eq handlerA_eq Let_def)
    then have "next_stream s' = h_nextSendSctpStreamId h1"
      "streams s' = streams s \<or> streams s' = streams s @ [jfind j ''streamId'']"
      by (auto simp: bindA_def thenA_def outsideA_def handlerA_eq pcA_eq stream_of_def split: sum.splits)
    with cases x show ?thesis
      by auto
  qed
qed

text \<open>After k calls, m of which took a stream.\<close>

definition stream_inv :: "nat \<Rightarrow> 'w send_transport \<Rightarrow> bool" where
  "stream_inv k s = (\<exists>m\<le>k. unat (next_stream s) = m mod 1024 \<and>
     (\<exists>is. streams s = map (\<lambda>i. Some (JUint (of_nat i))) is \<and> (\<forall>i\<in>set is. i < 1024) \<and>
        (k \<le> 1024 \<longrightarrow> distinct is \<and> (\<forall>i\<in>set is. i < m))))"

lemma next_stream_arith:
  assumes "unat (n :: 32 word) = m mod 1024"
  shows "unat ((n + 1) mod SctpNumStreamsMis) = Suc m mod 1024" "ucast (ucast n :: 16 word) = (of_nat (m mod 1024) :: 64 word)"
proof -
  have l: "m mod 1024 < 1024"
    by simp
  have "unat (n + 1) = Suc (m mod 1024)"
    using assms l by (simp add: unat_word_ariths)
  then show "unat ((n + 1) mod SctpNumStreamsMis) = Suc m mod 1024"
    by (simp add: unat_mod SctpNumStreamsMis_def mod_Suc_eq)
  have "unat (ucast n :: 16 word) = m mod 1024"
    using assms l by (simp add: unsigned_ucast_eq take_bit_nat_eq_self)
  then show "ucast (ucast n :: 16 word) = (of_nat (m mod 1024) :: 64 word)"
    by (metis of_nat_unat)
qed

lemma stream_invI:
  "m \<le> k \<Longrightarrow> unat (next_stream s) = m mod 1024 \<Longrightarrow> streams s = map (\<lambda>i. Some (JUint (of_nat i))) is \<Longrightarrow>
   (\<And>i. i \<in> set is \<Longrightarrow> i < 1024) \<Longrightarrow> (k \<le> 1024 \<Longrightarrow> distinct is \<and> (\<forall>i\<in>set is. i < m)) \<Longrightarrow> stream_inv k s"
  unfolding stream_inv_def by (intro exI [of _ m] conjI exI [of _ "is"]) auto

lemma stream_inv_step:
  assumes "stream_inv k s"
  shows "stream_inv (Suc k) (send_exec wr lis c s)"
proof -
  let ?s = "send_exec wr lis c s"
  obtain m "is" where m: "m \<le> k" "unat (next_stream s) = m mod 1024" "streams s = map (\<lambda>i. Some (JUint (of_nat i))) is"
    "\<And>i. i \<in> set is \<Longrightarrow> i < 1024" "k \<le> 1024 \<Longrightarrow> distinct is \<and> (\<forall>i\<in>set is. i < m)"
    using assms unfolding stream_inv_def by auto
  consider (same) "next_stream ?s = next_stream s" "streams ?s = streams s"
    | (lost) "next_stream ?s = (next_stream s + 1) mod SctpNumStreamsMis" "streams ?s = streams s"
    | (taken) "next_stream ?s = (next_stream s + 1) mod SctpNumStreamsMis"
      "streams ?s = streams s @ [Some (JUint (of_nat (m mod 1024)))]"
  proof (cases "takes_stream c")
    case True
    then obtain l p ord r t app where "c = SProduceData l p ord r t app"
      by (cases c) auto
    then show ?thesis
      using that ProduceData_stream [of ?s wr lis l p ord r t app s] next_stream_arith(2) [OF m(2)] by auto
  next
    case False
    then show ?thesis
      using that(1) streams_exec next_stream_exec by blast
  qed
  then show ?thesis
  proof cases
    case same
    then show ?thesis
      using m by (intro stream_invI [of m _ _ "is"]) auto
  next
    case lost
    then show ?thesis
      using m next_stream_arith(1) [OF m(2)] by (intro stream_invI [of "Suc m" _ _ "is"]) (auto simp: less_Suc_eq)
  next
    case taken
    then show ?thesis
      using m next_stream_arith(1) [OF m(2)]
      by (intro stream_invI [of "Suc m" _ _ "is @ [m mod 1024]"]) (auto simp: less_Suc_eq)
  qed
qed

lemma stream_inv_calls: "stream_inv k s \<Longrightarrow> stream_inv (k + length cs) (fold (send_exec wr lis) cs s)"
  by (induction cs arbitrary: k s) (use stream_inv_step in \<open>fastforce+\<close>)



end
