(* ===== verification/Close_Props.thy ===== *)
theory Close_Props
  imports Transport_Example
begin

text \<open>
  The end of a transport and of what it created: closing a transport closes every object it lists,
  and a closed receiving transport negotiates no more. Then the effect of producing and of
  choosing a spatial layer.
\<close>

section \<open>Closing all the objects of a list\<close>

text \<open>
  Objects in a store that are closed one by one: closing one returns, closes it, opens none and
  leaves the rest of the transport alone.
\<close>

locale closing =
  fixes objs :: "'s \<Rightarrow> 'o list" and is_closed :: "'o \<Rightarrow> bool" and close1 :: "handle \<Rightarrow> ('s, unit) action" and rest :: "'s \<Rightarrow> 'r"
  assumes close_one: "p < length (objs s) \<Longrightarrow> \<exists>s'. close1 p s = (Inr (), s') \<and> length (objs s') = length (objs s) \<and>
    is_closed (objs s' ! p) \<and> (\<forall>q. is_closed (objs s ! q) \<longrightarrow> is_closed (objs s' ! q)) \<and> rest s' = rest s"
begin

lemma close_all:
  "\<forall>p\<in>set ps. p < length (objs s) \<Longrightarrow> \<exists>s'. for_eachA close1 ps s = (Inr (), s') \<and> length (objs s') = length (objs s) \<and>
     (\<forall>p\<in>set ps. is_closed (objs s' ! p)) \<and> (\<forall>q. is_closed (objs s ! q) \<longrightarrow> is_closed (objs s' ! q)) \<and> rest s' = rest s"
proof (induction ps arbitrary: s)
  case (Cons p ps)
  obtain s1 where s1: "close1 p s = (Inr (), s1)" "length (objs s1) = length (objs s)" "is_closed (objs s1 ! p)"
    "\<forall>q. is_closed (objs s ! q) \<longrightarrow> is_closed (objs s1 ! q)" "rest s1 = rest s"
    using close_one [of p s] Cons.prems by auto
  obtain s2 where "for_eachA close1 ps s1 = (Inr (), s2)" "length (objs s2) = length (objs s1)"
    "\<forall>p\<in>set ps. is_closed (objs s2 ! p)" "\<forall>q. is_closed (objs s1 ! q) \<longrightarrow> is_closed (objs s2 ! q)" "rest s2 = rest s1"
    using Cons.IH [of s1] Cons.prems s1(2) by auto
  then show ?case
    using s1 by (intro exI [of _ s2]) (simp add: thenA_def bindA_eq)
qed simp

end

lemma outsideA_eq: "outsideA m s = (fst (m (outside s)), s\<lparr> t_handler := (t_handler s)\<lparr> h_pc := snd (m (outside s)) \<rparr> \<rparr>)"
  by (simp add: outsideA_def handlerA_eq pcA_eq outside_def)

interpretation co: closing rt_objects co_closed "Consumer_TransportClosed lis"
  "\<lambda>s. (t_closed s, rt_consumers s, rt_dataObjects s, rt_dataConsumers s)" for lis
  by unfold_locales
    (auto simp: Consumer_TransportClosed_def bindA_def objectA_eq update_consumer_def outsideA_eq nth_list_update)

interpretation dk: closing rt_dataObjects dk_closed "DataConsumer_TransportClosed wr lis"
  "\<lambda>s. (t_closed s, rt_consumers s, rt_objects s, rt_dataConsumers s)" for wr lis
  by unfold_locales
    (auto simp: DataConsumer_TransportClosed_def bindA_def thenA_def objectA_eq update_data_consumer_def outsideA_eq nth_list_update)

interpretation pr: closing st_objects pr_closed "Producer_TransportClosed lis"
  "\<lambda>s. (t_closed s, st_producers s, st_dataObjects s, st_dataProducers s)" for lis
  by unfold_locales
    (auto simp: Producer_TransportClosed_def bindA_def objectA_eq update_producer_def outsideA_eq nth_list_update)

interpretation dp: closing st_dataObjects dp_closed "DataProducer_TransportClosed wr lis"
  "\<lambda>s. (t_closed s, st_producers s, st_objects s, st_dataProducers s)" for wr lis
  by unfold_locales
    (auto simp: DataProducer_TransportClosed_def bindA_def thenA_def objectA_eq update_data_producer_def outsideA_eq nth_list_update)

section \<open>The maps of objects\<close>

text \<open>Every entry of a map by id is the position of an object.\<close>

definition listed :: "(string \<times> handle) list \<Rightarrow> 'o list \<Rightarrow> bool" where
  "listed M os = (\<forall>p\<in>snd ` set M. p < length os)"

lemma update_positions: "snd ` set (AList.update k v M) \<subseteq> insert v (snd ` set M)"
  by (induction M) auto

lemma listed_update:
  assumes "listed M os"
  shows "listed (AList.update k (length os) M) (os @ [x])"
proof -
  have "p < length (os @ [x])" if "p \<in> insert (length os) (snd ` set M)" for p
    using that assms by (auto simp: listed_def less_Suc_eq)
  then show ?thesis
    unfolding listed_def by (intro ballI) (drule subsetD [OF update_positions], simp)
qed

lemma listed_delete: "listed M os \<Longrightarrow> listed (AList.delete k M) os"
  by (auto simp: listed_def AList.delete_eq)

lemma listed_same: "listed M (os[p := x]) = listed M os" "listed [] os"
  by (simp_all add: listed_def)

lemmas listed_simps [simp] = listed_same listed_delete listed_update

definition recv_listed :: "'w recv_transport \<Rightarrow> bool" where
  "recv_listed s = (listed (rt_consumers s) (rt_objects s) \<and> listed (rt_dataConsumers s) (rt_dataObjects s))"

definition send_listed :: "'w send_transport \<Rightarrow> bool" where
  "send_listed s = (listed (st_producers s) (st_objects s) \<and> listed (st_dataProducers s) (st_dataObjects s))"

lemma keeps_listed [keeps_intros]:
  "keeps recv_listed (handlerA m)" "keeps recv_listed (outsideA n)" "keeps recv_listed (connectingA lis f)"
  "keeps send_listed (handlerA m')" "keeps send_listed (outsideA n)" "keeps send_listed (connectingA lis f')"
  by (simp_all add: keeps_def handlerA_eq outsideA_def connectingA_eq recv_listed_def send_listed_def)

text \<open>The registration of a new object, and what follows it.\<close>

lemma keeps_register:
  "(\<And>p. keeps recv_listed (m1 p)) \<Longrightarrow> keeps recv_listed (bindA (readA (\<lambda>s. length (rt_objects s))) (\<lambda>p.
     thenA (modifyA (\<lambda>s. s\<lparr> rt_objects := rt_objects s @ [c], rt_consumers := AList.update i p (rt_consumers s) \<rparr>)) (m1 p)))"
  "(\<And>p. keeps recv_listed (m1 p)) \<Longrightarrow> keeps recv_listed (bindA (readA (\<lambda>s. length (rt_dataObjects s))) (\<lambda>p.
     thenA (modifyA (\<lambda>s. s\<lparr> rt_dataObjects := rt_dataObjects s @ [dc], rt_dataConsumers := AList.update i p (rt_dataConsumers s) \<rparr>)) (m1 p)))"
  "(\<And>p. keeps send_listed (m2 p)) \<Longrightarrow> keeps send_listed (bindA (readA (\<lambda>s. length (st_objects s))) (\<lambda>p.
     thenA (modifyA (\<lambda>s. s\<lparr> st_objects := st_objects s @ [pr], st_producers := AList.update i p (st_producers s) \<rparr>)) (m2 p)))"
  "(\<And>p. keeps send_listed (m2 p)) \<Longrightarrow> keeps send_listed (bindA (readA (\<lambda>s. length (st_dataObjects s))) (\<lambda>p.
     thenA (modifyA (\<lambda>s. s\<lparr> st_dataObjects := st_dataObjects s @ [dp], st_dataProducers := AList.update i p (st_dataProducers s) \<rparr>)) (m2 p)))"
  by (simp_all add: keeps_def recv_listed_def send_listed_def)

lemma recv_listed_calls:
  "keeps recv_listed (create_probator wr lis kind p0)" "keeps recv_listed (Transport_Close wr)"
  "keeps recv_listed (RecvTransport_ConsumeData wr lis i pid sid label protocol app)"
  "keeps recv_listed (Transport_GetStats wr)" "keeps recv_listed (Transport_UpdateIceServers wr uris)"
  "keeps recv_listed (Transport_OnConnectionStateChange lis state)" "keeps recv_listed (Transport_RestartIce restart ice)"
  "keeps recv_listed (Consumer_TransportClosed lis p)" "keeps recv_listed (DataConsumer_TransportClosed wr lis p)"
  "keeps recv_listed (Consumer_GetStats wr p)" "keeps recv_listed (Consumer_SetEnabled wr b p)"
  "keeps recv_listed (DataConsumer_Close wr p)" "keeps recv_listed (Consumer_Close wr p)"
  unfolding create_probator_def RecvTransport_ConsumeData_def Let_def Transport_Close_def Transport_GetStats_def
    Transport_UpdateIceServers_def Transport_OnConnectionStateChange_def Transport_RestartIce_def Consumer_TransportClosed_def
    DataConsumer_TransportClosed_def Consumer_GetStats_def Consumer_SetEnabled_def DataConsumer_Close_def Consumer_Close_def
    RecvTransport_OnClose_def update_consumer_def update_data_consumer_def
  by (intro keeps_register keeps_result keeps_intros; simp add: recv_listed_def handlerA_eq)+

lemma recv_listed_Consume: "keeps recv_listed (RecvTransport_Consume wr lis i pid kind p app)"
  unfolding RecvTransport_Consume_def consume_received_def Let_def
  by (intro keeps_register keeps_intros; simp add: keepsD [OF recv_listed_calls(1)])

lemma recv_listed_Close: "keeps recv_listed (RecvTransport_Close wr lis)"
proof -
  have "keeps recv_listed
     (thenA (Transport_Close wr)
       (bindA (readA (\<lambda>s. map snd (rt_consumers s))) (\<lambda>ps.
        thenA (for_eachA (Consumer_TransportClosed lis) ps)
        (bindA (readA (\<lambda>s. map snd (rt_dataConsumers s))) (\<lambda>ds.
         for_eachA (DataConsumer_TransportClosed wr lis) ds)))))"
    by (intro keeps_intros recv_listed_calls)
  then show ?thesis
    unfolding RecvTransport_Close_def by (intro keeps_unless) (rule keepsD)
qed

lemma recv_listed_exec: "recv_listed s \<Longrightarrow> recv_listed (recv_exec wr lis c s)"
  by (cases c)
    (simp_all add: Consumer_Pause_def Consumer_Resume_def recv_listed_calls [THEN keepsD] keepsD [OF recv_listed_Consume]
      keepsD [OF recv_listed_Close])

lemma recv_listed_run: "recv_listed s \<Longrightarrow> recv_listed (fold (recv_exec wr lis) cs s)"
  by (induction cs arbitrary: s) (simp_all add: recv_listed_exec)

lemma send_listed_calls:
  "keeps send_listed (Transport_Close wr)" "keeps send_listed (SendTransport_Produce wr lis track es opts codec app)"
  "keeps send_listed (SendTransport_ProduceData wr lis label protocol ord retr time app)"
  "keeps send_listed (Transport_GetStats wr)" "keeps send_listed (Transport_UpdateIceServers wr uris)"
  "keeps send_listed (Transport_OnConnectionStateChange lis state)" "keeps send_listed (Transport_RestartIce restart ice)"
  "keeps send_listed (Producer_TransportClosed lis p)" "keeps send_listed (DataProducer_TransportClosed wr lis p)"
  "keeps send_listed (Producer_GetStats wr p)" "keeps send_listed (Producer_SetEnabled wr b p)"
  "keeps send_listed (Producer_ReplaceTrack wr p track')" "keeps send_listed (Producer_SetMaxSpatialLayer wr p layer)"
  "keeps send_listed (DataProducer_Close wr p)" "keeps send_listed (DataProducer_Send wr p buffer)"
  "keeps send_listed (Producer_Close wr p)"
  unfolding SendTransport_Produce_def SendTransport_ProduceData_def Let_def Transport_Close_def Transport_GetStats_def
    Transport_UpdateIceServers_def Transport_OnConnectionStateChange_def Transport_RestartIce_def Producer_TransportClosed_def
    DataProducer_TransportClosed_def Producer_GetStats_def Producer_SetEnabled_def Producer_ReplaceTrack_def
    Producer_SetMaxSpatialLayer_def DataProducer_Close_def DataProducer_Send_def Producer_Close_def
    SendTransport_OnClose_def update_producer_def update_data_producer_def
  by (intro keeps_register keeps_intros; simp add: send_listed_def handlerA_eq)+

lemma send_listed_Close: "keeps send_listed (SendTransport_Close wr lis)"
proof -
  have "keeps send_listed
     (thenA (Transport_Close wr)
       (bindA (readA (\<lambda>s. map snd (st_producers s))) (\<lambda>ps.
        thenA (for_eachA (Producer_TransportClosed lis) ps)
        (bindA (readA (\<lambda>s. map snd (st_dataProducers s))) (\<lambda>ds.
         for_eachA (DataProducer_TransportClosed wr lis) ds)))))"
    by (intro keeps_intros send_listed_calls)
  then show ?thesis
    unfolding SendTransport_Close_def by (intro keeps_unless) (rule keepsD)
qed

lemma send_listed_exec: "send_listed s \<Longrightarrow> send_listed (send_exec wr lis c s)"
  by (cases c)
    (simp_all add: Producer_Pause_def Producer_Resume_def send_listed_calls [THEN keepsD] keepsD [OF send_listed_Close])

lemma send_listed_run: "send_listed s \<Longrightarrow> send_listed (fold (send_exec wr lis) cs s)"
  by (induction cs arbitrary: s) (simp_all add: send_listed_exec)

section \<open>Closing a transport\<close>

lemma Transport_Close_open:
  "\<not> t_closed s \<Longrightarrow> Transport_Close wr s = (Inr (), s\<lparr> t_closed := True, t_handler := snd (Handler_Close wr (t_handler s)) \<rparr>)"
  by (simp add: Transport_Close_def unlessA_def handlerA_eq Handler_Close_def pcA_eq)

lemma recv_close_all:
  assumes "recv_listed r" "\<not> t_closed r"
  shows "\<exists>r'. RecvTransport_Close wr lis r = (Inr (), r') \<and> t_closed r' \<and> rt_consumers r' = rt_consumers r \<and>
    rt_dataConsumers r' = rt_dataConsumers r \<and> (\<forall>p\<in>snd ` set (rt_consumers r). co_closed (rt_objects r' ! p)) \<and>
    (\<forall>p\<in>snd ` set (rt_dataConsumers r). dk_closed (rt_dataObjects r' ! p))"
proof -
  define r1 where "r1 = r\<lparr> t_closed := True, t_handler := snd (Handler_Close wr (t_handler r)) \<rparr>"
  have r1: "Transport_Close wr r = (Inr (), r1)"
    using assms(2) by (simp add: Transport_Close_open r1_def)
  have "\<forall>p\<in>set (map snd (rt_consumers r)). p < length (rt_objects r1)"
    using assms(1) by (simp add: recv_listed_def listed_def r1_def)
  from co.close_all [OF this, of lis] obtain r2 where r2: "for_eachA (Consumer_TransportClosed lis) (map snd (rt_consumers r)) r1 = (Inr (), r2)"
    "\<forall>p\<in>set (map snd (rt_consumers r)). co_closed (rt_objects r2 ! p)"
    "t_closed r2" "rt_consumers r2 = rt_consumers r" "rt_dataObjects r2 = rt_dataObjects r" "rt_dataConsumers r2 = rt_dataConsumers r"
    by (auto simp: r1_def)
  have "\<forall>p\<in>set (map snd (rt_dataConsumers r)). p < length (rt_dataObjects r2)"
    using assms(1) r2(5) by (simp add: recv_listed_def listed_def)
  from dk.close_all [OF this, of wr lis] obtain r3 where
    "for_eachA (DataConsumer_TransportClosed wr lis) (map snd (rt_dataConsumers r)) r2 = (Inr (), r3)"
    "\<forall>p\<in>set (map snd (rt_dataConsumers r)). dk_closed (rt_dataObjects r3 ! p)"
    "t_closed r3" "rt_consumers r3 = rt_consumers r" "rt_objects r3 = rt_objects r2" "rt_dataConsumers r3 = rt_dataConsumers r"
    using r2(3-6) by auto
  then show ?thesis
    using r1 r2 assms(2)
    by (intro exI [of _ r3]) (simp add: RecvTransport_Close_def unlessA_def thenA_def bindA_eq r1_def)
qed

lemma send_close_all:
  assumes "send_listed s" "\<not> t_closed s"
  shows "\<exists>s'. SendTransport_Close wr lis s = (Inr (), s') \<and> t_closed s' \<and> st_producers s' = st_producers s \<and>
    st_dataProducers s' = st_dataProducers s \<and> (\<forall>p\<in>snd ` set (st_producers s). pr_closed (st_objects s' ! p)) \<and>
    (\<forall>p\<in>snd ` set (st_dataProducers s). dp_closed (st_dataObjects s' ! p))"
proof -
  define s1 where "s1 = s\<lparr> t_closed := True, t_handler := snd (Handler_Close wr (t_handler s)) \<rparr>"
  have s1: "Transport_Close wr s = (Inr (), s1)"
    using assms(2) by (simp add: Transport_Close_open s1_def)
  have "\<forall>p\<in>set (map snd (st_producers s)). p < length (st_objects s1)"
    using assms(1) by (simp add: send_listed_def listed_def s1_def)
  from pr.close_all [OF this, of lis] obtain s2 where s2: "for_eachA (Producer_TransportClosed lis) (map snd (st_producers s)) s1 = (Inr (), s2)"
    "\<forall>p\<in>set (map snd (st_producers s)). pr_closed (st_objects s2 ! p)"
    "t_closed s2" "st_producers s2 = st_producers s" "st_dataObjects s2 = st_dataObjects s" "st_dataProducers s2 = st_dataProducers s"
    by (auto simp: s1_def)
  have "\<forall>p\<in>set (map snd (st_dataProducers s)). p < length (st_dataObjects s2)"
    using assms(1) s2(5) by (simp add: send_listed_def listed_def)
  from dp.close_all [OF this, of wr lis] obtain s3 where
    "for_eachA (DataProducer_TransportClosed wr lis) (map snd (st_dataProducers s)) s2 = (Inr (), s3)"
    "\<forall>p\<in>set (map snd (st_dataProducers s)). dp_closed (st_dataObjects s3 ! p)"
    "t_closed s3" "st_producers s3 = st_producers s" "st_objects s3 = st_objects s2" "st_dataProducers s3 = st_dataProducers s"
    using s2(3-6) by auto
  then show ?thesis
    using s1 s2 assms(2)
    by (intro exI [of _ s3]) (simp add: SendTransport_Close_def unlessA_def thenA_def bindA_eq s1_def)
qed


lemma transports_open:
  "RecvTransport_new pc ice cands dtls sctp ext = Inr r0 \<Longrightarrow> \<not> t_closed r0"
  "SendTransport_new pc ice cands dtls sctp ext can = Inr s0 \<Longrightarrow> \<not> t_closed s0"
  by (auto simp: RecvTransport_new_def SendTransport_new_def)


section \<open>After the end\<close>

text \<open>
  The steps of the outside that a closed receiving transport can still cause: a track is switched, a
  data channel is closed, a change of the connection state is reported.
\<close>

inductive late_step :: "'w webrtc \<Rightarrow> 'w listener \<Rightarrow> 'w \<Rightarrow> 'w \<Rightarrow> bool" for wr lis where
  "late_step wr lis w (wr_set_enabled wr t b w)"
| "late_step wr lis w (wr_dc_Close wr dc w)"
| "late_step wr lis w (ln_OnConnectionStateChange lis st w)"

definition late :: "'w webrtc \<Rightarrow> 'w listener \<Rightarrow> 'w recv_transport \<Rightarrow> 'w recv_transport \<Rightarrow> bool" where
  "late wr lis s s' = (t_closed s' \<and> t_handler s' = (t_handler s)\<lparr> h_pc := outside s' \<rparr> \<and>
     (late_step wr lis)\<^sup>*\<^sup>* (outside s) (outside s'))"

lemma lateI:
  "t_closed s' \<Longrightarrow> t_handler s' = t_handler s \<Longrightarrow> late wr lis s s'"
  "t_closed s' \<Longrightarrow> t_handler s' = (t_handler s)\<lparr> h_pc := w \<rparr> \<Longrightarrow> late_step wr lis (outside s) w \<Longrightarrow> late wr lis s s'"
  by (auto simp: late_def outside_def)

lemma late_trans: "late wr lis s s' \<Longrightarrow> late wr lis s' s'' \<Longrightarrow> late wr lis s s''"
  by (auto simp: late_def)

lemma late_consumers:
  assumes "t_closed s"
  shows "late wr lis s (snd (Consumer_Close wr p s))" "late wr lis s (snd (Consumer_GetStats wr p s))"
    "late wr lis s (snd (Consumer_SetEnabled wr b p s))" "late wr lis s (snd (DataConsumer_Close wr p s))"
proof -
  show "late wr lis s (snd (Consumer_Close wr p s))"
    using assms by (intro lateI(1))
      (simp_all add: Consumer_Close_def bindA_def objectA_eq update_consumer_def RecvTransport_OnClose_def unlessA_def)
  show "late wr lis s (snd (Consumer_GetStats wr p s))"
    using assms by (intro lateI(1)) (simp_all add: Consumer_GetStats_def bindA_def objectA_eq unless_closed_def)
  show "late wr lis s (snd (Consumer_SetEnabled wr b p s))"
  proof (cases "p < length (rt_objects s) \<and> \<not> co_closed (rt_objects s ! p)")
    case True
    then show ?thesis
      using assms late_step.intros(1) [of wr lis "outside s" "co_track (rt_objects s ! p)" b]
      by (intro lateI(2)) (simp_all add: Consumer_SetEnabled_def bindA_def objectA_eq outsideA_eq)
  next
    case False
    then show ?thesis
      using assms by (intro lateI(1)) (auto simp: Consumer_SetEnabled_def bindA_def objectA_eq)
  qed
  show "late wr lis s (snd (DataConsumer_Close wr p s))"
  proof (cases "p < length (rt_dataObjects s) \<and> \<not> dk_closed (rt_dataObjects s ! p)")
    case True
    then show ?thesis
      using assms late_step.intros(2) [of wr lis "outside s" "dk_dataChannel (rt_dataObjects s ! p)"]
      by (intro lateI(2))
        (simp_all add: DataConsumer_Close_def bindA_def thenA_def objectA_eq update_data_consumer_def outsideA_eq outside_def)
  next
    case False
    then show ?thesis
      using assms by (intro lateI(1)) (auto simp: DataConsumer_Close_def bindA_def objectA_eq)
  qed
qed

lemma late_exec:
  assumes "t_closed s"
  shows "late wr lis s (recv_exec wr lis c s)"
proof (cases c)
  case (RStateChange st)
  then show ?thesis
    using assms late_step.intros(3) [of wr lis "outside s"]
    by (intro lateI(2)) (simp_all add: Transport_OnConnectionStateChange_def outsideA_eq outside_def)
qed (use assms in \<open>simp_all add: lateI(1) late_consumers Consumer_Pause_def Consumer_Resume_def RecvTransport_Consume_def
    RecvTransport_ConsumeData_def RecvTransport_Close_def Transport_GetStats_def Transport_RestartIce_def
    Transport_UpdateIceServers_def unless_closed_def unlessA_def\<close>)

text \<open>
  C12. Once a receiving transport is closed it stays closed and silent: whatever is called on it or on
  its consumers, the remote description, the transceivers and the connection stay as they are, and
  the outside sees nothing but switched tracks, closed data channels and reported states: no
  description, no transceiver and no connection is asked for again.
\<close>

theorem closed_transport_silent:
  assumes "t_closed s" "s' = fold (recv_exec wr lis) cs s"
  shows "t_closed s' \<and> t_handler s' = (t_handler s)\<lparr> h_pc := outside s' \<rparr> \<and> (late_step wr lis)\<^sup>*\<^sup>* (outside s) (outside s')"
proof -
  have "late wr lis s s'"
    using assms
  proof (induction cs arbitrary: s)
    case (Cons c cs)
    have l: "late wr lis s (recv_exec wr lis c s)"
      using late_exec Cons.prems(1) by blast
    then have "late wr lis (recv_exec wr lis c s) s'"
      using Cons.IH [of "recv_exec wr lis c s"] Cons.prems(2) by (simp add: late_def)
    with l show ?case
      by (rule late_trans)
  qed (simp add: lateI(1))
  then show ?thesis
    by (simp add: late_def)
qed

theorem closed_transport_silent_witness:
  "\<exists>r0 r. example_transport = Inr r0 \<and> RecvTransport_Close example_pc example_listener r0 = (Inr (), r) \<and>
     (\<forall>cs. h_remoteSdp (t_handler (fold (recv_exec example_pc example_listener) cs r)) = h_remoteSdp (t_handler r))"
proof -
  obtain r0 where r0: "example_transport = Inr r0"
    by (rule example_transportE)
  then have "recv_listed r0" "\<not> t_closed r0"
    unfolding example_transport_def by (auto simp: RecvTransport_new_def recv_listed_def)
  from recv_close_all [OF this] obtain r where r: "RecvTransport_Close example_pc example_listener r0 = (Inr (), r)" "t_closed r"
    by blast
  have "h_remoteSdp (t_handler (fold (recv_exec example_pc example_listener) cs r)) = h_remoteSdp (t_handler r)" for cs
    using closed_transport_silent [OF r(2) refl, of example_pc example_listener cs]
    by (metis handler.select_convs(2) handler.surjective handler.update_convs(1))
  then show ?thesis
    using r0 r(1) by blast
qed

section \<open>Producing\<close>

text \<open>The part of \<open>Produce\<close> before the producer exists changes no list of producers.\<close>

lemma keeps_producers [keeps_intros]:
  "keeps (\<lambda>s. st_objects s = os \<and> st_producers s = M) (handlerA m)"
  "keeps (\<lambda>s. st_objects s = os \<and> st_producers s = M) (outsideA n)"
  "keeps (\<lambda>s. st_objects s = os \<and> st_producers s = M) (connectingA lis f)"
  by (simp_all add: keeps_def handlerA_eq outsideA_def connectingA_eq)

definition registers :: "producer list \<Rightarrow> (string \<times> handle) list \<Rightarrow> ('w send_transport, handle) action \<Rightarrow> bool" where
  "registers os M m = (\<forall>s. st_objects s = os \<and> st_producers s = M \<longrightarrow>
     (case m s of
        (Inl _, s') \<Rightarrow> st_objects s' = os \<and> st_producers s' = M
      | (Inr p, s') \<Rightarrow> p = length os \<and> (\<exists>x. st_objects s' = os @ [x] \<and> \<not> pr_closed x \<and> pr_maxSpatialLayer x = 0 \<and>
          st_producers s' = AList.update (pr_id x) p M)))"

lemma registers_bind:
  assumes "keeps (\<lambda>s. st_objects s = os \<and> st_producers s = M) m" "\<And>x. registers os M (f x)"
  shows "registers os M (bindA m f)"
  unfolding registers_def
proof (intro allI impI)
  fix s :: "'a send_transport"
  assume s: "st_objects s = os \<and> st_producers s = M"
  obtain r s1 where m: "m s = (r, s1)"
    by (rule prod.exhaust)
  then have "st_objects s1 = os \<and> st_producers s1 = M"
    using keepsD [OF assms(1) s] by simp
  then show "case bindA m f s of (Inl _, s') \<Rightarrow> st_objects s' = os \<and> st_producers s' = M
      | (Inr p, s') \<Rightarrow> p = length os \<and> (\<exists>x. st_objects s' = os @ [x] \<and> \<not> pr_closed x \<and> pr_maxSpatialLayer x = 0 \<and>
          st_producers s' = AList.update (pr_id x) p M)"
    using m assms(2) by (cases r) (simp_all add: bindA_eq registers_def)
qed

lemma registers_intros:
  "registers os M (throwA e)" "registers os M m \<Longrightarrow> registers os M m' \<Longrightarrow> registers os M (if b then m else m')"
  "(\<And>a b. registers os M (g a b)) \<Longrightarrow> registers os M (case x of (a, b) \<Rightarrow> g a b)"
  "registers os M m \<Longrightarrow> registers os M (unless_closed msg m)"
  "\<not> pr_closed x' \<Longrightarrow> pr_maxSpatialLayer x' = 0 \<Longrightarrow> pr_id x' = i \<Longrightarrow>
   registers os M (bindA (readA (\<lambda>s. length (st_objects s))) (\<lambda>p.
     thenA (modifyA (\<lambda>s. s\<lparr> st_objects := st_objects s @ [x'], st_producers := AList.update i p (st_producers s) \<rparr>)) (returnA p)))"
  by (simp_all add: registers_def unless_closed_def split: prod.split)

text \<open>
  C16. A \<open>Produce\<close> that throws, wherever that happens, leaves the producers of the transport as they
  were. One that returns adds exactly one producer, open, at the returned position and in the map
  under its id.
\<close>

theorem produce_registers:
  "case SendTransport_Produce wr lis track encodings codecOptions codec appData s of
     (Inl _, s') \<Rightarrow> st_objects s' = st_objects s \<and> st_producers s' = st_producers s
   | (Inr p, s') \<Rightarrow> p = length (st_objects s) \<and> (\<exists>x. st_objects s' = st_objects s @ [x] \<and> \<not> pr_closed x \<and>
       pr_maxSpatialLayer x = 0 \<and> st_producers s' = AList.update (pr_id x) p (st_producers s))"
proof -
  have "registers (st_objects s) (st_producers s) (SendTransport_Produce wr lis track encodings codecOptions codec appData)"
    unfolding SendTransport_Produce_def Let_def
    by (cases track; simp only: option.case; intro registers_intros registers_bind keeps_intros; simp)
  then show ?thesis
    by (simp add: registers_def)
qed

section \<open>Spatial layers\<close>

lemma edit_encodings_nth:
  assumes "i < length es"
  shows "edit_encodings layer es ! i =
    (if layer \<in> {1, 2, 3} \<and> i < 3 then (es ! i)\<lparr> e_active := i < unat layer \<rparr> else es ! i)"
proof -
  have "i = 0 \<or> i = 1 \<or> i = 2 \<or> 3 \<le> i"
    by linarith
  then show ?thesis
    using assms by (auto simp: edit_encodings_def set_active_def nth_list_update)
qed

lemma length_edit_encodings [simp]: "length (edit_encodings layer es) = length es"
  by (simp add: edit_encodings_def set_active_def)



end
