(* ===== verification/Device.thy ===== *)
theory Device
  imports Transport
begin

text \<open>
  The device (\<open>src/Device.cpp\<close>): it is loaded once with the capabilities of the router, then creates
  transports with validated parameters. A new peer connection is a parameter, the state outside it
  starts from, or the exception its construction throws.
\<close>

record device =
  dv_loaded :: bool
  dv_extendedRtpCapabilities :: json
  dv_recvRtpCapabilities :: json
  dv_canProduceByKind :: "(string \<times> bool) list"
  dv_sctpCapabilities :: json

definition Device_new :: device where
  "Device_new = \<lparr> dv_loaded = False, dv_extendedRtpCapabilities = JNull, dv_recvRtpCapabilities = JNull,
     dv_canProduceByKind = [(''audio'', False), (''video'', False)], dv_sctpCapabilities = JNull \<rparr>"

definition require_loaded :: "device \<Rightarrow> unit result" where
  "require_loaded d = (if dv_loaded d then ok () else throw (InvalidStateError ''not loaded''))"

definition Device_GetRtpCapabilities :: "device \<Rightarrow> json result" where
  "Device_GetRtpCapabilities d = bindE (require_loaded d) (\<lambda>_. ok (dv_recvRtpCapabilities d))"

definition Device_GetSctpCapabilities :: "device \<Rightarrow> json result" where
  "Device_GetSctpCapabilities d = bindE (require_loaded d) (\<lambda>_. ok (dv_sctpCapabilities d))"

text \<open>The native capabilities are those of a peer connection made for the purpose and dropped.\<close>

definition Device_Load :: "'w webrtc \<Rightarrow> 'w result \<Rightarrow> json \<Rightarrow> (device, unit) action" where
  "Device_Load wr pc routerRtpCapabilities =
     bindA (readA dv_loaded) (\<lambda>loaded.
     if loaded then throwA (InvalidStateError ''already loaded'')
     else
     bindA (liftA (validateRtpCapabilities routerRtpCapabilities)) (\<lambda>router.
     bindA (liftA (bindE pc (\<lambda>w. fst (GetNativeRtpCapabilities wr w)))) (\<lambda>native.
     bindA (liftA (validateRtpCapabilities native)) (\<lambda>native.
     bindA (liftA (getExtendedRtpCapabilities native router)) (\<lambda>extended.
     thenA (modifyA (\<lambda>d. d\<lparr> dv_extendedRtpCapabilities := extended \<rparr>))
     (bindA (liftA (canSend ''audio'' extended)) (\<lambda>canAudio.
      thenA (modifyA (\<lambda>d. d\<lparr> dv_canProduceByKind := AList.update ''audio'' canAudio (dv_canProduceByKind d) \<rparr>))
      (bindA (liftA (canSend ''video'' extended)) (\<lambda>canVideo.
       thenA (modifyA (\<lambda>d. d\<lparr> dv_canProduceByKind := AList.update ''video'' canVideo (dv_canProduceByKind d) \<rparr>))
       (bindA (liftA (getRecvRtpCapabilities extended)) (\<lambda>recv.
        thenA (modifyA (\<lambda>d. d\<lparr> dv_recvRtpCapabilities := recv \<rparr>))
        (bindA (liftA (validateRtpCapabilities recv)) (\<lambda>recv'.
         thenA (modifyA (\<lambda>d. d\<lparr> dv_recvRtpCapabilities := recv', dv_sctpCapabilities := GetNativeSctpCapabilities \<rparr>))
         (bindA (liftA (validateSctpCapabilities GetNativeSctpCapabilities)) (\<lambda>sctp.
          modifyA (\<lambda>d. d\<lparr> dv_sctpCapabilities := sctp, dv_loaded := True \<rparr>))))))))))))))))"

definition Device_CanProduce :: "device \<Rightarrow> string \<Rightarrow> bool result" where
  "Device_CanProduce d kind =
     bindE (require_loaded d) (\<lambda>_.
     if kind \<noteq> ''audio'' \<and> kind \<noteq> ''video'' then throw (TypeError ''invalid kind'')
     else ok (case map_of (dv_canProduceByKind d) kind of Some b \<Rightarrow> b | None \<Rightarrow> False))"

text \<open>The parameters of a transport after validation, which fills in defaults.\<close>

definition validate_transport_arguments :: "device \<Rightarrow> json \<Rightarrow> json \<Rightarrow> json \<Rightarrow> json \<Rightarrow> json \<Rightarrow> (json \<times> json \<times> json \<times> json) result" where
  "validate_transport_arguments d iceParameters iceCandidates dtlsParameters sctpParameters appData =
     bindE (require_loaded d) (\<lambda>_.
     if \<not> is_object appData then throw (TypeError ''appData must be a JSON object'')
     else
     bindE (validateIceParameters iceParameters) (\<lambda>ice.
     bindE (validateIceCandidates iceCandidates) (\<lambda>candidates.
     bindE (validateDtlsParameters dtlsParameters) (\<lambda>dtls.
     bindE (if is_null sctpParameters then ok sctpParameters else validateSctpParameters sctpParameters) (\<lambda>sctp.
     ok (ice, candidates, dtls, sctp))))))"

definition Device_CreateSendTransport ::
  "'w result \<Rightarrow> device \<Rightarrow> json \<Rightarrow> json \<Rightarrow> json \<Rightarrow> json \<Rightarrow> json \<Rightarrow> 'w send_transport result" where
  "Device_CreateSendTransport pc d iceParameters iceCandidates dtlsParameters sctpParameters appData =
     bindE (validate_transport_arguments d iceParameters iceCandidates dtlsParameters sctpParameters appData)
       (\<lambda>(ice, candidates, dtls, sctp).
     SendTransport_new pc ice candidates dtls sctp (dv_extendedRtpCapabilities d) (dv_canProduceByKind d))"

definition Device_CreateRecvTransport ::
  "'w result \<Rightarrow> device \<Rightarrow> json \<Rightarrow> json \<Rightarrow> json \<Rightarrow> json \<Rightarrow> json \<Rightarrow> 'w recv_transport result" where
  "Device_CreateRecvTransport pc d iceParameters iceCandidates dtlsParameters sctpParameters appData =
     bindE (validate_transport_arguments d iceParameters iceCandidates dtlsParameters sctpParameters appData)
       (\<lambda>(ice, candidates, dtls, sctp).
     RecvTransport_new pc ice candidates dtls sctp (dv_extendedRtpCapabilities d))"

end
