(* ===== verification/Device_Props.thy ===== *)
theory Device_Props
  imports Device Ortc_Derived Transport_Example
begin

text \<open>Loading a device, and the transports a loaded device creates.\<close>

section \<open>Loading\<close>

lemma native_sctp_valid: "validateSctpCapabilities GetNativeSctpCapabilities = Inr GetNativeSctpCapabilities"
  by code_simp

text \<open>
  C7. Loading a device with valid capabilities of the router that can be negotiated with the ones the
  peer connection offers succeeds. The device then has the extended capabilities of both sides, gives
  out receiving capabilities that pass validation, can produce exactly the kinds with a codec, and
  refuses to be loaded again.
\<close>

theorem device_load:
  assumes "\<not> dv_loaded d" "bindE pc (\<lambda>w. fst (GetNativeRtpCapabilities wr w)) = Inr native"
    and "wf_json native" "wf_json router"
    and "validateRtpCapabilities native = Inr l" "validateRtpCapabilities router = Inr r"
    and "negotiable_codecs l" "negotiable_codecs r" "negotiable_extensions r"
    and "\<forall>c\<in>set (members r ''codecs''). is_rtx c \<or> found is_number_integer (jfind c ''preferredPayloadType'')"
  shows "\<exists>d' e caps caps'. Device_Load wr pc router d = (Inr (), d') \<and> getExtendedRtpCapabilities l r = Inr e \<and>
    dv_extendedRtpCapabilities d' = e \<and> normal_extended e \<and>
    getRecvRtpCapabilities e = Inr caps \<and> validateRtpCapabilities caps = Inr caps' \<and> Device_GetRtpCapabilities d' = Inr caps' \<and>
    Device_GetSctpCapabilities d' = Inr GetNativeSctpCapabilities \<and>
    Device_CanProduce d' ''audio'' = canSend ''audio'' e \<and> Device_CanProduce d' ''video'' = canSend ''video'' e \<and>
    Device_Load wr pc' router' d' = (Inl (InvalidStateError ''already loaded''), d')"
proof -
  have wf: "wf_json l" "wf_json r" and v: "validateRtpCapabilities l = Inr l" "validateRtpCapabilities r = Inr r"
    using caps.normalises [OF assms(3,5)] caps.normalises [OF assms(4,6)] caps.idem [OF assms(3,5)] caps.idem [OF assms(4,6)]
    by simp_all
  obtain e caps caps' where e: "getExtendedRtpCapabilities l r = Inr e" "normal_extended e"
    "getRecvRtpCapabilities e = Inr caps" "validateRtpCapabilities caps = Inr caps'"
    using negotiated_ok [OF wf v assms(7-10)] by blast
  obtain a b where ab: "canSend ''audio'' e = Inr a" "canSend ''video'' e = Inr b"
    using canSend_ok [OF e(2)] by (metis okE_E)
  define d' where "d' = snd (Device_Load wr pc router d)"
  have "Device_Load wr pc router d = (Inr (), d') \<and> dv_extendedRtpCapabilities d' = e \<and> dv_loaded d' \<and>
    dv_recvRtpCapabilities d' = caps' \<and> dv_sctpCapabilities d' = GetNativeSctpCapabilities \<and>
    map_of (dv_canProduceByKind d') ''audio'' = Some a \<and> map_of (dv_canProduceByKind d') ''video'' = Some b"
    using assms(1,2,5,6) e ab native_sctp_valid by (simp add: d'_def Device_Load_def update_conv')
  then show ?thesis
    using e ab
    by (intro exI [of _ d'] exI [of _ e] exI [of _ caps] exI [of _ caps'])
      (simp add: Device_GetRtpCapabilities_def Device_GetSctpCapabilities_def Device_CanProduce_def require_loaded_def
        Device_Load_def [of _ pc' router'])
qed

lemma example_native:
  "okE (fst (GetNativeRtpCapabilities example_pc (0 :: nat))) (\<lambda>native. wf_json native \<and> okE (validateRtpCapabilities native) negotiable_codecs)"
  by code_simp

theorem device_load_witness:
  "\<exists>d' caps. Device_Load example_pc (Inr (0 :: nat)) (example_caps ''video/vp8'' 101) Device_new = (Inr (), d') \<and>
     Device_GetRtpCapabilities d' = Inr caps"
proof -
  obtain native l where n: "fst (GetNativeRtpCapabilities example_pc (0 :: nat)) = Inr native" "wf_json native"
    "validateRtpCapabilities native = Inr l" "negotiable_codecs l"
    using example_native by (auto elim!: okE_E)
  have "\<forall>c\<in>set (members (example_caps ''video/vp8'' 101) ''codecs'').
      is_rtx c \<or> found is_number_integer (jfind c ''preferredPayloadType'')" by code_simp
  note k = device_load [OF _ _ n(2) example_caps_valid(4) n(3) example_caps_valid(2) n(4) example_caps_valid(6,7) this,
      where d = Device_new and pc = "Inr (0 :: nat)" and wr = example_pc and pc' = "Inr 0" and router' = JNull]
  have "\<not> dv_loaded Device_new" "bindE (Inr (0 :: nat)) (\<lambda>w. fst (GetNativeRtpCapabilities example_pc w)) = Inr native"
    using n(1) by (simp_all add: Device_new_def)
  from k [OF this] show ?thesis
    by blast
qed

section \<open>Creating transports\<close>

lemma forced_role_valid:
  assumes "validateDtlsParameters dtls = Inr dtls'"
  shows "okE (forced_role dtls') (\<lambda>_. True)"
  using assms
  by (auto simp: validateDtlsParameters_def forced_role_def found_conv is_nonempty_string_conv
      split: json.splits if_split_asm option.splits list.splits)

lemma last_fingerprint_valid:
  assumes "validateDtlsParameters dtls = Inr dtls'"
  shows "okE (last_fingerprint dtls') (\<lambda>_. True)"
proof -
  from assms obtain ps f fs fs' where fs: "mapE validateDtlsFingerprint (f # fs) = Inr fs'"
    and d: "dtls' = JObject (obj_set ''fingerprints'' (JArray fs') ps)"
    by (auto simp: validateDtlsParameters_def simp del: mapE.simps split: json.splits if_splits option.splits list.splits)
  have "length fs' = Suc (length fs)"
    using mapE_length [OF fs] by simp
  moreover have "fs' ! length fs \<in> set fs'"
    using calculation by (intro nth_mem) simp
  then obtain x where "validateDtlsFingerprint x = Inr (fs' ! length fs)"
    using mapE_set [OF fs] by blast
  then have "\<exists>qs. fs' ! length fs = JObject qs"
    by (cases x) (auto simp: validateDtlsFingerprint_def split: if_split_asm dest!: sym [of "JObject _"])
  ultimately show ?thesis
    by (auto simp: last_fingerprint_def d Let_def split: option.split)
qed

lemma Handler_new_valid:
  "validateDtlsParameters dtls = Inr dtls' \<Longrightarrow> okE (Handler_new (Inr w) ice cands dtls' sctp) (\<lambda>_. True)"
  using forced_role_valid [of dtls dtls'] last_fingerprint_valid [of dtls dtls']
  by (auto simp: Handler_new_def RemoteSdp_new_def Let_def elim!: okE_E split: prod.splits)

lemma sending_valid:
  assumes "normal_extended e"
  shows "okE (getSendingRtpParameters kind e) (\<lambda>_. True)" "okE (getSendingRemoteRtpParameters kind e) (\<lambda>_. True)"
proof -
  show "okE (getSendingRtpParameters kind e) (\<lambda>_. True)"
    using sending_parameters_ok [OF assms, of "''localParameters''" kind]
    by (auto simp: getSendingRtpParameters_def elim!: okE_E)
  show "okE (getSendingRemoteRtpParameters kind e) (\<lambda>_. True)"
    using sending_parameters_ok [OF assms, of "''remoteParameters''" kind]
    by (auto simp: getSendingRemoteRtpParameters_eq [OF assms] elim!: okE_E)
qed

lemma sctp_size_valid:
  assumes "validateSctpParameters sctp = Inr sctp'"
  shows "\<exists>j. jfind sctp' ''maxMessageSize'' = Some j \<and> okE (get_uint j :: 64 word result) (\<lambda>_. True)"
  using assms
  by (auto simp: validateSctpParameters_def found_conv is_number_integer_conv split: json.splits if_split_asm)

text \<open>
  C15. A loaded device with extended capabilities of normal form creates a sending and a receiving
  transport for all parameters that pass validation. They start open, not connected, with no section
  in a consistent remote description.
\<close>

theorem device_creates_transports:
  assumes "dv_loaded d" "normal_extended (dv_extendedRtpCapabilities d)" "is_object app"
    and "validateIceParameters ice = Inr ice'" "validateIceCandidates cands = Inr cands'"
    and "validateDtlsParameters dtls = Inr dtls'" "sctp = JNull \<or> validateSctpParameters sctp = Inr sctp'"
  shows "\<exists>s r. Device_CreateSendTransport (Inr w) d ice cands dtls sctp app = Inr s \<and>
    Device_CreateRecvTransport (Inr w) d ice cands dtls sctp app = Inr r \<and> \<not> t_closed s \<and> \<not> t_closed r \<and>
    \<not> h_transportReady (t_handler s) \<and> \<not> h_transportReady (t_handler r) \<and> outside s = w \<and> outside r = w \<and>
    rs_inv 0 (h_remoteSdp (t_handler s)) \<and> rs_inv 0 (h_remoteSdp (t_handler r)) \<and> recv_table r = []"
proof -
  let ?e = "dv_extendedRtpCapabilities d"
  define sctp1 where "sctp1 = (if is_null sctp then sctp else sctp')"
  have v: "validate_transport_arguments d ice cands dtls sctp app = Inr (ice', cands', dtls', sctp1)"
    using assms by (auto simp: validate_transport_arguments_def require_loaded_def sctp1_def validateSctpParameters_def)
  obtain h where h: "Handler_new (Inr w) ice' cands' dtls' sctp1 = Inr h"
    using Handler_new_valid [OF assms(6)] by (rule okE_E)
  then have h': "h_pc h = w \<and> \<not> h_transportReady h \<and> rs_inv 0 (h_remoteSdp h) \<and> sections_of (h_remoteSdp h) = []"
    by (auto simp: Handler_new_def dest!: RemoteSdp_new_inv)
  obtain a b a' b' where ab: "getSendingRtpParameters ''audio'' ?e = Inr a" "getSendingRtpParameters ''video'' ?e = Inr b"
    "getSendingRemoteRtpParameters ''audio'' ?e = Inr a'" "getSendingRemoteRtpParameters ''video'' ?e = Inr b'"
    using sending_valid [OF assms(2)] by (metis okE_E)
  obtain j n where size: "is_object sctp1 \<longrightarrow> jfind sctp1 ''maxMessageSize'' = Some j \<and> get_uint j = Inr (n :: 64 word)"
  proof (cases "is_object sctp1")
    case True
    then show ?thesis
      using assms(7) sctp_size_valid [of sctp sctp'] that by (cases sctp) (auto simp: sctp1_def split: if_splits elim!: okE_E)
  qed simp
  obtain r where r: "RecvTransport_new (Inr w) ice' cands' dtls' sctp1 ?e = Inr r" "t_handler r = h" "\<not> t_closed r"
    using h by (auto simp: RecvTransport_new_def)
  have "\<exists>s. SendTransport_new (Inr w) ice' cands' dtls' sctp1 ?e (dv_canProduceByKind d) = Inr s \<and>
    h_pc (t_handler s) = h_pc h \<and> h_remoteSdp (t_handler s) = h_remoteSdp h \<and> \<not> h_transportReady (t_handler s) \<and> \<not> t_closed s"
    using h h' ab size
    by (cases "is_object sctp1"; cases "is_number_integer j") (simp_all add: SendTransport_new_def SendHandler_new_def handler.defs)
  then obtain s where s: "SendTransport_new (Inr w) ice' cands' dtls' sctp1 ?e (dv_canProduceByKind d) = Inr s"
    "h_pc (t_handler s) = h_pc h" "h_remoteSdp (t_handler s) = h_remoteSdp h" "\<not> h_transportReady (t_handler s)" "\<not> t_closed s"
    by blast
  show ?thesis
    using v r s h' by (auto simp: Device_CreateSendTransport_def Device_CreateRecvTransport_def outside_def)
qed

theorem device_creates_transports_witness:
  "\<exists>d s r. dv_loaded d \<and> Device_CreateSendTransport (Inr ()) d remote_ice (JArray []) remote_dtls JNull (JObject []) = Inr s \<and>
     Device_CreateRecvTransport (Inr ()) d remote_ice (JArray []) remote_dtls JNull (JObject []) = Inr r \<and> recv_table r = []"
proof -
  obtain e where e: "normal_extended e"
    using example_extended by blast
  have "okE (validateIceParameters remote_ice) (\<lambda>_. okE (validateDtlsParameters remote_dtls) (\<lambda>_. True))"
    by code_simp
  then obtain ice' dtls' where v: "validateIceParameters remote_ice = Inr ice'" "validateDtlsParameters remote_dtls = Inr dtls'"
    by (auto elim!: okE_E)
  let ?d = "Device_new\<lparr> dv_loaded := True, dv_extendedRtpCapabilities := e \<rparr>"
  have "validateIceCandidates (JArray []) = Inr (JArray [])" "is_object (JObject [])" "dv_loaded ?d"
    "normal_extended (dv_extendedRtpCapabilities ?d)" "JNull = JNull \<or> validateSctpParameters JNull = Inr JNull"
    using e by (simp_all add: validateIceCandidates_def)
  from device_creates_transports [OF this(3,4,2) v(1) this(1) v(2) this(5), of "()"] this(3) show ?thesis
    by blast
qed

section \<open>A load that fails\<close>

definition failing_keeps :: "('s \<Rightarrow> bool) \<Rightarrow> ('s, 'a) action \<Rightarrow> bool" where
  "failing_keeps I m = (\<forall>s e s'. I s \<longrightarrow> m s = (Inl e, s') \<longrightarrow> I s')"

lemma failing_bind:
  assumes "keeps I m" "\<And>x. failing_keeps I (f x)"
  shows "failing_keeps I (bindA m f)"
  unfolding failing_keeps_def
proof (intro allI impI)
  fix s e s'
  assume s: "I s" "bindA m f s = (Inl e, s')"
  obtain r s1 where m: "m s = (r, s1)"
    by (rule prod.exhaust)
  then have "I s1"
    using keepsD [OF assms(1) s(1)] by simp
  then show "I s'"
    using s(2) m assms(2) by (cases r) (auto simp: bindA_eq failing_keeps_def)
qed

lemma failing_intros:
  "keeps I m \<Longrightarrow> failing_keeps I n \<Longrightarrow> failing_keeps I (thenA m n)"
  "failing_keeps I n \<Longrightarrow> failing_keeps I n' \<Longrightarrow> failing_keeps I (if b then n else n')"
  "failing_keeps I (modifyA g)" "failing_keeps I (throwA e)"
  by (simp_all add: thenA_def failing_bind) (simp_all add: failing_keeps_def)



end
