(* ===== verification/Spec2Isabelle.thy ===== *)
theory Spec2Isabelle
  imports Ortc_Derived Media_Section_Props Remote_Sdp_Props Sdp_Params Sdp_Roundtrip Sdp_Safety Sdp_Utils_Props Transport_Props Connect_Props
    Close_Props Device_Props
begin

text \<open>
  A verification development for the native part of the RTC client SDK: \<open>libmediasoupclient\<close> with
  its SDP library \<open>libsdptransform\<close> (under \<open>src/rtc-sdk/deps/libmediasoupclient\<close>) and the H.264 profile
  code of the bundled WebRTC that they call.

  \<^bold>\<open>The program.\<close> A device is loaded with the RTP capabilities of a router; it intersects them with
  the ones of WebRTC and creates transports. A sending transport makes producers and data producers,
  a receiving transport consumers and data consumers. Each transport owns a handler, which
  negotiates with a WebRTC peer connection by session descriptions. The handler keeps a model of the
  remote side: a list of media sections, printed as a session description for every exchange. Texts
  are parsed and printed by a table of regular expressions.

  \<^bold>\<open>The theories\<close>, from the bottom, with the code they model:

  \<^item> \<open>Prelude\<close>: the exceptions of the code as the type \<open>error\<close>, results \<open>error + 'a\<close>, loops that may
    throw, text. \<open>Actions\<close>: code that changes an object and may throw, as a function from the state to
    the result and the state in which a return or an exception leaves the object.
  \<^item> \<open>Json\<close>: the operations of \<open>nlohmann::json\<close> the client uses (\<open>json.hpp\<close>); a missing member is an
    insertion, an exception or undefined behaviour (the error \<open>Undefined\<close>), as the overload called has it.
  \<^item> \<open>Regex\<close>, \<open>Numbers\<close>: \<open>std::regex\<close> in its ECMAScript syntax, as a backtracking matcher, and the
    number conversions of the streams.
  \<^item> \<open>H264\<close>: \<open>h264_profile_level_id.cc\<close> and \<open>sdp_video_format_utils.cc\<close>.
  \<^item> \<open>Ortc_Validate\<close>, \<open>Ortc_Caps\<close>: \<open>ortc.cpp\<close>, the validators and the negotiation. \<open>Ortc_Contract\<close> has
    the contract of a validator as a locale, interpreted for each of them; \<open>Ortc_Negotiation\<close> and
    \<open>Ortc_Derived\<close> have the correctness of the extended capabilities and of what is derived from them.
  \<^item> \<open>Sdp_Grammar\<close>, \<open>Sdp_Parser\<close>, \<open>Sdp_Writer\<close>: \<open>grammar.cpp\<close>, \<open>parser.cpp\<close>, \<open>writer.cpp\<close>. \<open>Sdp_Safety\<close>
    shows that no text makes the parser throw; \<open>Sdp_Lines\<close>, \<open>Sdp_Roundtrip\<close> and \<open>Sdp_Params\<close> have the
    round trips between the writer and the parser.
  \<^item> \<open>Sdp_Utils\<close>, \<open>Sdp_Utils_Props\<close>: \<open>sdp/Utils.cpp\<close>, and the legacy simulcast lines read back.
  \<^item> \<open>Media_Section\<close>, \<open>Remote_Sdp\<close>: \<open>sdp/MediaSection.cpp\<close> and \<open>sdp/RemoteSdp.cpp\<close>. \<open>Section_Table\<close> is the
    abstract view, a table of MIDs with a closed flag, and the contract of a section as a locale;
    \<open>Remote_Sdp_Inv\<close>, \<open>Remote_Sdp_Runs\<close> and \<open>Remote_Sdp_Props\<close> show that every run of the description
    refines the table and keeps the invariant.
  \<^item> \<open>Peer_Connection\<close>, \<open>Scalability_Mode\<close>, \<open>Handler\<close>: \<open>PeerConnection.cpp\<close>, \<open>scalabilityMode.cpp\<close> and
    \<open>Handler.cpp\<close>. \<open>Handler_Inv\<close> shows what each call of a handler does to the description, wherever an
    exception ends it.
  \<^item> \<open>Transport\<close>: \<open>Transport.cpp\<close>, \<open>Producer.cpp\<close>, \<open>Consumer.cpp\<close>, \<open>DataProducer.cpp\<close> and
    \<open>DataConsumer.cpp\<close>. \<open>Transport_Inv\<close> and \<open>Transport_Props\<close> lift the invariant to all runs of a receiving
    transport. \<open>Device\<close>: \<open>Device.cpp\<close>.

  \<^bold>\<open>State and operations.\<close> A class is a record with the members of the class, a method a definition
  of the method's name, with the class in front where two classes share it. Long methods are
  composed of definitions for their parts, in the order of the code. Producers and consumers are
  kept in a list of their transport; their position stands for the pointer the code uses.

  \<^bold>\<open>Parameters.\<close> WebRTC is a parameter: a record \<open>webrtc\<close> of the functions of its interface, on a
  state of an arbitrary type that stands for everything behind it. The application's listeners are
  the record \<open>listener\<close> of actions on the same state. The hypothesis \<open>keeps_mids\<close>, that a transceiver
  which has a MID keeps it, is the behaviour the interface documents; the other theorems hold for
  every WebRTC and every listener. Random SSRCs and session ids are arguments.

  \<^bold>\<open>Bounds.\<close> Integers of the code keep their width. The matcher is structurally recursive except for
  \<open>Star\<close>, which ends because every round must consume text, the test \<open>std::regex\<close> makes; no fuel is used.

  \<^bold>\<open>Not modelled.\<close> The media engine behind the WebRTC interface, and the construction of a peer
  connection with its threads and factories, whose result is an argument. Logging and
  \<open>mediasoupclient.cpp\<close>, which have no result. The callbacks of data channels, which only forward to
  the application, and calls of the application back into a transport from inside a listener. The
  JNI and Java layers, which convert arguments for a virtual machine and an Android framework that
  are not part of the source. In the JSON model, texts of floats inside written arguments and
  numbers beyond double range are the error \<open>Unmodelled\<close>.
\<close>

end
